(* ===== verification/Prelude.thy ===== *)
theory Prelude
  imports Complex_Main "HOL-Library.AList" "HOL-Library.Sublist"
begin

text \<open>
  What the components share: Python's exceptions as values, the state-and-exception monad in
  which every operation with effects is written, loops over lists, dictionaries as association
  lists, and the string operations the code uses. A computation returns its result or the raised
  exception together with the state reached so far: an exception does not undo the changes made
  before it, as in the code, where each statement sent to the database takes effect at once.
\<close>

named_theorems py_run "equations that run a computation on a state"
named_theorems keeps_intro "rules for properties of the state that a computation keeps"

section \<open>Exceptions\<close>

text \<open>\<open>repr\<close> of a string of characters up to U+00FF.\<close>

definition hex_digit :: "nat \<Rightarrow> char" where
  "hex_digit n = (if n < 10 then char_of (48 + n) else char_of (87 + n))"

definition repr_char :: "char \<Rightarrow> char \<Rightarrow> string" where
  "repr_char q c =
     (let n = of_char c :: nat
      in if c = q \<or> n = 92 then [CHR 0x5C, c]
         else if n = 9 then [CHR 0x5C, CHR ''t'']
         else if n = 10 then [CHR 0x5C, CHR ''n'']
         else if n = 13 then [CHR 0x5C, CHR ''r'']
         else if n < 32 \<or> (127 \<le> n \<and> n \<le> 160) \<or> n = 173
         then [CHR 0x5C, CHR ''x'', hex_digit (n div 16), hex_digit (n mod 16)]
         else [c])"

definition py_repr :: "string \<Rightarrow> string" where
  "py_repr s =
     (let q = (if CHR 0x27 \<in> set s \<and> CHR 0x22 \<notin> set s then CHR 0x22 else CHR 0x27)
      in [q] @ concat (map (repr_char q) s) @ [q])"

text \<open>An exception has the text of its message; a \<open>KeyError\<close> has the \<open>repr\<close> of the key, which is
  what it prints.\<close>

datatype exn =
    EntityNotFound string
  | AlreadyExists string
  | AssertionError string
  | ValueError string
  | KeyError string
  | TypeError string
  | AttributeError string
  | RuntimeError string
  | UnauthorizedError string string
  | NoRowsAffected string
  | TooManyRowsAffected string
  | ValidationError string
  | DatabaseError string
  | NotImplementedError
  | ContextError string "exn option"
  | RequestError string "exn option"
  | ResponseError string int "exn option"
  | TimeoutError string
  | FileNotFoundError string
  | OSError string
  | CommandError string string int
  | AuthError string
  | DeploymentError exn

fun is_EntityNotFound :: "exn \<Rightarrow> bool" where
  "is_EntityNotFound (EntityNotFound m) = True"
| "is_EntityNotFound e = False"

fun is_NoRowsAffected :: "exn \<Rightarrow> bool" where
  "is_NoRowsAffected (NoRowsAffected m) = True"
| "is_NoRowsAffected e = False"

fun is_AlreadyExists :: "exn \<Rightarrow> bool" where
  "is_AlreadyExists (AlreadyExists m) = True"
| "is_AlreadyExists e = False"

text \<open>\<open>ResponseError\<close> is a subclass of \<open>RequestError\<close>.\<close>

fun is_RequestError :: "exn \<Rightarrow> bool" where
  "is_RequestError (RequestError m c) = True"
| "is_RequestError (ResponseError m code c) = True"
| "is_RequestError e = False"

text \<open>Most exceptions are subclasses of \<open>RuntimeError\<close>.\<close>

fun is_RuntimeError :: "exn \<Rightarrow> bool" where
  "is_RuntimeError (AssertionError m) = False"
| "is_RuntimeError (ValueError m) = False"
| "is_RuntimeError (KeyError m) = False"
| "is_RuntimeError (TypeError m) = False"
| "is_RuntimeError (AttributeError m) = False"
| "is_RuntimeError (DatabaseError m) = False"
| "is_RuntimeError (TimeoutError m) = False"
| "is_RuntimeError (FileNotFoundError m) = False"
| "is_RuntimeError (OSError m) = False"
| "is_RuntimeError e = True"

fun is_TimeoutError :: "exn \<Rightarrow> bool" where
  "is_TimeoutError (TimeoutError m) = True"
| "is_TimeoutError e = False"

fun is_CommandError :: "exn \<Rightarrow> bool" where
  "is_CommandError (CommandError cmd out code) = True"
| "is_CommandError e = False"

text \<open>\<open>RequestError\<close> is a subclass of \<open>ContextError\<close>.\<close>

fun is_ContextError :: "exn \<Rightarrow> bool" where
  "is_ContextError (ContextError m c) = True"
| "is_ContextError e = is_RequestError e"

fun is_AssertionError :: "exn \<Rightarrow> bool" where
  "is_AssertionError (AssertionError m) = True"
| "is_AssertionError e = False"

fun is_NotImplementedError :: "exn \<Rightarrow> bool" where
  "is_NotImplementedError NotImplementedError = True"
| "is_NotImplementedError e = False"

fun is_UnauthorizedError :: "exn \<Rightarrow> bool" where
  "is_UnauthorizedError (UnauthorizedError c d) = True"
| "is_UnauthorizedError e = False"

definition describe :: "exn \<Rightarrow> bool \<Rightarrow> string" where
  "describe e debug =
     (case e of UnauthorizedError cause details \<Rightarrow>
        if \<not> debug \<or> details = '''' then cause else cause @ '': '' @ details
      | _ \<Rightarrow> '''')"

fun exn_str :: "exn \<Rightarrow> string" where
  "exn_str (EntityNotFound m) = m"
| "exn_str (AlreadyExists m) = m"
| "exn_str (AssertionError m) = m"
| "exn_str (ValueError m) = m"
| "exn_str (KeyError m) = m"
| "exn_str (TypeError m) = m"
| "exn_str (AttributeError m) = m"
| "exn_str (RuntimeError m) = m"
| "exn_str (UnauthorizedError c d) = describe (UnauthorizedError c d) True"
| "exn_str (NoRowsAffected m) = m"
| "exn_str (TooManyRowsAffected m) = m"
| "exn_str (ValidationError m) = m"
| "exn_str (DatabaseError m) = m"
| "exn_str NotImplementedError = ''''"
| "exn_str (TimeoutError m) = m"
| "exn_str (FileNotFoundError m) = m"
| "exn_str (OSError m) = m"
| "exn_str (AuthError m) = ''authentication error: '' @ m"
| "exn_str (DeploymentError c) = ''deployment error: '' @ exn_str c"
| "exn_str (CommandError cmd out code) = ''command failed: '' @ cmd @ '': '' @ out"
| "exn_str (ContextError m None) = m"
| "exn_str (ContextError m (Some c)) = m @ '': '' @ exn_str c"
| "exn_str (RequestError m None) = m"
| "exn_str (RequestError m (Some c)) = m @ '': '' @ exn_str c"
| "exn_str (ResponseError m code None) = m"
| "exn_str (ResponseError m code (Some c)) = m @ '': '' @ exn_str c"

text \<open>\<open>unwrap\<close> follows the chain of causes to the root error.\<close>

fun unwrap :: "exn \<Rightarrow> exn" where
  "unwrap (ContextError m (Some c)) = unwrap c"
| "unwrap (RequestError m (Some c)) = unwrap c"
| "unwrap (ResponseError m code (Some c)) = unwrap c"
| "unwrap (DeploymentError c) = unwrap c"
| "unwrap e = e"

section \<open>Computations\<close>

type_synonym ('w, 'a) py = "'w \<Rightarrow> (exn + 'a) \<times> 'w"

definition ret :: "'a \<Rightarrow> ('w, 'a) py" where
  "ret x = (\<lambda>w. (Inr x, w))"

definition raise :: "exn \<Rightarrow> ('w, 'a) py" where
  "raise e = (\<lambda>w. (Inl e, w))"

definition bind :: "('w, 'a) py \<Rightarrow> ('a \<Rightarrow> ('w, 'b) py) \<Rightarrow> ('w, 'b) py" where
  "bind m f = (\<lambda>w. case m w of (Inl e, w') \<Rightarrow> (Inl e, w') | (Inr x, w') \<Rightarrow> f x w')"

definition seq :: "('w, 'a) py \<Rightarrow> ('w, 'b) py \<Rightarrow> ('w, 'b) py" where
  "seq m k = bind m (\<lambda>_. k)"

definition gets :: "('w \<Rightarrow> 'a) \<Rightarrow> ('w, 'a) py" where
  "gets f = (\<lambda>w. (Inr (f w), w))"

definition modify :: "('w \<Rightarrow> 'w) \<Rightarrow> ('w, unit) py" where
  "modify f = (\<lambda>w. (Inr (), f w))"

definition lift :: "exn + 'a \<Rightarrow> ('w, 'a) py" where
  "lift r = (\<lambda>w. (r, w))"

definition assert_py :: "bool \<Rightarrow> string \<Rightarrow> ('w, unit) py" where
  "assert_py b msg = (if b then ret () else raise (AssertionError msg))"

text \<open>\<open>try_except m p h\<close>: run the handler on the exceptions that satisfy \<open>p\<close>, from the state
  in which they were raised.\<close>

definition try_except :: "('w, 'a) py \<Rightarrow> (exn \<Rightarrow> bool) \<Rightarrow> (exn \<Rightarrow> ('w, 'a) py) \<Rightarrow> ('w, 'a) py" where
  "try_except m p h = (\<lambda>w. case m w of
     (Inl e, w') \<Rightarrow> if p e then h e w' else (Inl e, w')
   | (Inr x, w') \<Rightarrow> (Inr x, w'))"

text \<open>\<open>try_else m p h k\<close> is Python's \<open>try: .. except: .. else: ..\<close>: \<open>k\<close> runs on the result and its
  own exceptions are not handled.\<close>

definition try_else :: "('w, 'a) py \<Rightarrow> (exn \<Rightarrow> bool) \<Rightarrow> (exn \<Rightarrow> ('w, 'b) py) \<Rightarrow> ('a \<Rightarrow> ('w, 'b) py)
    \<Rightarrow> ('w, 'b) py" where
  "try_else m p h k = (\<lambda>w. case m w of
     (Inl e, w') \<Rightarrow> if p e then h e w' else (Inl e, w')
   | (Inr x, w') \<Rightarrow> k x w')"

definition wrap_context :: "string \<Rightarrow> ('w, 'a) py \<Rightarrow> ('w, 'a) py" where
  "wrap_context ctx m = (\<lambda>w. case m w of
     (Inl e, w') \<Rightarrow> (Inl (ContextError ctx (Some e)), w')
   | (Inr x, w') \<Rightarrow> (Inr x, w'))"

text \<open>A call that is repeated at most \<open>n\<close> times while it raises one of the given exceptions.\<close>

fun retry :: "nat \<Rightarrow> (exn \<Rightarrow> bool) \<Rightarrow> ('w, 'a) py \<Rightarrow> ('w, 'a) py" where
  "retry 0 p m = m"
| "retry (Suc n) p m = try_except m p (\<lambda>_. retry n p m)"

fun for_each :: "'a list \<Rightarrow> ('a \<Rightarrow> ('w, unit) py) \<Rightarrow> ('w, unit) py" where
  "for_each [] f = ret ()"
| "for_each (x # xs) f = seq (f x) (for_each xs f)"

fun map_py :: "('a \<Rightarrow> ('w, 'b) py) \<Rightarrow> 'a list \<Rightarrow> ('w, 'b list) py" where
  "map_py f [] = ret []"
| "map_py f (x # xs) = bind (f x) (\<lambda>y. bind (map_py f xs) (\<lambda>ys. ret (y # ys)))"

lemma for_each_cong [fundef_cong]:
  "xs = ys \<Longrightarrow> (\<And>x. x \<in> set ys \<Longrightarrow> f x = g x) \<Longrightarrow> for_each xs f = for_each ys g"
  by (induction ys arbitrary: xs) auto

lemma bind_cong [fundef_cong]:
  "m = n \<Longrightarrow> (\<And>w x w'. n w = (Inr x, w') \<Longrightarrow> f x w' = g x w') \<Longrightarrow> bind m f = bind n g"
  by (auto simp: bind_def fun_eq_iff split: sum.splits prod.splits)

lemma seq_cong [fundef_cong]: "m = n \<Longrightarrow> k = l \<Longrightarrow> seq m k = seq n l"
  by simp

subsection \<open>Running a computation\<close>

lemma run_ret [py_run]: "ret x w = (Inr x, w)"
  by (simp add: ret_def)

lemma run_raise [py_run]: "raise e w = (Inl e, w)"
  by (simp add: raise_def)

lemma run_bind [py_run]:
  "bind m f w = (case m w of (Inl e, w') \<Rightarrow> (Inl e, w') | (Inr x, w') \<Rightarrow> f x w')"
  by (simp add: bind_def)

lemma run_seq [py_run]:
  "seq m k w = (case m w of (Inl e, w') \<Rightarrow> (Inl e, w') | (Inr x, w') \<Rightarrow> k w')"
  by (simp add: seq_def bind_def)

lemma run_gets [py_run]: "gets f w = (Inr (f w), w)"
  by (simp add: gets_def)

lemma run_modify [py_run]: "modify f w = (Inr (), f w)"
  by (simp add: modify_def)

lemma run_lift [py_run]: "lift r w = (r, w)"
  by (simp add: lift_def)

lemma run_assert [py_run]:
  "assert_py b msg w = (if b then (Inr (), w) else (Inl (AssertionError msg), w))"
  by (simp add: assert_py_def ret_def raise_def)

lemma run_try [py_run]:
  "try_except m p h w = (case m w of
     (Inl e, w') \<Rightarrow> if p e then h e w' else (Inl e, w')
   | (Inr x, w') \<Rightarrow> (Inr x, w'))"
  by (simp add: try_except_def)

lemma run_try_else [py_run]:
  "try_else m p h k w = (case m w of
     (Inl e, w') \<Rightarrow> if p e then h e w' else (Inl e, w')
   | (Inr x, w') \<Rightarrow> k x w')"
  by (simp add: try_else_def)

lemma run_wrap [py_run]:
  "wrap_context ctx m w = (case m w of
     (Inl e, w') \<Rightarrow> (Inl (ContextError ctx (Some e)), w')
   | (Inr x, w') \<Rightarrow> (Inr x, w'))"
  by (simp add: wrap_context_def)

lemma bind_okE:
  assumes "bind m f w = (Inr y, w2)"
  obtains x w1 where "m w = (Inr x, w1)" and "f x w1 = (Inr y, w2)"
  using assms by (auto simp: bind_def split: sum.splits prod.splits)

lemma bind_assoc_py: "bind (bind m f) g = bind m (\<lambda>x. bind (f x) g)"
  by (auto simp: bind_def fun_eq_iff split: sum.splits prod.splits)

lemma bind_ret_left [simp]: "bind (ret x) f = f x"
  by (simp add: bind_def ret_def)

lemma bind_ret_right [simp]: "bind m ret = m"
  by (auto simp: bind_def ret_def fun_eq_iff split: sum.splits prod.splits)

lemma for_each_append: "for_each (xs @ ys) f = seq (for_each xs f) (for_each ys f)"
  by (induction xs) (auto simp: seq_def bind_assoc_py ret_def bind_def fun_eq_iff split: sum.splits prod.splits)

subsection \<open>Properties a computation keeps\<close>

text \<open>\<open>keeps P m\<close>: whatever \<open>m\<close> returns or raises, \<open>P\<close> still holds of the state if it held before.\<close>

definition keeps :: "('w \<Rightarrow> bool) \<Rightarrow> ('w, 'a) py \<Rightarrow> bool" where
  "keeps P m \<longleftrightarrow> (\<forall>w. P w \<longrightarrow> P (snd (m w)))"

lemma keepsI: "(\<And>w. P w \<Longrightarrow> P (snd (m w))) \<Longrightarrow> keeps P m"
  by (simp add: keeps_def)

lemma keepsD: "keeps P m \<Longrightarrow> P w \<Longrightarrow> m w = (r, w') \<Longrightarrow> P w'"
  by (auto simp: keeps_def)

lemma keeps_ret [keeps_intro]: "keeps P (ret x)"
  by (simp add: keeps_def ret_def)

lemma keeps_raise [keeps_intro]: "keeps P (raise e)"
  by (simp add: keeps_def raise_def)

lemma keeps_lift [keeps_intro]: "keeps P (lift r)"
  by (simp add: keeps_def lift_def)

lemma keeps_gets [keeps_intro]: "keeps P (gets f)"
  by (simp add: keeps_def gets_def)

lemma keeps_assert [keeps_intro]: "keeps P (assert_py b msg)"
  by (simp add: keeps_def assert_py_def ret_def raise_def)

lemma keeps_bind [keeps_intro]: "keeps P m \<Longrightarrow> (\<And>x. keeps P (f x)) \<Longrightarrow> keeps P (bind m f)"
  by (auto simp: keeps_def bind_def split: sum.splits prod.splits)

lemma keeps_seq [keeps_intro]: "keeps P m \<Longrightarrow> keeps P k \<Longrightarrow> keeps P (seq m k)"
  by (simp add: seq_def keeps_bind)

lemma keeps_try [keeps_intro]:
  "keeps P m \<Longrightarrow> (\<And>e. keeps P (h e)) \<Longrightarrow> keeps P (try_except m p h)"
  by (auto simp: keeps_def try_except_def split: sum.splits prod.splits)

lemma keeps_retry [keeps_intro]: "keeps P m \<Longrightarrow> keeps P (retry n p m)"
  by (induction n) (auto intro: keeps_intro)

lemma keeps_try_else [keeps_intro]:
  "keeps P m \<Longrightarrow> (\<And>e. keeps P (h e)) \<Longrightarrow> (\<And>x. keeps P (k x)) \<Longrightarrow> keeps P (try_else m p h k)"
  by (auto simp: keeps_def try_else_def split: sum.splits prod.splits)

lemma keeps_wrap [keeps_intro]: "keeps P m \<Longrightarrow> keeps P (wrap_context c m)"
  by (auto simp: keeps_def wrap_context_def split: sum.splits prod.splits)

lemma keeps_for_each [keeps_intro]:
  "(\<And>x. x \<in> set xs \<Longrightarrow> keeps P (f x)) \<Longrightarrow> keeps P (for_each xs f)"
  by (induction xs) (auto intro: keeps_intro)

lemma keeps_map_py [keeps_intro]:
  "(\<And>x. x \<in> set xs \<Longrightarrow> keeps P (f x)) \<Longrightarrow> keeps P (map_py f xs)"
  by (induction xs) (auto intro!: keeps_intro)

lemma keeps_if [keeps_intro]: "(b \<Longrightarrow> keeps P m) \<Longrightarrow> (\<not> b \<Longrightarrow> keeps P n) \<Longrightarrow> keeps P (if b then m else n)"
  by simp

lemma keeps_option [keeps_intro]:
  "(x = None \<Longrightarrow> keeps P m) \<Longrightarrow> (\<And>y. x = Some y \<Longrightarrow> keeps P (f y)) \<Longrightarrow>
     keeps P (case x of None \<Rightarrow> m | Some y \<Rightarrow> f y)"
  by (simp split: option.splits)

section \<open>Dictionaries\<close>

text \<open>A dictionary is an association list in insertion order: \<open>AList.update\<close> overwrites in place
  or appends, as \<open>d[k] = v\<close> does; \<open>map_of\<close> reads.\<close>

type_synonym ('k, 'v) dict = "('k \<times> 'v) list"

abbreviation dict_set :: "'k \<Rightarrow> 'v \<Rightarrow> ('k, 'v) dict \<Rightarrow> ('k, 'v) dict" where
  "dict_set \<equiv> AList.update"

abbreviation dict_del :: "'k \<Rightarrow> ('k, 'v) dict \<Rightarrow> ('k, 'v) dict" where
  "dict_del \<equiv> AList.delete"

abbreviation keys :: "('k, 'v) dict \<Rightarrow> 'k list" where
  "keys d \<equiv> map fst d"

text \<open>\<open>d1.update(d2)\<close>, and the dictionary a comprehension builds from its pairs in order.\<close>

fun dict_update :: "('k, 'v) dict \<Rightarrow> ('k, 'v) dict \<Rightarrow> ('k, 'v) dict" where
  "dict_update d [] = d"
| "dict_update d ((k, v) # r) = dict_update (dict_set k v d) r"

definition dict_of :: "('k \<times> 'v) list \<Rightarrow> ('k, 'v) dict" where
  "dict_of ps = dict_update [] ps"

lemma map_of_dict_set [simp]: "map_of (dict_set k v d) = (map_of d)(k \<mapsto> v)"
  by (rule update_conv')

lemma map_of_dict_del [simp]: "map_of (dict_del k d) k' = (if k = k' then None else map_of d k')"
  by (simp add: delete_conv)

lemma map_of_dict_update: "map_of (dict_update d r) = map_of d ++ map_of (rev r)"
  by (induction d r rule: dict_update.induct) (auto simp: fun_eq_iff map_add_def split: option.splits)

lemma map_of_dict_of: "map_of (dict_of ps) = map_of (rev ps)"
  by (simp add: dict_of_def map_of_dict_update)

lemma distinct_dict_update: "distinct (keys d) \<Longrightarrow> distinct (keys (dict_update d r))"
  by (induction d r rule: dict_update.induct) (auto simp: distinct_update)

lemma distinct_dict_of: "distinct (keys (dict_of ps))"
  by (simp add: dict_of_def distinct_dict_update)

lemma set_keys_dict_update: "set (keys (dict_update d r)) = set (keys d) \<union> set (keys r)"
  by (induction d r rule: dict_update.induct) (auto simp: update_keys)

lemma set_keys_dict_of [simp]: "fst ` set (dict_of ps) = fst ` set ps"
  using set_keys_dict_update [of "[]" ps] by (simp add: dict_of_def)

lemma set_dict_of_iff: "(k, v) \<in> set (dict_of ps) \<longleftrightarrow> map_of (rev ps) k = Some v"
  by (metis distinct_dict_of map_of_dict_of map_of_eq_Some_iff)

end
