(* ===== verification/Semver.thy ===== *)
theory Semver
  imports PyString
begin

text \<open>
  Semantic versions and version patterns (\<open>racetrack_client/utils/semver.py\<close>): parsing,
  printing and comparing versions, choosing the latest version of a list of objects, and the
  wildcard patterns \<open>1.2.x\<close> and \<open>1.2.3-*-bullseye\<close>, whose regular expressions are token lists.
\<close>

section \<open>Versions\<close>

datatype semantic_version = SemVer (major: nat) (minor: nat) (patch: nat) (label: string)

definition newline :: char where
  "newline = CHR 0x0A"

text \<open>The digits at the front of a string and the rest: what \<open>\<backslash>d+\<close> consumes when no digit may follow.\<close>

definition span_digits :: "string \<Rightarrow> string \<times> string" where
  "span_digits s = (takeWhile is_digit s, dropWhile is_digit s)"

definition version_fullmatch :: "string \<Rightarrow> (string \<times> string \<times> string \<times> string) option" where
  "version_fullmatch s =
     (case span_digits s of (d1, r1) \<Rightarrow>
      (case r1 of [] \<Rightarrow> None | c1 # s2 \<Rightarrow>
       if d1 = [] \<or> c1 \<noteq> CHR ''.'' then None else
       (case span_digits s2 of (d2, r2) \<Rightarrow>
        (case r2 of [] \<Rightarrow> None | c2 # s3 \<Rightarrow>
         if d2 = [] \<or> c2 \<noteq> CHR ''.'' then None else
         (case span_digits s3 of (d3, r3) \<Rightarrow>
          if d3 = [] \<or> newline \<in> set r3 then None else Some (d1, d2, d3, r3))))))"

definition SemanticVersion :: "string \<Rightarrow> exn + semantic_version" where
  "SemanticVersion vstring =
     (case version_fullmatch vstring of
        None \<Rightarrow> Inl (ValueError (''Version '' @ vstring @ '' doesn't match SemVer format X.Y.Z[-label]''))
      | Some (ma, mi, pa, la) \<Rightarrow> Inr (SemVer (str_to_nat ma) (str_to_nat mi) (str_to_nat pa) la))"

definition version_str :: "semantic_version \<Rightarrow> string" where
  "version_str v = nat_to_str (major v) @ ''.'' @ nat_to_str (minor v) @ ''.'' @ nat_to_str (patch v) @ label v"

definition is_stable :: "semantic_version \<Rightarrow> bool" where
  "is_stable v \<longleftrightarrow> label v = []"

definition compare_labels :: "string \<Rightarrow> string \<Rightarrow> int" where
  "compare_labels label1 label2 =
     (if label1 = label2 then 0
      else if label2 = [] then -1
      else if label1 = [] then 1
      else if label1 < label2 then -1
      else 1)"

definition compare_ver :: "semantic_version \<Rightarrow> semantic_version \<Rightarrow> int" where
  "compare_ver self other =
     (if major self \<noteq> major other then int (major self) - int (major other)
      else if minor self \<noteq> minor other then int (minor self) - int (minor other)
      else if patch self \<noteq> patch other then int (patch self) - int (patch other)
      else compare_labels (label self) (label other))"

definition ver_eq :: "semantic_version \<Rightarrow> semantic_version \<Rightarrow> bool" where
  "ver_eq a b \<longleftrightarrow> compare_ver a b = 0"

definition ver_lt :: "semantic_version \<Rightarrow> semantic_version \<Rightarrow> bool" where
  "ver_lt a b \<longleftrightarrow> compare_ver a b < 0"

definition ver_le :: "semantic_version \<Rightarrow> semantic_version \<Rightarrow> bool" where
  "ver_le a b \<longleftrightarrow> compare_ver a b \<le> 0"

definition ver_gt :: "semantic_version \<Rightarrow> semantic_version \<Rightarrow> bool" where
  "ver_gt a b \<longleftrightarrow> compare_ver a b > 0"

definition ver_ge :: "semantic_version \<Rightarrow> semantic_version \<Rightarrow> bool" where
  "ver_ge a b \<longleftrightarrow> compare_ver a b \<ge> 0"

definition ver_members :: "semantic_version \<Rightarrow> nat \<times> nat \<times> nat \<times> string" where
  "ver_members v = (major v, minor v, patch v, label v)"

section \<open>Comparators\<close>

text \<open>
  The contract of a three-way comparison: its sign is a total order whose equality is equality of
  values. Python's \<open>max\<close> keeps the first element that no later one exceeds.
\<close>

fun py_max :: "('v \<Rightarrow> 'v \<Rightarrow> bool) \<Rightarrow> 'v \<Rightarrow> 'v list \<Rightarrow> 'v" where
  "py_max gt m [] = m"
| "py_max gt m (x # xs) = py_max gt (if gt x m then x else m) xs"

locale comparator =
  fixes cmp :: "'v \<Rightarrow> 'v \<Rightarrow> int"
  assumes cmp_zero: "cmp x y = 0 \<longleftrightarrow> x = y"
    and cmp_swap: "cmp x y < 0 \<longleftrightarrow> cmp y x > 0"
    and cmp_trans: "cmp x y < 0 \<Longrightarrow> cmp y z < 0 \<Longrightarrow> cmp x z < 0"
begin

lemma cmp_refl: "cmp x x = 0"
  by (simp add: cmp_zero)

lemma cmp_total: "cmp x y \<le> 0 \<or> cmp y x \<le> 0"
  using cmp_swap [of y x] by linarith

lemma cmp_antisym: "cmp x y \<le> 0 \<Longrightarrow> cmp y x \<le> 0 \<Longrightarrow> x = y"
  using cmp_swap [of x y] cmp_zero [of x y] by linarith

lemma cmp_le_trans: "cmp x y \<le> 0 \<Longrightarrow> cmp y z \<le> 0 \<Longrightarrow> cmp x z \<le> 0"
  using cmp_trans [of x y z] cmp_zero [of x y] cmp_zero [of y z] by (cases "x = y \<or> y = z") force+

lemma py_max_in: "py_max (\<lambda>a b. cmp a b > 0) m xs \<in> set (m # xs)"
  by (induction xs arbitrary: m) auto

lemma py_max_ge: "y \<in> set (m # xs) \<Longrightarrow> cmp y (py_max (\<lambda>a b. cmp a b > 0) m xs) \<le> 0"
proof (induction xs arbitrary: m y)
  case Nil
  then show ?case by (simp add: cmp_refl)
next
  case (Cons x xs)
  let ?m = "if cmp x m > 0 then x else m"
  have up: "cmp ?m (py_max (\<lambda>a b. cmp a b > 0) ?m xs) \<le> 0"
    by (rule Cons.IH) simp
  have "cmp m ?m \<le> 0"
    using cmp_swap [of m x] by (auto simp: cmp_refl)
  moreover have "cmp x ?m \<le> 0"
    by (auto simp: cmp_refl)
  ultimately show ?case
    using Cons.prems Cons.IH [of y ?m] cmp_le_trans [OF _ up] by (auto simp del: py_max.simps) simp_all
qed

end

lemma compare_labels_zero: "compare_labels a b = 0 \<longleftrightarrow> a = b"
  by (auto simp: compare_labels_def)

lemma compare_labels_swap: "compare_labels a b < 0 \<longleftrightarrow> compare_labels b a > 0"
  by (auto simp: compare_labels_def)

lemma compare_labels_trans: "compare_labels a b < 0 \<Longrightarrow> compare_labels b c < 0 \<Longrightarrow> compare_labels a c < 0"
  by (auto simp: compare_labels_def split: if_splits)

interpretation ver: comparator compare_ver
proof
  fix x y :: semantic_version
  show "compare_ver x y = 0 \<longleftrightarrow> x = y"
    by (auto simp: compare_ver_def compare_labels_zero intro: semantic_version.expand)
next
  fix x y :: semantic_version
  show "compare_ver x y < 0 \<longleftrightarrow> compare_ver y x > 0"
    by (auto simp: compare_ver_def compare_labels_swap)
next
  fix x y z :: semantic_version
  assume "compare_ver x y < 0" and "compare_ver y z < 0"
  then show "compare_ver x z < 0"
    using compare_labels_trans [of "label x" "label y" "label z"]
    by (auto simp: compare_ver_def split: if_splits)
qed

instantiation semantic_version :: linorder
begin

definition less_eq_semantic_version :: "semantic_version \<Rightarrow> semantic_version \<Rightarrow> bool" where
  "less_eq_semantic_version = ver_le"

definition less_semantic_version :: "semantic_version \<Rightarrow> semantic_version \<Rightarrow> bool" where
  "less_semantic_version = ver_lt"

instance
proof
  fix x y z :: semantic_version
  show "x < y \<longleftrightarrow> x \<le> y \<and> \<not> y \<le> x"
    using ver.cmp_swap [of x y] by (auto simp: less_eq_semantic_version_def ver_le_def less_semantic_version_def ver_lt_def)
  show "x \<le> x"
    by (simp add: less_eq_semantic_version_def ver_le_def ver.cmp_refl)
  show "x \<le> y \<Longrightarrow> y \<le> z \<Longrightarrow> x \<le> z"
    by (auto simp: less_eq_semantic_version_def ver_le_def intro: ver.cmp_le_trans)
  show "x \<le> y \<Longrightarrow> y \<le> x \<Longrightarrow> x = y"
    by (auto simp: less_eq_semantic_version_def ver_le_def intro: ver.cmp_antisym)
  show "x \<le> y \<or> y \<le> x"
    using ver.cmp_total [of x y] by (simp add: less_eq_semantic_version_def ver_le_def)
qed

end

section \<open>Patterns\<close>

text \<open>The regular expressions the patterns compile to are sequences of literal characters and
  \<open>.+\<close>, which matches a non-empty run of characters other than a newline.\<close>

datatype rtok = Lit char | AnyPlus

fun fullmatch :: "rtok list \<Rightarrow> string \<Rightarrow> bool" where
  "fullmatch [] s = (s = [])"
| "fullmatch (Lit c # ts) [] = False"
| "fullmatch (Lit c # ts) (x # xs) = (x = c \<and> fullmatch ts xs)"
| "fullmatch (AnyPlus # ts) [] = False"
| "fullmatch (AnyPlus # ts) (x # xs) = (x \<noteq> newline \<and> (fullmatch ts xs \<or> fullmatch (AnyPlus # ts) xs))"

definition x_part :: "string \<Rightarrow> bool" where
  "x_part p \<longleftrightarrow> p = ''x'' \<or> all_digits p"

definition x_pattern_fullmatch :: "string \<Rightarrow> bool" where
  "x_pattern_fullmatch pattern \<longleftrightarrow> list_all x_part (split_on (CHR ''.'') pattern)"

definition from_x_pattern :: "string \<Rightarrow> exn + rtok list" where
  "from_x_pattern pattern =
     (if \<not> x_pattern_fullmatch pattern
      then Inl (ValueError (''Version pattern '' @ pattern @ '' is invalid, should be 1.x or 1.2.x''))
      else if CHR ''x'' \<notin> set pattern
      then Inl (ValueError (''Version pattern '' @ pattern @ '' doesn't contain x wildcard''))
      else Inr (map (\<lambda>c. if c = CHR ''x'' then AnyPlus else Lit c) pattern))"

definition asterisk_part :: "string \<Rightarrow> bool" where
  "asterisk_part p \<longleftrightarrow> p = ''*'' \<or> all_digits p"

definition asterisk_pattern_fullmatch :: "string \<Rightarrow> bool" where
  "asterisk_pattern_fullmatch pattern =
     (let numbers = split_on (CHR ''.'') (takeWhile (\<lambda>c. c \<noteq> CHR ''-'') pattern);
          lab = dropWhile (\<lambda>c. c \<noteq> CHR ''-'') pattern
      in length numbers \<le> 3 \<and> list_all asterisk_part numbers
         \<and> (lab = [] \<or> (2 \<le> length lab \<and> newline \<notin> set lab)))"

definition from_asterisk_pattern :: "string \<Rightarrow> exn + rtok list" where
  "from_asterisk_pattern pattern =
     (if \<not> asterisk_pattern_fullmatch pattern
      then Inl (ValueError (''Version pattern '' @ pattern @ '' is invalid, should be 1.2.* or 1.2.3-*-bullseye or 1.*.*''))
      else if CHR ''*'' \<notin> set pattern
      then Inl (ValueError (''Version pattern '' @ pattern @ '' doesn't contain * wildcard''))
      else Inr (map (\<lambda>c. if c = CHR ''*'' then AnyPlus else Lit c) pattern))"

definition matches :: "rtok list \<Rightarrow> semantic_version \<Rightarrow> bool" where
  "matches regex_pattern version \<longleftrightarrow> fullmatch regex_pattern (version_str version)"

definition is_x_pattern :: "string \<Rightarrow> bool" where
  "is_x_pattern pattern \<longleftrightarrow> x_pattern_fullmatch pattern \<and> CHR ''x'' \<in> set pattern"

definition is_asterisk_pattern :: "string \<Rightarrow> bool" where
  "is_asterisk_pattern pattern \<longleftrightarrow> asterisk_pattern_fullmatch pattern \<and> CHR ''*'' \<in> set pattern"

section \<open>The latest version of a list\<close>

text \<open>The dictionary comprehension \<open>{SemanticVersion(key(obj)): obj for obj in objects}\<close>: an
  unparsable version raises, a repeated version keeps its last object.\<close>

fun parse_versions :: "('a \<Rightarrow> string) \<Rightarrow> 'a list \<Rightarrow> exn + (semantic_version \<times> 'a) list" where
  "parse_versions key [] = Inr []"
| "parse_versions key (x # xs) =
     (case SemanticVersion (key x) of
        Inl e \<Rightarrow> Inl e
      | Inr v \<Rightarrow> (case parse_versions key xs of Inl e \<Rightarrow> Inl e | Inr ps \<Rightarrow> Inr ((v, x) # ps)))"

definition latest_object :: "(semantic_version, 'a) dict \<Rightarrow> 'a option" where
  "latest_object versions_objects =
     (case versions_objects of
        [] \<Rightarrow> None
      | (v, _) # rest \<Rightarrow> map_of versions_objects (py_max ver_gt v (keys rest)))"

definition find_latest_stable :: "'a list \<Rightarrow> ('a \<Rightarrow> string) \<Rightarrow> exn + 'a option" where
  "find_latest_stable objects key =
     (case parse_versions key objects of
        Inl e \<Rightarrow> Inl e
      | Inr ps \<Rightarrow> Inr (latest_object (filter (\<lambda>(v, _). label v = []) (dict_of ps))))"

definition find_latest_wildcard :: "rtok list \<Rightarrow> 'a list \<Rightarrow> ('a \<Rightarrow> string) \<Rightarrow> bool \<Rightarrow> exn + 'a option" where
  "find_latest_wildcard pattern objects key only_stable =
     (case parse_versions key objects of
        Inl e \<Rightarrow> Inl e
      | Inr ps \<Rightarrow>
          let versions_objects = dict_of ps;
              versions_objects = (if only_stable then filter (\<lambda>(v, _). label v = []) versions_objects
                                  else versions_objects);
              versions_objects = filter (\<lambda>(v, _). matches pattern v) versions_objects
          in Inr (latest_object versions_objects))"


section \<open>Properties\<close>

lemma ver_gt_less: "ver_gt a b \<longleftrightarrow> b < a"
  using ver.cmp_swap [of b a] by (simp add: ver_gt_def less_semantic_version_def ver_lt_def)

lemma ver_ge_less_eq: "ver_ge a b \<longleftrightarrow> b \<le> a"
  using ver.cmp_swap [of a b] by (auto simp: ver_ge_def less_eq_semantic_version_def ver_le_def)

lemma ver_eq_iff: "ver_eq a b \<longleftrightarrow> a = b"
  by (simp add: ver_eq_def ver.cmp_zero)

text \<open>
  C33. Version comparison is a total order that agrees with equality and hashing: two versions
  compare equal exactly when the members that are hashed are equal, of two different versions
  exactly one is greater, greater is transitive, the four order operators agree, numbers compare before labels, and a
  pre-release is below the release it precedes.
\<close>
theorem compare_ver_total_order:
  "(ver_eq a b \<longleftrightarrow> ver_members a = ver_members b)
   \<and> (if ver_members a = ver_members b then \<not> ver_gt a b \<and> \<not> ver_gt b a else ver_gt a b \<noteq> ver_gt b a)
   \<and> (ver_gt a b \<and> ver_gt b c \<longrightarrow> ver_gt a c)
   \<and> (ver_lt a b \<longleftrightarrow> ver_gt b a) \<and> (ver_le a b \<longleftrightarrow> ver_lt a b \<or> ver_eq a b) \<and> (ver_ge a b \<longleftrightarrow> ver_le b a)
   \<and> ((major a, minor a, patch a) = (major b, minor b, patch b) \<and> is_stable a \<and> \<not> is_stable b \<longrightarrow> ver_gt a b)
   \<and> (major a = major b \<and> minor a = minor b \<and> patch a > patch b \<longrightarrow> ver_gt a b)"
proof -
  have members: "ver_members a = ver_members b \<longleftrightarrow> a = b"
    by (cases a; cases b) (simp add: ver_members_def)
  have "ver_eq a b \<longleftrightarrow> ver_members a = ver_members b"
    by (simp add: members ver_eq_iff)
  moreover have "if a = b then \<not> ver_gt a b \<and> \<not> ver_gt b a else ver_gt a b \<noteq> ver_gt b a"
    by (auto simp: ver_gt_less)
  moreover have "ver_gt a b \<and> ver_gt b c \<longrightarrow> ver_gt a c"
    by (auto simp: ver_gt_less)
  moreover have "(ver_lt a b \<longleftrightarrow> ver_gt b a) \<and> (ver_le a b \<longleftrightarrow> ver_lt a b \<or> ver_eq a b) \<and> (ver_ge a b \<longleftrightarrow> ver_le b a)"
    using ver.cmp_swap [of a b] ver.cmp_swap [of b a]
    by (auto simp: ver_lt_def ver_le_def ver_gt_def ver_ge_def ver_eq_def)
  moreover have "(major a, minor a, patch a) = (major b, minor b, patch b) \<and> is_stable a \<and> \<not> is_stable b \<longrightarrow> ver_gt a b"
    by (auto simp: ver_gt_def compare_ver_def compare_labels_def is_stable_def)
  moreover have "major a = major b \<and> minor a = minor b \<and> patch a > patch b \<longrightarrow> ver_gt a b"
    by (auto simp: ver_gt_def compare_ver_def)
  ultimately show ?thesis
    by (simp add: members)
qed

theorem compare_ver_total_order_witness:
  "ver_gt (SemVer 1 10 0 []) (SemVer 1 9 0 []) \<and> ver_gt (SemVer 1 9 0 []) (SemVer 1 9 0 ''-rc'')
   \<and> ver_gt (SemVer 1 10 0 []) (SemVer 1 9 0 ''-rc'')"
  using compare_ver_total_order [of "SemVer 1 10 0 []" "SemVer 1 9 0 []" "SemVer 1 9 0 ''-rc''"]
    compare_ver_total_order [of "SemVer 1 9 0 []" "SemVer 1 9 0 ''-rc''"]
  by (auto simp: ver_gt_def compare_ver_def is_stable_def)

subsection \<open>Parsing what was printed\<close>

lemma span_digits_append:
  assumes "all_digits d" and "r = [] \<or> \<not> is_digit (hd r)"
  shows "span_digits (d @ r) = (d, r)"
proof -
  have "takeWhile is_digit d = d" and "dropWhile is_digit d = []" and "list_all is_digit d"
    using assms(1) by (auto simp: all_digits_def list_all_iff takeWhile_eq_all_conv)
  moreover have "takeWhile is_digit r = []" and "dropWhile is_digit r = r"
    using assms(2) by (cases r; auto)+
  ultimately show ?thesis
    by (auto simp: span_digits_def list_all_iff takeWhile_append dropWhile_append)
qed

lemma version_fullmatch_str:
  assumes "label v = [] \<or> \<not> is_digit (hd (label v))" and "newline \<notin> set (label v)"
  shows "version_fullmatch (version_str v) =
    Some (nat_to_str (major v), nat_to_str (minor v), nat_to_str (patch v), label v)"
proof -
  have dot: "\<not> is_digit (CHR ''.'')"
    by (simp add: is_digit_def)
  have "span_digits (nat_to_str (major v) @ (CHR ''.'' # nat_to_str (minor v) @ CHR ''.'' # nat_to_str (patch v) @ label v))
    = (nat_to_str (major v), CHR ''.'' # nat_to_str (minor v) @ CHR ''.'' # nat_to_str (patch v) @ label v)"
    by (rule span_digits_append) (simp_all add: dot)
  moreover have "span_digits (nat_to_str (minor v) @ (CHR ''.'' # nat_to_str (patch v) @ label v))
    = (nat_to_str (minor v), CHR ''.'' # nat_to_str (patch v) @ label v)"
    by (rule span_digits_append) (simp_all add: dot)
  moreover have "span_digits (nat_to_str (patch v) @ label v) = (nat_to_str (patch v), label v)"
    by (rule span_digits_append) (simp_all add: assms(1))
  ultimately show ?thesis
    using assms(2) by (simp add: version_fullmatch_def version_str_def)
qed

text \<open>
  Parsing the text of a version gives the version back, for every version whose label could
  have come from parsing (it does not start with a digit and holds no newline).
\<close>
lemma SemanticVersion_str_roundtrip:
  assumes "label v = [] \<or> \<not> is_digit (hd (label v))" and "newline \<notin> set (label v)"
  shows "SemanticVersion (version_str v) = Inr v"
  using version_fullmatch_str [OF assms] by (simp add: SemanticVersion_def)

lemma SemanticVersion_str_roundtrip_witness:
  "SemanticVersion (version_str (SemVer 10 0 1 ''-alpha'')) = Inr (SemVer 10 0 1 ''-alpha'')"
  by (rule SemanticVersion_str_roundtrip) (simp_all add: is_digit_def newline_def)

subsection \<open>The latest version\<close>

lemma parse_versions_ok:
  assumes "\<forall>x \<in> set xs. SemanticVersion (key x) = Inr (ver x)"
  shows "parse_versions key xs = Inr (map (\<lambda>x. (ver x, x)) xs)"
  using assms by (induction xs) auto

lemma latest_object_None: "latest_object d = None \<longleftrightarrow> d = []"
proof (cases d)
  case (Cons p rest)
  obtain v x where p: "p = (v, x)" by (cases p)
  have "py_max ver_gt v (keys rest) \<in> set (v # keys rest)"
    using ver.py_max_in [of v "keys rest"] by (simp add: ver_gt_def [abs_def])
  then have "py_max ver_gt v (keys rest) \<in> fst ` set d"
    using Cons p by auto
  then have "map_of d (py_max ver_gt v (keys rest)) \<noteq> None"
    by (simp only: map_of_eq_None_iff) simp
  then show ?thesis
    using Cons p by (simp add: latest_object_def)
qed (simp add: latest_object_def)

lemma latest_object_Some:
  assumes "latest_object d = Some x"
  shows "\<exists>v. (v, x) \<in> set d \<and> (\<forall>(v', x') \<in> set d. v' \<le> v)"
proof -
  obtain v y rest where d: "d = (v, y) # rest"
    using assms by (cases d) (auto simp: latest_object_def)
  let ?m = "py_max ver_gt v (keys rest)"
  have "map_of d ?m = Some x"
    using assms d by (simp add: latest_object_def)
  then have "(?m, x) \<in> set d"
    by (rule map_of_SomeD)
  moreover have "\<forall>(v', x') \<in> set d. v' \<le> ?m"
  proof clarify
    fix v' x'
    assume "(v', x') \<in> set d"
    then have "v' \<in> set (v # keys rest)" using d by force
    then show "v' \<le> ?m"
      using ver.py_max_ge [of v' v "keys rest"]
      by (simp add: less_eq_semantic_version_def ver_le_def ver_gt_def [abs_def])
  qed
  ultimately show ?thesis by blast
qed

lemma dict_of_versions:
  "(v, x) \<in> set (dict_of (map (\<lambda>x. (ver x, x)) xs)) \<Longrightarrow> x \<in> set xs \<and> v = ver x"
  by (auto simp: set_dict_of_iff dest!: map_of_SomeD)

lemma dict_of_versions_covers:
  "x \<in> set xs \<Longrightarrow> \<exists>y. (ver x, y) \<in> set (dict_of (map (\<lambda>x. (ver x, x)) xs))"
proof -
  assume "x \<in> set xs"
  then have "ver x \<in> fst ` set (dict_of (map (\<lambda>x. (ver x, x)) xs))"
    by (auto simp: image_image)
  then show ?thesis by force
qed

text \<open>What the two searches share: the latest object among those whose version satisfies a
  predicate.\<close>

lemma latest_filtered:
  fixes ver :: "'a \<Rightarrow> semantic_version" and ok :: "semantic_version \<Rightarrow> bool" and xs :: "'a list"
  defines "d \<equiv> filter (\<lambda>(v, _). ok v) (dict_of (map (\<lambda>x. (ver x, x)) xs))"
  shows "(latest_object d = None \<longrightarrow> (\<forall>x \<in> set xs. \<not> ok (ver x)))
    \<and> (\<forall>x. latest_object d = Some x \<longrightarrow>
         x \<in> set xs \<and> ok (ver x) \<and> (\<forall>y \<in> set xs. ok (ver y) \<longrightarrow> ver y \<le> ver x))"
proof (intro conjI allI impI)
  assume "latest_object d = None"
  then have empty: "d = []" by (simp add: latest_object_None)
  show "\<forall>x \<in> set xs. \<not> ok (ver x)"
  proof
    fix x assume "x \<in> set xs"
    from dict_of_versions_covers [OF this, of ver] obtain y
      where "(ver x, y) \<in> set (dict_of (map (\<lambda>x. (ver x, x)) xs))" ..
    with empty show "\<not> ok (ver x)" by (auto simp: d_def filter_empty_conv)
  qed
next
  fix x assume "latest_object d = Some x"
  from latest_object_Some [OF this] obtain v
    where v: "(v, x) \<in> set d" and top: "\<forall>(v', x') \<in> set d. v' \<le> v" by blast
  from v have vx: "x \<in> set xs" "v = ver x" "ok v"
    by (auto simp: d_def dest: dict_of_versions)
  then show "x \<in> set xs" and "ok (ver x)" by simp_all
  show "\<forall>y \<in> set xs. ok (ver y) \<longrightarrow> ver y \<le> ver x"
  proof (intro ballI impI)
    fix y assume "y \<in> set xs" and "ok (ver y)"
    with dict_of_versions_covers [of y xs ver] obtain z where "(ver y, z) \<in> set d"
      by (auto simp: d_def)
    with top vx(2) show "ver y \<le> ver x" by auto
  qed
qed

text \<open>
  \<open>find_latest_stable\<close> on objects whose versions all parse returns a member of the list with
  an unlabelled version that no unlabelled version of the list exceeds, and nothing exactly when
  every version of the list is labelled.
\<close>
lemma find_latest_stable_correct:
  assumes "\<forall>x \<in> set objects. SemanticVersion (key x) = Inr (ver x)"
  shows "case find_latest_stable objects key of
      Inl e \<Rightarrow> False
    | Inr None \<Rightarrow> (\<forall>x \<in> set objects. \<not> is_stable (ver x))
    | Inr (Some x) \<Rightarrow> x \<in> set objects \<and> is_stable (ver x)
        \<and> (\<forall>y \<in> set objects. is_stable (ver y) \<longrightarrow> ver y \<le> ver x)"
  using latest_filtered [of "\<lambda>v. label v = []" ver objects]
  by (auto simp: find_latest_stable_def parse_versions_ok [OF assms] is_stable_def split: option.splits)

lemmas parse_eval = SemanticVersion_def version_fullmatch_def span_digits_def is_digit_def
  newline_def str_to_nat_def digit_val_def

lemma find_latest_stable_correct_witness:
  "case find_latest_stable [''1.9.0'', ''2.0.0-dev'', ''1.10.0''] (\<lambda>s. s) of
      Inl e \<Rightarrow> False
    | Inr None \<Rightarrow> (\<forall>x \<in> set [''1.9.0'', ''2.0.0-dev'', ''1.10.0'']. \<not> is_stable (projr (SemanticVersion x)))
    | Inr (Some x) \<Rightarrow> x \<in> set [''1.9.0'', ''2.0.0-dev'', ''1.10.0''] \<and> is_stable (projr (SemanticVersion x))
        \<and> (\<forall>y \<in> set [''1.9.0'', ''2.0.0-dev'', ''1.10.0'']. is_stable (projr (SemanticVersion y)) \<longrightarrow>
             projr (SemanticVersion y) \<le> projr (SemanticVersion x))"
  by (rule find_latest_stable_correct) (simp add: parse_eval)

text \<open>
  \<open>find_latest_wildcard\<close> restricted to stable versions returns the greatest unlabelled version
  whose text the pattern matches, and nothing exactly when there is none.
\<close>
lemma find_latest_wildcard_correct:
  assumes "\<forall>x \<in> set objects. SemanticVersion (key x) = Inr (ver x)"
  shows "case find_latest_wildcard pattern objects key True of
      Inl e \<Rightarrow> False
    | Inr None \<Rightarrow> (\<forall>x \<in> set objects. \<not> (is_stable (ver x) \<and> matches pattern (ver x)))
    | Inr (Some x) \<Rightarrow> x \<in> set objects \<and> is_stable (ver x) \<and> matches pattern (ver x)
        \<and> (\<forall>y \<in> set objects. is_stable (ver y) \<and> matches pattern (ver y) \<longrightarrow> ver y \<le> ver x)"
proof -
  have "find_latest_wildcard pattern objects key True = Inr (latest_object
      (filter (\<lambda>(v, _). label v = [] \<and> matches pattern v) (dict_of (map (\<lambda>x. (ver x, x)) objects))))"
    by (simp add: find_latest_wildcard_def parse_versions_ok [OF assms] case_prod_unfold)
  then show ?thesis
    using latest_filtered [of "\<lambda>v. label v = [] \<and> matches pattern v" ver objects]
    by (auto simp: is_stable_def split: option.splits)
qed

lemma find_latest_wildcard_correct_witness:
  "case find_latest_wildcard [Lit (CHR ''1''), Lit (CHR ''.''), AnyPlus] [''1.2.0'', ''2.0.0''] (\<lambda>s. s) True of
      Inl e \<Rightarrow> False
    | Inr None \<Rightarrow> (\<forall>x \<in> set [''1.2.0'', ''2.0.0''].
        \<not> (is_stable (projr (SemanticVersion x)) \<and> matches [Lit (CHR ''1''), Lit (CHR ''.''), AnyPlus] (projr (SemanticVersion x))))
    | Inr (Some x) \<Rightarrow> x \<in> set [''1.2.0'', ''2.0.0''] \<and> is_stable (projr (SemanticVersion x))
        \<and> matches [Lit (CHR ''1''), Lit (CHR ''.''), AnyPlus] (projr (SemanticVersion x))
        \<and> (\<forall>y \<in> set [''1.2.0'', ''2.0.0''].
             is_stable (projr (SemanticVersion y)) \<and> matches [Lit (CHR ''1''), Lit (CHR ''.''), AnyPlus] (projr (SemanticVersion y)) \<longrightarrow>
             projr (SemanticVersion y) \<le> projr (SemanticVersion x))"
  by (rule find_latest_wildcard_correct) (simp add: parse_eval)

subsection \<open>What a pattern matches\<close>

lemma fullmatch_literal: "fullmatch (map Lit p @ ts) s \<longleftrightarrow> (\<exists>r. s = p @ r \<and> fullmatch ts r)"
proof (induction p arbitrary: s)
  case (Cons c p)
  then show ?case by (cases s) auto
qed auto

lemma fullmatch_any: "fullmatch [AnyPlus] s \<longleftrightarrow> s \<noteq> [] \<and> newline \<notin> set s"
proof (induction s)
  case (Cons x xs)
  then show ?case by (cases xs) auto
qed auto

text \<open>
  A pattern with one trailing wildcard matches exactly the versions whose text extends the
  part before the wildcard by at least one character and no newline: \<open>1.2.x\<close> matches \<open>1.2.3\<close> and
  also \<open>1.2.3-dev\<close>, never \<open>1.20.3\<close>.
\<close>

lemma from_x_pattern_trailing:
  assumes "x_pattern_fullmatch (p @ ''x'')" and "CHR ''x'' \<notin> set p"
  shows "\<exists>r. from_x_pattern (p @ ''x'') = Inr r
    \<and> (\<forall>v. matches r v \<longleftrightarrow> (\<exists>t. version_str v = p @ t \<and> t \<noteq> [] \<and> newline \<notin> set t))"
proof -
  have "map (\<lambda>c. if c = CHR ''x'' then AnyPlus else Lit c) p = map Lit p"
    using assms(2) by (induction p) auto
  then have "from_x_pattern (p @ ''x'') = Inr (map Lit p @ [AnyPlus])"
    using assms(1) by (simp add: from_x_pattern_def)
  then show ?thesis
    by (simp add: matches_def fullmatch_literal fullmatch_any)
qed

theorem from_x_pattern_trailing_witness:
  "\<exists>r. from_x_pattern (''1.2.'' @ ''x'') = Inr r
    \<and> (\<forall>v. matches r v \<longleftrightarrow> (\<exists>t. version_str v = ''1.2.'' @ t \<and> t \<noteq> [] \<and> newline \<notin> set t))"
  by (rule from_x_pattern_trailing)
    (simp_all add: x_pattern_fullmatch_def x_part_def all_digits_def is_digit_def)

lemma is_x_pattern_compiles: "is_x_pattern p \<longleftrightarrow> (\<exists>r. from_x_pattern p = Inr r)"
  by (simp add: is_x_pattern_def from_x_pattern_def)

lemma latest_not_x_pattern: "\<not> is_x_pattern ''latest''"
  by (simp add: is_x_pattern_def x_pattern_fullmatch_def x_part_def all_digits_def is_digit_def)

end
