(* ===== verification/Schema.thy ===== *)
theory Schema
  imports PyString
begin

text \<open>
  The values stored in the database and the table models of the Lifecycle registry
  (\<open>lifecycle/database/table_model.py\<close>, \<open>lifecycle/database/schema/tables.py\<close>): one class
  declaration per table, the metadata computed from it, the unique keys of the database schema
  (\<open>lifecycle/django/registry/models.py\<close>), and the reverse dependencies along which deletion
  cascades. Times are microseconds since the epoch (UTC); a \<open>float\<close> is an exact rational.
\<close>

section \<open>Values and column types\<close>

datatype val =
    VNone
  | VStr string
  | VInt int
  | VFloat rat
  | VBool bool
  | VDt int
  | VBytes string
  | VList "val list"

text \<open>Python's truth value of a value.\<close>

fun truthy :: "val \<Rightarrow> bool" where
  "truthy VNone = False"
| "truthy (VStr s) = (s \<noteq> [])"
| "truthy (VInt i) = (i \<noteq> 0)"
| "truthy (VFloat r) = (r \<noteq> 0)"
| "truthy (VBool b) = b"
| "truthy (VDt t) = True"
| "truthy (VBytes b) = (b \<noteq> [])"
| "truthy (VList l) = (l \<noteq> [])"

text \<open>Reading an attribute of a known type, and an optional string as a value.\<close>

fun the_str :: "val \<Rightarrow> string" where
  "the_str (VStr s) = s"
| "the_str v = []"

fun opt_str :: "val \<Rightarrow> string option" where
  "opt_str (VStr s) = Some s"
| "opt_str v = None"

definition str_val :: "string option \<Rightarrow> val" where
  "str_val o' = (case o' of None \<Rightarrow> VNone | Some s \<Rightarrow> VStr s)"

lemma opt_str_val [simp]: "opt_str (str_val o') = o'"
  by (cases o') (simp_all add: str_val_def)

datatype annotation =
    TStr | TDatetime | TInt | TFloat | TBool | TBytes
  | TOptStr | TOptDatetime | TOptInt | TOther

datatype ColumnType =
    STRING | DATETIME | INT_COL | FLOAT | BOOLEAN | BYTES
  | OPTIONAL_STRING | OPTIONAL_DATETIME | OPTIONAL_INT | UNKNOWN

fun build_column_type :: "annotation \<Rightarrow> ColumnType" where
  "build_column_type TStr = STRING"
| "build_column_type TDatetime = DATETIME"
| "build_column_type TInt = INT_COL"
| "build_column_type TFloat = FLOAT"
| "build_column_type TBool = BOOLEAN"
| "build_column_type TBytes = BYTES"
| "build_column_type TOptStr = OPTIONAL_STRING"
| "build_column_type TOptDatetime = OPTIONAL_DATETIME"
| "build_column_type TOptInt = OPTIONAL_INT"
| "build_column_type TOther = UNKNOWN"

fun create_empty_field :: "ColumnType \<Rightarrow> val" where
  "create_empty_field STRING = VStr []"
| "create_empty_field DATETIME = VDt 0"
| "create_empty_field INT_COL = VInt 0"
| "create_empty_field FLOAT = VInt 0"
| "create_empty_field BOOLEAN = VBool False"
| "create_empty_field BYTES = VBytes []"
| "create_empty_field OPTIONAL_STRING = VNone"
| "create_empty_field OPTIONAL_DATETIME = VNone"
| "create_empty_field OPTIONAL_INT = VNone"
| "create_empty_field UNKNOWN = VNone"

text \<open>The values of a column's type.\<close>

fun type_of_val :: "val \<Rightarrow> ColumnType option" where
  "type_of_val VNone = None"
| "type_of_val (VStr s) = Some STRING"
| "type_of_val (VDt t) = Some DATETIME"
| "type_of_val (VInt i) = Some INT_COL"
| "type_of_val (VFloat r) = Some FLOAT"
| "type_of_val (VBool b) = Some BOOLEAN"
| "type_of_val (VBytes b) = Some BYTES"
| "type_of_val (VList l) = Some UNKNOWN"

fun base_type :: "ColumnType \<Rightarrow> ColumnType" where
  "base_type OPTIONAL_STRING = STRING"
| "base_type OPTIONAL_DATETIME = DATETIME"
| "base_type OPTIONAL_INT = INT_COL"
| "base_type t = t"

definition nullable :: "ColumnType \<Rightarrow> bool" where
  "nullable t \<longleftrightarrow> t \<in> {OPTIONAL_STRING, OPTIONAL_DATETIME, OPTIONAL_INT, UNKNOWN}"

definition has_type :: "ColumnType \<Rightarrow> val \<Rightarrow> bool" where
  "has_type t v \<longleftrightarrow> (case type_of_val v of None \<Rightarrow> nullable t | Some u \<Rightarrow> t = UNKNOWN \<or> u = base_type t)"

section \<open>Table classes and their metadata\<close>

datatype table =
    JobFamily | Job | Deployment | Esc | PublicEndpointRequest | TrashJob | AuditLogEvent
  | User | AuthSubject | AuthToken | AuthResourcePermission | Setting | AsyncJobCall

datatype pk_type = PkStr | PkInt

datatype pk_generator = NewUuid

text \<open>A class declaration: the annotated fields and the attributes its \<open>Metadata\<close> class sets.\<close>

record table_class =
  cls_name :: string
  annotations :: "(string, annotation) dict"
  m_table_name :: "string option"
  m_primary_key_column :: "string option"
  m_primary_key_type :: "pk_type option"
  m_primary_key_generator :: "pk_generator option"
  m_on_delete_cascade :: "(string, table) dict"
  m_plural_name :: "string option"
  m_main_columns :: "string list"
  m_name_columns :: "string list"

record metadata =
  table_name :: string
  primary_key_column :: string
  primary_key_type :: pk_type
  primary_key_generator :: "pk_generator option"
  on_delete_cascade :: "(string, table) dict"
  plural_name :: string
  main_columns :: "string list"
  name_columns :: "string list"
  meta_fields :: "string list"
  column_types :: "(string, ColumnType) dict"

definition table_metadata :: "table_class \<Rightarrow> exn + metadata" where
  "table_metadata cls =
     (let fs = keys (annotations cls);
          tn = (case m_table_name cls of None \<Rightarrow> [] | Some n \<Rightarrow> n);
          pk = (case m_primary_key_column cls of None \<Rightarrow> [] | Some c \<Rightarrow> c)
      in if tn = [] then Inl (AssertionError (''table_name not specified in '' @ cls_name cls @ ''.Metadata''))
         else if pk = [] then Inl (AssertionError (''primary_key_column not specified in '' @ cls_name cls @ ''.Metadata''))
         else if pk \<notin> set fs then Inl (AssertionError (cls_name cls @ ''.Metadata.primary_key_column '' @ pk @ '' not found''))
         else Inr \<lparr>table_name = tn, primary_key_column = pk,
            primary_key_type = (case m_primary_key_type cls of None \<Rightarrow> PkStr | Some t \<Rightarrow> t),
            primary_key_generator = m_primary_key_generator cls,
            on_delete_cascade = m_on_delete_cascade cls,
            plural_name = (case m_plural_name cls of None \<Rightarrow> cls_name cls @ ''s'' | Some p \<Rightarrow> p),
            main_columns = m_main_columns cls, name_columns = m_name_columns cls,
            meta_fields = fs,
            column_types = map (\<lambda>(c, a). (c, build_column_type a)) (annotations cls)\<rparr>)"

definition JobFamily_class :: table_class where
  "JobFamily_class = \<lparr>cls_name = ''JobFamily'',
     annotations = [
       (''id'', TStr), (''name'', TStr)],
     m_table_name = Some ''registry_jobfamily'', m_primary_key_column = Some ''id'',
     m_primary_key_type = None, m_primary_key_generator = Some NewUuid,
     m_on_delete_cascade = [],
     m_plural_name = Some ''Job Families'',
     m_main_columns = [''id'', ''name''],
     m_name_columns = [''name'']\<rparr>"

definition Job_class :: table_class where
  "Job_class = \<lparr>cls_name = ''Job'',
     annotations = [
       (''id'', TStr), (''family_id'', TStr), (''name'', TStr), (''version'', TStr), (''status'', TStr),
       (''create_time'', TDatetime), (''update_time'', TDatetime), (''manifest'', TOptStr),
       (''internal_name'', TOptStr), (''error'', TOptStr), (''notice'', TOptStr),
       (''image_tag'', TOptStr), (''deployed_by'', TOptStr), (''last_call_time'', TOptDatetime),
       (''infrastructure_target'', TOptStr), (''replica_internal_names'', TOptStr),
       (''job_type_version'', TStr), (''infrastructure_stats'', TOptStr)],
     m_table_name = Some ''registry_job'', m_primary_key_column = Some ''id'',
     m_primary_key_type = None, m_primary_key_generator = Some NewUuid,
     m_on_delete_cascade = [(''family_id'', JobFamily)],
     m_plural_name = Some ''Jobs'',
     m_main_columns = [''id'', ''name'', ''version'', ''status'', ''update_time'', ''deployed_by''],
     m_name_columns = [''name'', ''version'']\<rparr>"

definition Deployment_class :: table_class where
  "Deployment_class = \<lparr>cls_name = ''Deployment'',
     annotations = [
       (''id'', TStr), (''status'', TStr), (''create_time'', TDatetime), (''update_time'', TDatetime),
       (''manifest'', TStr), (''error'', TOptStr), (''job_name'', TStr), (''job_version'', TStr),
       (''deployed_by'', TOptStr), (''build_logs'', TOptStr), (''phase'', TOptStr),
       (''image_name'', TOptStr), (''infrastructure_target'', TOptStr), (''warnings'', TOptStr)],
     m_table_name = Some ''registry_deployment'', m_primary_key_column = Some ''id'',
     m_primary_key_type = None, m_primary_key_generator = Some NewUuid,
     m_on_delete_cascade = [],
     m_plural_name = Some ''Deployments'',
     m_main_columns = [''id'', ''job_name'', ''job_version'', ''status'', ''create_time'', ''deployed_by'', ''phase''],
     m_name_columns = []\<rparr>"

definition Esc_class :: table_class where
  "Esc_class = \<lparr>cls_name = ''Esc'',
     annotations = [
       (''id'', TStr), (''name'', TStr)],
     m_table_name = Some ''registry_esc'', m_primary_key_column = Some ''id'',
     m_primary_key_type = None, m_primary_key_generator = Some NewUuid,
     m_on_delete_cascade = [],
     m_plural_name = Some ''ESCs'',
     m_main_columns = [''id'', ''name''],
     m_name_columns = [''name'']\<rparr>"

definition PublicEndpointRequest_class :: table_class where
  "PublicEndpointRequest_class = \<lparr>cls_name = ''PublicEndpointRequest'',
     annotations = [
       (''id'', TStr), (''job_id'', TStr), (''endpoint'', TStr), (''active'', TBool)],
     m_table_name = Some ''registry_publicendpointrequest'', m_primary_key_column = Some ''id'',
     m_primary_key_type = None, m_primary_key_generator = Some NewUuid,
     m_on_delete_cascade = [(''job_id'', Job)],
     m_plural_name = Some ''Public Endpoint Requests'',
     m_main_columns = [''id'', ''job_id'', ''endpoint'', ''active''],
     m_name_columns = []\<rparr>"

definition TrashJob_class :: table_class where
  "TrashJob_class = \<lparr>cls_name = ''TrashJob'',
     annotations = [
       (''id'', TStr), (''name'', TStr), (''version'', TStr), (''status'', TStr),
       (''create_time'', TDatetime), (''update_time'', TDatetime), (''delete_time'', TDatetime),
       (''manifest'', TOptStr), (''internal_name'', TOptStr), (''error'', TOptStr),
       (''image_tag'', TOptStr), (''deployed_by'', TOptStr), (''last_call_time'', TOptDatetime),
       (''infrastructure_target'', TOptStr), (''age_days'', TFloat)],
     m_table_name = Some ''registry_trashjob'', m_primary_key_column = Some ''id'',
     m_primary_key_type = None, m_primary_key_generator = Some NewUuid,
     m_on_delete_cascade = [],
     m_plural_name = Some ''Trash Jobs'',
     m_main_columns = [''id'', ''name'', ''version'', ''status'', ''delete_time'', ''deployed_by'', ''age_days''],
     m_name_columns = []\<rparr>"

definition AuditLogEvent_class :: table_class where
  "AuditLogEvent_class = \<lparr>cls_name = ''AuditLogEvent'',
     annotations = [
       (''id'', TStr), (''version'', TInt), (''timestamp'', TDatetime), (''event_type'', TStr),
       (''properties'', TOptStr), (''username_executor'', TOptStr), (''username_subject'', TOptStr),
       (''job_name'', TOptStr), (''job_version'', TOptStr)],
     m_table_name = Some ''registry_auditlogevent'', m_primary_key_column = Some ''id'',
     m_primary_key_type = None, m_primary_key_generator = Some NewUuid,
     m_on_delete_cascade = [],
     m_plural_name = Some ''Audit Log Events'',
     m_main_columns = [''id'', ''timestamp'', ''event_type'', ''username_executor'', ''job_name'', ''job_version''],
     m_name_columns = []\<rparr>"

definition User_class :: table_class where
  "User_class = \<lparr>cls_name = ''User'',
     annotations = [
       (''id'', TInt), (''username'', TStr), (''email'', TStr), (''first_name'', TStr),
       (''last_name'', TStr), (''password'', TStr), (''date_joined'', TDatetime),
       (''last_login'', TOptDatetime), (''is_active'', TBool), (''is_staff'', TBool),
       (''is_superuser'', TBool)],
     m_table_name = Some ''auth_user'', m_primary_key_column = Some ''id'',
     m_primary_key_type = Some PkInt, m_primary_key_generator = None,
     m_on_delete_cascade = [],
     m_plural_name = Some ''Users'',
     m_main_columns = [''id'', ''username'', ''email'', ''is_active'', ''is_staff'', ''is_superuser'', ''date_joined'', ''last_login''],
     m_name_columns = [''username'']\<rparr>"

definition AuthSubject_class :: table_class where
  "AuthSubject_class = \<lparr>cls_name = ''AuthSubject'',
     annotations = [
       (''id'', TStr), (''user_id'', TOptInt), (''esc_id'', TOptStr), (''job_family_id'', TOptStr)],
     m_table_name = Some ''registry_authsubject'', m_primary_key_column = Some ''id'',
     m_primary_key_type = None, m_primary_key_generator = Some NewUuid,
     m_on_delete_cascade = [(''user_id'', User), (''esc_id'', Esc), (''job_family_id'', JobFamily)],
     m_plural_name = Some ''Auth Subjects'',
     m_main_columns = [''id'', ''user_id'', ''esc_id'', ''job_family_id''],
     m_name_columns = [''user_id'', ''esc_id'', ''job_family_id'']\<rparr>"

definition AuthToken_class :: table_class where
  "AuthToken_class = \<lparr>cls_name = ''AuthToken'',
     annotations = [
       (''id'', TStr), (''auth_subject_id'', TStr), (''token'', TStr), (''expiry_time'', TOptDatetime),
       (''active'', TBool), (''last_use_time'', TOptDatetime)],
     m_table_name = Some ''registry_authtoken'', m_primary_key_column = Some ''id'',
     m_primary_key_type = None, m_primary_key_generator = Some NewUuid,
     m_on_delete_cascade = [(''auth_subject_id'', AuthSubject)],
     m_plural_name = Some ''Auth Tokens'',
     m_main_columns = [''id'', ''auth_subject_id'', ''active''],
     m_name_columns = []\<rparr>"

definition AuthResourcePermission_class :: table_class where
  "AuthResourcePermission_class = \<lparr>cls_name = ''AuthResourcePermission'',
     annotations = [
       (''id'', TOptInt), (''auth_subject_id'', TStr), (''scope'', TStr), (''job_family_id'', TOptStr),
       (''job_id'', TOptStr), (''endpoint'', TOptStr)],
     m_table_name = Some ''registry_authresourcepermission'', m_primary_key_column = Some ''id'',
     m_primary_key_type = Some PkInt, m_primary_key_generator = None,
     m_on_delete_cascade = [(''auth_subject_id'', AuthSubject), (''job_family_id'', JobFamily), (''job_id'', Job)],
     m_plural_name = Some ''Auth Resource Permissions'',
     m_main_columns = [''id'', ''auth_subject_id'', ''scope'', ''job_family_id'', ''job_id'', ''endpoint''],
     m_name_columns = []\<rparr>"

definition Setting_class :: table_class where
  "Setting_class = \<lparr>cls_name = ''Setting'',
     annotations = [
       (''name'', TStr), (''value'', TOptStr)],
     m_table_name = Some ''registry_setting'', m_primary_key_column = Some ''name'',
     m_primary_key_type = None, m_primary_key_generator = None,
     m_on_delete_cascade = [],
     m_plural_name = Some ''Settings'',
     m_main_columns = [''name'', ''value''],
     m_name_columns = []\<rparr>"

definition AsyncJobCall_class :: table_class where
  "AsyncJobCall_class = \<lparr>cls_name = ''AsyncJobCall'',
     annotations = [
       (''id'', TStr), (''status'', TStr), (''started_at'', TDatetime), (''ended_at'', TOptDatetime),
       (''error'', TOptStr), (''job_name'', TStr), (''job_version'', TStr), (''job_path'', TStr),
       (''request_method'', TStr), (''request_url'', TStr), (''request_headers'', TOptStr),
       (''request_body'', TBytes), (''response_status_code'', TOptInt), (''response_headers'', TOptStr),
       (''response_body'', TBytes), (''attempts'', TInt), (''pub_instance_addr'', TStr),
       (''retriable_error'', TBool)],
     m_table_name = Some ''registry_asyncjobcall'', m_primary_key_column = Some ''id'',
     m_primary_key_type = None, m_primary_key_generator = Some NewUuid,
     m_on_delete_cascade = [],
     m_plural_name = Some ''Async Job Calls'',
     m_main_columns = [''id'', ''status'', ''started_at'', ''job_name''],
     m_name_columns = []\<rparr>"

fun class_of :: "table \<Rightarrow> table_class" where
  "class_of JobFamily = JobFamily_class"
| "class_of Job = Job_class"
| "class_of Deployment = Deployment_class"
| "class_of Esc = Esc_class"
| "class_of PublicEndpointRequest = PublicEndpointRequest_class"
| "class_of TrashJob = TrashJob_class"
| "class_of AuditLogEvent = AuditLogEvent_class"
| "class_of User = User_class"
| "class_of AuthSubject = AuthSubject_class"
| "class_of AuthToken = AuthToken_class"
| "class_of AuthResourcePermission = AuthResourcePermission_class"
| "class_of Setting = Setting_class"
| "class_of AsyncJobCall = AsyncJobCall_class"

definition all_tables :: "table list" where
  "all_tables = [JobFamily, Job, Deployment, Esc, PublicEndpointRequest, TrashJob, AuditLogEvent, User, AuthSubject, AuthToken, AuthResourcePermission, Setting, AsyncJobCall]"

text \<open>The metadata of a table; the assertions of \<open>table_metadata\<close> hold for every declared class.\<close>

definition meta :: "table \<Rightarrow> metadata" where
  "meta t = projr (table_metadata (class_of t))"

lemmas class_defs = JobFamily_class_def Job_class_def Deployment_class_def Esc_class_def
  PublicEndpointRequest_class_def TrashJob_class_def AuditLogEvent_class_def User_class_def
  AuthSubject_class_def AuthToken_class_def AuthResourcePermission_class_def Setting_class_def
  AsyncJobCall_class_def

lemma table_metadata_ok: "table_metadata (class_of t) = Inr (meta t)"
  by (cases t) (simp_all add: meta_def table_metadata_def class_defs Let_def)

abbreviation pk :: "table \<Rightarrow> string" where
  "pk t \<equiv> primary_key_column (meta t)"

abbreviation table_fields :: "table \<Rightarrow> string list" where
  "table_fields t \<equiv> meta_fields (meta t)"

lemma set_all_tables [simp]: "set all_tables = UNIV"
proof -
  have "t \<in> set all_tables" for t
    by (cases t) (simp_all add: all_tables_def)
  then show ?thesis by auto
qed


lemmas meta_eval = meta_def table_metadata_def class_defs Let_def

lemma pk_simps [simp]:
  "pk JobFamily = ''id''"
    "pk Job = ''id''"
    "pk Deployment = ''id''"
    "pk Esc = ''id''"
    "pk PublicEndpointRequest = ''id''"
    "pk TrashJob = ''id''"
    "pk AuditLogEvent = ''id''"
    "pk User = ''id''"
    "pk AuthSubject = ''id''"
    "pk AuthToken = ''id''"
    "pk AuthResourcePermission = ''id''"
    "pk Setting = ''name''"
    "pk AsyncJobCall = ''id''"
  by (simp_all add: meta_eval)

lemma pk_cases: "pk t = (if t = Setting then ''name'' else ''id'')"
  by (cases t) simp_all

lemma generator_simps [simp]:
  "primary_key_generator (meta JobFamily) = Some NewUuid"
    "primary_key_generator (meta Job) = Some NewUuid"
    "primary_key_generator (meta Deployment) = Some NewUuid"
    "primary_key_generator (meta Esc) = Some NewUuid"
    "primary_key_generator (meta PublicEndpointRequest) = Some NewUuid"
    "primary_key_generator (meta TrashJob) = Some NewUuid"
    "primary_key_generator (meta AuditLogEvent) = Some NewUuid"
    "primary_key_generator (meta User) = None"
    "primary_key_generator (meta AuthSubject) = Some NewUuid"
    "primary_key_generator (meta AuthToken) = Some NewUuid"
    "primary_key_generator (meta AuthResourcePermission) = None"
    "primary_key_generator (meta Setting) = None"
    "primary_key_generator (meta AsyncJobCall) = Some NewUuid"
  by (simp_all add: meta_eval)

lemma cascade_simps [simp]:
  "on_delete_cascade (meta JobFamily) = []"
    "on_delete_cascade (meta Job) = [(''family_id'', JobFamily)]"
    "on_delete_cascade (meta Deployment) = []"
    "on_delete_cascade (meta Esc) = []"
    "on_delete_cascade (meta PublicEndpointRequest) = [(''job_id'', Job)]"
    "on_delete_cascade (meta TrashJob) = []"
    "on_delete_cascade (meta AuditLogEvent) = []"
    "on_delete_cascade (meta User) = []"
    "on_delete_cascade (meta AuthSubject) = [(''user_id'', User), (''esc_id'', Esc), (''job_family_id'', JobFamily)]"
    "on_delete_cascade (meta AuthToken) = [(''auth_subject_id'', AuthSubject)]"
    "on_delete_cascade (meta AuthResourcePermission) = [(''auth_subject_id'', AuthSubject), (''job_family_id'', JobFamily), (''job_id'', Job)]"
    "on_delete_cascade (meta Setting) = []"
    "on_delete_cascade (meta AsyncJobCall) = []"
  by (simp_all add: meta_eval)

lemma pk_in_fields: "pk t \<in> set (table_fields t)"
  by (cases t) (simp_all add: meta_eval)

lemma distinct_fields: "distinct (table_fields t)"
  by (cases t) (simp_all add: meta_eval)

lemma keys_column_types: "keys (column_types (meta t)) = table_fields t"
  by (cases t) (simp_all add: meta_eval)

lemma cascade_columns: "(c, o') \<in> set (on_delete_cascade (meta t)) \<Longrightarrow> c \<in> set (table_fields t) \<and> c \<noteq> pk t"
  by (cases t) (auto simp: meta_eval)

section \<open>Unique keys of the schema\<close>

text \<open>The column groups on which the database refuses duplicates: the primary key of every
  table, the family name, the name and version of a job, and the user name.\<close>

definition unique_keys :: "table \<Rightarrow> string list list" where
  "unique_keys t = [pk t] #
     (case t of
        JobFamily \<Rightarrow> [[''name'']]
      | Job \<Rightarrow> [[''name'', ''version'']]
      | User \<Rightarrow> [[''username'']]
      | _ \<Rightarrow> [])"

lemma pk_unique_key: "[pk t] \<in> set (unique_keys t)"
  by (simp add: unique_keys_def)

section \<open>Reverse dependencies\<close>

text \<open>Origin table to the tables and columns that depend on it, in the order in which
  \<open>_populate_delete_cascade_dependants\<close> appends them.\<close>

definition delete_cascade_dependants :: "table \<Rightarrow> (table \<times> string) list" where
  "delete_cascade_dependants origin_table =
     concat (map (\<lambda>dependent_table. map (\<lambda>(dep_column, _). (dependent_table, dep_column))
        (filter (\<lambda>(_, o'). o' = origin_table) (on_delete_cascade (meta dependent_table)))) all_tables)"

text \<open>The dependencies have no cycle: every dependant stands strictly below its origin.\<close>

fun cascade_rank :: "table \<Rightarrow> nat" where
  "cascade_rank JobFamily = 3"
| "cascade_rank User = 3"
| "cascade_rank Esc = 3"
| "cascade_rank Job = 2"
| "cascade_rank AuthSubject = 2"
| "cascade_rank _ = 1"

lemma dependants_iff:
  "(d, c) \<in> set (delete_cascade_dependants t) \<longleftrightarrow> (c, t) \<in> set (on_delete_cascade (meta d))"
  by (auto simp: delete_cascade_dependants_def)

lemma cascade_rank_less: "(c, t) \<in> set (on_delete_cascade (meta d)) \<Longrightarrow> cascade_rank d < cascade_rank t"
  by (cases d) auto

lemma dependants_rank: "(d, c) \<in> set (delete_cascade_dependants t) \<Longrightarrow> cascade_rank d < cascade_rank t"
  by (simp add: dependants_iff cascade_rank_less)

end
