(* ===== verification/Conditions.thy ===== *)
theory Conditions
  imports Schema
begin

text \<open>
  Query conditions (\<open>lifecycle/database/condition_builder.py\<close>). A condition is SQL text with
  placeholders and the list of parameters for them. The text is kept as a syntax tree of the
  expressions the code writes; \<open>render\<close> gives the text itself. Evaluation follows SQL's
  three-valued logic: \<open>None\<close> is unknown.
\<close>

section \<open>Expressions\<close>

datatype colref =
    Bare string
  | Quoted string
  | Qual table string

datatype cmp_op = CmpEq | CmpGe | CmpLt

datatype sqlx =
    Cmp colref cmp_op
  | InList colref nat
  | IsNull colref
  | IsNotNull colref
  | Conj "sqlx list"
  | OrJoin "sqlx list"
  | AndJoin "sqlx list"

fun render_col :: "colref \<Rightarrow> string" where
  "render_col (Bare c) = c"
| "render_col (Quoted c) = CHR 0x22 # c @ [CHR 0x22]"
| "render_col (Qual t c) = table_name (meta t) @ ''.'' @ c"

fun render_op :: "cmp_op \<Rightarrow> string" where
  "render_op CmpEq = '' = ''"
| "render_op CmpGe = '' >= ''"
| "render_op CmpLt = '' < ''"

fun render :: "string \<Rightarrow> sqlx \<Rightarrow> string" where
  "render ph (Cmp c p) = render_col c @ render_op p @ ph"
| "render ph (InList c n) = render_col c @ '' in ('' @ join '', '' (replicate n ph) @ '')''"
| "render ph (IsNull c) = render_col c @ '' is null''"
| "render ph (IsNotNull c) = render_col c @ '' is not NULL''"
| "render ph (Conj xs) = join '' and '' (map (render ph) xs)"
| "render ph (OrJoin xs) = join '' or '' (map (\<lambda>x. ''('' @ render ph x @ '')'') xs)"
| "render ph (AndJoin xs) = join '' and '' (map (\<lambda>x. ''('' @ render ph x @ '')'') xs)"

text \<open>The number of placeholders an expression has.\<close>

fun nparams :: "sqlx \<Rightarrow> nat" where
  "nparams (Cmp c p) = 1"
| "nparams (InList c n) = n"
| "nparams (IsNull c) = 0"
| "nparams (IsNotNull c) = 0"
| "nparams (Conj xs) = sum_list (map nparams xs)"
| "nparams (OrJoin xs) = sum_list (map nparams xs)"
| "nparams (AndJoin xs) = sum_list (map nparams xs)"

section \<open>Three-valued evaluation\<close>

fun and3 :: "bool option \<Rightarrow> bool option \<Rightarrow> bool option" where
  "and3 (Some False) y = Some False"
| "and3 x (Some False) = Some False"
| "and3 (Some True) y = y"
| "and3 None y = None"

fun or3 :: "bool option \<Rightarrow> bool option \<Rightarrow> bool option" where
  "or3 (Some True) y = Some True"
| "or3 x (Some True) = Some True"
| "or3 (Some False) y = y"
| "or3 None y = None"

lemma and3_True [simp]: "and3 x y = Some True \<longleftrightarrow> x = Some True \<and> y = Some True"
  by (cases "(x, y)" rule: and3.cases) auto

lemma or3_True [simp]: "or3 x y = Some True \<longleftrightarrow> x = Some True \<or> y = Some True"
  by (cases "(x, y)" rule: or3.cases) auto

text \<open>Comparison of two values: unknown when one is NULL. Values of one kind compare as such, and
  values of different kinds are never equal.\<close>

fun val_less :: "val \<Rightarrow> val \<Rightarrow> bool" where
  "val_less (VStr a) (VStr b) = (a < b)"
| "val_less (VInt a) (VInt b) = (a < b)"
| "val_less (VFloat a) (VFloat b) = (a < b)"
| "val_less (VDt a) (VDt b) = (a < b)"
| "val_less a b = False"

definition cmp3 :: "cmp_op \<Rightarrow> val \<Rightarrow> val \<Rightarrow> bool option" where
  "cmp3 p a b = (if a = VNone \<or> b = VNone then None else Some (case p of
      CmpEq \<Rightarrow> a = b
    | CmpGe \<Rightarrow> a = b \<or> val_less b a
    | CmpLt \<Rightarrow> val_less a b))"

lemma cmp3_eq_True [simp]: "cmp3 CmpEq a b = Some True \<longleftrightarrow> a = b \<and> a \<noteq> VNone"
  by (auto simp: cmp3_def)

text \<open>Evaluation reads the columns from an environment and consumes the parameters from left to
  right, in the order of the placeholders.\<close>

fun eval :: "(colref \<Rightarrow> val) \<Rightarrow> sqlx \<Rightarrow> val list \<Rightarrow> bool option"
  and eval_and :: "(colref \<Rightarrow> val) \<Rightarrow> sqlx list \<Rightarrow> val list \<Rightarrow> bool option"
  and eval_or :: "(colref \<Rightarrow> val) \<Rightarrow> sqlx list \<Rightarrow> val list \<Rightarrow> bool option" where
  "eval env (Cmp c p) ps = (case ps of [] \<Rightarrow> None | v # _ \<Rightarrow> cmp3 p (env c) v)"
| "eval env (InList c n) ps = foldr (\<lambda>v. or3 (cmp3 CmpEq (env c) v)) (take n ps) (Some False)"
| "eval env (IsNull c) ps = Some (env c = VNone)"
| "eval env (IsNotNull c) ps = Some (env c \<noteq> VNone)"
| "eval env (Conj xs) ps = eval_and env xs ps"
| "eval env (OrJoin xs) ps = eval_or env xs ps"
| "eval env (AndJoin xs) ps = eval_and env xs ps"
| "eval_and env [] ps = Some True"
| "eval_and env (x # xs) ps = and3 (eval env x (take (nparams x) ps)) (eval_and env xs (drop (nparams x) ps))"
| "eval_or env [] ps = Some False"
| "eval_or env (x # xs) ps = or3 (eval env x (take (nparams x) ps)) (eval_or env xs (drop (nparams x) ps))"

lemma eval_InList_True [simp]:
  "eval env (InList c n) ps = Some True \<longleftrightarrow> env c \<noteq> VNone \<and> env c \<in> set (take n ps)"
proof -
  have "foldr (\<lambda>v. or3 (cmp3 CmpEq (env c) v)) vs (Some False) = Some True
    \<longleftrightarrow> env c \<noteq> VNone \<and> env c \<in> set vs" for vs
    by (induction vs) auto
  then show ?thesis by simp
qed

section \<open>Conditions\<close>

record QueryCondition =
  expr :: "sqlx option"
  params :: "val list"

definition expression :: "string \<Rightarrow> QueryCondition \<Rightarrow> string" where
  "expression ph c = (case expr c of None \<Rightarrow> [] | Some x \<Rightarrow> render ph x)"

definition query_condition :: "sqlx \<Rightarrow> val list \<Rightarrow> QueryCondition" where
  "query_condition x ps = \<lparr>expr = Some x, params = ps\<rparr>"

text \<open>\<open>empty\<close> passes an empty list as a parameter, so its parameter list is not empty.\<close>

definition empty :: QueryCondition where
  "empty = \<lparr>expr = None, params = [VList []]\<rparr>"

definition is_empty :: "QueryCondition \<Rightarrow> bool" where
  "is_empty c \<longleftrightarrow> expr c = None"

definition remove_empty :: "QueryCondition list \<Rightarrow> QueryCondition list" where
  "remove_empty cs = filter (\<lambda>c. \<not> is_empty c) cs"

definition operator_or :: "QueryCondition list \<Rightarrow> QueryCondition" where
  "operator_or cs =
     (let conditions_list = remove_empty cs
      in if conditions_list = [] then empty
         else \<lparr>expr = Some (OrJoin (map (\<lambda>c. the (expr c)) conditions_list)),
               params = concat (map params conditions_list)\<rparr>)"

definition operator_and :: "QueryCondition list \<Rightarrow> QueryCondition" where
  "operator_and cs =
     (let conditions_list = remove_empty cs
      in if conditions_list = [] then empty
         else \<lparr>expr = Some (AndJoin (map (\<lambda>c. the (expr c)) conditions_list)),
               params = concat (map params conditions_list)\<rparr>)"

definition filter_conditions :: "QueryCondition \<Rightarrow> sqlx list option" where
  "filter_conditions c = (case expr c of None \<Rightarrow> None | Some x \<Rightarrow> Some [x])"

definition filter_params :: "QueryCondition \<Rightarrow> val list option" where
  "filter_params c = (if params c = [] then None else Some (params c))"

text \<open>The truth of a condition on a row; an empty condition is no restriction.\<close>

definition holds :: "(colref \<Rightarrow> val) \<Rightarrow> QueryCondition \<Rightarrow> bool" where
  "holds env c \<longleftrightarrow> (case expr c of None \<Rightarrow> True | Some x \<Rightarrow> eval env x (params c) = Some True)"

text \<open>A condition is aligned when it has one parameter per placeholder.\<close>

definition aligned :: "QueryCondition \<Rightarrow> bool" where
  "aligned c \<longleftrightarrow> (case expr c of None \<Rightarrow> True | Some x \<Rightarrow> nparams x = length (params c))"

lemma aligned_query_condition [simp]: "aligned (query_condition x ps) \<longleftrightarrow> nparams x = length ps"
  by (simp add: aligned_def query_condition_def)

lemma is_empty_query_condition [simp]: "\<not> is_empty (query_condition x ps)"
  by (simp add: is_empty_def query_condition_def)

lemma is_empty_empty [simp]: "is_empty empty"
  by (simp add: is_empty_def empty_def)

lemma holds_query_condition [simp]:
  "holds env (query_condition x ps) \<longleftrightarrow> eval env x ps = Some True"
  by (simp add: holds_def query_condition_def)

lemma eval_and_concat:
  assumes "\<forall>c \<in> set cs. expr c \<noteq> None \<and> aligned c"
  shows "eval_and env (map (\<lambda>c. the (expr c)) cs) (concat (map params cs)) = Some True
    \<longleftrightarrow> (\<forall>c \<in> set cs. holds env c)"
  using assms
proof (induction cs)
  case (Cons c cs)
  from Cons.prems obtain x where x: "expr c = Some x" and n: "nparams x = length (params c)"
    by (auto simp: aligned_def)
  with Cons show ?case by (simp add: holds_def)
qed simp

lemma eval_or_concat:
  assumes "\<forall>c \<in> set cs. expr c \<noteq> None \<and> aligned c"
  shows "eval_or env (map (\<lambda>c. the (expr c)) cs) (concat (map params cs)) = Some True
    \<longleftrightarrow> (\<exists>c \<in> set cs. holds env c)"
  using assms
proof (induction cs)
  case (Cons c cs)
  from Cons.prems obtain x where x: "expr c = Some x" and n: "nparams x = length (params c)"
    by (auto simp: aligned_def)
  with Cons show ?case by (simp add: holds_def)
qed simp

lemma remove_empty_nonempty: "c \<in> set (remove_empty cs) \<Longrightarrow> expr c \<noteq> None"
  by (auto simp: remove_empty_def is_empty_def)

lemma aligned_join:
  assumes "\<forall>c \<in> set cs. expr c \<noteq> None \<and> aligned c"
  shows "sum_list (map (\<lambda>c. nparams (the (expr c))) cs) = length (concat (map params cs))"
  using assms by (induction cs) (auto simp: aligned_def)

lemma aligned_operator_and: "\<forall>c \<in> set cs. aligned c \<Longrightarrow> aligned (operator_and cs)"
  using aligned_join [of "remove_empty cs"]
  by (auto simp: operator_and_def Let_def aligned_def empty_def remove_empty_def is_empty_def comp_def)

lemma aligned_operator_or: "\<forall>c \<in> set cs. aligned c \<Longrightarrow> aligned (operator_or cs)"
  using aligned_join [of "remove_empty cs"]
  by (auto simp: operator_or_def Let_def aligned_def empty_def remove_empty_def is_empty_def comp_def)

lemma holds_operator_and:
  assumes "\<forall>c \<in> set cs. aligned c"
  shows "holds env (operator_and cs) \<longleftrightarrow> (\<forall>c \<in> set (remove_empty cs). holds env c)"
  using eval_and_concat [of "remove_empty cs" env] assms
  by (auto simp: operator_and_def Let_def holds_def empty_def remove_empty_def is_empty_def)

lemma holds_operator_or:
  assumes "\<forall>c \<in> set cs. aligned c"
  shows "holds env (operator_or cs) \<longleftrightarrow> remove_empty cs = [] \<or> (\<exists>c \<in> set (remove_empty cs). holds env c)"
  using eval_or_concat [of "remove_empty cs" env] assms
  by (auto simp: operator_or_def Let_def holds_def empty_def remove_empty_def is_empty_def)

lemma is_empty_operator: "is_empty (operator_and cs) \<longleftrightarrow> remove_empty cs = []"
  "is_empty (operator_or cs) \<longleftrightarrow> remove_empty cs = []"
  by (simp_all add: operator_and_def operator_or_def Let_def is_empty_def empty_def)

text \<open>
  C32. Combining conditions is compositional: when every condition has one parameter per
  placeholder, so do their conjunction and disjunction, and a row satisfies the conjunction (the
  disjunction) exactly when it satisfies all (some) of the conditions that are not empty; a
  combination of empty conditions restricts nothing.
\<close>
theorem operators_compositional:
  assumes "\<forall>c \<in> set cs. aligned c"
  shows "aligned (operator_and cs) \<and> aligned (operator_or cs)
    \<and> (holds env (operator_and cs) \<longleftrightarrow> (\<forall>c \<in> set cs. is_empty c \<or> holds env c))
    \<and> (holds env (operator_or cs) \<longleftrightarrow> (\<forall>c \<in> set cs. is_empty c) \<or> (\<exists>c \<in> set cs. \<not> is_empty c \<and> holds env c))"
  using assms
  by (auto simp: aligned_operator_and aligned_operator_or holds_operator_and holds_operator_or
      remove_empty_def filter_empty_conv)

theorem operators_compositional_witness:
  "holds (\<lambda>c. if c = Bare ''scope'' then VStr ''call_job'' else VNone)
     (operator_and [query_condition (Cmp (Bare ''scope'') CmpEq) [VStr ''call_job''],
                    query_condition (IsNull (Bare ''job_id'')) []])"
  using operators_compositional [of "[query_condition (Cmp (Bare ''scope'') CmpEq) [VStr ''call_job''],
                    query_condition (IsNull (Bare ''job_id'')) []]"
      "\<lambda>c. if c = Bare ''scope'' then VStr ''call_job'' else VNone"]
  by simp

lemmas condition_simps = holds_operator_and holds_operator_or aligned_operator_and aligned_operator_or
  remove_empty_def is_empty_operator

end
