(* ===== verification/QueryBuilders.thy ===== *)
theory QueryBuilders
  imports Conditions
begin

text \<open>
  The two query builders (\<open>lifecycle/database/sqlite/query_builder.py\<close> and
  \<open>lifecycle/database/postgres/query_builder.py\<close>) behind the abstract \<open>BaseQueryBuilder\<close>. The
  SQLite builder produces text. The PostgreSQL builder composes psycopg's parts (SQL text,
  identifiers, literals, placeholders), which are kept as a list of parts: how psycopg renders
  them is not modelled. The contract of a builder is a locale; both builders are interpretations.
\<close>

section \<open>The SQLite builder\<close>

definition sqlite_placeholder :: string where
  "sqlite_placeholder = ''?''"

definition sqlite_where :: "string list option \<Rightarrow> val list option \<Rightarrow> string option \<times> val list" where
  "sqlite_where conds prms =
     (case conds of
        None \<Rightarrow> (None, [])
      | Some cs \<Rightarrow> if cs = [] then (None, [])
                  else (Some (''where '' @ join '' and '' cs), case prms of None \<Rightarrow> [] | Some ps \<Rightarrow> ps))"

definition sqlite_order_fields :: "string list \<Rightarrow> string list" where
  "sqlite_order_fields order_by =
     map (\<lambda>f. if startswith f ''-'' then tl f @ '' desc'' else f) order_by"

definition append_clause :: "string option \<Rightarrow> string" where
  "append_clause o' = (case o' of None \<Rightarrow> [] | Some s \<Rightarrow> '' '' @ s)"

text \<open>\<open>if limit:\<close> and \<open>if offset:\<close> test the truth of an optional integer, so 0 adds no clause.\<close>

definition number_clause :: "string \<Rightarrow> int option \<Rightarrow> string option" where
  "number_clause kw n = (case n of None \<Rightarrow> None
     | Some i \<Rightarrow> if i = 0 then None else Some (kw @ '' '' @ int_to_str i))"

definition order_clause :: "string list option \<Rightarrow> string option" where
  "order_clause order_by = (case order_by of None \<Rightarrow> None
     | Some fs \<Rightarrow> if fs = [] then None else Some (''order by '' @ join '', '' (sqlite_order_fields fs)))"

definition nonempty :: "string option \<Rightarrow> string option" where
  "nonempty s = (case s of Some [] \<Rightarrow> None | _ \<Rightarrow> s)"

definition sqlite_select :: "string \<Rightarrow> string list \<Rightarrow> string list option \<Rightarrow> val list option \<Rightarrow> string option
    \<Rightarrow> string list option \<Rightarrow> int option \<Rightarrow> int option \<Rightarrow> string \<times> val list" where
  "sqlite_select table fs conds prms join_expression order_by limit offset =
     (let field_expressions = (if nonempty join_expression \<noteq> None
            then map (\<lambda>f. table @ ''.'' @ f @ '' as '' @ f) fs else fs);
          (where_clause, where_params) = sqlite_where conds prms
      in (''select '' @ join '', '' field_expressions @ '' from '' @ table
            @ append_clause (nonempty join_expression)
            @ append_clause where_clause
            @ append_clause (order_clause order_by)
            @ append_clause (number_clause ''limit'' limit)
            @ append_clause (number_clause ''offset'' offset), where_params))"

definition sqlite_insert_one :: "string \<Rightarrow> (string, val) dict \<Rightarrow> string list \<Rightarrow> string \<times> val list" where
  "sqlite_insert_one table data primary_key_columns =
     (''insert into '' @ table @ '' ('' @ join '', '' (keys data) @ '') values (''
        @ join '', '' (replicate (length data) ''?'') @ '') returning '' @ join '', '' primary_key_columns,
      map snd data)"

definition sqlite_update :: "string \<Rightarrow> (string, val) dict \<Rightarrow> string list option \<Rightarrow> val list option
    \<Rightarrow> string \<times> val list" where
  "sqlite_update table new_data conds prms =
     (let (where_clause, where_params) = sqlite_where conds prms
      in (''update '' @ table @ '' set '' @ join '', '' (map (\<lambda>f. f @ '' = ?'') (keys new_data))
            @ append_clause where_clause, map snd new_data @ where_params))"

definition sqlite_delete :: "string \<Rightarrow> string list option \<Rightarrow> val list option \<Rightarrow> string \<times> val list" where
  "sqlite_delete table conds prms =
     (let (where_clause, where_params) = sqlite_where conds prms
      in (''delete from '' @ table @ append_clause where_clause, where_params))"

definition sqlite_count :: "string \<Rightarrow> string list option \<Rightarrow> val list option \<Rightarrow> string \<times> val list" where
  "sqlite_count table conds prms =
     (let (where_clause, where_params) = sqlite_where conds prms
      in (''select count(*) as count from '' @ table @ append_clause where_clause, where_params))"

section \<open>The PostgreSQL builder\<close>

datatype part =
    SQL string
  | Identifier string
  | Literal int
  | Placeholder

definition pg_placeholder :: string where
  "pg_placeholder = ''%s''"

fun sql_join :: "string \<Rightarrow> part list list \<Rightarrow> part list" where
  "sql_join sep [] = []"
| "sql_join sep [x] = x"
| "sql_join sep (x # y # ys) = x @ [SQL sep] @ sql_join sep (y # ys)"

definition pg_where :: "string list option \<Rightarrow> val list option \<Rightarrow> part list \<times> val list \<times> bool" where
  "pg_where conds prms =
     (case conds of
        None \<Rightarrow> ([SQL []], [], False)
      | Some cs \<Rightarrow> if cs = [] then ([SQL []], [], False)
                  else ([SQL ''where ''] @ sql_join '' and '' (map (\<lambda>c. [SQL c]) cs),
                        (case prms of None \<Rightarrow> [] | Some ps \<Rightarrow> ps), True))"

definition pg_order_fields :: "string list \<Rightarrow> part list list" where
  "pg_order_fields order_by =
     map (\<lambda>f. if startswith f ''-'' then [Identifier (tl f), SQL '' desc''] else [Identifier f]) order_by"

definition pg_number_clause :: "string \<Rightarrow> int option \<Rightarrow> part list" where
  "pg_number_clause kw n = (case n of None \<Rightarrow> []
     | Some i \<Rightarrow> if i = 0 then [] else [SQL kw, Literal i])"

definition pg_select :: "string \<Rightarrow> string list \<Rightarrow> string list option \<Rightarrow> val list option \<Rightarrow> string option
    \<Rightarrow> string list option \<Rightarrow> int option \<Rightarrow> int option \<Rightarrow> part list \<times> val list" where
  "pg_select table fs conds prms join_expression order_by limit offset =
     (let field_expressions = (if nonempty join_expression \<noteq> None
            then map (\<lambda>f. [Identifier table, SQL ''.'', Identifier f, SQL '' as '', Identifier f]) fs
            else map (\<lambda>f. [Identifier f]) fs);
          (where_clause, where_params, where_exists) = pg_where conds prms
      in ([SQL ''select ''] @ sql_join '', '' field_expressions @ [SQL '' from '', Identifier table]
            @ (case nonempty join_expression of None \<Rightarrow> [] | Some j \<Rightarrow> [SQL ('' '' @ j)])
            @ (if where_exists then [SQL '' ''] @ where_clause else [])
            @ (case order_by of None \<Rightarrow> [] | Some fs \<Rightarrow>
                 if fs = [] then [] else [SQL '' order by ''] @ sql_join '', '' (pg_order_fields fs))
            @ pg_number_clause '' limit '' limit
            @ pg_number_clause '' offset '' offset, where_params))"

definition pg_insert_one :: "string \<Rightarrow> (string, val) dict \<Rightarrow> string list \<Rightarrow> part list \<times> val list" where
  "pg_insert_one table data primary_key_columns =
     ([SQL ''insert into '', Identifier table, SQL '' (''] @ sql_join '', '' (map (\<lambda>k. [Identifier k]) (keys data))
        @ [SQL '') values (''] @ sql_join '', '' (replicate (length data) [Placeholder])
        @ [SQL '') returning ''] @ sql_join '', '' (map (\<lambda>k. [Identifier k]) primary_key_columns),
      map snd data)"

definition pg_update :: "string \<Rightarrow> (string, val) dict \<Rightarrow> string list option \<Rightarrow> val list option
    \<Rightarrow> part list \<times> val list" where
  "pg_update table new_data conds prms =
     (let (where_clause, where_params, where_exists) = pg_where conds prms
      in ([SQL ''update '', Identifier table, SQL '' set '']
            @ sql_join '', '' (map (\<lambda>f. [Identifier f, SQL '' = %s'']) (keys new_data))
            @ (if where_exists then [SQL '' ''] @ where_clause else []), map snd new_data @ where_params))"

definition pg_delete :: "string \<Rightarrow> string list option \<Rightarrow> val list option \<Rightarrow> part list \<times> val list" where
  "pg_delete table conds prms =
     (let (where_clause, where_params, where_exists) = pg_where conds prms
      in ([SQL ''delete from '', Identifier table]
            @ (if where_exists then [SQL '' ''] @ where_clause else []), where_params))"

definition pg_count :: "string \<Rightarrow> string list option \<Rightarrow> val list option \<Rightarrow> part list \<times> val list" where
  "pg_count table conds prms =
     (let (where_clause, where_params, where_exists) = pg_where conds prms
      in ([SQL ''select count(*) as count from '', Identifier table]
            @ (if where_exists then [SQL '' ''] @ where_clause else []), where_params))"

section \<open>Counting placeholders\<close>

definition count_qm :: "string \<Rightarrow> nat" where
  "count_qm s = length (filter (\<lambda>c. c = CHR ''?'') s)"

fun count_ps :: "string \<Rightarrow> nat" where
  "count_ps (a # b # r) = (if a = CHR ''%'' \<and> b = CHR ''s'' then Suc (count_ps r) else count_ps (b # r))"
| "count_ps s = 0"

fun part_placeholders :: "part \<Rightarrow> nat" where
  "part_placeholders (SQL s) = count_ps s"
| "part_placeholders Placeholder = 1"
| "part_placeholders _ = 0"

definition pg_placeholders :: "part list \<Rightarrow> nat" where
  "pg_placeholders ps = sum_list (map part_placeholders ps)"

lemma count_qm_append [simp]: "count_qm (a @ b) = count_qm a + count_qm b"
  by (simp add: count_qm_def)

lemma count_qm_Cons [simp]: "count_qm (c # s) = (if c = CHR ''?'' then 1 else 0) + count_qm s"
  by (simp add: count_qm_def)

lemma count_qm_Nil [simp]: "count_qm [] = 0"
  by (simp add: count_qm_def)

lemma count_qm_join: "count_qm sep = 0 \<Longrightarrow> count_qm (join sep xs) = sum_list (map count_qm xs)"
  by (induction sep xs rule: join.induct) auto

lemma count_qm_tl: "count_qm s = 0 \<Longrightarrow> count_qm (tl s) = 0"
  by (cases s) auto

lemma count_qm_digits: "list_all is_digit s \<Longrightarrow> count_qm s = 0"
  by (induction s) (auto simp: is_digit_def)

lemma count_qm_int [simp]: "count_qm (int_to_str i) = 0"
  using all_digits_to_str by (auto simp: int_to_str_def all_digits_def count_qm_digits)

lemma pg_placeholders_append [simp]: "pg_placeholders (a @ b) = pg_placeholders a + pg_placeholders b"
  by (simp add: pg_placeholders_def)

lemma pg_placeholders_Cons [simp]: "pg_placeholders (p # b) = part_placeholders p + pg_placeholders b"
  by (simp add: pg_placeholders_def)

lemma pg_placeholders_Nil [simp]: "pg_placeholders [] = 0"
  by (simp add: pg_placeholders_def)

lemma pg_placeholders_join:
  "count_ps sep = 0 \<Longrightarrow> pg_placeholders (sql_join sep xs) = sum_list (map pg_placeholders xs)"
  by (induction sep xs rule: sql_join.induct) auto



lemma count_ps_append: "b = [] \<or> hd b \<noteq> CHR ''s'' \<Longrightarrow> count_ps (a @ b) = count_ps a + count_ps b"
proof (induction a rule: count_ps.induct, goal_cases)
  case (3 c)
  then show ?case by (cases b) auto
qed auto

lemma count_ps_Cons: "c \<noteq> CHR ''%'' \<Longrightarrow> count_ps (c # s) = count_ps s"
  by (cases s) auto

text \<open>A column reference is clean when its name holds no placeholder.\<close>

fun colref_ok :: "(string \<Rightarrow> nat) \<Rightarrow> colref \<Rightarrow> bool" where
  "colref_ok phs (Bare c) = (phs c = 0)"
| "colref_ok phs (Quoted c) = (phs c = 0)"
| "colref_ok phs (Qual t c) = (phs c = 0)"

fun sqlx_ok :: "(string \<Rightarrow> nat) \<Rightarrow> sqlx \<Rightarrow> bool" where
  "sqlx_ok phs (Cmp c p) = colref_ok phs c"
| "sqlx_ok phs (InList c n) = colref_ok phs c"
| "sqlx_ok phs (IsNull c) = colref_ok phs c"
| "sqlx_ok phs (IsNotNull c) = colref_ok phs c"
| "sqlx_ok phs (Conj xs) = list_all (sqlx_ok phs) xs"
| "sqlx_ok phs (OrJoin xs) = list_all (sqlx_ok phs) xs"
| "sqlx_ok phs (AndJoin xs) = list_all (sqlx_ok phs) xs"

lemma table_name_clean: "count_qm (table_name (meta t)) = 0" "count_ps (table_name (meta t)) = 0"
  by (cases t; simp add: meta_eval)+

lemma count_qm_col: "colref_ok count_qm c \<Longrightarrow> count_qm (render_col c) = 0"
  by (cases c) (auto simp: table_name_clean)

lemma count_qm_op: "count_qm (render_op p) = 0"
  by (cases p) auto

lemma sum_list_replicate_one: "sum_list (map f (replicate n x)) = n * f (x :: 'a)" for f :: "'a \<Rightarrow> nat"
  by (simp add: sum_list_replicate)

lemma sqlite_render: "sqlx_ok count_qm x \<Longrightarrow> count_qm (render ''?'' x) = nparams x"
  by (induction x)
    (auto simp: count_qm_col count_qm_op count_qm_join sum_list_replicate comp_def list_all_iff
      intro!: arg_cong [where f = sum_list] map_cong)

lemma count_ps_append2: "a = [] \<or> last a \<noteq> CHR ''%'' \<Longrightarrow> count_ps (a @ b) = count_ps a + count_ps b"
proof (induction a rule: count_ps.induct, goal_cases)
  case (1 x y r)
  then show ?case by (cases r) (auto split: if_splits)
next
  case (3 c)
  then show ?case by (cases b) auto
qed auto

lemma count_ps_join:
  assumes "sep \<noteq> []" "hd sep \<noteq> CHR ''s''" "last sep \<noteq> CHR ''%''" "count_ps sep = 0"
  shows "count_ps (join sep xs) = sum_list (map count_ps xs)"
  using assms
proof (induction sep xs rule: join.induct)
  case (3 sep x y ys)
  then show ?case
    using count_ps_append2 [of sep "join sep (y # ys)"] by (simp add: count_ps_append)
qed auto

lemma count_ps_col: "colref_ok count_ps c \<Longrightarrow> count_ps (render_col c) = 0"
proof (induction c)
  case (Quoted x)
  have "count_ps (x @ [CHR 0x22]) = count_ps x + 0"
    by (subst count_ps_append) simp_all
  with Quoted show ?case by (simp add: count_ps_Cons)
next
  case (Qual t x)
  have "count_ps ((table_name (meta t) @ ''.'') @ x) = count_ps (table_name (meta t) @ ''.'') + count_ps x"
    by (rule count_ps_append2) simp
  also have "count_ps (table_name (meta t) @ ''.'') = count_ps (table_name (meta t)) + count_ps ''.''"
    by (rule count_ps_append) simp
  finally show ?case using Qual by (simp add: table_name_clean)
qed simp

lemma count_ps_op: "count_ps (render_op p @ ''%s'') = 1"
  by (cases p) auto

lemma count_ps_parens: "count_ps (CHR ''('' # s @ '')'') = count_ps s"
  by (simp add: count_ps_Cons count_ps_append)

lemma hd_render_op: "render_op p \<noteq> [] \<and> hd (render_op p) = CHR '' ''"
  by (cases p) auto

lemma pg_render: "sqlx_ok count_ps x \<Longrightarrow> count_ps (render ''%s'' x) = nparams x"
proof (induction x)
  case (Cmp c p)
  have "count_ps (render_col c @ (render_op p @ ''%s'')) = count_ps (render_col c) + 1"
    by (subst count_ps_append) (simp_all add: hd_render_op count_ps_op)
  with Cmp show ?case by (simp add: count_ps_col)
next
  case (InList c n)
  have "count_ps ('' in ('' @ join '', '' (replicate n ''%s'') @ '')'') = n"
    by (simp add: count_ps_Cons count_ps_append count_ps_join sum_list_replicate)
  with InList show ?case
    by (subst render.simps, subst count_ps_append) (simp_all add: count_ps_col)
next
  case (Conj xs)
  then have "sum_list (map (\<lambda>x. count_ps (render ''%s'' x)) xs) = sum_list (map nparams xs)"
    by (auto simp: list_all_iff intro!: arg_cong [where f = sum_list])
  then show ?case by (simp add: count_ps_join comp_def)
next
  case (OrJoin xs)
  then have "sum_list (map (\<lambda>x. count_ps (render ''%s'' x)) xs) = sum_list (map nparams xs)"
    by (auto simp: list_all_iff intro!: arg_cong [where f = sum_list])
  then show ?case by (simp add: count_ps_join comp_def count_ps_parens)
next
  case (AndJoin xs)
  then have "sum_list (map (\<lambda>x. count_ps (render ''%s'' x)) xs) = sum_list (map nparams xs)"
    by (auto simp: list_all_iff intro!: arg_cong [where f = sum_list])
  then show ?case by (simp add: count_ps_join comp_def count_ps_parens)
qed (auto simp: count_ps_append count_ps_col)

section \<open>The contract of a builder\<close>

text \<open>\<open>conds_aligned\<close>: the conditions handed to the builder have as many placeholders as there
  are parameters.\<close>

definition conds_aligned :: "(string \<Rightarrow> nat) \<Rightarrow> string list option \<Rightarrow> val list option \<Rightarrow> bool" where
  "conds_aligned text_phs conds prms \<longleftrightarrow> (case conds of None \<Rightarrow> True | Some cs \<Rightarrow>
     sum_list (map text_phs cs) = (case prms of None \<Rightarrow> 0 | Some ps \<Rightarrow> length ps))"

locale query_builder =
  fixes ph :: string
    and select :: "string \<Rightarrow> string list \<Rightarrow> string list option \<Rightarrow> val list option \<Rightarrow> string option
      \<Rightarrow> string list option \<Rightarrow> int option \<Rightarrow> int option \<Rightarrow> 'q \<times> val list"
    and insert_one :: "string \<Rightarrow> (string, val) dict \<Rightarrow> string list \<Rightarrow> 'q \<times> val list"
    and update_q :: "string \<Rightarrow> (string, val) dict \<Rightarrow> string list option \<Rightarrow> val list option \<Rightarrow> 'q \<times> val list"
    and delete_q :: "string \<Rightarrow> string list option \<Rightarrow> val list option \<Rightarrow> 'q \<times> val list"
    and count_q :: "string \<Rightarrow> string list option \<Rightarrow> val list option \<Rightarrow> 'q \<times> val list"
    and phs :: "'q \<Rightarrow> nat"
    and text_phs :: "string \<Rightarrow> nat"
  assumes select_aligned: "text_phs table = 0 \<Longrightarrow> \<forall>f \<in> set fs. text_phs f = 0 \<Longrightarrow>
      \<forall>j. joined = Some j \<longrightarrow> text_phs j = 0 \<Longrightarrow> \<forall>os. order_by = Some os \<longrightarrow> (\<forall>f \<in> set os. text_phs f = 0) \<Longrightarrow>
      conds_aligned text_phs conds prms \<Longrightarrow>
      phs (fst (select table fs conds prms joined order_by limit offset))
        = length (snd (select table fs conds prms joined order_by limit offset))"
    and insert_aligned: "text_phs table = 0 \<Longrightarrow> \<forall>f \<in> set (keys data @ pks). text_phs f = 0 \<Longrightarrow>
      phs (fst (insert_one table data pks)) = length (snd (insert_one table data pks))"
    and update_aligned: "text_phs table = 0 \<Longrightarrow> \<forall>f \<in> set (keys data). text_phs f = 0 \<Longrightarrow>
      conds_aligned text_phs conds prms \<Longrightarrow>
      phs (fst (update_q table data conds prms)) = length (snd (update_q table data conds prms))"
    and delete_aligned: "text_phs table = 0 \<Longrightarrow> conds_aligned text_phs conds prms \<Longrightarrow>
      phs (fst (delete_q table conds prms)) = length (snd (delete_q table conds prms))"
    and count_aligned: "text_phs table = 0 \<Longrightarrow> conds_aligned text_phs conds prms \<Longrightarrow>
      phs (fst (count_q table conds prms)) = length (snd (count_q table conds prms))"
    and text_render: "sqlx_ok text_phs x \<Longrightarrow> text_phs (render ph x) = nparams x"
begin

lemma filter_texts_aligned:
  assumes "\<forall>k \<in> set (keys kw). text_phs k = 0"
  shows "conds_aligned text_phs (Some (map (\<lambda>k. render ph (Cmp (Bare k) CmpEq)) (keys kw))) (Some (map snd kw))"
proof -
  have "text_phs (render ph (Cmp (Bare k) CmpEq)) = 1" if "k \<in> set (keys kw)" for k
    using that assms text_render [of "Cmp (Bare k) CmpEq"] by (auto simp del: render.simps)
  then have "sum_list (map (\<lambda>k. text_phs (render ph (Cmp (Bare k) CmpEq))) (keys kw)) = length kw"
    by (induction kw) (auto simp del: render.simps)
  then show ?thesis
    by (simp add: conds_aligned_def comp_def del: render.simps)
qed

lemma condition_texts_aligned:
  assumes "sqlx_ok text_phs x" and "nparams x = length ps"
  shows "conds_aligned text_phs (Some [render ph x]) (Some ps)"
  using assms by (simp add: conds_aligned_def text_render)

end

lemma count_qm_clause: "count_qm (append_clause (number_clause kw n)) = (if number_clause kw n = None then 0 else count_qm kw)"
  by (auto simp: append_clause_def number_clause_def split: option.splits)

lemma sqlite_where_count:
  "conds_aligned count_qm conds prms \<Longrightarrow>
     count_qm (append_clause (fst (sqlite_where conds prms))) = length (snd (sqlite_where conds prms))"
  by (auto simp: conds_aligned_def sqlite_where_def append_clause_def count_qm_join split: option.splits)

lemma order_clause_count:
  assumes "\<forall>os. order_by = Some os \<longrightarrow> (\<forall>f \<in> set os. count_qm f = 0)"
  shows "count_qm (append_clause (order_clause order_by)) = 0"
  using assms
  by (auto simp: append_clause_def order_clause_def sqlite_order_fields_def count_qm_join count_qm_tl
      split: option.splits)

interpretation sqlite: query_builder "''?''" sqlite_select sqlite_insert_one sqlite_update sqlite_delete
  sqlite_count count_qm count_qm
proof (standard, goal_cases)
  case (1 table fs joined order_by conds prms limit offset)
  have "sum_list (map count_qm (map (\<lambda>f. table @ ''.'' @ f @ '' as '' @ f) fs)) = 0"
    and "sum_list (map count_qm fs) = 0"
    using 1(1,2) by (auto simp: sum_list_eq_0_iff)
  moreover have "count_qm (append_clause (nonempty joined)) = 0"
    using 1(3) by (auto simp: append_clause_def nonempty_def split: option.splits list.splits)
  ultimately show ?case
    using 1(1) sqlite_where_count [OF 1(5)] order_clause_count [OF 1(4)]
    by (simp add: sqlite_select_def Let_def case_prod_unfold count_qm_join count_qm_clause)
next
  case (2 table data pks)
  then have "sum_list (map count_qm (keys data)) = 0" and "sum_list (map count_qm pks) = 0"
    by (auto simp: sum_list_eq_0_iff)
  with 2 show ?case
    by (simp add: sqlite_insert_one_def count_qm_join sum_list_replicate)
next
  case (3 table data conds prms)
  have "sum_list (map count_qm (map (\<lambda>f. f @ '' = ?'') (keys data))) = length data"
    using 3(2) by (induction data) auto
  with 3 sqlite_where_count [OF 3(3)] show ?case
    by (simp add: sqlite_update_def Let_def case_prod_unfold count_qm_join)
next
  case (4 table conds prms)
  with sqlite_where_count [OF 4(2)] show ?case
    by (simp add: sqlite_delete_def Let_def case_prod_unfold)
next
  case (5 table conds prms)
  with sqlite_where_count [OF 5(2)] show ?case
    by (simp add: sqlite_count_def Let_def case_prod_unfold)
next
  case (6 x)
  then show ?case by (rule sqlite_render)
qed

lemma pg_where_count:
  assumes "conds_aligned count_ps conds prms"
  shows "(if snd (snd (pg_where conds prms)) then pg_placeholders (fst (pg_where conds prms)) else 0)
    = length (fst (snd (pg_where conds prms)))"
  using assms
  by (auto simp: conds_aligned_def pg_where_def pg_placeholders_join comp_def split: option.splits)

lemma pg_order_count: "pg_placeholders (sql_join '', '' (pg_order_fields fs)) = 0"
  by (auto simp: pg_placeholders_join pg_order_fields_def sum_list_eq_0_iff)

lemma pg_number_count: "count_ps kw = 0 \<Longrightarrow> pg_placeholders (pg_number_clause kw n) = 0"
  by (auto simp: pg_number_clause_def split: option.splits)

interpretation postgres: query_builder "''%s''" pg_select pg_insert_one pg_update pg_delete pg_count
  pg_placeholders count_ps
proof (standard, goal_cases)
  case (1 table fs joined order_by conds prms limit offset)
  have fields: "sum_list (map pg_placeholders (map (\<lambda>f. [Identifier table, SQL ''.'', Identifier f, SQL '' as '', Identifier f]) fs)) = 0"
    "sum_list (map pg_placeholders (map (\<lambda>f. [Identifier f]) fs)) = 0"
    by (auto simp: sum_list_eq_0_iff)
  moreover have "pg_placeholders (case nonempty joined of None \<Rightarrow> [] | Some j \<Rightarrow> [SQL ('' '' @ j)]) = 0"
    using 1(3) by (auto simp: nonempty_def count_ps_Cons split: option.splits list.splits)
  moreover have "pg_placeholders (case order_by of None \<Rightarrow> [] | Some fs \<Rightarrow>
                 if fs = [] then [] else [SQL '' order by ''] @ sql_join '', '' (pg_order_fields fs)) = 0"
    by (auto simp: pg_order_count split: option.splits)
  ultimately show ?case
    using pg_where_count [OF 1(5)]
    by (simp add: pg_select_def Let_def case_prod_unfold pg_placeholders_join pg_number_count split: if_splits)
next
  case (2 table data pks)
  have "sum_list (map pg_placeholders (map (\<lambda>k. [Identifier k]) ks)) = 0" for ks
    by (auto simp: sum_list_eq_0_iff)
  then show ?case
    by (simp add: pg_insert_one_def pg_placeholders_join sum_list_replicate del: map_map)
next
  case (3 table data conds prms)
  have "sum_list (map pg_placeholders (map (\<lambda>f. [Identifier f, SQL '' = %s'']) (keys data))) = length data"
    by (induction data) auto
  with pg_where_count [OF 3(3)] show ?case
    by (simp add: pg_update_def Let_def case_prod_unfold pg_placeholders_join del: map_map split: if_splits)
next
  case (4 table conds prms)
  with pg_where_count [OF 4(2)] show ?case
    by (simp add: pg_delete_def Let_def case_prod_unfold split: if_splits)
next
  case (5 table conds prms)
  with pg_where_count [OF 5(2)] show ?case
    by (simp add: pg_count_def Let_def case_prod_unfold split: if_splits)
next
  case (6 x)
  then show ?case by (rule pg_render)
qed

section \<open>The queries of the mapper\<close>

text \<open>The conditions of keyword filters and the columns of the tables hold no placeholder of their own.\<close>

definition kw_conditions :: "string \<Rightarrow> (string, val) dict \<Rightarrow> string list" where
  "kw_conditions ph kw = map (\<lambda>k. render ph (Cmp (Bare k) CmpEq)) (keys kw)"

lemma fields_clean: "f \<in> set (table_fields t) \<Longrightarrow> count_qm f = 0 \<and> count_ps f = 0"
  by (cases t) (auto simp: meta_eval)

lemma order_clean:
  assumes "f \<in> set (table_fields t) \<union> (Cons (CHR ''-'')) ` set (table_fields t)"
  shows "count_qm f = 0" and "count_ps f = 0"
  using assms fields_clean by (auto simp: count_ps_Cons)

text \<open>
  Both builders produce queries with one placeholder per parameter: for keyword filters on the
  columns of a table, the select (with any order, limit and offset), the count, the update and the
  delete of the SQLite builder have as many question marks as parameters, and the PostgreSQL
  builder's as many placeholders; so has the insert of any data on the table's columns.
\<close>
lemma builders_aligned:
  assumes "set (keys kw) \<subseteq> set (table_fields t)" and "set (keys data) \<subseteq> set (table_fields t)"
    and "set order_by \<subseteq> set (table_fields t) \<union> (Cons (CHR ''-'')) ` set (table_fields t)"
    and "set pks \<subseteq> set (table_fields t)"
  shows "(let T = table_name (meta t); cs = Some (kw_conditions ''?'' kw); ps = Some (map snd kw);
             al = (\<lambda>q. count_qm (fst q) = length (snd q))
          in al (sqlite_select T (table_fields t) cs ps None (Some order_by) limit offset)
             \<and> al (sqlite_count T cs ps) \<and> al (sqlite_update T data cs ps) \<and> al (sqlite_delete T cs ps)
             \<and> al (sqlite_insert_one T data pks))
       \<and> (let T = table_name (meta t); cs = Some (kw_conditions ''%s'' kw); ps = Some (map snd kw);
             al = (\<lambda>q. pg_placeholders (fst q) = length (snd q))
          in al (pg_select T (table_fields t) cs ps None (Some order_by) limit offset)
             \<and> al (pg_count T cs ps) \<and> al (pg_update T data cs ps) \<and> al (pg_delete T cs ps)
             \<and> al (pg_insert_one T data pks))"
proof -
  have clean: "\<forall>f \<in> set (keys kw). count_qm f = 0" "\<forall>f \<in> set (keys kw). count_ps f = 0"
    "\<forall>f \<in> set (keys data). count_qm f = 0" "\<forall>f \<in> set (keys data). count_ps f = 0"
    "\<forall>f \<in> set (keys data @ pks). count_qm f = 0" "\<forall>f \<in> set (keys data @ pks). count_ps f = 0"
    "\<forall>f \<in> set (table_fields t). count_qm f = 0" "\<forall>f \<in> set (table_fields t). count_ps f = 0"
    using assms(1,2,4) fields_clean [of _ t] by (fastforce dest: subsetD)+
  have order: "\<forall>os. Some order_by = Some os \<longrightarrow> (\<forall>f \<in> set os. count_qm f = 0)"
    "\<forall>os. Some order_by = Some os \<longrightarrow> (\<forall>f \<in> set os. count_ps f = 0)"
    by (auto intro!: order_clean [OF subsetD [OF assms(3)]])
  note s = sqlite.filter_texts_aligned [OF clean(1), folded kw_conditions_def]
  note p = postgres.filter_texts_aligned [OF clean(2), folded kw_conditions_def]
  have j: "\<forall>j. None = Some j \<longrightarrow> phs j = (0 :: nat)" for phs :: "string \<Rightarrow> nat"
    by simp
  show ?thesis
    unfolding Let_def
    by (intro conjI sqlite.select_aligned [OF _ _ j] postgres.select_aligned [OF _ _ j] sqlite.count_aligned
        postgres.count_aligned sqlite.update_aligned postgres.update_aligned sqlite.delete_aligned
        postgres.delete_aligned sqlite.insert_aligned postgres.insert_aligned table_name_clean clean order s p)
qed

lemma builders_aligned_witness:
  "let q = sqlite_count (table_name (meta Job)) (Some (kw_conditions ''?'' [(''name'', VStr ''adder'')])) (Some [VStr ''adder''])
   in count_qm (fst q) = length (snd q)"
  using builders_aligned [of "[(''name'', VStr ''adder'')]" Job "[]" "[]" "[]" None None]
  unfolding Let_def by (simp add: meta_eval)

end
