(* ===== verification/Store.thy ===== *)
theory Store
  imports Conditions
begin

text \<open>
  The database behind the Lifecycle server, as its PostgreSQL engine uses it
  (\<open>lifecycle/database/postgres/engine.py\<close>, \<open>lifecycle/database/query_wrapper.py\<close>). The state is
  the rows of every table in the order of their insertion; a statement is what a query builder
  renders, kept as a value instead of text. The server's part is the documented behaviour of
  PostgreSQL on the schema of \<open>lifecycle/django/registry/models.py\<close>: columns have types, unique keys
  and NOT NULL are checked by the statement, foreign keys when it commits, and a connection that is
  left with an exception is rolled back. Rows that an order leaves tied keep their insertion order.
\<close>

section \<open>The state\<close>

type_synonym row = "(string, val) dict"

text \<open>Beside the tables, the state holds what the outside world supplies: the stream of fresh
  identifiers, the readings of the clock, and the parsers of library code.\<close>

record world =
  db :: "table \<Rightarrow> row list"
  last_id :: "table \<Rightarrow> int"
  uuid_of :: "nat \<Rightarrow> string"
  uuid_count :: nat
  time_of :: "nat \<Rightarrow> int"
  ticks :: nat
  dt_parse :: "string \<Rightarrow> exn + int"
  builtin_cast :: "ColumnType \<Rightarrow> val \<Rightarrow> exn + val"

type_synonym ('x, 'a) dbm = "('x world_scheme, 'a) py"

definition new_uuid :: "('x, string) dbm" where
  "new_uuid = (\<lambda>w. (Inr (uuid_of w (uuid_count w)), w\<lparr>uuid_count := Suc (uuid_count w)\<rparr>))"

definition now :: "('x, int) dbm" where
  "now = (\<lambda>w. (Inr (time_of w (ticks w)), w\<lparr>ticks := Suc (ticks w)\<rparr>))"

definition row_val :: "row \<Rightarrow> string \<Rightarrow> val" where
  "row_val r c = (case map_of r c of None \<Rightarrow> VNone | Some v \<Rightarrow> v)"

definition col_type :: "table \<Rightarrow> string \<Rightarrow> ColumnType" where
  "col_type t c = (case map_of (column_types (meta t)) c of None \<Rightarrow> UNKNOWN | Some ty \<Rightarrow> ty)"

section \<open>Integrity\<close>

definition key_of :: "string list \<Rightarrow> row \<Rightarrow> val list" where
  "key_of ks r = map (row_val r) ks"

definition unique_ok :: "table \<Rightarrow> row list \<Rightarrow> bool" where
  "unique_ok t rows = list_all (\<lambda>ks. distinct (map (key_of ks) rows)) (unique_keys t)"

definition row_ok :: "table \<Rightarrow> row \<Rightarrow> bool" where
  "row_ok t r \<longleftrightarrow> keys r = table_fields t \<and> row_val r (pk t) \<noteq> VNone
     \<and> list_all (\<lambda>(c, v). has_type (col_type t c) v) r"

definition fk_ok :: "(table \<Rightarrow> row list) \<Rightarrow> bool" where
  "fk_ok d = list_all (\<lambda>t. list_all (\<lambda>(c, o').
     list_all (\<lambda>r. row_val r c = VNone \<or> row_val r c \<in> set (map (\<lambda>q. row_val q (pk o')) (d o'))) (d t))
       (on_delete_cascade (meta t))) all_tables"

definition db_ok :: "(table \<Rightarrow> row list) \<Rightarrow> bool" where
  "db_ok d \<longleftrightarrow> list_all (\<lambda>t. list_all (row_ok t) (d t) \<and> unique_ok t (d t)) all_tables \<and> fk_ok d"

abbreviation wf :: "'x world_scheme \<Rightarrow> bool" where
  "wf w \<equiv> db_ok (db w)"

section \<open>Evaluation of statements\<close>

text \<open>A left join \<open>(t, c, t', c')\<close> stands for \<open>left join t on t.c = t'.c'\<close>. A joined row has a row
  of every table of the join, or none where the join found no partner.\<close>

type_synonym left_join = "table \<times> string \<times> table \<times> string"
type_synonym joined = "(table \<times> row) list"

fun joined_env :: "table \<Rightarrow> joined \<Rightarrow> colref \<Rightarrow> val" where
  "joined_env t j (Bare c) = (case map_of j t of None \<Rightarrow> VNone | Some r \<Rightarrow> row_val r c)"
| "joined_env t j (Quoted c) = (case map_of j t of None \<Rightarrow> VNone | Some r \<Rightarrow> row_val r c)"
| "joined_env t j (Qual t' c) = (case map_of j t' of None \<Rightarrow> VNone | Some r \<Rightarrow> row_val r c)"

definition join_step :: "(table \<Rightarrow> row list) \<Rightarrow> left_join \<Rightarrow> joined \<Rightarrow> joined list" where
  "join_step d l j =
     (case l of (t, c, t', c') \<Rightarrow>
        let partners = filter (\<lambda>r. cmp3 CmpEq (row_val r c) (joined_env t' j (Qual t' c')) = Some True) (d t)
        in if partners = [] then [j] else map (\<lambda>r. (t, r) # j) partners)"

fun join_all :: "(table \<Rightarrow> row list) \<Rightarrow> left_join list \<Rightarrow> joined list \<Rightarrow> joined list" where
  "join_all d [] js = js"
| "join_all d (l # ls) js = join_all d ls (concat (map (join_step d l) js))"

definition where_holds :: "sqlx list option \<Rightarrow> val list option \<Rightarrow> (colref \<Rightarrow> val) \<Rightarrow> bool" where
  "where_holds conds prms env =
     (case conds of None \<Rightarrow> True
      | Some cs \<Rightarrow> cs = [] \<or> eval env (Conj cs) (case prms of None \<Rightarrow> [] | Some ps \<Rightarrow> ps) = Some True)"

definition row_env :: "table \<Rightarrow> row \<Rightarrow> colref \<Rightarrow> val" where
  "row_env t r = joined_env t [(t, r)]"

lemma row_env_simps [simp]:
  "row_env t r (Bare c) = row_val r c"
  "row_env t r (Quoted c) = row_val r c"
  "row_env t r (Qual t c) = row_val r c"
  by (simp_all add: row_env_def)

text \<open>Ordering: values of one column compare as values of their type, NULL after every value.\<close>

definition val_before :: "val \<Rightarrow> val \<Rightarrow> bool" where
  "val_before a b \<longleftrightarrow> a \<noteq> VNone \<and> (b = VNone \<or> val_less a b \<or> (a = VBool False \<and> b = VBool True))"

fun row_before :: "string list \<Rightarrow> row \<Rightarrow> row \<Rightarrow> bool" where
  "row_before [] a b = False"
| "row_before (k # ks) a b =
     (let (c, desc) = (if startswith k ''-'' then (tl k, True) else (k, False));
          x = row_val a c; y = row_val b c
      in if (if desc then val_before y x else val_before x y) then True
         else if (if desc then val_before x y else val_before y x) then False
         else row_before ks a b)"

fun insert_row :: "string list \<Rightarrow> row \<Rightarrow> row list \<Rightarrow> row list" where
  "insert_row ks r [] = [r]"
| "insert_row ks r (q # qs) = (if row_before ks q r then q # insert_row ks r qs else r # q # qs)"

definition order_rows :: "string list option \<Rightarrow> row list \<Rightarrow> row list" where
  "order_rows order_by rows = (case order_by of None \<Rightarrow> rows | Some ks \<Rightarrow> foldr (insert_row ks) rows [])"

definition limit_rows :: "int option \<Rightarrow> int option \<Rightarrow> row list \<Rightarrow> row list" where
  "limit_rows limit offset rows =
     (let skipped = (case offset of None \<Rightarrow> rows | Some n \<Rightarrow> if n = 0 then rows else drop (nat n) rows)
      in case limit of None \<Rightarrow> skipped | Some n \<Rightarrow> if n = 0 then skipped else take (nat n) skipped)"

definition project :: "string list \<Rightarrow> row \<Rightarrow> row" where
  "project fs r = map (\<lambda>f. (f, row_val r f)) fs"

definition matching :: "(table \<Rightarrow> row list) \<Rightarrow> table \<Rightarrow> left_join list \<Rightarrow> sqlx list option \<Rightarrow> val list option \<Rightarrow> row list" where
  "matching d t joins conds prms =
     map (\<lambda>j. the (map_of j t))
       (filter (\<lambda>j. where_holds conds prms (joined_env t j)) (join_all d joins (map (\<lambda>r. [(t, r)]) (d t))))"

datatype stmt =
    SelectS table "string list" "sqlx list option" "val list option" "left_join list" "string list option" "int option" "int option"
  | InsertS table row "string list"
  | UpdateS table "sqlx list option" "val list option" row
  | DeleteS table "sqlx list option" "val list option"
  | CountS table "sqlx list option" "val list option"

definition integrity_error :: exn where
  "integrity_error = AlreadyExists ''integrity error''"

definition database_error :: "string \<Rightarrow> exn" where
  "database_error cls = ContextError (''Database error: '' @ cls) (Some (DatabaseError cls))"

text \<open>Storing a value in a column: an integer becomes a float in a float column; NULL in a primary
  key or another NOT NULL column breaks the integrity, any other mismatch is an error of the statement.\<close>

definition store_val :: "table \<Rightarrow> string \<Rightarrow> val \<Rightarrow> exn + val" where
  "store_val t c v =
     (if v = VNone \<and> c = pk t then Inl integrity_error
      else if has_type (col_type t c) v then Inr v
      else if v = VNone then Inl integrity_error
      else case v of
          VInt i \<Rightarrow> if col_type t c = FLOAT then Inr (VFloat (of_int i)) else Inl (database_error ''DatatypeMismatch'')
        | _ \<Rightarrow> Inl (database_error ''DatatypeMismatch''))"

fun store_vals :: "table \<Rightarrow> row \<Rightarrow> exn + row" where
  "store_vals t [] = Inr []"
| "store_vals t ((c, v) # r) =
     (case store_val t c v of Inl e \<Rightarrow> Inl e
      | Inr v' \<Rightarrow> (case store_vals t r of Inl e \<Rightarrow> Inl e | Inr r' \<Rightarrow> Inr ((c, v') # r')))"

definition auto_id :: "table \<Rightarrow> bool" where
  "auto_id t \<longleftrightarrow> primary_key_type (meta t) = PkInt"

text \<open>The row an insert writes: columns that are not given are NULL, except for the identifier of a
  table that numbers its rows.\<close>

definition full_row :: "table \<Rightarrow> int \<Rightarrow> row \<Rightarrow> row" where
  "full_row t next_id data =
     map (\<lambda>c. (c, case map_of data c of Some v \<Rightarrow> v
                 | None \<Rightarrow> if c = pk t \<and> auto_id t then VInt next_id else VNone)) (table_fields t)"

definition set_cols :: "row \<Rightarrow> row \<Rightarrow> row" where
  "set_cols new r = map (\<lambda>(c, v). (c, case map_of new c of Some v' \<Rightarrow> v' | None \<Rightarrow> v)) r"

definition order_columns :: "string list option \<Rightarrow> string list" where
  "order_columns order_by = (case order_by of None \<Rightarrow> []
     | Some ks \<Rightarrow> map (\<lambda>k. if startswith k ''-'' then tl k else k) ks)"

text \<open>\<open>run_stmt\<close> returns the rows of the result and the number of rows the statement affected.\<close>

fun run_stmt :: "stmt \<Rightarrow> ('x, row list \<times> nat) dbm" where
  "run_stmt (SelectS t fs conds prms joins order_by limit offset) =
     (if set (fs @ order_columns order_by) \<subseteq> set (table_fields t)
      then gets (\<lambda>w. let rows = limit_rows limit offset (order_rows order_by (matching (db w) t joins conds prms))
                     in (map (project fs) rows, length rows))
      else raise (database_error ''UndefinedColumn''))"
| "run_stmt (CountS t conds prms) =
     gets (\<lambda>w. ([[(''count'', VInt (int (length (matching (db w) t [] conds prms))))]], 1))"
| "run_stmt (InsertS t data pks) = (\<lambda>w.
     if \<not> set (keys data @ pks) \<subseteq> set (table_fields t) then (Inl (database_error ''UndefinedColumn''), w)
     else let n = last_id w t + 1;
              w1 = (if auto_id t \<and> pk t \<notin> set (keys data) then w\<lparr>last_id := (last_id w)(t := n)\<rparr> else w)
          in case store_vals t (full_row t n data) of
               Inl e \<Rightarrow> (Inl e, w1)
             | Inr r \<Rightarrow>
                 if unique_ok t (db w t @ [r])
                 then (Inr ([project pks r], 1), w1\<lparr>db := (db w1)(t := db w t @ [r])\<rparr>)
                 else (Inl integrity_error, w1))"
| "run_stmt (UpdateS t conds prms data) = (\<lambda>w.
     if data = [] then (Inl (database_error ''SyntaxError''), w)
     else if \<not> set (keys data) \<subseteq> set (table_fields t) then (Inl (database_error ''UndefinedColumn''), w)
     else case store_vals t data of
         Inl e \<Rightarrow> (Inl e, w)
       | Inr new \<Rightarrow>
           let hit = (\<lambda>r. where_holds conds prms (row_env t r));
               rows = map (\<lambda>r. if hit r then set_cols new r else r) (db w t)
           in if unique_ok t rows
              then (Inr ([], length (filter hit (db w t))), w\<lparr>db := (db w)(t := rows)\<rparr>)
              else (Inl integrity_error, w))"
| "run_stmt (DeleteS t conds prms) = (\<lambda>w.
     let hit = (\<lambda>r. where_holds conds prms (row_env t r))
     in (Inr ([], length (filter hit (db w t))), w\<lparr>db := (db w)(t := filter (\<lambda>r. \<not> hit r) (db w t))\<rparr>))"

section \<open>The engine\<close>

text \<open>A block on a pooled connection: an exception rolls the tables back, otherwise the commit
  refuses a change that breaks a foreign key.\<close>

definition with_connection :: "('x, 'a) dbm \<Rightarrow> ('x, 'a) dbm" where
  "with_connection m = (\<lambda>w. case m w of
     (Inl e, w') \<Rightarrow> (Inl e, w'\<lparr>db := db w\<rparr>)
   | (Inr x, w') \<Rightarrow> if fk_ok (db w) \<longrightarrow> fk_ok (db w') then (Inr x, w')
                    else (Inl integrity_error, w'\<lparr>db := db w\<rparr>))"

definition check_affected_rows :: "int \<Rightarrow> nat \<Rightarrow> ('w, unit) py" where
  "check_affected_rows expected actual =
     (if expected > 0 then
        if int actual > expected then
          raise (TooManyRowsAffected (''Affected too many rows: '' @ nat_to_str actual @ '', expected '' @ int_to_str expected))
        else if actual = 0 then
          raise (NoRowsAffected (''No rows affected, expected '' @ int_to_str expected))
        else if int actual \<noteq> expected then
          raise (RuntimeError (''Expected '' @ int_to_str expected @ '' rows affected, but got '' @ nat_to_str actual))
        else ret ()
      else ret ())"

definition execute_sql :: "stmt \<Rightarrow> int \<Rightarrow> ('x, unit) dbm" where
  "execute_sql query expected_affected_rows = with_connection (
     bind (run_stmt query) (\<lambda>(rows, rowcount). check_affected_rows expected_affected_rows rowcount))"

definition execute_sql_fetch_one :: "stmt \<Rightarrow> ('x, row option) dbm" where
  "execute_sql_fetch_one query = with_connection (
     bind (run_stmt query) (\<lambda>(rows, rowcount). ret (case rows of [] \<Rightarrow> None | r # _ \<Rightarrow> Some r)))"

definition execute_sql_fetch_all :: "stmt \<Rightarrow> ('x, row list) dbm" where
  "execute_sql_fetch_all query = with_connection (
     bind (run_stmt query) (\<lambda>(rows, rowcount). ret rows))"

section \<open>The query wrapper\<close>

definition select_many :: "table \<Rightarrow> string list \<Rightarrow> sqlx list option \<Rightarrow> val list option \<Rightarrow> left_join list
    \<Rightarrow> string list option \<Rightarrow> int option \<Rightarrow> int option \<Rightarrow> ('x, row list) dbm" where
  "select_many t fs conds prms joins order_by limit offset =
     execute_sql_fetch_all (SelectS t fs conds prms joins order_by limit offset)"

definition select_one :: "table \<Rightarrow> string list \<Rightarrow> sqlx list \<Rightarrow> val list \<Rightarrow> ('x, row option) dbm" where
  "select_one t fs conds prms =
     execute_sql_fetch_one (SelectS t fs (Some conds) (Some prms) [] None (Some 1) None)"

definition insert_one :: "table \<Rightarrow> row \<Rightarrow> string list \<Rightarrow> ('x, row) dbm" where
  "insert_one t data primary_key_columns =
     bind (execute_sql_fetch_one (InsertS t data primary_key_columns)) (\<lambda>returning_row.
       case returning_row of None \<Rightarrow> raise (AssertionError ''returning row is empty'') | Some r \<Rightarrow> ret r)"

definition count_rows :: "table \<Rightarrow> sqlx list option \<Rightarrow> val list option \<Rightarrow> ('x, int) dbm" where
  "count_rows t conds prms =
     bind (execute_sql_fetch_one (CountS t conds prms)) (\<lambda>row.
       case row of None \<Rightarrow> raise (AssertionError [])
       | Some r \<Rightarrow> (case map_of r ''count'' of Some (VInt n) \<Rightarrow> ret n | _ \<Rightarrow> raise (KeyError (py_repr ''count''))))"

definition update_one :: "table \<Rightarrow> sqlx list \<Rightarrow> val list \<Rightarrow> row \<Rightarrow> ('x, unit) dbm" where
  "update_one t conds prms new_data = execute_sql (UpdateS t (Some conds) (Some prms) new_data) 1"

definition update_many :: "table \<Rightarrow> sqlx list \<Rightarrow> val list \<Rightarrow> row \<Rightarrow> ('x, unit) dbm" where
  "update_many t conds prms new_data = execute_sql (UpdateS t (Some conds) (Some prms) new_data) (- 1)"

definition delete_one :: "table \<Rightarrow> sqlx list option \<Rightarrow> val list option \<Rightarrow> ('x, unit) dbm" where
  "delete_one t conds prms = execute_sql (DeleteS t conds prms) 1"

section \<open>The invariant in logical form\<close>

lemma fk_ok_iff:
  "fk_ok d \<longleftrightarrow> (\<forall>t c o'. (c, o') \<in> set (on_delete_cascade (meta t)) \<longrightarrow>
     (\<forall>r \<in> set (d t). row_val r c = VNone \<or> (\<exists>q \<in> set (d o'). row_val q (pk o') = row_val r c)))"
  unfolding fk_ok_def list_all_iff set_all_tables by (fastforce simp: image_iff)

lemma db_ok_iff:
  "db_ok d \<longleftrightarrow> (\<forall>t. (\<forall>r \<in> set (d t). row_ok t r) \<and> unique_ok t (d t)) \<and> fk_ok d"
  by (simp add: db_ok_def list_all_iff)

lemma db_okD:
  assumes "db_ok d"
  shows "r \<in> set (d t) \<Longrightarrow> row_ok t r" and "unique_ok t (d t)" and "fk_ok d"
  using assms by (auto simp: db_ok_iff)

lemma row_ok_keys: "row_ok t r \<Longrightarrow> keys r = table_fields t"
  by (simp add: row_ok_def)

lemma row_val_mem: "distinct (keys r) \<Longrightarrow> (c, v) \<in> set r \<Longrightarrow> row_val r c = v"
  by (simp add: row_val_def)

lemma project_row:
  assumes "row_ok t r"
  shows "project (table_fields t) r = r"
proof -
  have "row_val r (fst p) = snd p" if "p \<in> set r" for p
    using that row_ok_keys [OF assms] distinct_fields [of t] by (metis prod.collapse row_val_mem)
  then have "map (\<lambda>f. (f, row_val r f)) (keys r) = r"
    by (auto intro!: map_idI)
  then show ?thesis
    using row_ok_keys [OF assms] by (simp add: project_def)
qed

lemma row_ok_val:
  assumes "row_ok t r" and "c \<in> set (table_fields t)"
  shows "has_type (col_type t c) (row_val r c)"
proof -
  have "(c, row_val r c) \<in> set (project (table_fields t) r)"
    using assms(2) by (simp add: project_def)
  then show ?thesis
    using assms(1) project_row [OF assms(1)] by (auto simp: row_ok_def list_all_iff)
qed

lemma row_eqI:
  assumes "row_ok t r" and "row_ok t q" and "\<And>c. c \<in> set (table_fields t) \<Longrightarrow> row_val r c = row_val q c"
  shows "r = q"
proof -
  have "project (table_fields t) r = project (table_fields t) q"
    using assms(3) by (simp add: project_def)
  then show ?thesis by (simp add: project_row assms)
qed

text \<open>The primary key identifies a row.\<close>

lemma unique_pk: "unique_ok t rows \<Longrightarrow> distinct (map (\<lambda>r. row_val r (pk t)) rows)"
  using pk_unique_key [of t]
  by (auto simp: unique_ok_def list_all_iff key_of_def distinct_map inj_on_def)

lemma pk_identifies:
  assumes "db_ok d" and "r \<in> set (d t)" and "q \<in> set (d t)" and "row_val r (pk t) = row_val q (pk t)"
  shows "r = q"
  using assms unique_pk [OF db_okD(2) [OF assms(1)], of t] by (auto simp: distinct_map inj_on_def)

lemma pk_not_null: "db_ok d \<Longrightarrow> r \<in> set (d t) \<Longrightarrow> row_val r (pk t) \<noteq> VNone"
  using db_okD(1) by (fastforce simp: row_ok_def)

section \<open>Statements keep the invariant\<close>

lemma store_val_ok:
  "store_val t c v = Inr v' \<Longrightarrow> has_type (col_type t c) v' \<and> (c = pk t \<longrightarrow> v' \<noteq> VNone)"
  by (auto simp: store_val_def has_type_def split: if_splits val.splits)

lemma store_val_typed: "has_type (col_type t c) v \<Longrightarrow> c \<noteq> pk t \<or> v \<noteq> VNone \<Longrightarrow> store_val t c v = Inr v"
  by (auto simp: store_val_def)

lemma store_vals_ok:
  "store_vals t r = Inr r' \<Longrightarrow> keys r' = keys r \<and> list_all (\<lambda>(c, v). has_type (col_type t c) v \<and> (c = pk t \<longrightarrow> v \<noteq> VNone)) r'"
  by (induction t r arbitrary: r' rule: store_vals.induct) (auto simp: store_val_ok split: sum.splits)

lemma store_vals_typed:
  "list_all (\<lambda>(c, v). has_type (col_type t c) v \<and> (c = pk t \<longrightarrow> v \<noteq> VNone)) r \<Longrightarrow> store_vals t r = Inr r"
  by (induction t r rule: store_vals.induct) (auto simp: store_val_typed)

lemma keys_full_row [simp]: "keys (full_row t n data) = table_fields t"
  by (simp add: full_row_def comp_def)

lemma row_okI:
  assumes "keys r = table_fields t" "list_all (\<lambda>(c, v). has_type (col_type t c) v \<and> (c = pk t \<longrightarrow> v \<noteq> VNone)) r"
  shows "row_ok t r"
proof -
  have "pk t \<in> set (keys r)"
    using assms(1) pk_in_fields by metis
  then obtain v where v: "(pk t, v) \<in> set r" by auto
  then have "row_val r (pk t) = v"
    using assms(1) distinct_fields [of t] by (metis row_val_mem)
  with v assms show ?thesis by (fastforce simp: row_ok_def list_all_iff)
qed

lemma keys_set_cols [simp]: "keys (set_cols new r) = keys r"
  by (auto simp: set_cols_def)

lemma row_val_set_cols:
  "distinct (keys r) \<Longrightarrow> row_val (set_cols new r) c
     = (if c \<in> set (keys r) then case map_of new c of Some v \<Rightarrow> v | None \<Rightarrow> row_val r c else VNone)"
  by (induction r) (auto simp: set_cols_def row_val_def split: option.splits)

lemma set_cols_ok:
  assumes "row_ok t r" and "store_vals t data = Inr new"
  shows "row_ok t (set_cols new r)"
proof (rule row_okI)
  have new: "list_all (\<lambda>(c, v). has_type (col_type t c) v \<and> (c = pk t \<longrightarrow> v \<noteq> VNone)) new"
    using store_vals_ok [OF assms(2)] by simp
  show "list_all (\<lambda>(c, v). has_type (col_type t c) v \<and> (c = pk t \<longrightarrow> v \<noteq> VNone)) (set_cols new r)"
    unfolding list_all_iff
  proof (intro ballI)
    fix p assume "p \<in> set (set_cols new r)"
    then obtain c v where cv: "(c, v) \<in> set r" and p: "p = (c, case map_of new c of Some v' \<Rightarrow> v' | None \<Rightarrow> v)"
      by (auto simp: set_cols_def)
    have "has_type (col_type t c) v \<and> (c = pk t \<longrightarrow> v \<noteq> VNone)"
      using cv assms(1) row_val_mem [of r c v] distinct_fields [of t] by (auto simp: row_ok_def list_all_iff)
    with new show "case p of (c, v) \<Rightarrow> has_type (col_type t c) v \<and> (c = pk t \<longrightarrow> v \<noteq> VNone)"
      by (auto simp: p list_all_iff dest!: map_of_SomeD split: option.splits)
  qed
qed (use assms(1) row_ok_keys in simp)

text \<open>\<open>rows_ok\<close> is the part of the invariant that a statement alone keeps; the commit adds the
  foreign keys.\<close>

definition rows_ok :: "(table \<Rightarrow> row list) \<Rightarrow> bool" where
  "rows_ok d \<longleftrightarrow> (\<forall>t. (\<forall>r \<in> set (d t). row_ok t r) \<and> unique_ok t (d t))"

lemma db_ok_rows: "db_ok d \<longleftrightarrow> rows_ok d \<and> fk_ok d"
  by (simp add: db_ok_iff rows_ok_def)

lemma unique_ok_filter: "unique_ok t rows \<Longrightarrow> unique_ok t (filter P rows)"
  by (auto simp: unique_ok_def list_all_iff distinct_map_filter)

lemma run_stmt_keeps: "keeps (\<lambda>w. rows_ok (db w)) (run_stmt q)"
proof (rule keepsI)
  fix w :: "'a world_scheme" assume w: "rows_ok (db w)"
  show "rows_ok (db (snd (run_stmt q w)))"
  proof (cases q)
    case (InsertS t data pks)
    then show ?thesis
      using w by (auto simp: rows_ok_def Let_def dest!: store_vals_ok intro!: row_okI split: sum.splits)
  next
    case (UpdateS t conds prms data)
    then show ?thesis
      using w by (auto simp: rows_ok_def Let_def intro: set_cols_ok split: sum.splits)
  qed (use w in \<open>auto simp: rows_ok_def Let_def py_run unique_ok_filter\<close>)
qed

lemma keeps_check_affected [keeps_intro]: "keeps P (check_affected_rows n m)"
  by (simp add: check_affected_rows_def keeps_intro)

lemma keeps_case_prod [keeps_intro]: "(\<And>a b. keeps P (f a b)) \<Longrightarrow> keeps P (case p of (a, b) \<Rightarrow> f a b)"
  by (simp split: prod.splits)

lemma keeps_with_connection:
  "keeps (\<lambda>w. rows_ok (db w)) m \<Longrightarrow> keeps wf (with_connection m)"
  by (auto simp: keeps_def with_connection_def db_ok_rows split: sum.splits prod.splits)

lemma execute_keeps_wf [keeps_intro]:
  "keeps wf (execute_sql q n)" "keeps wf (execute_sql_fetch_one q)" "keeps wf (execute_sql_fetch_all q)"
  unfolding execute_sql_def execute_sql_fetch_one_def execute_sql_fetch_all_def
  by (intro keeps_with_connection keeps_intro run_stmt_keeps)+

lemma wrapper_keeps_wf [keeps_intro]:
  "keeps wf (select_many t fs conds prms joins order_by limit offset)"
  "keeps wf (select_one t fs cs ps)"
  "keeps wf (insert_one t data pks)"
  "keeps wf (count_rows t conds prms)"
  "keeps wf (update_one t cs ps data)"
  "keeps wf (update_many t cs ps data)"
  "keeps wf (delete_one t conds prms)"
  unfolding select_many_def select_one_def insert_one_def count_rows_def update_one_def update_many_def delete_one_def
  by (auto intro!: keeps_intro split: option.splits val.splits)

lemma keeps_wf_now [keeps_intro]: "keeps wf now" "keeps wf new_uuid"
  by (simp_all add: keeps_def now_def new_uuid_def)

section \<open>Running the statements\<close>

definition key_filter :: "row \<Rightarrow> row \<Rightarrow> bool" where
  "key_filter kw r = list_all (\<lambda>(k, v). v \<noteq> VNone \<and> row_val r k = v) kw"

definition key_conditions :: "row \<Rightarrow> sqlx list" where
  "key_conditions kw = map (\<lambda>(k, _). Cmp (Bare k) CmpEq) kw"

lemma eval_key_conditions:
  "eval_and env (key_conditions kw) (map snd kw) = Some True
     \<longleftrightarrow> (\<forall>(k, v) \<in> set kw. v \<noteq> VNone \<and> env (Bare k) = v)"
  by (induction kw) (auto simp: key_conditions_def)

lemma where_key_conditions:
  "where_holds (Some (key_conditions kw)) (Some (map snd kw)) (row_env t r) \<longleftrightarrow> key_filter kw r"
  using eval_key_conditions [of "row_env t r" kw]
  by (cases "kw = []") (auto simp: where_holds_def key_filter_def list_all_iff key_conditions_def)

lemma matching_no_joins:
  "matching d t [] conds prms = filter (\<lambda>r. where_holds conds prms (row_env t r)) (d t)"
  by (induction "d t" rule: list.induct) (simp_all add: matching_def row_env_def filter_map comp_def)

lemma run_select_many:
  assumes "set fs \<subseteq> set (table_fields t)" and "set (order_columns order_by) \<subseteq> set (table_fields t)"
  shows "select_many t fs conds prms joins order_by limit offset w =
    (Inr (map (project fs) (limit_rows limit offset (order_rows order_by (matching (db w) t joins conds prms)))), w)"
  using assms by (simp add: select_many_def execute_sql_fetch_all_def with_connection_def py_run Let_def)

lemma run_select_one:
  assumes "set fs \<subseteq> set (table_fields t)"
  shows "select_one t fs conds prms w =
    (Inr (case filter (\<lambda>r. where_holds (Some conds) (Some prms) (row_env t r)) (db w t) of
            [] \<Rightarrow> None | r # _ \<Rightarrow> Some (project fs r)), w)"
  using assms
  by (simp add: select_one_def execute_sql_fetch_one_def with_connection_def py_run Let_def order_columns_def
      order_rows_def limit_rows_def matching_no_joins split: list.splits)

lemma run_count_rows:
  "count_rows t conds prms w = (Inr (int (length (matching (db w) t [] conds prms))), w)"
  by (simp add: count_rows_def execute_sql_fetch_one_def with_connection_def py_run)

lemma filter_key_unique: "distinct (map f xs) \<Longrightarrow> x \<in> set xs \<Longrightarrow> filter (\<lambda>y. f y = f x) xs = [x]"
  by (induction xs) (auto simp: filter_empty_conv, metis imageI)

lemma key_filter_pk:
  "v \<noteq> VNone \<Longrightarrow> key_filter [(pk t, v)] = (\<lambda>r. row_val r (pk t) = v)"
  by (auto simp: key_filter_def fun_eq_iff)

lemma filter_pk:
  assumes "db_ok d" and "r \<in> set (d t)"
  shows "filter (key_filter [(pk t, row_val r (pk t))]) (d t) = [r]"
  using filter_key_unique [OF unique_pk [OF db_okD(2) [OF assms(1)]] assms(2)] pk_not_null [OF assms]
  by (simp add: key_filter_pk)

lemma filter_pk_none:
  "\<forall>r \<in> set (d t). row_val r (pk t) \<noteq> v \<Longrightarrow> filter (key_filter [(pk t, v)]) (d t) = []"
  by (auto simp: key_filter_def filter_empty_conv)

end
