(* ===== verification/Sample.thy ===== *)
theory Sample
  imports Store
begin

text \<open>
  A small database on which the statements are evaluated: two job families, three jobs, a user and
  an ESC with their subjects, tokens and permissions.
\<close>

definition job_row :: "string \<Rightarrow> string \<Rightarrow> string \<Rightarrow> string \<Rightarrow> row" where
  "job_row ident family name version = [
     (''id'', VStr ident), (''family_id'', VStr family), (''name'', VStr name), (''version'', VStr version),
     (''status'', VStr ''running''), (''create_time'', VDt 0), (''update_time'', VDt 0), (''manifest'', VNone),
     (''internal_name'', VStr ''adder:7000''), (''error'', VNone), (''notice'', VNone), (''image_tag'', VNone),
     (''deployed_by'', VStr ''alice''), (''last_call_time'', VNone), (''infrastructure_target'', VStr ''docker''),
     (''replica_internal_names'', VNone), (''job_type_version'', VStr ''python3:1.0.0''),
     (''infrastructure_stats'', VNone)]"

fun sample_db :: "table \<Rightarrow> row list" where
  "sample_db JobFamily = [[(''id'', VStr ''f1''), (''name'', VStr ''adder'')], [(''id'', VStr ''f2''), (''name'', VStr ''primer'')]]"
| "sample_db Job = [job_row ''j1'' ''f1'' ''adder'' ''0.0.1'', job_row ''j2'' ''f1'' ''adder'' ''0.0.2'',
     job_row ''j3'' ''f2'' ''primer'' ''0.0.1'']"
| "sample_db User = [[(''id'', VInt 1), (''username'', VStr ''alice''), (''email'', VStr []), (''first_name'', VStr []),
     (''last_name'', VStr []), (''password'', VStr ''hash''), (''date_joined'', VDt 0), (''last_login'', VNone),
     (''is_active'', VBool True), (''is_staff'', VBool False), (''is_superuser'', VBool False)]]"
| "sample_db Esc = [[(''id'', VStr ''e1''), (''name'', VStr ''crm'')]]"
| "sample_db AuthSubject = [
     [(''id'', VStr ''s1''), (''user_id'', VInt 1), (''esc_id'', VNone), (''job_family_id'', VNone)],
     [(''id'', VStr ''s2''), (''user_id'', VNone), (''esc_id'', VStr ''e1''), (''job_family_id'', VNone)],
     [(''id'', VStr ''s3''), (''user_id'', VNone), (''esc_id'', VNone), (''job_family_id'', VStr ''f1'')]]"
| "sample_db AuthToken = [[(''id'', VStr ''t1''), (''auth_subject_id'', VStr ''s2''), (''token'', VStr ''secret''),
     (''expiry_time'', VNone), (''active'', VBool True), (''last_use_time'', VNone)]]"
| "sample_db AuthResourcePermission = [
     [(''id'', VInt 1), (''auth_subject_id'', VStr ''s1''), (''scope'', VStr ''full_access''), (''job_family_id'', VNone),
      (''job_id'', VNone), (''endpoint'', VNone)],
     [(''id'', VInt 2), (''auth_subject_id'', VStr ''s2''), (''scope'', VStr ''call_job''), (''job_family_id'', VNone),
      (''job_id'', VStr ''j1''), (''endpoint'', VNone)]]"
| "sample_db t = []"

definition sample_world :: world where
  "sample_world = \<lparr>db = sample_db, last_id = (\<lambda>_. 10), uuid_of = (\<lambda>n. ''u'' @ nat_to_str n), uuid_count = 0,
     time_of = (\<lambda>n. int n), ticks = 0, dt_parse = (\<lambda>_. Inl (ValueError [])), builtin_cast = (\<lambda>_ v. Inr v)\<rparr>"

lemma sample_ok: "wf sample_world"
  by code_simp

end
