(* ===== verification/Mapper.thy ===== *)
theory Mapper
  imports Sample
begin

text \<open>
  The record mapper (\<open>lifecycle/database/record_mapper.py\<close>, \<open>lifecycle/database/type_parser.py\<close>):
  records of the table models are read, created, updated and deleted through the query wrapper.
  A record object is its table, its attributes and the field values remembered when it was read.
  Operations that set attributes of the object they are given return the object they leave.
  Deletion follows the reverse dependencies of the schema.
\<close>

section \<open>Record objects\<close>

record robj =
  rtype :: table
  attrs :: row
  original_fields :: "row option"

abbreviation attr :: "robj \<Rightarrow> string \<Rightarrow> val" where
  "attr o' c \<equiv> row_val (attrs o') c"

definition set_attr :: "string \<Rightarrow> val \<Rightarrow> robj \<Rightarrow> robj" where
  "set_attr c v o' = o'\<lparr>attrs := dict_set c v (attrs o')\<rparr>"

definition new_record :: "table \<Rightarrow> row \<Rightarrow> robj" where
  "new_record t r = \<lparr>rtype = t, attrs = r, original_fields = None\<rparr>"

definition get_primary_key_value :: "robj \<Rightarrow> exn + val" where
  "get_primary_key_value o' =
     (case map_of (attrs o') (pk (rtype o')) of
        None \<Rightarrow> Inl (ValueError (''record has no primary key field '' @ pk (rtype o')))
      | Some v \<Rightarrow> Inr v)"

text \<open>A record is a dataclass: its dictionary has the declared fields in their order.\<close>

definition record_to_dict :: "robj \<Rightarrow> row" where
  "record_to_dict o' = project (table_fields (rtype o')) (attrs o')"

section \<open>Typed parsing\<close>

fun union_left :: "annotation \<Rightarrow> annotation" where
  "union_left TOptStr = TStr"
| "union_left TOptDatetime = TDatetime"
| "union_left TOptInt = TInt"
| "union_left a = a"

text \<open>\<open>isinstance\<close>: a bool is an int.\<close>

fun isinstance :: "val \<Rightarrow> annotation \<Rightarrow> bool" where
  "isinstance (VStr s) TStr = True"
| "isinstance (VDt t) TDatetime = True"
| "isinstance (VInt i) TInt = True"
| "isinstance (VBool b) TInt = True"
| "isinstance (VFloat r) TFloat = True"
| "isinstance (VBool b) TBool = True"
| "isinstance (VBytes b) TBytes = True"
| "isinstance v a = False"

definition parse_plain :: "'x world_scheme \<Rightarrow> val \<Rightarrow> annotation \<Rightarrow> exn + val" where
  "parse_plain w obj clazz =
     (case (obj, clazz) of
        (VStr s, TDatetime) \<Rightarrow> (case dt_parse w s of Inl e \<Rightarrow> Inl e | Inr t \<Rightarrow> Inr (VDt t))
      | _ \<Rightarrow> if isinstance obj clazz then Inr obj
             else case builtin_cast w (build_column_type clazz) obj of
                 Inl e \<Rightarrow> Inl (ValueError ''failed to parse'')
               | Inr v \<Rightarrow> Inr v)"

text \<open>\<open>parse_typed_object\<close> on the field types the tables have: a plain type or a plain type or None.\<close>

definition parse_typed_object :: "'x world_scheme \<Rightarrow> val \<Rightarrow> annotation \<Rightarrow> exn + val" where
  "parse_typed_object w obj clazz = (if obj = VNone then Inr VNone else parse_plain w obj (union_left clazz))"

fun parse_fields :: "'x world_scheme \<Rightarrow> (string, annotation) dict \<Rightarrow> row \<Rightarrow> exn + row" where
  "parse_fields w field_types [] = Inr []"
| "parse_fields w field_types ((key, value) # r) =
     (case map_of field_types key of
        None \<Rightarrow> Inl (KeyError (py_repr (''unexpected field '' @ key)))
      | Some clazz \<Rightarrow>
          (case parse_typed_object w value clazz of
             Inl e \<Rightarrow> Inl e
           | Inr v \<Rightarrow> (case parse_fields w field_types r of Inl e \<Rightarrow> Inl e | Inr r' \<Rightarrow> Inr ((key, v) # r'))))"

definition parse_dict_typed_values :: "'x world_scheme \<Rightarrow> row \<Rightarrow> table \<Rightarrow> exn + row" where
  "parse_dict_typed_values w data t = (if data = [] then Inr [] else parse_fields w (annotations (class_of t)) data)"

definition parse_record :: "'x world_scheme \<Rightarrow> row \<Rightarrow> table \<Rightarrow> exn + row" where
  "parse_record w obj t =
     (case parse_fields w (annotations (class_of t)) obj of
        Inl e \<Rightarrow> Inl e
      | Inr kwargs \<Rightarrow> if set (table_fields t) \<subseteq> set (keys kwargs) then Inr (project (table_fields t) kwargs)
                     else Inl (TypeError ''missing required positional arguments''))"

section \<open>Reading\<close>

definition build_filter_conditions :: "table \<Rightarrow> row \<Rightarrow> ('w, sqlx list \<times> val list) py" where
  "build_filter_conditions t filter_kwargs =
     seq (for_each (keys filter_kwargs) (\<lambda>filter_key.
            assert_py (filter_key \<in> set (table_fields t)) (''filtered key '' @ filter_key @ '' is not a valid column'')))
         (ret (map (\<lambda>(field, _). Cmp (Bare field) CmpEq) filter_kwargs, map snd filter_kwargs))"

definition convert_row_to_record_model :: "row \<Rightarrow> table \<Rightarrow> ('x, robj) dbm" where
  "convert_row_to_record_model r t =
     seq (for_each (keys r) (\<lambda>column. assert_py (column \<in> set (table_fields t))
            (''retrieved column '' @ column @ '' is not a valid field for the model '' @ cls_name (class_of t))))
         (bind (gets (\<lambda>w. parse_record w r t)) (\<lambda>parsed.
          bind (lift parsed) (\<lambda>as.
          ret \<lparr>rtype = t, attrs = as, original_fields = Some as\<rparr>)))"

definition assert_filtered :: "row \<Rightarrow> ('w, unit) py" where
  "assert_filtered filter_kwargs = assert_py (filter_kwargs \<noteq> []) ''query should be filtered by at least one criteria''"

definition find_one :: "table \<Rightarrow> row \<Rightarrow> ('x, robj) dbm" where
  "find_one t filter_kwargs =
     seq (assert_filtered filter_kwargs)
     (bind (build_filter_conditions t filter_kwargs) (\<lambda>(conds, prms).
      bind (select_one t (table_fields t) conds prms) (\<lambda>row.
        case row of
          None \<Rightarrow> raise (EntityNotFound (cls_name (class_of t) @ '' record not found for given ''
                    @ join '', '' (keys filter_kwargs)))
        | Some r \<Rightarrow> convert_row_to_record_model r t)))"

definition find_many :: "table \<Rightarrow> string list option \<Rightarrow> row \<Rightarrow> ('x, robj list) dbm" where
  "find_many t order_by filter_kwargs =
     seq (assert_filtered filter_kwargs)
     (bind (build_filter_conditions t filter_kwargs) (\<lambda>(conds, prms).
      bind (select_many t (table_fields t) (Some conds) (Some prms) [] order_by None None) (\<lambda>rows.
      map_py (\<lambda>r. convert_row_to_record_model r t) rows)))"

definition filter_records :: "table \<Rightarrow> QueryCondition \<Rightarrow> left_join list \<Rightarrow> string list option \<Rightarrow> int option
    \<Rightarrow> ('x, robj list) dbm" where
  "filter_records t condition joins order_by limit =
     bind (select_many t (table_fields t) (filter_conditions condition) (filter_params condition) joins order_by limit None)
       (\<lambda>rows. map_py (\<lambda>r. convert_row_to_record_model r t) rows)"

definition filter_dicts :: "table \<Rightarrow> string list option \<Rightarrow> string list option \<Rightarrow> int option \<Rightarrow> int option
    \<Rightarrow> row option \<Rightarrow> ('x, row list) dbm" where
  "filter_dicts t columns order_by offset limit filters =
     bind (build_filter_conditions t (case filters of None \<Rightarrow> [] | Some f \<Rightarrow> f)) (\<lambda>(conds, prms).
     let cols = (case columns of None \<Rightarrow> [] | Some cs \<Rightarrow> cs)
     in seq (if cols \<noteq> [] then assert_py (set cols \<subseteq> set (table_fields t)) ''columns are not valid for the table'' else ret ())
        (select_many t (if cols \<noteq> [] then cols else table_fields t) (Some conds) (Some prms) [] order_by limit offset))"

definition list_all_records :: "table \<Rightarrow> string list option \<Rightarrow> int option \<Rightarrow> ('x, robj list) dbm" where
  "list_all_records t order_by limit =
     bind (select_many t (table_fields t) None None [] order_by limit None) (\<lambda>rows.
     map_py (\<lambda>r. convert_row_to_record_model r t) rows)"

definition count_records :: "table \<Rightarrow> row \<Rightarrow> ('x, int) dbm" where
  "count_records t filter_kwargs =
     (if filter_kwargs = [] then count_rows t None None
      else bind (build_filter_conditions t filter_kwargs) (\<lambda>(conds, prms). count_rows t (Some conds) (Some prms)))"

definition exists_one :: "table \<Rightarrow> row \<Rightarrow> ('x, bool) dbm" where
  "exists_one t filter_kwargs =
     seq (assert_filtered filter_kwargs)
     (bind (build_filter_conditions t filter_kwargs) (\<lambda>(conds, prms).
      bind (select_one t [pk t] conds prms) (\<lambda>row. ret (row \<noteq> None))))"

definition exists_record :: "robj \<Rightarrow> ('x, bool) dbm" where
  "exists_record o' =
     bind (lift (get_primary_key_value o')) (\<lambda>key.
     bind (build_filter_conditions (rtype o') [(pk (rtype o'), key)]) (\<lambda>(conds, prms).
     bind (select_one (rtype o') [pk (rtype o')] conds prms) (\<lambda>row. ret (row \<noteq> None))))"

definition exists_on_condition :: "table \<Rightarrow> QueryCondition \<Rightarrow> left_join list \<Rightarrow> ('x, bool) dbm" where
  "exists_on_condition t condition joins =
     bind (select_many t [pk t] (filter_conditions condition) (filter_params condition) joins None (Some 1) None)
       (\<lambda>rows. ret (length rows > 0))"

section \<open>Writing\<close>

fun extract_fields :: "robj \<Rightarrow> string list \<Rightarrow> exn + row" where
  "extract_fields o' [] = Inr []"
| "extract_fields o' (field # fs) =
     (case map_of (attrs o') field of
        None \<Rightarrow> Inl (ValueError (''given table model '' @ cls_name (class_of (rtype o')) @ '' has no field '' @ field))
      | Some v \<Rightarrow> (case extract_fields o' fs of Inl e \<Rightarrow> Inl e | Inr r \<Rightarrow> Inr ((field, v) # r)))"

definition extract_record_data :: "robj \<Rightarrow> exn + row" where
  "extract_record_data o' = extract_fields o' (table_fields (rtype o'))"

definition extract_changed_data :: "robj \<Rightarrow> exn + row" where
  "extract_changed_data o' =
     (case extract_record_data o' of
        Inl e \<Rightarrow> Inl e
      | Inr new_data \<Rightarrow>
          let originals = (case original_fields o' of None \<Rightarrow> [] | Some r \<Rightarrow> r)
          in if originals = [] then Inr new_data
             else Inr (filter (\<lambda>(field, new_value). map_of originals field \<noteq> Some new_value) new_data))"

definition supplement_primary_key :: "row \<Rightarrow> table \<Rightarrow> ('x, row) dbm" where
  "supplement_primary_key record_data t =
     (if \<not> truthy (row_val record_data (pk t)) then
        case primary_key_generator (meta t) of
          Some NewUuid \<Rightarrow> bind new_uuid (\<lambda>u. ret (dict_set (pk t) (VStr u) record_data))
        | None \<Rightarrow> ret (dict_del (pk t) record_data)
      else ret record_data)"

definition validate_fields :: "row \<Rightarrow> table \<Rightarrow> ('w, unit) py" where
  "validate_fields record_data t =
     assert_py (set (keys record_data) \<subseteq> set (table_fields t)) ''fields are not valid columns''"

definition create_record :: "robj \<Rightarrow> ('x, robj) dbm" where
  "create_record o' =
     bind (lift (extract_record_data o')) (\<lambda>data.
     bind (supplement_primary_key data (rtype o')) (\<lambda>record_data.
     bind (insert_one (rtype o') record_data [pk (rtype o')]) (\<lambda>returning_row.
     ret (o'\<lparr>attrs := dict_update (attrs o') returning_row\<rparr>))))"

definition create_from_dict :: "table \<Rightarrow> row \<Rightarrow> ('x, row) dbm" where
  "create_from_dict t data =
     seq (validate_fields data t)
     (bind (supplement_primary_key data t) (\<lambda>record_data.
      bind (insert_one t record_data [pk t]) (\<lambda>returning_row.
      ret (dict_update record_data returning_row))))"

definition update_record :: "robj \<Rightarrow> bool \<Rightarrow> ('x, robj) dbm" where
  "update_record o' only_changed =
     bind (lift (get_primary_key_value o')) (\<lambda>key.
     bind (build_filter_conditions (rtype o') [(pk (rtype o'), key)]) (\<lambda>(conds, prms).
     if only_changed then
       bind (lift (extract_changed_data o')) (\<lambda>update_data.
       if update_data = [] then ret o'
       else seq (update_one (rtype o') conds prms update_data)
                (ret (o'\<lparr>original_fields := Some (record_to_dict o')\<rparr>)))
     else
       bind (lift (extract_record_data o')) (\<lambda>update_data.
       seq (update_one (rtype o') conds prms update_data) (ret o'))))"

definition update_from_dict :: "table \<Rightarrow> val \<Rightarrow> row \<Rightarrow> ('x, unit) dbm" where
  "update_from_dict t primary_key_val data =
     (let update_data = dict_del (pk t) data
      in seq (validate_fields update_data t)
         (bind (build_filter_conditions t [(pk t, primary_key_val)]) (\<lambda>(conds, prms).
          update_one t conds prms update_data)))"

definition create_or_update :: "robj \<Rightarrow> ('x, robj) dbm" where
  "create_or_update o' =
     bind (exists_record o') (\<lambda>found. if found then update_record o' False else create_record o')"

definition delete_where :: "table \<Rightarrow> row \<Rightarrow> ('x, unit) dbm" where
  "delete_where t filter_kwargs =
     seq (assert_filtered filter_kwargs)
     (bind (build_filter_conditions t filter_kwargs) (\<lambda>(conds, prms).
      delete_one t (Some conds) (Some prms)))"

text \<open>\<open>delete_record\<close> and \<open>_delete_cascade_dependencies\<close> call each other; the table is passed beside
  the record. They end because a dependant stands strictly below its origin.\<close>

function delete_record_of :: "table \<Rightarrow> robj \<Rightarrow> bool \<Rightarrow> ('x, unit) dbm"
  and delete_cascade_dependencies :: "table \<Rightarrow> robj \<Rightarrow> ('x, unit) dbm" where
  "delete_record_of t o' cascade =
     bind (lift (get_primary_key_value o')) (\<lambda>key.
     bind (build_filter_conditions t [(pk t, key)]) (\<lambda>(conds, prms).
     seq (if cascade then delete_cascade_dependencies t o' else ret ())
         (delete_one t (Some conds) (Some prms))))"
| "delete_cascade_dependencies t o' =
     bind (lift (get_primary_key_value o')) (\<lambda>origin_primary_key.
     for_each (delete_cascade_dependants t) (\<lambda>(dep_table, dep_column).
       bind (find_many dep_table None [(dep_column, origin_primary_key)]) (\<lambda>dep_records.
       for_each dep_records (\<lambda>dep_record. delete_record_of dep_table dep_record True))))"
  by pat_completeness auto
termination
  by (relation "measure (\<lambda>x. case x of Inl (t, _, _) \<Rightarrow> 2 * cascade_rank t + 1 | Inr (t, _) \<Rightarrow> 2 * cascade_rank t)")
    (auto dest: dependants_rank)

declare delete_record_of.simps [simp del] delete_cascade_dependencies.simps [simp del]

definition delete_record :: "robj \<Rightarrow> bool \<Rightarrow> ('x, unit) dbm" where
  "delete_record o' cascade = delete_record_of (rtype o') o' cascade"

section \<open>Names\<close>

definition table_name_to_class :: "string \<Rightarrow> exn + table" where
  "table_name_to_class name =
     (case map_of (rev (map (\<lambda>t. (table_name (meta t), t)) all_tables)) name of
        None \<Rightarrow> Inl (EntityNotFound (''Table class not found for table name '' @ name))
      | Some t \<Rightarrow> Inr t)"

definition create_mock_record_model :: "table \<Rightarrow> row \<Rightarrow> ('x, robj) dbm" where
  "create_mock_record_model t row_fields =
     convert_row_to_record_model (row_fields @ map (\<lambda>f. (f, create_empty_field (col_type t f)))
       (filter (\<lambda>f. f \<notin> set (keys row_fields)) (table_fields t))) t"

definition pk_cast :: "table \<Rightarrow> val \<Rightarrow> ('x, val) dbm" where
  "pk_cast t record_id = bind (gets (\<lambda>w. builtin_cast w
     (case primary_key_type (meta t) of PkStr \<Rightarrow> STRING | PkInt \<Rightarrow> INT_COL) record_id)) lift"

definition fetch_mock :: "table \<Rightarrow> val \<Rightarrow> ('x, robj) dbm" where
  "fetch_mock t record_id =
     bind (pk_cast t record_id) (\<lambda>key.
     bind (filter_dicts t (Some (name_columns (meta t))) None None (Some 1) (Some [(pk t, key)])) (\<lambda>records.
       case records of
         [] \<Rightarrow> raise (EntityNotFound (''Record '' @ cls_name (class_of t) @ '' not found''))
       | r # _ \<Rightarrow> create_mock_record_model t (dict_update r [(pk t, key)])))"

definition prefixed :: "string \<Rightarrow> string option \<Rightarrow> string option" where
  "prefixed p n = Some (p @ (case n of None \<Rightarrow> ''None'' | Some s \<Rightarrow> s))"

text \<open>\<open>get_record_name\<close>, with the \<open>_record_name\<close> methods of the table classes as its branches.\<close>

function get_record_name :: "table \<Rightarrow> val \<Rightarrow> ('x, string option) dbm" where
  "get_record_name t record_id =
     (if name_columns (meta t) = [] then ret None
      else bind (fetch_mock t record_id) (\<lambda>o'.
        case t of
          JobFamily \<Rightarrow> ret (Some (the_str (attr o' ''name'')))
        | Job \<Rightarrow> ret (Some (the_str (attr o' ''name'') @ '' '' @ the_str (attr o' ''version'')))
        | Esc \<Rightarrow> ret (Some (the_str (attr o' ''name'')))
        | User \<Rightarrow> ret (Some (the_str (attr o' ''username'')))
        | AuthSubject \<Rightarrow>
            if attr o' ''user_id'' \<noteq> VNone then
              bind (get_record_name User (attr o' ''user_id'')) (\<lambda>n. ret (prefixed ''User: '' n))
            else if attr o' ''esc_id'' \<noteq> VNone then
              bind (get_record_name Esc (attr o' ''esc_id'')) (\<lambda>n. ret (prefixed ''ESC: '' n))
            else if attr o' ''job_family_id'' \<noteq> VNone then
              bind (get_record_name JobFamily (attr o' ''job_family_id'')) (\<lambda>n. ret (prefixed ''Job Family: '' n))
            else ret (Some ''Unknown'')
        | _ \<Rightarrow> ret None))"
  by pat_completeness auto
termination
  by (relation "measure (\<lambda>(t, _). if t = AuthSubject then 1 else 0)") auto

declare get_record_name.simps [simp del]

section \<open>Reading does not change the state\<close>

lemma keeps_select [keeps_intro]:
  "keeps P (select_many t fs conds prms joins order_by limit offset)"
  "keeps P (select_one t fs cs ps)"
  "keeps P (count_rows t conds prms)"
  by (auto simp: keeps_def select_many_def select_one_def count_rows_def execute_sql_fetch_all_def
      execute_sql_fetch_one_def with_connection_def py_run Let_def split: option.splits val.splits)

lemma keeps_conditions [keeps_intro]: "keeps P (build_filter_conditions t kw)"
  unfolding build_filter_conditions_def by (intro keeps_intro)

lemma keeps_convert [keeps_intro]: "keeps P (convert_row_to_record_model r t)"
  unfolding convert_row_to_record_model_def by (intro keeps_intro)

lemma keeps_reads [keeps_intro]:
  "keeps P (find_one t kw)"
  "keeps P (find_many t order_by kw)"
  "keeps P (filter_records t condition joins order_by limit)"
  "keeps P (filter_dicts t columns order_by offset limit filters)"
  "keeps P (list_all_records t order_by limit)"
  "keeps P (count_records t kw)"
  "keeps P (exists_one t kw)"
  "keeps P (exists_record o')"
  "keeps P (exists_on_condition t condition joins)"
  unfolding find_one_def find_many_def filter_records_def filter_dicts_def list_all_records_def count_records_def
    exists_one_def exists_record_def exists_on_condition_def assert_filtered_def Let_def
  by (intro keeps_intro)+

lemma pureI: "(\<And>P. keeps P m) \<Longrightarrow> snd (m w) = w"
  using keepsD [of "\<lambda>w'. w' = w" m w] by (metis prod.collapse)

lemma reads_pure:
  "snd (find_one t kw w) = w" "snd (find_many t order_by kw w) = w"
  "snd (filter_records t condition joins order_by limit w) = w" "snd (list_all_records t order_by limit w) = w"
  "snd (exists_one t kw w) = w" "snd (exists_on_condition t condition joins w) = w"
  by (intro pureI keeps_intro)+

section \<open>Writing keeps the invariant\<close>

lemma keeps_supplement [keeps_intro]: "keeps wf (supplement_primary_key data t)"
  unfolding supplement_primary_key_def by (auto intro!: keeps_intro split: option.splits pk_generator.splits)

lemma keeps_writes [keeps_intro]:
  "keeps wf (create_record o')"
  "keeps wf (create_from_dict t data)"
  "keeps wf (update_record o' only_changed)"
  "keeps wf (update_from_dict t v data)"
  "keeps wf (create_or_update o')"
  "keeps wf (delete_where t kw)"
  unfolding create_record_def create_from_dict_def update_record_def update_from_dict_def create_or_update_def
    delete_where_def assert_filtered_def validate_fields_def Let_def
  by (intro keeps_intro)+

lemma keeps_delete: "keeps wf (delete_record_of t o' cascade :: ('x, unit) dbm)"
proof (induction t arbitrary: o' cascade rule: measure_induct_rule [where f = cascade_rank])
  case (less t)
  have deps: "keeps wf (delete_cascade_dependencies t q :: ('x, unit) dbm)" for q
    unfolding delete_cascade_dependencies.simps
    by (rule keeps_bind, rule keeps_lift, rule keeps_for_each)
      (auto intro!: keeps_intro less dest: dependants_rank)
  show ?case
    unfolding delete_record_of.simps by (intro keeps_intro deps)
qed

lemma keeps_delete_record [keeps_intro]: "keeps wf (delete_record o' cascade)"
  by (simp add: delete_record_def keeps_delete)

section \<open>Running the reads\<close>

definition record_of :: "table \<Rightarrow> row \<Rightarrow> robj" where
  "record_of t r = \<lparr>rtype = t, attrs = r, original_fields = Some r\<rparr>"

lemma record_of_simps [simp]:
  "rtype (record_of t r) = t" "attrs (record_of t r) = r" "original_fields (record_of t r) = Some r"
  by (simp_all add: record_of_def)

lemma run_for_each_assert:
  "for_each xs (\<lambda>x. assert_py (P x) (msg x)) w = (Inr (), w) \<longleftrightarrow> list_all P xs"
  by (induction xs) (auto simp: py_run)

lemma run_build [py_run]:
  assumes "set (keys kw) \<subseteq> set (table_fields t)"
  shows "build_filter_conditions t kw w = (Inr (key_conditions kw, map snd kw), w)"
proof -
  have "for_each (keys kw) (\<lambda>k. assert_py (k \<in> set (table_fields t)) (''filtered key '' @ k @ '' is not a valid column'')) w = (Inr (), w)"
    using assms by (subst run_for_each_assert) (auto simp: list_all_iff)
  then show ?thesis
    by (simp add: build_filter_conditions_def py_run key_conditions_def)
qed

lemma parse_typed: "has_type (build_column_type a) v \<Longrightarrow> a \<noteq> TOther \<Longrightarrow> parse_typed_object w v a = Inr v"
  by (cases a; cases v) (auto simp: has_type_def nullable_def parse_typed_object_def parse_plain_def)

lemma annotation_of:
  assumes "c \<in> set (table_fields t)"
  obtains a where "map_of (annotations (class_of t)) c = Some a" and "col_type t c = build_column_type a" and "a \<noteq> TOther"
  using assms by (cases t) (auto simp: meta_eval col_type_def)

lemma parse_fields_typed:
  assumes "\<forall>(c, v) \<in> set r. c \<in> set (table_fields t) \<and> has_type (col_type t c) v"
  shows "parse_fields w (annotations (class_of t)) r = Inr r"
  using assms
proof (induction r)
  case (Cons p r)
  obtain c v where p: "p = (c, v)" by force
  with Cons.prems obtain a where "map_of (annotations (class_of t)) c = Some a"
    and "col_type t c = build_column_type a" and "a \<noteq> TOther"
    by (auto elim: annotation_of)
  with Cons p show ?case by (simp add: parse_typed)
qed simp

lemma parse_row: "row_ok t r \<Longrightarrow> parse_record w r t = Inr r"
proof -
  assume r: "row_ok t r"
  have "\<forall>(c, v) \<in> set r. c \<in> set (table_fields t) \<and> has_type (col_type t c) v"
    using r by (force simp: row_ok_def list_all_iff simp flip: row_ok_keys [OF r])
  then show ?thesis
    by (simp add: parse_record_def parse_fields_typed row_ok_keys [OF r] project_row [OF r])
qed

lemma run_convert [py_run]: "row_ok t r \<Longrightarrow> convert_row_to_record_model r t w = (Inr (record_of t r), w)"
  using run_for_each_assert [of "keys r" "\<lambda>c. c \<in> set (table_fields t)" "\<lambda>column. ''retrieved column '' @ column @ '' is not a valid field for the model '' @ cls_name (class_of t)" w]
  by (simp add: convert_row_to_record_model_def py_run parse_row record_of_def row_ok_keys list_all_iff)

lemma run_map_convert:
  "\<forall>r \<in> set rows. row_ok t r \<Longrightarrow> map_py (\<lambda>r. convert_row_to_record_model r t) rows w = (Inr (map (record_of t) rows), w)"
  by (induction rows) (auto simp: py_run)

lemma map_project: "\<forall>r \<in> set rows. row_ok t r \<Longrightarrow> map (project (table_fields t)) rows = rows"
  by (induction rows) (auto simp: project_row)

lemma set_insert_row [simp]: "set (insert_row ks r rows) = insert r (set rows)"
  by (induction rows) auto

lemma set_order_rows [simp]: "set (order_rows order_by rows) = set rows"
  by (induction rows) (auto simp: order_rows_def split: option.splits)

lemma set_limit_rows: "set (limit_rows limit offset rows) \<subseteq> set rows"
  by (auto simp: limit_rows_def Let_def dest!: in_set_takeD in_set_dropD split: option.splits if_splits)

lemma rows_typed: "wf w \<Longrightarrow> \<forall>r \<in> set (db w t). row_ok t r"
  by (auto dest: db_okD)

lemma run_find_one:
  assumes "wf w" and "kw \<noteq> []" and "set (keys kw) \<subseteq> set (table_fields t)"
  shows "find_one t kw w = ((case filter (key_filter kw) (db w t) of
      [] \<Rightarrow> Inl (EntityNotFound (cls_name (class_of t) @ '' record not found for given '' @ join '', '' (keys kw)))
    | r # _ \<Rightarrow> Inr (record_of t r)), w)"
proof -
  have "row_ok t r" if "filter (key_filter kw) (db w t) = r # rs" for r rs
  proof -
    have "r \<in> set (filter (key_filter kw) (db w t))"
      by (simp add: that)
    then show ?thesis
      using assms(1) by (auto dest: db_okD)
  qed
  then show ?thesis
    using assms
    by (auto simp: find_one_def py_run assert_filtered_def run_select_one where_key_conditions project_row
        split: list.splits)
qed

lemma run_find_many:
  assumes "wf w" and "kw \<noteq> []" and "set (keys kw) \<subseteq> set (table_fields t)"
    and "set (order_columns order_by) \<subseteq> set (table_fields t)"
  shows "find_many t order_by kw w =
    (Inr (map (record_of t) (order_rows order_by (filter (key_filter kw) (db w t)))), w)"
proof -
  have "\<forall>r \<in> set (order_rows order_by (filter (key_filter kw) (db w t))). row_ok t r"
    using assms(1) by (auto dest: db_okD)
  then show ?thesis
    using assms(2-)
    by (simp add: find_many_def py_run assert_filtered_def run_select_many matching_no_joins where_key_conditions
        limit_rows_def map_project run_map_convert)
qed

lemma run_exists_one:
  assumes "kw \<noteq> []" and "set (keys kw) \<subseteq> set (table_fields t)"
  shows "exists_one t kw w = (Inr (filter (key_filter kw) (db w t) \<noteq> []), w)"
  using assms pk_in_fields [of t]
  by (simp add: exists_one_def py_run assert_filtered_def run_select_one where_key_conditions split: list.splits)

lemma run_list_all:
  assumes "wf w" and "set (order_columns order_by) \<subseteq> set (table_fields t)"
  shows "list_all_records t order_by limit w =
    (Inr (map (record_of t) (limit_rows limit None (order_rows order_by (db w t)))), w)"
proof -
  have "\<forall>r \<in> set (limit_rows limit None (order_rows order_by (db w t))). row_ok t r"
    using assms(1) set_limit_rows by (fastforce dest: db_okD)
  then show ?thesis
    using assms(2)
    by (simp add: list_all_records_def py_run run_select_many matching_no_joins where_holds_def map_project run_map_convert)
qed

section \<open>Running the writes\<close>

definition targets_ok :: "(table \<Rightarrow> row list) \<Rightarrow> table \<Rightarrow> row \<Rightarrow> bool" where
  "targets_ok d t r = list_all (\<lambda>(c, o'). row_val r c = VNone \<or> row_val r c \<in> set (map (\<lambda>q. row_val q (pk o')) (d o')))
     (on_delete_cascade (meta t))"

definition insertable :: "(table \<Rightarrow> row list) \<Rightarrow> table \<Rightarrow> row \<Rightarrow> bool" where
  "insertable d t r \<longleftrightarrow> unique_ok t (d t @ [r]) \<and> targets_ok d t r"

definition add_row :: "(table \<Rightarrow> row list) \<Rightarrow> table \<Rightarrow> row \<Rightarrow> table \<Rightarrow> row list" where
  "add_row d t r = d(t := d t @ [r])"

definition replace_row :: "(table \<Rightarrow> row list) \<Rightarrow> table \<Rightarrow> row \<Rightarrow> row \<Rightarrow> table \<Rightarrow> row list" where
  "replace_row d t r r' = d(t := map (\<lambda>q. if q = r then r' else q) (d t))"

lemma cascade_other: "(c, o') \<in> set (on_delete_cascade (meta t)) \<Longrightarrow> o' \<noteq> t"
  using cascade_rank_less by fastforce

lemma targets_ok_iff:
  "targets_ok d t r \<longleftrightarrow> (\<forall>(c, o') \<in> set (on_delete_cascade (meta t)).
     row_val r c = VNone \<or> (\<exists>q \<in> set (d o'). row_val q (pk o') = row_val r c))"
  unfolding targets_ok_def list_all_iff by (fastforce simp: image_iff)

lemma fk_ok_targets: "fk_ok d \<longleftrightarrow> (\<forall>t. \<forall>r \<in> set (d t). targets_ok d t r)"
  unfolding fk_ok_iff targets_ok_iff by blast

lemma targets_ok_same_keys:
  assumes "\<And>o'. o' \<noteq> t \<Longrightarrow> set (map (\<lambda>q. row_val q (pk o')) (d o')) \<subseteq> set (map (\<lambda>q. row_val q (pk o')) (d' o'))"
    and "targets_ok d t r"
  shows "targets_ok d' t r"
  using assms cascade_other [of _ _ t] unfolding targets_ok_def list_all_iff by fastforce

lemma fk_add_row:
  assumes "fk_ok d"
  shows "fk_ok (add_row d t r) \<longleftrightarrow> targets_ok d t r"
proof
  have same: "targets_ok (add_row d t r) t q = targets_ok d t q" for q
    by (rule iffI; erule targets_ok_same_keys [rotated]) (simp_all add: add_row_def)
  show "targets_ok d t r" if "fk_ok (add_row d t r)"
  proof -
    have "r \<in> set (add_row d t r t)" by (simp add: add_row_def)
    with that show ?thesis unfolding fk_ok_targets same [symmetric] by blast
  qed
  show "fk_ok (add_row d t r)" if r: "targets_ok d t r"
    unfolding fk_ok_targets
  proof (intro allI ballI)
    fix t' q assume q: "q \<in> set (add_row d t r t')"
    have "targets_ok d t' q"
    proof (cases "t' = t")
      case True
      with q r assms show ?thesis by (auto simp: add_row_def fk_ok_targets)
    next
      case False
      with q assms show ?thesis by (auto simp: add_row_def fk_ok_targets)
    qed
    then show "targets_ok (add_row d t r) t' q"
      by (rule targets_ok_same_keys [rotated]) (auto simp: add_row_def)
  qed
qed

lemma extract_fields_project:
  "set fs \<subseteq> set (keys (attrs o')) \<Longrightarrow> extract_fields o' fs = Inr (project fs (attrs o'))"
  by (induction fs) (auto simp: project_def row_val_def map_of_eq_None_iff split: option.splits)

lemma extract_row: "row_ok (rtype o') (attrs o') \<Longrightarrow> extract_record_data o' = Inr (attrs o')"
  using row_ok_keys [of "rtype o'" "attrs o'"]
  by (simp add: extract_record_data_def extract_fields_project project_row)

lemma store_row: "row_ok t r \<Longrightarrow> store_vals t r = Inr r"
proof (rule store_vals_typed)
  assume r: "row_ok t r"
  have "row_val r c = v" if "(c, v) \<in> set r" for c v
    using that row_val_mem [of r] row_ok_keys [OF r] distinct_fields [of t] by auto
  with r show "list_all (\<lambda>(c, v). has_type (col_type t c) v \<and> (c = pk t \<longrightarrow> v \<noteq> VNone)) r"
    by (auto simp: row_ok_def list_all_iff)
qed

lemma row_ok_map_of: "row_ok t r \<Longrightarrow> c \<in> set (table_fields t) \<Longrightarrow> map_of r c = Some (row_val r c)"
  by (auto simp: row_val_def map_of_eq_None_iff simp flip: row_ok_keys split: option.splits)

lemma full_row_same: "row_ok t r \<Longrightarrow> full_row t n r = r"
proof -
  assume r: "row_ok t r"
  have "full_row t n r = project (table_fields t) r"
    unfolding full_row_def project_def by (simp add: row_ok_map_of [OF r])
  then show ?thesis by (simp add: project_row [OF r])
qed

lemma run_insert_row:
  assumes "wf w" and "row_ok t r"
  shows "insert_one t r [pk t] w =
    (if insertable (db w) t r then (Inr [(pk t, row_val r (pk t))], w\<lparr>db := add_row (db w) t r\<rparr>)
     else (Inl integrity_error, w))"
proof -
  have k: "set (keys r @ [pk t]) \<subseteq> set (table_fields t)" "pk t \<in> set (keys r)"
    using row_ok_keys [OF assms(2)] pk_in_fields [of t] by (metis insert_subset le_supI list.set(1) list.simps(15) order_refl set_append bot.extremum, metis)
  show ?thesis
    using k fk_add_row [OF db_okD(3) [OF assms(1)], of t r] db_okD(3) [OF assms(1)]
    by (simp add: insert_one_def execute_sql_fetch_one_def with_connection_def py_run Let_def full_row_same [OF assms(2)]
        store_row [OF assms(2)] insertable_def project_def add_row_def)
qed

lemma dict_set_same: "map_of d k = Some v \<Longrightarrow> dict_set k v d = d"
  by (induction d) auto

text \<open>Creating a record with its key set.\<close>

lemma run_create:
  assumes "wf w" and "row_ok t r" and "truthy (row_val r (pk t))"
  shows "create_record (new_record t r) w =
    (if insertable (db w) t r then (Inr (new_record t r), w\<lparr>db := add_row (db w) t r\<rparr>)
     else (Inl integrity_error, w))"
  using assms extract_row [of "new_record t r"] row_ok_map_of [OF assms(2) pk_in_fields]
  by (simp add: create_record_def new_record_def py_run supplement_primary_key_def run_insert_row dict_set_same)

end
