(* ===== verification/Cascade.thy ===== *)
theory Cascade
  imports Mapper
begin

text \<open>
  Deletion with its cascade (\<open>RecordMapper.delete_record\<close>): what it removes is exactly the record and
  the records that reach it through foreign keys, it never fails on a record of the database, and
  the foreign keys hold again after every single delete it sends.
\<close>

section \<open>Dependent records\<close>

text \<open>\<open>child d x y\<close>: the row \<open>y\<close> of the database refers to the row \<open>x\<close> by a foreign key.\<close>

definition child :: "(table \<Rightarrow> row list) \<Rightarrow> table \<times> row \<Rightarrow> table \<times> row \<Rightarrow> bool" where
  "child d x y \<longleftrightarrow> snd y \<in> set (d (fst y)) \<and>
     (\<exists>c. (c, fst x) \<in> set (on_delete_cascade (meta (fst y))) \<and> row_val (snd y) c = row_val (snd x) (pk (fst x))
        \<and> row_val (snd y) c \<noteq> VNone)"

definition dependants :: "(table \<Rightarrow> row list) \<Rightarrow> table \<times> row \<Rightarrow> (table \<times> row) set" where
  "dependants d x = {y. (child d)\<^sup>*\<^sup>* x y}"

definition without :: "(table \<Rightarrow> row list) \<Rightarrow> (table \<times> row) set \<Rightarrow> table \<Rightarrow> row list" where
  "without d S = (\<lambda>t. filter (\<lambda>r. (t, r) \<notin> S) (d t))"

definition closed_in :: "(table \<Rightarrow> row list) \<Rightarrow> (table \<times> row) set \<Rightarrow> bool" where
  "closed_in d S \<longleftrightarrow> (\<forall>x y. x \<in> S \<longrightarrow> child d x y \<longrightarrow> y \<in> S)"

lemma without_empty [simp]: "without d {} = d"
  by (simp add: without_def)

lemma without_without: "without (without d S) T = without d (S \<union> T)"
  by (auto simp: without_def fun_eq_iff intro: filter_cong)

lemma set_without: "set (without d S t) = {r \<in> set (d t). (t, r) \<notin> S}"
  by (auto simp: without_def)

lemma child_without: "child (without d S) x y \<longleftrightarrow> child d x y \<and> y \<notin> S"
  by (cases y) (auto simp: child_def set_without)

lemma child_rank: "child d x y \<Longrightarrow> cascade_rank (fst y) < cascade_rank (fst x)"
  by (auto simp: child_def cascade_rank_less)

lemma dependants_rank_less:
  assumes "y \<in> dependants d x" and "y \<noteq> x"
  shows "cascade_rank (fst y) < cascade_rank (fst x)"
proof -
  have "(child d)\<^sup>*\<^sup>* x y" using assms(1) by (simp add: dependants_def)
  then show ?thesis using assms(2)
  proof (induction)
    case (step y z)
    then show ?case using child_rank [of d y z] by (cases "y = x") simp_all
  qed simp
qed

lemma dependants_refl [simp]: "x \<in> dependants d x"
  by (simp add: dependants_def)

lemma closed_dependants: "closed_in d (dependants d x)"
  by (auto simp: closed_in_def dependants_def)

lemma closed_Union: "(\<And>i. i \<in> I \<Longrightarrow> closed_in d (S i)) \<Longrightarrow> closed_in d (\<Union>i \<in> I. S i)"
  unfolding closed_in_def by blast

lemma closed_Un: "closed_in d S \<Longrightarrow> closed_in d T \<Longrightarrow> closed_in d (S \<union> T)"
  unfolding closed_in_def by blast

lemma dependants_without:
  assumes "closed_in d S"
  shows "dependants (without d S) x - S = dependants d x - S"
proof -
  have "(child (without d S))\<^sup>*\<^sup>* x y" if "(child d)\<^sup>*\<^sup>* x y" and "y \<notin> S" for y
    using that
  proof (induction)
    case (step y z)
    then have "y \<notin> S" using assms unfolding closed_in_def by blast
    with step show ?case by (meson child_without rtranclp.rtrancl_into_rtrancl)
  qed simp
  moreover have "(child d)\<^sup>*\<^sup>* x y" if "(child (without d S))\<^sup>*\<^sup>* x y" for y
    using that by (induction) (auto simp: child_without intro: rtranclp.rtrancl_into_rtrancl)
  ultimately show ?thesis by (auto simp: dependants_def)
qed

lemma without_dependants_without:
  assumes "closed_in d S"
  shows "without (without d S) (dependants (without d S) x) = without d (S \<union> dependants d x)"
proof -
  have "S \<union> dependants (without d S) x = S \<union> dependants d x"
    using dependants_without [OF assms, of x] by blast
  then show ?thesis by (simp add: without_without)
qed

lemma dependants_children: "dependants d x = insert x (\<Union>y \<in> {y. child d x y}. dependants d y)"
  unfolding dependants_def by (auto intro: converse_rtranclp_into_rtranclp elim: converse_rtranclpE)

section \<open>Deleting one row\<close>

lemma run_delete_pk:
  assumes "wf w" and "r \<in> set (db w t)" and "\<forall>y. \<not> child (db w) (t, r) y"
  shows "delete_one t (Some (key_conditions [(pk t, row_val r (pk t))])) (Some [row_val r (pk t)]) w
    = (Inr (), w\<lparr>db := without (db w) {(t, r)}\<rparr>)"
proof -
  let ?k = "[(pk t, row_val r (pk t))]"
  have hit: "where_holds (Some (key_conditions ?k)) (Some [row_val r (pk t)]) (row_env t q) \<longleftrightarrow> key_filter ?k q" for q
    using where_key_conditions [of ?k t q] by simp
  have one: "length (filter (key_filter ?k) (db w t)) = 1"
    by (simp add: filter_pk [OF assms(1,2)])
  have "key_filter ?k q \<longleftrightarrow> q = r" if "q \<in> set (db w t)" for q
  proof -
    have "q \<in> set (filter (key_filter ?k) (db w t)) \<longleftrightarrow> q = r"
      by (simp add: filter_pk [OF assms(1,2)])
    with that show ?thesis by simp
  qed
  then have d: "(db w)(t := filter (\<lambda>q. \<not> key_filter ?k q) (db w t)) = without (db w) {(t, r)}"
    by (auto simp: without_def fun_eq_iff intro: filter_cong)
  have "fk_ok (without (db w) {(t, r)})"
    unfolding fk_ok_iff
  proof (intro allI impI ballI)
    fix t' c o' q assume c: "(c, o') \<in> set (on_delete_cascade (meta t'))" and q: "q \<in> set (without (db w) {(t, r)} t')"
    then have q': "q \<in> set (db w t')" by (simp add: set_without)
    with c db_okD(3) [OF assms(1)] have "row_val q c = VNone \<or> (\<exists>p \<in> set (db w o'). row_val p (pk o') = row_val q c)"
      unfolding fk_ok_iff by blast
    moreover have "row_val q c \<noteq> row_val r (pk t)" if "o' = t" "row_val q c \<noteq> VNone"
      using assms(3) c q' that by (auto simp: child_def)
    ultimately show "row_val q c = VNone \<or> (\<exists>p \<in> set (without (db w) {(t, r)} o'). row_val p (pk o') = row_val q c)"
      by (fastforce simp: set_without)
  qed
  then show ?thesis
    by (simp add: delete_one_def execute_sql_def with_connection_def py_run hit one check_affected_rows_def d Let_def
        del: One_nat_def) 
qed

section \<open>The cascade\<close>

definition deletes :: "('x, unit) dbm \<Rightarrow> 'x world_scheme \<Rightarrow> (table \<times> row) set \<Rightarrow> bool" where
  "deletes m w S \<longleftrightarrow> m w = (Inr (), w\<lparr>db := without (db w) S\<rparr>)"

lemma deletes_seq:
  assumes "deletes m w S" and "deletes k (w\<lparr>db := without (db w) S\<rparr>) T"
  shows "deletes (seq m k) w (S \<union> T)"
  using assms by (simp add: deletes_def py_run without_without)

lemma deletes_wf: "deletes m w S \<Longrightarrow> keeps wf m \<Longrightarrow> wf w \<Longrightarrow> wf (w\<lparr>db := without (db w) S\<rparr>)"
  by (auto simp: deletes_def dest: keepsD)

lemma deletes_cong: "deletes m w S \<Longrightarrow> without (db w) S = without (db w) T \<Longrightarrow> deletes m w T"
  by (simp add: deletes_def)

lemma distinct_rows: "db_ok d \<Longrightarrow> distinct (d t)"
  using unique_pk [OF db_okD(2)] distinct_map by blast

lemma delete_loop:
  assumes IH: "\<And>(w :: 'x world_scheme) r. wf w \<Longrightarrow> r \<in> set (db w t) \<Longrightarrow>
      deletes (delete_record_of t (record_of t r) True) w (dependants (db w) (t, r))"
    and "wf w" and "distinct rs" and "set rs \<subseteq> set (db w t)"
  shows "deletes (for_each (map (record_of t) rs) (\<lambda>o'. delete_record_of t o' True)) (w :: 'x world_scheme)
    (\<Union>r \<in> set rs. dependants (db w) (t, r))"
  using assms(2-)
proof (induction rs arbitrary: w)
  case (Cons r rs)
  let ?S = "dependants (db w) (t, r)" and ?w = "w\<lparr>db := without (db w) (dependants (db w) (t, r))\<rparr>"
  have del: "deletes (delete_record_of t (record_of t r) True) w ?S"
    using Cons.prems by (intro IH) auto
  have keep: "(t, q) \<notin> ?S" if "q \<in> set rs" for q
    using dependants_rank_less [of "(t, q)" "db w" "(t, r)"] that Cons.prems(2) by auto
  have "deletes (for_each (map (record_of t) rs) (\<lambda>o'. delete_record_of t o' True)) ?w
      (\<Union>q \<in> set rs. dependants (db ?w) (t, q))"
    using Cons.prems keep deletes_wf [OF del keeps_delete Cons.prems(1)]
    by (intro Cons.IH) (auto simp: set_without)
  with del have all: "deletes (for_each (map (record_of t) (r # rs)) (\<lambda>o'. delete_record_of t o' True)) w
      (?S \<union> (\<Union>q \<in> set rs. dependants (without (db w) ?S) (t, q)))"
    using deletes_seq by (auto simp del: Un_iff)
  have "?S \<union> dependants (without (db w) ?S) x = ?S \<union> dependants (db w) x" for x
    using dependants_without [OF closed_dependants, of "db w" "(t, r)" x] by blast
  then have "?S \<union> (\<Union>q \<in> set rs. dependants (without (db w) ?S) (t, q))
      = ?S \<union> (\<Union>q \<in> set rs. dependants (db w) (t, q))"
    by blast
  with all show ?case by simp
qed (simp add: deletes_def py_run)

definition delete_dependants :: "val \<Rightarrow> table \<times> string \<Rightarrow> ('x, unit) dbm" where
  "delete_dependants key = (\<lambda>(dep_table, dep_column).
     bind (find_many dep_table None [(dep_column, key)]) (\<lambda>dep_records.
     for_each dep_records (\<lambda>dep_record. delete_record_of dep_table dep_record True)))"

definition referring :: "(table \<Rightarrow> row list) \<Rightarrow> val \<Rightarrow> table \<times> string \<Rightarrow> (table \<times> row) set" where
  "referring d key p = {(fst p, q) |q. q \<in> set (d (fst p)) \<and> row_val q (snd p) = key}"

lemma delete_dependants_one:
  assumes IH: "\<And>(w :: 'x world_scheme) r. wf w \<Longrightarrow> r \<in> set (db w (fst p)) \<Longrightarrow>
      deletes (delete_record_of (fst p) (record_of (fst p) r) True) w (dependants (db w) (fst p, r))"
    and "wf w" and "p \<in> set (delete_cascade_dependants t)" and "key \<noteq> VNone"
  shows "deletes (delete_dependants key p) (w :: 'x world_scheme)
    (\<Union>y \<in> referring (db w) key p. dependants (db w) y)"
proof -
  obtain dt dc where p: "p = (dt, dc)" by force
  let ?rs = "filter (key_filter [(dc, key)]) (db w dt)"
  have "dc \<in> set (table_fields dt)"
    using assms(3) cascade_columns by (auto simp: p dependants_iff)
  then have "delete_dependants key p w = for_each (map (record_of dt) ?rs) (\<lambda>o'. delete_record_of dt o' True) w"
    using assms(2) by (simp add: delete_dependants_def p py_run run_find_many order_columns_def order_rows_def)
  moreover have "deletes (for_each (map (record_of dt) ?rs) (\<lambda>o'. delete_record_of dt o' True)) w
      (\<Union>r \<in> set ?rs. dependants (db w) (dt, r))"
    using IH assms(2) distinct_rows [OF assms(2)] by (intro delete_loop) (auto simp: p)
  moreover have "(\<Union>r \<in> set ?rs. dependants (db w) (dt, r)) = (\<Union>y \<in> referring (db w) key p. dependants (db w) y)"
    using assms(4) by (auto simp: referring_def p key_filter_def)
  ultimately show ?thesis by (simp add: deletes_def)
qed

lemma union_modulo:
  assumes "\<And>y. S \<union> D' y = S \<union> D y" and "\<And>y. y \<in> S \<Longrightarrow> D y \<subseteq> S"
    and "\<And>p y. y \<in> R' p \<Longrightarrow> y \<in> R p" and "\<And>p y. y \<in> R p \<Longrightarrow> y \<notin> S \<Longrightarrow> y \<in> R' p"
  shows "S \<union> (\<Union>p \<in> P. \<Union>y \<in> R' p. D' y) = S \<union> (\<Union>p \<in> P. \<Union>y \<in> R p. D y)"
proof (intro equalityI subsetI)
  fix z assume "z \<in> S \<union> (\<Union>p \<in> P. \<Union>y \<in> R' p. D' y)"
  then consider "z \<in> S" | p y where "p \<in> P" "y \<in> R' p" "z \<in> D' y" by auto
  then show "z \<in> S \<union> (\<Union>p \<in> P. \<Union>y \<in> R p. D y)"
  proof cases
    case (2 p y)
    then show ?thesis
      using assms(1) [of y] assms(3) [of y p] by blast
  qed simp
next
  fix z assume "z \<in> S \<union> (\<Union>p \<in> P. \<Union>y \<in> R p. D y)"
  then consider "z \<in> S" | p y where "p \<in> P" "y \<in> R p" "z \<in> D y" by auto
  then show "z \<in> S \<union> (\<Union>p \<in> P. \<Union>y \<in> R' p. D' y)"
  proof cases
    case (2 p y)
    then show ?thesis
      using assms(1) [of y] assms(2) [of y] assms(4) [of y p] by (cases "y \<in> S") auto
  qed simp
qed

lemma delete_dependants_all:
  assumes IH: "\<And>p (w :: 'x world_scheme) r. p \<in> set ps \<Longrightarrow> wf w \<Longrightarrow> r \<in> set (db w (fst p)) \<Longrightarrow>
      deletes (delete_record_of (fst p) (record_of (fst p) r) True) w (dependants (db w) (fst p, r))"
    and "wf w" and "set ps \<subseteq> set (delete_cascade_dependants t)" and "key \<noteq> VNone"
  shows "deletes (for_each ps (delete_dependants key)) (w :: 'x world_scheme)
    (\<Union>p \<in> set ps. \<Union>y \<in> referring (db w) key p. dependants (db w) y)"
  using assms
proof (induction ps arbitrary: w)
  case (Cons p ps)
  let ?S = "\<Union>y \<in> referring (db w) key p. dependants (db w) y"
  let ?w = "w\<lparr>db := without (db w) ?S\<rparr>"
  have del: "deletes (delete_dependants key p) w ?S"
    using Cons.prems by (intro delete_dependants_one) auto
  have keep: "keeps wf (delete_dependants key p :: ('x, unit) dbm)"
    unfolding delete_dependants_def by (intro keeps_intro keeps_delete)
  have closed: "closed_in (db w) ?S"
    by (intro closed_Union closed_dependants)
  have "deletes (for_each ps (delete_dependants key)) ?w
      (\<Union>p \<in> set ps. \<Union>y \<in> referring (db ?w) key p. dependants (db ?w) y)"
    using Cons.prems deletes_wf [OF del keep Cons.prems(2)] by (intro Cons.IH) auto
  with del have all: "deletes (for_each (p # ps) (delete_dependants key)) w
      (?S \<union> (\<Union>p \<in> set ps. \<Union>y \<in> referring (without (db w) ?S) key p. dependants (without (db w) ?S) y))"
    using deletes_seq by (auto simp del: Un_iff)
  have one: "?S \<union> dependants (without (db w) ?S) y = ?S \<union> dependants (db w) y" for y
    using dependants_without [OF closed, of y] by blast
  have inside: "dependants (db w) y \<subseteq> ?S" if "y \<in> ?S" for y
    using that by (auto simp: dependants_def intro: rtranclp_trans)
  have "?S \<union> (\<Union>p \<in> set ps. \<Union>y \<in> referring (without (db w) ?S) key p. dependants (without (db w) ?S) y)
      = ?S \<union> (\<Union>p \<in> set ps. \<Union>y \<in> referring (db w) key p. dependants (db w) y)"
    by (rule union_modulo [OF one inside]) (auto simp: referring_def set_without)
  with all show ?case by simp
qed (simp add: deletes_def py_run)

lemma children_referring:
  assumes "key = row_val r (pk t)" and "key \<noteq> VNone"
  shows "(\<Union>p \<in> set (delete_cascade_dependants t). referring d key p) = {y. child d (t, r) y}"
proof (intro equalityI subsetI)
  fix y assume "y \<in> (\<Union>p \<in> set (delete_cascade_dependants t). referring d key p)"
  then show "y \<in> {y. child d (t, r) y}"
    using assms by (auto simp: referring_def child_def dependants_iff)
next
  fix y assume "y \<in> {y. child d (t, r) y}"
  then obtain c where "snd y \<in> set (d (fst y))" "(fst y, c) \<in> set (delete_cascade_dependants t)" "row_val (snd y) c = key"
    using assms by (auto simp: child_def dependants_iff)
  then have "y \<in> referring d key (fst y, c)"
    by (cases y) (simp add: referring_def)
  then show "y \<in> (\<Union>p \<in> set (delete_cascade_dependants t). referring d key p)"
    using \<open>(fst y, c) \<in> set (delete_cascade_dependants t)\<close> by blast
qed

lemma run_primary_key:
  assumes "row_ok t r"
  shows "get_primary_key_value (record_of t r) = Inr (row_val r (pk t))"
proof -
  have "pk t \<in> set (keys r)" using row_ok_keys [OF assms] pk_in_fields by metis
  then show ?thesis
    by (auto simp: get_primary_key_value_def row_val_def map_of_eq_None_iff split: option.splits)
qed

lemma run_cascade_dependencies:
  assumes "wf w" and "r \<in> set (db w t)"
  shows "delete_cascade_dependencies t (record_of t r) w
    = for_each (delete_cascade_dependants t) (delete_dependants (row_val r (pk t))) w"
  using run_primary_key [OF db_okD(1) [OF assms]]
  by (simp add: delete_cascade_dependencies.simps py_run delete_dependants_def)

lemma run_delete_record_of:
  assumes "wf w" and "r \<in> set (db w t)"
  shows "delete_record_of t (record_of t r) True w
    = seq (delete_cascade_dependencies t (record_of t r))
        (delete_one t (Some (key_conditions [(pk t, row_val r (pk t))])) (Some [row_val r (pk t)])) w"
  using run_primary_key [OF db_okD(1) [OF assms]] pk_in_fields [of t]
  by (simp add: delete_record_of.simps [of t "record_of t r"] py_run)

lemma delete_record_of_deletes:
  assumes "wf w" and "r \<in> set (db w t)"
  shows "deletes (delete_record_of t (record_of t r) True) (w :: 'x world_scheme) (dependants (db w) (t, r))"
  using assms
proof (induction t arbitrary: w r rule: measure_induct_rule [where f = cascade_rank])
  case (less t)
  let ?key = "row_val r (pk t)"
  have key: "?key \<noteq> VNone" using pk_not_null [OF less.prems] .
  let ?S = "\<Union>y \<in> {y. child (db w) (t, r) y}. dependants (db w) y"
  have "deletes (for_each (delete_cascade_dependants t) (delete_dependants ?key)) w
      (\<Union>p \<in> set (delete_cascade_dependants t). \<Union>y \<in> referring (db w) ?key p. dependants (db w) y)"
    using less.prems(1) key by (intro delete_dependants_all less.IH) (auto dest: dependants_rank)
  moreover have "(\<Union>p \<in> set (delete_cascade_dependants t). \<Union>y \<in> referring (db w) ?key p. dependants (db w) y) = ?S"
    unfolding children_referring [OF refl key, symmetric] by blast
  ultimately have deps: "deletes (delete_cascade_dependencies t (record_of t r)) w ?S"
    by (simp add: deletes_def run_cascade_dependencies [OF less.prems])
  have "(t, r) \<notin> ?S"
  proof
    assume "(t, r) \<in> ?S"
    then obtain y where y: "child (db w) (t, r) y" "(t, r) \<in> dependants (db w) y" by blast
    then show False
      using child_rank [OF y(1)] dependants_rank_less [OF y(2)] by fastforce
  qed
  then have r: "r \<in> set (db (w\<lparr>db := without (db w) ?S\<rparr>) t)"
    using less.prems(2) by (simp add: set_without)
  have none: "\<forall>y. \<not> child (db (w\<lparr>db := without (db w) ?S\<rparr>)) (t, r) y"
  proof (intro allI notI)
    fix y assume "child (db (w\<lparr>db := without (db w) ?S\<rparr>)) (t, r) y"
    then have "child (db w) (t, r) y" and "y \<notin> ?S" by (simp_all add: child_without)
    then show False using dependants_refl [of y "db w"] by blast
  qed
  have keep: "keeps wf (delete_cascade_dependencies t (record_of t r) :: ('x, unit) dbm)"
    unfolding delete_cascade_dependencies.simps by (intro keeps_intro keeps_delete)
  have "deletes (delete_one t (Some (key_conditions [(pk t, ?key)])) (Some [?key])) (w\<lparr>db := without (db w) ?S\<rparr>) {(t, r)}"
    unfolding deletes_def by (rule run_delete_pk [OF deletes_wf [OF deps keep less.prems(1)] r none])
  from deletes_seq [OF deps this] show ?case
    by (simp add: deletes_def run_delete_record_of [OF less.prems] dependants_children [of "db w" "(t, r)"])
qed

end
