(* ===== verification/MapperLaws.thy ===== *)
theory MapperLaws
  imports Cascade
begin

text \<open>
  The laws of the record mapper that its clients use, as the contract of a record store: what a
  lookup returns after a record is created, updated or deleted, and what the operations leave alone.
  The contract is a locale and the mapper its interpretation.
\<close>

section \<open>Creating with a generated key\<close>

definition with_pk :: "table \<Rightarrow> val \<Rightarrow> row \<Rightarrow> row" where
  "with_pk t v r = dict_set (pk t) v r"

lemma keys_dict_set: "k \<in> set (keys d) \<Longrightarrow> keys (dict_set k v d) = keys d"
  by (induction d) auto

lemma row_val_dict_set [simp]: "row_val (dict_set k v r) c = (if c = k then v else row_val r c)"
  by (simp add: row_val_def)

text \<open>\<open>rest_ok\<close>: all columns but the key are well typed.\<close>

definition rest_ok :: "table \<Rightarrow> row \<Rightarrow> bool" where
  "rest_ok t r \<longleftrightarrow> keys r = table_fields t \<and> list_all (\<lambda>(c, v). c = pk t \<or> has_type (col_type t c) v) r"

lemma with_pk_ok:
  assumes "rest_ok t r" and "has_type (col_type t (pk t)) v" and "v \<noteq> VNone"
  shows "row_ok t (with_pk t v r)"
proof (rule row_okI)
  have d: "distinct (keys r)" and m: "pk t \<in> set (keys r)"
    using assms(1) distinct_fields [of t] pk_in_fields [of t] by (auto simp: rest_ok_def)
  show "keys (with_pk t v r) = table_fields t"
    using assms(1) keys_dict_set [OF m] by (simp add: with_pk_def rest_ok_def)
  have "c = pk t \<and> u = v \<or> c \<noteq> pk t \<and> (c, u) \<in> set r" if "(c, u) \<in> set (dict_set (pk t) v r)" for c u
  proof (cases "c = pk t")
    case True
    have "map_of (dict_set (pk t) v r) c = Some u"
      using that d by (simp add: distinct_update del: map_of_dict_set)
    with True show ?thesis by simp
  next
    case False
    have "map_of (dict_set (pk t) v r) c = Some u"
      using that d by (simp add: distinct_update del: map_of_dict_set)
    with False show ?thesis by (auto dest: map_of_SomeD)
  qed
  then show "list_all (\<lambda>(c, v). has_type (col_type t c) v \<and> (c = pk t \<longrightarrow> v \<noteq> VNone)) (with_pk t v r)"
    using assms by (fastforce simp: with_pk_def rest_ok_def list_all_iff)
qed

lemma pk_string: "primary_key_generator (meta t) = Some NewUuid \<Longrightarrow> has_type (col_type t (pk t)) (VStr u)"
  by (cases t) (simp_all add: has_type_def col_type_def meta_eval)

lemma row_ok_rest: "row_ok t r \<Longrightarrow> rest_ok t r"
  by (auto simp: row_ok_def rest_ok_def list_all_iff)

lemma extract_rest: "rest_ok t r \<Longrightarrow> extract_record_data (new_record t r) = Inr (project (table_fields t) r)"
  by (simp add: extract_record_data_def new_record_def extract_fields_project rest_ok_def)

lemma project_rest: "rest_ok t r \<Longrightarrow> project (table_fields t) r = r"
proof -
  assume r: "rest_ok t r"
  have "row_val r (fst p) = snd p" if "p \<in> set r" for p
    using that r distinct_fields [of t] by (metis prod.collapse rest_ok_def row_val_mem)
  then have "map (\<lambda>f. (f, row_val r f)) (keys r) = r"
    by (auto intro!: map_idI)
  moreover have "table_fields t = keys r" using r by (simp add: rest_ok_def)
  ultimately show ?thesis by (simp only: project_def)
qed

lemma run_create_uuid:
  assumes "wf w" and "rest_ok t r" and "primary_key_generator (meta t) = Some NewUuid"
    and "\<not> truthy (row_val r (pk t))" and "r' = with_pk t (VStr (uuid_of w (uuid_count w))) r"
  shows "create_record (new_record t r) w =
    (if insertable (db w) t r' then (Inr (new_record t r'), w\<lparr>db := add_row (db w) t r', uuid_count := Suc (uuid_count w)\<rparr>)
     else (Inl integrity_error, w\<lparr>uuid_count := Suc (uuid_count w)\<rparr>))"
proof -
  have r': "row_ok t r'"
    unfolding assms(5) by (rule with_pk_ok) (simp_all add: assms pk_string)
  have "row_val r' (pk t) = VStr (uuid_of w (uuid_count w))"
    by (simp add: assms(5) with_pk_def)
  moreover have "dict_set (pk t) (VStr (uuid_of w (uuid_count w))) r = r'"
    by (simp add: assms(5) with_pk_def)
  ultimately show ?thesis
    using assms(1,3,4) r' extract_rest [OF assms(2)] project_rest [OF assms(2)]
      run_insert_row [of "w\<lparr>uuid_count := Suc (uuid_count w)\<rparr>" t r']
    by (simp add: create_record_def new_record_def py_run supplement_primary_key_def new_uuid_def)
qed

section \<open>Updating\<close>

definition changed_row :: "row \<Rightarrow> row \<Rightarrow> row" where
  "changed_row r0 r' = filter (\<lambda>(c, v). map_of r0 c \<noteq> Some v) r'"

lemma changed_data:
  assumes "row_ok t r'" and "r0 \<noteq> []"
  shows "extract_changed_data \<lparr>rtype = t, attrs = r', original_fields = Some r0\<rparr> = Inr (changed_row r0 r')"
  using assms extract_row [of "\<lparr>rtype = t, attrs = r', original_fields = Some r0\<rparr>"]
  by (simp add: extract_changed_data_def changed_row_def)

lemma row_ok_nonempty: "row_ok t r \<Longrightarrow> r \<noteq> []"
  using pk_in_fields [of t] by (auto simp: row_ok_def)

lemma map_of_changed:
  "distinct (keys r') \<Longrightarrow> map_of (changed_row r0 r') c = (case map_of r' c of None \<Rightarrow> None
     | Some v \<Rightarrow> if map_of r0 c = Some v then None else Some v)"
  by (induction r') (auto simp: changed_row_def map_of_eq_None_iff split: option.splits)

text \<open>The row after an update: the changed fields written over the stored row.\<close>

lemma set_changed_same:
  assumes "row_ok t r" and "row_ok t r'"
  shows "set_cols (changed_row r r') r = r'"
proof (rule row_eqI [of t])
  have d: "distinct (keys r)" "distinct (keys r')"
    using assms distinct_fields [of t] by (simp_all add: row_ok_keys)
  have "store_vals t (changed_row r r') = Inr (changed_row r r')"
    using store_row [OF assms(2)] unfolding changed_row_def
    by (induction r') (auto split: sum.splits if_splits)
  then show "row_ok t (set_cols (changed_row r r') r)"
    by (rule set_cols_ok [OF assms(1)])
  show "row_val (set_cols (changed_row r r') r) c = row_val r' c" if "c \<in> set (table_fields t)" for c
    using that d row_ok_map_of [OF assms(1) that] row_ok_map_of [OF assms(2) that] row_ok_keys [OF assms(1)]
    by (auto simp: row_val_set_cols map_of_changed image_iff simp del: set_map)
qed (fact assms(2))

definition updatable :: "(table \<Rightarrow> row list) \<Rightarrow> table \<Rightarrow> row \<Rightarrow> row \<Rightarrow> bool" where
  "updatable d t r r' \<longleftrightarrow> unique_ok t (replace_row d t r r' t) \<and> targets_ok d t r'"

lemma replace_keys:
  assumes "row_val r' (pk t) = row_val r (pk t)"
  shows "map (\<lambda>q. row_val q (pk o')) (replace_row d t r r' o') = map (\<lambda>q. row_val q (pk o')) (d o')"
  using assms by (auto simp: replace_row_def)

lemma targets_replace:
  assumes "row_val r' (pk t) = row_val r (pk t)"
  shows "targets_ok (replace_row d t r r') t' q = targets_ok d t' q"
  unfolding targets_ok_def replace_keys [OF assms] ..

lemma fk_replace_row:
  assumes "fk_ok d" and "r \<in> set (d t)" and "row_val r' (pk t) = row_val r (pk t)"
  shows "fk_ok (replace_row d t r r') \<longleftrightarrow> targets_ok d t r'"
proof
  assume "fk_ok (replace_row d t r r')"
  moreover have "r' \<in> set (replace_row d t r r' t)"
    using assms(2) by (auto simp: replace_row_def)
  ultimately show "targets_ok d t r'"
    unfolding fk_ok_targets targets_replace [OF assms(3)] by blast
next
  assume r': "targets_ok d t r'"
  have "q = r' \<and> t' = t \<or> q \<in> set (d t')" if "q \<in> set (replace_row d t r r' t')" for q t'
    using that by (auto simp: replace_row_def split: if_splits)
  then show "fk_ok (replace_row d t r r')"
    using assms(1) r' unfolding fk_ok_targets targets_replace [OF assms(3)] by blast
qed

lemma pk_hit:
  assumes "wf w" and "r \<in> set (db w t)" and "q \<in> set (db w t)"
  shows "key_filter [(pk t, row_val r (pk t))] q \<longleftrightarrow> q = r"
proof -
  have "q \<in> set (filter (key_filter [(pk t, row_val r (pk t))]) (db w t)) \<longleftrightarrow> q = r"
    by (simp add: filter_pk [OF assms(1,2)])
  with assms(3) show ?thesis by simp
qed

lemma changed_nonempty:
  assumes "row_ok t r" and "row_ok t r'" and "r \<noteq> r'"
  shows "changed_row r r' \<noteq> []"
  using set_changed_same [OF assms(1,2)] assms(3) by (auto simp: set_cols_def case_prod_unfold)

lemma changed_store: "row_ok t r' \<Longrightarrow> store_vals t (changed_row r r') = Inr (changed_row r r')"
  by (drule store_row, unfold changed_row_def, induction r') (auto split: sum.splits if_splits)

lemma changed_keys: "row_ok t r' \<Longrightarrow> set (keys (changed_row r r')) \<subseteq> set (table_fields t)"
  by (auto simp: changed_row_def simp flip: row_ok_keys)

lemma set_row_same:
  assumes "row_ok t r" and "row_ok t r'"
  shows "set_cols r' r = r'"
proof (rule row_eqI [of t])
  show "row_ok t (set_cols r' r)" by (rule set_cols_ok [OF assms(1) store_row [OF assms(2)]])
  show "row_val (set_cols r' r) c = row_val r' c" if "c \<in> set (table_fields t)" for c
    using that row_ok_map_of [OF assms(1) that] row_ok_map_of [OF assms(2) that] row_ok_keys [OF assms(1)]
      distinct_fields [of t] row_ok_keys [OF assms(2)]
    by (auto simp: row_val_set_cols image_iff simp del: set_map)
qed (fact assms(2))

lemma run_write_row:
  assumes w: "wf w" and r: "r \<in> set (db w t)" and r': "row_ok t r'" and key: "row_val r' (pk t) = row_val r (pk t)"
    and ch: "ch \<noteq> []" "store_vals t ch = Inr ch" "set (keys ch) \<subseteq> set (table_fields t)" "set_cols ch r = r'"
  shows "update_one t (key_conditions [(pk t, row_val r (pk t))]) [row_val r (pk t)] ch w =
    (if updatable (db w) t r r' then (Inr (), w\<lparr>db := replace_row (db w) t r r'\<rparr>) else (Inl integrity_error, w))"
proof -
  let ?k = "[(pk t, row_val r (pk t))]"
  have hit: "where_holds (Some (key_conditions ?k)) (Some [row_val r (pk t)]) (row_env t q) \<longleftrightarrow> key_filter ?k q" for q
    using where_key_conditions [of ?k t q] by simp
  have one: "length (filter (key_filter ?k) (db w t)) = 1"
    by (simp add: filter_pk [OF w r])
  have rows': "map (\<lambda>q. if key_filter ?k q then set_cols ch q else q) (db w t) = replace_row (db w) t r r' t"
    using pk_hit [OF w r] ch(4) by (auto simp: replace_row_def)
  have rows: "(db w)(t := replace_row (db w) t r r' t) = replace_row (db w) t r r'"
    by (simp add: replace_row_def)
  have fk: "fk_ok (replace_row (db w) t r r') \<longleftrightarrow> targets_ok (db w) t r'"
    by (rule fk_replace_row [OF db_okD(3) [OF w] r key])
  have run: "run_stmt (UpdateS t (Some (key_conditions ?k)) (Some [row_val r (pk t)]) ch) w
    = (if unique_ok t (replace_row (db w) t r r' t) then (Inr ([], 1), w\<lparr>db := replace_row (db w) t r r'\<rparr>)
       else (Inl integrity_error, w))"
    using ch(1,3)
    by (simp only: run_stmt.simps Let_def ch(2) hit one rows' rows sum.case if_False not_not if_True simp_thms)
  show ?thesis
    unfolding update_one_def execute_sql_def with_connection_def run_bind run
    using fk db_okD(3) [OF w] by (simp add: updatable_def check_affected_rows_def py_run)
qed

lemma run_update_row:
  assumes "wf w" and "r \<in> set (db w t)" and "row_ok t r'" and "row_val r' (pk t) = row_val r (pk t)" and "r \<noteq> r'"
  shows "update_one t (key_conditions [(pk t, row_val r (pk t))]) [row_val r (pk t)] (changed_row r r') w =
    (if updatable (db w) t r r' then (Inr (), w\<lparr>db := replace_row (db w) t r r'\<rparr>) else (Inl integrity_error, w))"
  using run_write_row [OF assms(1-4)] changed_nonempty changed_store changed_keys set_changed_same db_okD(1) [OF assms(1,2)] assms(3,5)
  by metis

lemma run_update:
  assumes "wf w" and "r \<in> set (db w t)" and "row_ok t r'" and "row_val r' (pk t) = row_val r (pk t)"
  shows "update_record \<lparr>rtype = t, attrs = r', original_fields = Some r\<rparr> True w =
    (if r' = r then (Inr (record_of t r), w)
     else if updatable (db w) t r r' then (Inr (record_of t r'), w\<lparr>db := replace_row (db w) t r r'\<rparr>)
     else (Inl integrity_error, w))"
proof -
  have ok: "row_ok t r" using db_okD(1) [OF assms(1,2)] .
  have same: "changed_row r r = []"
    using ok row_val_mem [of r] row_ok_map_of [OF ok] distinct_fields [of t] row_ok_keys [OF ok]
    by (auto simp: changed_row_def filter_empty_conv)
  have "get_primary_key_value \<lparr>rtype = t, attrs = r', original_fields = Some r\<rparr> = Inr (row_val r (pk t))"
    using row_ok_map_of [OF assms(3) pk_in_fields] assms(4) by (simp add: get_primary_key_value_def)
  then show ?thesis
    using changed_data [OF assms(3) row_ok_nonempty [OF ok]] run_update_row [OF assms] same pk_in_fields [of t]
      changed_nonempty [OF ok assms(3)] project_row [OF assms(3)]
    by (auto simp: update_record_def py_run record_of_def record_to_dict_def)
qed

lemma run_overwrite:
  assumes "wf w" and "r \<in> set (db w t)" and "row_ok t r'" and "row_val r' (pk t) = row_val r (pk t)"
  shows "update_record (new_record t r') False w =
    (if updatable (db w) t r r' then (Inr (new_record t r'), w\<lparr>db := replace_row (db w) t r r'\<rparr>) else (Inl integrity_error, w))"
proof -
  have "get_primary_key_value (new_record t r') = Inr (row_val r (pk t))"
    using row_ok_map_of [OF assms(3) pk_in_fields] assms(4) by (simp add: get_primary_key_value_def new_record_def)
  then show ?thesis
    using run_write_row [OF assms row_ok_nonempty [OF assms(3)] store_row [OF assms(3)] _ set_row_same [OF db_okD(1) [OF assms(1,2)] assms(3)]]
      pk_in_fields [of t] row_ok_keys [OF assms(3)]
    by (simp add: update_record_def py_run new_record_def assms(3) extract_row)
qed

section \<open>What a successful creation has done\<close>

lemma insert_success:
  assumes "insert_one t data [pk t] w = (Inr returning, w')"
  obtains n r where "store_vals t (full_row t n data) = Inr r" and "db w' = add_row (db w) t r"
    and "returning = [(pk t, row_val r (pk t))]"
  using assms
  by (auto simp: insert_one_def execute_sql_fetch_one_def with_connection_def py_run Let_def project_def add_row_def
      split: if_splits sum.splits option.splits)

lemma stored_value:
  assumes "store_vals t data = Inr r" and "map_of data c = Some v" and "has_type (col_type t c) v" and "v \<noteq> VNone \<or> c \<noteq> pk t"
  shows "row_val r c = v"
  using assms
  by (induction t data arbitrary: r rule: store_vals.induct)
    (auto simp: store_val_typed row_val_def split: sum.splits if_splits)

lemma supplement_spec:
  assumes "supplement_primary_key data t w = (Inr data', w')"
  shows "db w' = db w" and "c \<noteq> pk t \<Longrightarrow> map_of data' c = map_of data c"
  using assms
  by (auto simp: supplement_primary_key_def py_run new_uuid_def split: if_splits option.splits pk_generator.splits)

lemma map_of_full_row:
  "c \<in> set (table_fields t) \<Longrightarrow> map_of data c = Some v \<Longrightarrow> map_of (full_row t n data) c = Some v"
  by (simp add: full_row_def map_of_map_restrict)

lemma create_success:
  assumes "create_record o' w = (Inr o2, w')"
  obtains r where "db w' = add_row (db w) (rtype o') r" and "o2 = o'\<lparr>attrs := dict_set (pk (rtype o')) (row_val r (pk (rtype o'))) (attrs o')\<rparr>"
    and "\<And>c. c \<in> set (table_fields (rtype o')) \<Longrightarrow> c \<noteq> pk (rtype o') \<Longrightarrow>
      has_type (col_type (rtype o') c) (attr o' c) \<Longrightarrow> row_val r c = attr o' c"
proof -
  let ?t = "rtype o'"
  from assms obtain data data' w1 returning where
    data: "extract_record_data o' = Inr data" and
    sup: "supplement_primary_key data ?t w = (Inr data', w1)" and
    ins: "insert_one ?t data' [pk ?t] w1 = (Inr returning, w')" and
    o2: "o2 = o'\<lparr>attrs := dict_update (attrs o') returning\<rparr>"
    by (auto simp: create_record_def py_run split: sum.splits prod.splits)
  from ins obtain n r where r: "store_vals ?t (full_row ?t n data') = Inr r" "db w' = add_row (db w1) ?t r"
    "returning = [(pk ?t, row_val r (pk ?t))]"
    by (rule insert_success)
  have fields: "map_of data c = Some (attr o' c)" if "c \<in> set (table_fields ?t)" for c
  proof -
    have "extract_fields o' fs = Inr d \<Longrightarrow> c \<in> set fs \<Longrightarrow> map_of d c = Some (attr o' c)" for fs d
      by (induction fs arbitrary: d) (auto simp: row_val_def split: option.splits sum.splits)
    with data that show ?thesis by (auto simp: extract_record_data_def)
  qed
  show ?thesis
  proof (rule that)
    show "db w' = add_row (db w) ?t r" using r(2) supplement_spec(1) [OF sup] by simp
    show "o2 = o'\<lparr>attrs := dict_set (pk ?t) (row_val r (pk ?t)) (attrs o')\<rparr>" using o2 r(3) by simp
    show "row_val r c = attr o' c" if "c \<in> set (table_fields ?t)" "c \<noteq> pk ?t" "has_type (col_type ?t c) (attr o' c)" for c
      using that fields [OF that(1)] supplement_spec(2) [OF sup that(2)] map_of_full_row [OF that(1)]
      by (intro stored_value [OF r(1)]) auto
  qed
qed

section \<open>The contract of a record store\<close>

locale record_store =
  fixes inv :: "'w \<Rightarrow> bool"
    and rows :: "'w \<Rightarrow> table \<Rightarrow> row list"
    and find :: "table \<Rightarrow> row \<Rightarrow> ('w, robj) py"
    and create :: "robj \<Rightarrow> ('w, robj) py"
    and update :: "robj \<Rightarrow> ('w, robj) py"
    and delete :: "robj \<Rightarrow> ('w, unit) py"
  assumes find_hit: "inv w \<Longrightarrow> r \<in> set (rows w t) \<Longrightarrow> find t [(pk t, row_val r (pk t))] w = (Inr (record_of t r), w)"
    and find_miss: "inv w \<Longrightarrow> \<forall>r \<in> set (rows w t). row_val r (pk t) \<noteq> v \<Longrightarrow>
      \<exists>msg. find t [(pk t, v)] w = (Inl (EntityNotFound msg), w)"
    and create_law: "inv w \<Longrightarrow> create o' w = (Inr o2, w') \<Longrightarrow> inv w' \<and>
      (\<exists>r. rows w' = add_row (rows w) (rtype o') r \<and> attr o2 (pk (rtype o')) = row_val r (pk (rtype o'))
         \<and> (\<forall>c \<in> set (table_fields (rtype o')). c \<noteq> pk (rtype o') \<longrightarrow> has_type (col_type (rtype o') c) (attr o' c)
              \<longrightarrow> row_val r c = attr o' c))"
    and update_law: "inv w \<Longrightarrow> r \<in> set (rows w t) \<Longrightarrow> row_ok t r' \<Longrightarrow> row_val r' (pk t) = row_val r (pk t) \<Longrightarrow>
      update \<lparr>rtype = t, attrs = r', original_fields = Some r\<rparr> w = (Inr o2, w') \<Longrightarrow>
      inv w' \<and> rows w' = replace_row (rows w) t r r'"
    and delete_law: "inv w \<Longrightarrow> r \<in> set (rows w t) \<Longrightarrow>
      \<exists>w'. delete (record_of t r) w = (Inr (), w') \<and> inv w' \<and> rows w' = without (rows w) (dependants (rows w) (t, r))"
    and keys_identify: "inv w \<Longrightarrow> r \<in> set (rows w t) \<Longrightarrow> q \<in> set (rows w t) \<Longrightarrow>
      row_val r (pk t) = row_val q (pk t) \<Longrightarrow> r = q"
begin

lemma create_find:
  assumes "inv w" and "create o' w = (Inr o2, w')"
  shows "\<exists>r. find (rtype o') [(pk (rtype o'), attr o2 (pk (rtype o')))] w' = (Inr (record_of (rtype o') r), w')
    \<and> rows w' = add_row (rows w) (rtype o') r
    \<and> (\<forall>c \<in> set (table_fields (rtype o')). c \<noteq> pk (rtype o') \<longrightarrow> has_type (col_type (rtype o') c) (attr o' c)
          \<longrightarrow> row_val r c = attr o' c)"
proof -
  from create_law [OF assms] obtain r where r: "inv w'" "rows w' = add_row (rows w) (rtype o') r"
    "attr o2 (pk (rtype o')) = row_val r (pk (rtype o'))"
    "\<forall>c \<in> set (table_fields (rtype o')). c \<noteq> pk (rtype o') \<longrightarrow> has_type (col_type (rtype o') c) (attr o' c)
       \<longrightarrow> row_val r c = attr o' c" by auto
  have "r \<in> set (rows w' (rtype o'))" using r(2) by (simp add: add_row_def)
  from find_hit [OF r(1) this] r show ?thesis by auto
qed

lemma update_find:
  assumes "inv w" and "r \<in> set (rows w t)" and "row_ok t r'" and "row_val r' (pk t) = row_val r (pk t)"
    and "update \<lparr>rtype = t, attrs = r', original_fields = Some r\<rparr> w = (Inr o2, w')"
  shows "find t [(pk t, row_val r (pk t))] w' = (Inr (record_of t r'), w')"
proof -
  from update_law [OF assms] have u: "inv w'" "rows w' = replace_row (rows w) t r r'" by auto
  have "r' \<in> set (rows w' t)" using u(2) assms(2) by (auto simp: replace_row_def)
  from find_hit [OF u(1) this] assms(4) show ?thesis by simp
qed

lemma delete_find:
  assumes "inv w" and "r \<in> set (rows w t)"
  shows "\<exists>w' msg. delete (record_of t r) w = (Inr (), w') \<and>
    find t [(pk t, row_val r (pk t))] w' = (Inl (EntityNotFound msg), w')"
proof -
  from delete_law [OF assms] obtain w' where w': "delete (record_of t r) w = (Inr (), w')" "inv w'"
    "rows w' = without (rows w) (dependants (rows w) (t, r))" by auto
  have "row_val q (pk t) \<noteq> row_val r (pk t)" if "q \<in> set (rows w' t)" for q
  proof
    assume "row_val q (pk t) = row_val r (pk t)"
    with that have "q = r" using w'(3) assms keys_identify by (auto simp: set_without)
    with that w'(3) show False by (auto simp: set_without)
  qed
  with find_miss [OF w'(2)] w'(1) show ?thesis by blast
qed

end

lemma find_one_hit:
  assumes "wf w" and "r \<in> set (db w t)"
  shows "find_one t [(pk t, row_val r (pk t))] w = (Inr (record_of t r), w)"
  using assms pk_in_fields [of t] by (simp add: run_find_one filter_pk)

lemma find_one_miss:
  assumes "wf w" and "\<forall>r \<in> set (db w t). row_val r (pk t) \<noteq> v"
  shows "\<exists>msg. find_one t [(pk t, v)] w = (Inl (EntityNotFound msg), w)"
  using assms pk_in_fields [of t] by (simp add: run_find_one filter_pk_none)

interpretation mapper: record_store "wf :: 'x world_scheme \<Rightarrow> bool" db find_one create_record
  "\<lambda>o'. update_record o' True" "\<lambda>o'. delete_record o' True"
proof (standard, goal_cases)
  case (3 w o' o2 w')
  from 3(2) obtain r where "db w' = add_row (db w) (rtype o') r"
    "o2 = o'\<lparr>attrs := dict_set (pk (rtype o')) (row_val r (pk (rtype o'))) (attrs o')\<rparr>"
    "\<And>c. c \<in> set (table_fields (rtype o')) \<Longrightarrow> c \<noteq> pk (rtype o') \<Longrightarrow>
      has_type (col_type (rtype o') c) (attr o' c) \<Longrightarrow> row_val r c = attr o' c"
    by (rule create_success) blast
  moreover have "wf w'" using 3 keepsD [OF keeps_writes(1)] by blast
  ultimately show ?case by auto
next
  case (4 w r t r' o2 w')
  moreover have "wf w'" using 4 keepsD [OF keeps_writes(3)] by blast
  moreover have "replace_row d t r r = d" for d
    by (auto simp: replace_row_def map_idI)
  ultimately show ?case
    by (auto simp: run_update split: if_splits)
next
  case (5 w r t)
  from delete_record_of_deletes [OF 5] have "delete_record (record_of t r) True w
      = (Inr (), w\<lparr>db := without (db w) (dependants (db w) (t, r))\<rparr>)"
    by (simp add: delete_record_def deletes_def)
  then show ?case using 5(1) keepsD [OF keeps_delete_record] by fastforce
qed (auto intro: find_one_hit find_one_miss pk_identifies)

section \<open>Rows with a changed column\<close>

lemma row_ok_dict_set:
  assumes "row_ok t r" and "c \<in> set (table_fields t)" and "has_type (col_type t c) v" and "c = pk t \<longrightarrow> v \<noteq> VNone"
  shows "row_ok t (dict_set c v r)"
proof (rule row_okI)
  have d: "distinct (keys r)" using row_ok_keys [OF assms(1)] distinct_fields [of t] by simp
  show "keys (dict_set c v r) = table_fields t"
    using keys_dict_set [of c r v] assms(2) row_ok_keys [OF assms(1)] by simp
  show "list_all (\<lambda>(c, v). has_type (col_type t c) v \<and> (c = pk t \<longrightarrow> v \<noteq> VNone)) (dict_set c v r)"
    unfolding list_all_iff
  proof (intro ballI)
    fix p assume p: "p \<in> set (dict_set c v r)"
    obtain b u where bu: "p = (b, u)" by force
    have "map_of (dict_set c v r) b = Some u"
      using p d by (simp add: bu distinct_update del: map_of_dict_set)
    then have "b = c \<and> u = v \<or> (b, u) \<in> set r"
      by (auto split: if_splits dest: map_of_SomeD)
    then show "case p of (c, v) \<Rightarrow> has_type (col_type t c) v \<and> (c = pk t \<longrightarrow> v \<noteq> VNone)"
      using assms row_val_mem [OF d] by (auto simp: bu row_ok_def list_all_iff)
  qed
qed

lemma updatable_same_keys:
  assumes "wf w" and "r \<in> set (db w t)" and "\<forall>ks \<in> set (unique_keys t). key_of ks r' = key_of ks r"
    and "\<forall>(c, o') \<in> set (on_delete_cascade (meta t)). row_val r' c = row_val r c"
  shows "updatable (db w) t r r'"
proof -
  have "map (key_of ks) (replace_row (db w) t r r' t) = map (key_of ks) (db w t)" if "ks \<in> set (unique_keys t)" for ks
    using assms(3) that by (auto simp: replace_row_def)
  then have "unique_ok t (replace_row (db w) t r r' t)"
    using db_okD(2) [OF assms(1), of t] unfolding unique_ok_def list_all_iff by (metis (no_types, lifting))
  moreover have "targets_ok (db w) t r'"
    using db_okD(3) [OF assms(1)] assms(2,4) unfolding fk_ok_targets targets_ok_def list_all_iff by fastforce
  ultimately show ?thesis by (simp add: updatable_def)
qed

text \<open>Fresh identifiers: what \<open>uuid4\<close> will return is never empty and no key of the database.\<close>

definition fresh_uuids :: "'x world_scheme \<Rightarrow> bool" where
  "fresh_uuids w \<longleftrightarrow> (\<forall>n \<ge> uuid_count w. uuid_of w n \<noteq> [] \<and> (\<forall>t. \<forall>r \<in> set (db w t). row_val r (pk t) \<noteq> VStr (uuid_of w n)))"

section \<open>Properties\<close>

lemma keeps_wf_snd: "keeps wf m \<Longrightarrow> wf w \<Longrightarrow> wf (snd (m w))"
  by (simp add: keeps_def)

lemma returns_value:
  assumes "\<not> isl (fst (m w))"
  obtains x w' where "m w = (Inr x, w')"
  using assms by (cases "m w"; cases "fst (m w)") auto

text \<open>
  C29. A record that has been created can be read back: when \<open>create\<close> returns on a well-formed
  database, exactly one row was appended to the record's table and nothing else changed in the
  tables, and \<open>find_one\<close> by the key the record was given returns that row, with the value of every
  well-typed field of the record.
\<close>
theorem create_then_find:
  assumes "wf w" and "create_record o' w = (Inr o2, w')"
  shows "\<exists>r. find_one (rtype o') [(pk (rtype o'), attr o2 (pk (rtype o')))] w' = (Inr (record_of (rtype o') r), w')
    \<and> db w' = add_row (db w) (rtype o') r
    \<and> (\<forall>c \<in> set (table_fields (rtype o')). c \<noteq> pk (rtype o') \<longrightarrow> has_type (col_type (rtype o') c) (attr o' c)
          \<longrightarrow> row_val r c = attr o' c)"
  using assms by (rule mapper.create_find)

theorem create_then_find_witness:
  "let o' = new_record JobFamily [(''id'', VStr []), (''name'', VStr ''skynet'')];
       w' = snd (create_record o' sample_world)
   in \<exists>r. db w' = add_row sample_db JobFamily r \<and> row_val r ''name'' = VStr ''skynet''"
proof -
  let ?o = "new_record JobFamily [(''id'', VStr []), (''name'', VStr ''skynet'')]"
  have "\<not> isl (fst (create_record ?o sample_world))" by code_simp
  then obtain o2 w' where c: "create_record ?o sample_world = (Inr o2, w')" by (rule returns_value)
  have f: "''name'' \<in> set (table_fields JobFamily)" by (simp add: meta_eval)
  have t: "has_type (col_type JobFamily ''name'') (VStr ''skynet'')" by code_simp
  have o': "rtype ?o = JobFamily" "attr ?o ''name'' = VStr ''skynet''" "db sample_world = sample_db"
    by (simp_all add: new_record_def row_val_def sample_world_def)
  from create_then_find [OF sample_ok c] obtain r where "db w' = add_row sample_db JobFamily r" "row_val r ''name'' = VStr ''skynet''"
    using f t unfolding o' by (auto simp: o')
  then show ?thesis unfolding Let_def c by auto
qed

text \<open>
  C28. Deleting a record of a well-formed database with its cascade always succeeds and removes
  exactly the record and the records that reach it over foreign keys: every table keeps the other
  rows in their order. The foreign keys, the unique keys and the column types hold afterwards, and a
  lookup of the key no longer finds a record.
\<close>
theorem delete_record_cascade:
  assumes "wf w" and "r \<in> set (db w t)"
  shows "\<exists>w' msg. delete_record (record_of t r) True w = (Inr (), w')
    \<and> wf w' \<and> (\<forall>t'. db w' t' = filter (\<lambda>q. (t', q) \<notin> dependants (db w) (t, r)) (db w t'))
    \<and> find_one t [(pk t, row_val r (pk t))] w' = (Inl (EntityNotFound msg), w')"
proof -
  from mapper.delete_law [OF assms] obtain w' where "delete_record (record_of t r) True w = (Inr (), w')" "wf w'"
    "db w' = without (db w) (dependants (db w) (t, r))" by auto
  with mapper.delete_find [OF assms] show ?thesis by (auto simp: without_def)
qed

theorem delete_record_cascade_witness:
  "let r = [(''id'', VStr ''f1''), (''name'', VStr ''adder'')] in
   \<exists>w'. delete_record (record_of JobFamily r) True sample_world = (Inr (), w') \<and> wf w'
     \<and> r \<notin> set (db w' JobFamily)"
proof -
  have "[(''id'', VStr ''f1''), (''name'', VStr ''adder'')] \<in> set (db sample_world JobFamily)"
    by (simp add: sample_world_def)
  from delete_record_cascade [OF sample_ok this] show ?thesis by (auto simp: Let_def)
qed

text \<open>
  C31. The database stays well formed under every write of the mapper, whether it returns or raises:
  rows have the columns and types of their table, keys stay unique and foreign keys refer to
  existing rows.
\<close>
theorem writes_keep_integrity:
  assumes "wf w"
  shows "wf (snd (create_record o' w)) \<and> wf (snd (create_from_dict t data w))
    \<and> wf (snd (update_record o' only_changed w)) \<and> wf (snd (update_from_dict t v data w))
    \<and> wf (snd (create_or_update o' w)) \<and> wf (snd (delete_where t data w)) \<and> wf (snd (delete_record o' cascade w))"
  by (intro conjI keeps_wf_snd [OF _ assms] keeps_writes keeps_delete_record)

theorem writes_keep_integrity_witness:
  "wf (snd (delete_record (record_of Job (job_row ''j1'' ''f1'' ''adder'' ''0.0.1'')) False sample_world))"
  using writes_keep_integrity [OF sample_ok, of "record_of Job (job_row ''j1'' ''f1'' ''adder'' ''0.0.1'')"] by blast

text \<open>
  C30. Saving a changed record writes exactly the change: on a well-formed database, updating a record
  that was read as the row \<open>r\<close> and now has the attributes \<open>r'\<close> (same key, well typed) replaces \<open>r\<close> by
  \<open>r'\<close> in place, does nothing when nothing changed, and fails with \<open>AlreadyExists\<close>, leaving the
  database as it was, when the change would break a unique or a foreign key.
\<close>
theorem update_writes_change:
  assumes "wf w" and "r \<in> set (db w t)" and "row_ok t r'" and "row_val r' (pk t) = row_val r (pk t)"
  shows "update_record \<lparr>rtype = t, attrs = r', original_fields = Some r\<rparr> True w =
    (if r' = r then (Inr (record_of t r), w)
     else if unique_ok t (replace_row (db w) t r r' t) \<and> targets_ok (db w) t r'
       then (Inr (record_of t r'), w\<lparr>db := replace_row (db w) t r r'\<rparr>)
     else (Inl (AlreadyExists ''integrity error''), w))"
  using run_update [OF assms] by (simp add: updatable_def integrity_error_def)

theorem update_writes_change_witness:
  "update_record \<lparr>rtype = Esc, attrs = [(''id'', VStr ''e1''), (''name'', VStr ''erp'')],
      original_fields = Some [(''id'', VStr ''e1''), (''name'', VStr ''crm'')]\<rparr> True sample_world
   = (Inr (record_of Esc [(''id'', VStr ''e1''), (''name'', VStr ''erp'')]),
      sample_world\<lparr>db := replace_row sample_db Esc [(''id'', VStr ''e1''), (''name'', VStr ''crm'')]
        [(''id'', VStr ''e1''), (''name'', VStr ''erp'')]\<rparr>)"
proof -
  let ?r = "[(''id'', VStr ''e1''), (''name'', VStr ''crm'')]" and ?r' = "[(''id'', VStr ''e1''), (''name'', VStr ''erp'')]"
  have d: "db sample_world = sample_db" by (simp add: sample_world_def)
  have 1: "?r \<in> set (db sample_world Esc)" by (simp add: sample_world_def)
  have 2: "row_ok Esc ?r'" by code_simp
  have 3: "row_val ?r' (pk Esc) = row_val ?r (pk Esc)" by (simp add: row_val_def)
  have 4: "unique_ok Esc (replace_row sample_db Esc ?r ?r' Esc)" by code_simp
  have 5: "targets_ok sample_db Esc ?r'" by code_simp
  show ?thesis using update_writes_change [OF sample_ok 1 2 3] 4 5 unfolding d by simp
qed

end
