(* ===== verification/Times.thy ===== *)
theory Times
  imports PyString
begin

text \<open>
  Times (\<open>racetrack_client/utils/time.py\<close>). A \<open>datetime\<close> in UTC is the number of microseconds since
  the epoch, a timestamp the number of seconds. Computations that read the clock take its reading as
  their first argument.
\<close>

definition usec :: int where
  "usec = 1000000"

text \<open>\<open>int()\<close> truncates towards zero.\<close>

definition datetime_to_timestamp :: "int \<Rightarrow> int" where
  "datetime_to_timestamp dt = (if dt \<ge> 0 then dt div usec else - ((- dt) div usec))"

definition timestamp_to_datetime :: "int \<Rightarrow> int" where
  "timestamp_to_datetime timestamp = timestamp * usec"

definition optional_datetime_to_timestamp :: "int option \<Rightarrow> int option" where
  "optional_datetime_to_timestamp dt = map_option datetime_to_timestamp dt"

definition pretty_diff :: "int \<Rightarrow> int \<Rightarrow> string" where
  "pretty_diff day_diff second_diff =
     (if day_diff < 0 then []
      else if day_diff = 0 \<and> second_diff < 10 then ''just now''
      else if day_diff = 0 \<and> second_diff < 60 then int_to_str second_diff @ '' seconds ago''
      else if day_diff = 0 \<and> second_diff < 120 then ''a minute ago''
      else if day_diff = 0 \<and> second_diff < 3600 then int_to_str (second_diff div 60) @ '' minutes ago''
      else if day_diff = 0 \<and> second_diff < 7200 then ''an hour ago''
      else if day_diff = 0 \<and> second_diff < 86400 then int_to_str (second_diff div 3600) @ '' hours ago''
      else if day_diff = 1 then ''yesterday''
      else if day_diff < 7 then int_to_str day_diff @ '' days ago''
      else if day_diff div 7 = 1 then ''a week ago''
      else if day_diff < 31 then int_to_str (day_diff div 7) @ '' weeks ago''
      else if day_diff div 30 = 1 then ''a month ago''
      else if day_diff < 365 then int_to_str (day_diff div 30) @ '' months ago''
      else if day_diff div 365 = 1 then ''a year ago''
      else int_to_str (day_diff div 365) @ '' years ago'')"

definition timestamp_pretty_ago :: "int \<Rightarrow> int \<Rightarrow> string" where
  "timestamp_pretty_ago now timestamp =
     (let diff = now - timestamp_to_datetime timestamp
      in pretty_diff (diff div (86400 * usec)) ((diff mod (86400 * usec)) div usec))"

definition nullable_timestamp_pretty_ago :: "int \<Rightarrow> int option \<Rightarrow> string" where
  "nullable_timestamp_pretty_ago now timestamp =
     (case timestamp of None \<Rightarrow> ''never''
      | Some t \<Rightarrow> if t = 0 then ''never'' else timestamp_pretty_ago now t)"

definition days_ago :: "int \<Rightarrow> int option \<Rightarrow> rat option" where
  "days_ago now timestamp =
     (case timestamp of None \<Rightarrow> None
      | Some t \<Rightarrow> if t = 0 then None
                  else Some (of_int (datetime_to_timestamp now - t) / of_int (24 * 60 * 60)))"

section \<open>Calendar dates\<close>

text \<open>The year, month and day of a number of days since the epoch in the Gregorian calendar, with years
  that begin in March and eras of 400 years.\<close>

definition civil_from_days :: "int \<Rightarrow> int \<times> int \<times> int" where
  "civil_from_days days =
     (let z = days + 719468;
          era = z div 146097;
          doe = z mod 146097;
          yoe = (doe - doe div 1460 + doe div 36524 - doe div 146096) div 365;
          doy = doe - (365 * yoe + yoe div 4 - yoe div 100);
          mp = (5 * doy + 2) div 153;
          d = doy - (153 * mp + 2) div 5 + 1;
          m = (if mp < 10 then mp + 3 else mp - 9)
      in (yoe + era * 400 + (if m \<le> 2 then 1 else 0), m, d))"

definition two_digits :: "int \<Rightarrow> string" where
  "two_digits n = (if n < 10 then ''0'' else []) @ int_to_str n"

text \<open>\<open>strftime('%Y-%m-%dT%H%M%S')\<close>\<close>

definition strftime_tag :: "int \<Rightarrow> string" where
  "strftime_tag dt =
     (let seconds = dt div usec;
          s = seconds mod 86400
      in case civil_from_days (seconds div 86400) of
           (y, m, d) \<Rightarrow> int_to_str y @ ''-'' @ two_digits m @ ''-'' @ two_digits d @ ''T''
             @ two_digits (s div 3600) @ two_digits (s div 60 mod 60) @ two_digits (s mod 60))"

section \<open>Round trips and the shape of the description\<close>

lemma timestamp_roundtrip [simp]: "datetime_to_timestamp (timestamp_to_datetime t) = t"
  by (auto simp: datetime_to_timestamp_def timestamp_to_datetime_def usec_def)

lemma datetime_truncated:
  "dt \<ge> 0 \<Longrightarrow> timestamp_to_datetime (datetime_to_timestamp dt) \<le> dt
     \<and> dt < timestamp_to_datetime (datetime_to_timestamp dt) + usec"
  by (auto simp: datetime_to_timestamp_def timestamp_to_datetime_def usec_def)

lemma pretty_diff_empty: "pretty_diff d s = [] \<longleftrightarrow> d < 0"
  by (cases "d < 0") (simp_all add: pretty_diff_def del: if_split)

lemma pretty_ago_future: "timestamp_pretty_ago now t = [] \<longleftrightarrow> now < timestamp_to_datetime t"
proof -
  have "(now - timestamp_to_datetime t) div (86400 * usec) < 0 \<longleftrightarrow> now < timestamp_to_datetime t"
    by (simp add: usec_def pos_imp_zdiv_neg_iff)
  then show ?thesis
    by (simp add: timestamp_pretty_ago_def Let_def pretty_diff_empty)
qed


end
