(* ===== verification/Quantity.thy ===== *)
theory Quantity
  imports PyString
begin

text \<open>
  Resource quantities (\<open>racetrack_client/utils/quantity.py\<close>): a number with a decimal or binary
  suffix. The number is an exact rational instead of a float. Division, whose result is printed as
  a float, is left out.
\<close>

record quantity =
  quantity_str :: string
  base_number :: rat
  suffix_of :: string

definition suffix_multipliers :: "(string, rat) dict" where
  "suffix_multipliers = [
     (''E'', 10 ^ 18), (''P'', 10 ^ 15), (''T'', 10 ^ 12), (''G'', 10 ^ 9), (''M'', 10 ^ 6), (''k'', 10 ^ 3),
     ([], 1), (''m'', 1 / 10 ^ 3), (''u'', 1 / 10 ^ 6), (''n'', 1 / 10 ^ 9), (''p'', 1 / 10 ^ 12),
     (''Ei'', 1024 ^ 6), (''Pi'', 1024 ^ 5), (''Ti'', 1024 ^ 4), (''Gi'', 1024 ^ 3), (''Mi'', 1024 ^ 2), (''Ki'', 1024)]"

text \<open>The match of the number and the suffix: the longest digits, a fraction when digits follow the
  point, and the rest of the line.\<close>

definition quantity_match :: "string \<Rightarrow> (string \<times> string \<times> string) option" where
  "quantity_match s =
     (let whole = takeWhile is_digit s;
          rest = dropWhile is_digit s;
          fr = (if startswith rest ''.'' then takeWhile is_digit (tl rest) else []);
          suf = (if fr = [] then rest else dropWhile is_digit (tl rest))
      in if whole = [] \<or> CHR 0x0A \<in> set suf then None else Some (whole, fr, suf))"

definition Quantity :: "string \<Rightarrow> exn + quantity" where
  "Quantity s =
     (case quantity_match s of
        None \<Rightarrow> Inl (ValueError (''invalid quantity format: '' @ s))
      | Some (whole, fr, suf) \<Rightarrow>
          if suf \<in> set (keys suffix_multipliers) then
            Inr \<lparr>quantity_str = s, base_number = of_nat (str_to_nat whole) + of_nat (str_to_nat fr) / 10 ^ length fr,
                 suffix_of = suf\<rparr>
          else Inl (ValueError (''invalid suffix: '' @ suf)))"

definition plain_number :: "quantity \<Rightarrow> rat" where
  "plain_number q = base_number q * (case map_of suffix_multipliers (suffix_of q) of Some m \<Rightarrow> m | None \<Rightarrow> 0)"

definition quantity_bool :: "quantity \<Rightarrow> bool" where
  "quantity_bool q \<longleftrightarrow> base_number q > 0"

definition quantity_eq :: "quantity \<Rightarrow> quantity \<Rightarrow> bool" where
  "quantity_eq a b \<longleftrightarrow> plain_number a = plain_number b"

definition quantity_less :: "quantity \<Rightarrow> quantity \<Rightarrow> bool" where
  "quantity_less a b \<longleftrightarrow> plain_number a < plain_number b"

definition parse_quantity :: "string option \<Rightarrow> exn + quantity option" where
  "parse_quantity v = (case v of None \<Rightarrow> Inr None
     | Some s \<Rightarrow> (case Quantity s of Inl e \<Rightarrow> Inl e | Inr q \<Rightarrow> Inr (Some q)))"

definition serialize_quantity :: "quantity option \<Rightarrow> string option" where
  "serialize_quantity q = map_option quantity_str q"

section \<open>Properties\<close>

lemma multipliers_positive: "map_of suffix_multipliers s = Some m \<Longrightarrow> m > 0"
  by (auto simp: suffix_multipliers_def split: if_splits)

lemma Quantity_ok:
  assumes "Quantity s = Inr q"
  shows "quantity_str q = s" and "base_number q \<ge> 0" and "suffix_of q \<in> set (keys suffix_multipliers)"
  using assms by (auto simp: Quantity_def simp del: set_map split: option.splits if_splits)

lemma plain_positive:
  assumes "Quantity s = Inr q"
  shows "plain_number q \<ge> 0" and "plain_number q > 0 \<longleftrightarrow> quantity_bool q"
proof -
  obtain m where m: "map_of suffix_multipliers (suffix_of q) = Some m"
    using Quantity_ok(3) [OF assms] by (metis map_of_eq_None_iff not_Some_eq set_map)
  then have "m > 0" by (rule multipliers_positive)
  with m Quantity_ok(2) [OF assms] show "plain_number q \<ge> 0" "plain_number q > 0 \<longleftrightarrow> quantity_bool q"
    by (auto simp: plain_number_def quantity_bool_def zero_less_mult_iff)
qed

text \<open>
  Quantities that parse are totally ordered by the amount they denote: of two quantities exactly
  one of less, equal and greater holds, whatever suffixes they use; a quantity is true exactly when
  its amount is positive; and printing it and parsing the text gives the same quantity.
\<close>
lemma quantity_order:
  assumes "Quantity s = Inr a" and "Quantity t = Inr b"
  shows "((quantity_less a b \<and> \<not> quantity_eq a b \<and> \<not> quantity_less b a)
       \<or> (\<not> quantity_less a b \<and> quantity_eq a b \<and> \<not> quantity_less b a)
       \<or> (\<not> quantity_less a b \<and> \<not> quantity_eq a b \<and> quantity_less b a))
    \<and> plain_number a \<ge> 0 \<and> (quantity_bool a \<longleftrightarrow> plain_number a > 0)
    \<and> parse_quantity (serialize_quantity (Some a)) = Inr (Some a)"
  using plain_positive [OF assms(1)] Quantity_ok(1) [OF assms(1)] assms(1)
  by (auto simp: quantity_less_def quantity_eq_def parse_quantity_def serialize_quantity_def)

lemma quantity_order_witness:
  "\<exists>a b. Quantity ''1024Mi'' = Inr a \<and> Quantity ''1Gi'' = Inr b \<and> quantity_eq a b \<and> \<not> quantity_less a b"
proof -
  have "Quantity ''1024Mi'' = Inr \<lparr>quantity_str = ''1024Mi'', base_number = 1024, suffix_of = ''Mi''\<rparr>"
    "Quantity ''1Gi'' = Inr \<lparr>quantity_str = ''1Gi'', base_number = 1, suffix_of = ''Gi''\<rparr>"
    by code_simp+
  moreover from quantity_order [OF this] have "quantity_eq \<lparr>quantity_str = ''1024Mi'', base_number = 1024, suffix_of = ''Mi''\<rparr>
      \<lparr>quantity_str = ''1Gi'', base_number = 1, suffix_of = ''Gi''\<rparr>"
    by (simp add: quantity_less_def plain_number_def suffix_multipliers_def)
  ultimately show ?thesis by (auto simp: quantity_less_def quantity_eq_def)
qed

end
