(* ===== verification/Json.thy ===== *)
theory Json
  imports PyString
begin

text \<open>
  JSON as Python's \<open>json\<close> module writes and reads it, for the values the Lifecycle server keeps in
  text columns: null, booleans, integers, strings, lists and objects (floats are left out). Writing
  uses the default separators and escapes; characters are code points below 256.
\<close>

datatype json =
    JNull
  | JBool bool
  | JInt int
  | JStr string
  | JList "json list"
  | JObj "(string \<times> json) list"

definition dquote :: char where
  "dquote = CHR 0x22"

definition bslash :: char where
  "bslash = CHR 0x5C"

definition escape_char :: "char \<Rightarrow> string" where
  "escape_char c =
     (if c = dquote then [bslash, dquote]
      else if c = bslash then [bslash, bslash]
      else if c = CHR 0x0A then [bslash, CHR ''n'']
      else if c = CHR 0x0D then [bslash, CHR ''r'']
      else if c = CHR 0x09 then [bslash, CHR ''t'']
      else if c = CHR 0x08 then [bslash, CHR ''b'']
      else if c = CHR 0x0C then [bslash, CHR ''f'']
      else let n = of_char c in
        if 32 \<le> n \<and> n < (127 :: nat) then [c]
        else [bslash, CHR ''u'', CHR ''0'', CHR ''0'', hex_digit (n div 16), hex_digit (n mod 16)])"

definition dump_str :: "string \<Rightarrow> string" where
  "dump_str s = dquote # concat (map escape_char s) @ [dquote]"

fun dumps :: "json \<Rightarrow> string" where
  "dumps JNull = ''null''"
| "dumps (JBool b) = (if b then ''true'' else ''false'')"
| "dumps (JInt i) = int_to_str i"
| "dumps (JStr s) = dump_str s"
| "dumps (JList xs) = ''['' @ join '', '' (map dumps xs) @ '']''"
| "dumps (JObj kvs) = ''{'' @ join '', '' (map (\<lambda>(k, v). dump_str k @ '': '' @ dumps v) kvs) @ ''}''"

text \<open>The reader, by recursive descent; a value is read from the front of the text.\<close>

definition hex_val :: "char \<Rightarrow> nat option" where
  "hex_val c = (if is_digit c then Some (digit_val c)
     else let n = of_char c in
       if 97 \<le> n \<and> n \<le> (102 :: nat) then Some (n - 87)
       else if 65 \<le> n \<and> n \<le> 70 then Some (n - 55) else None)"

definition unescape :: "char \<Rightarrow> char option" where
  "unescape c =
     (if c = dquote then Some dquote else if c = bslash then Some bslash
      else if c = CHR ''/'' then Some (CHR ''/'')
      else if c = CHR ''n'' then Some (CHR 0x0A) else if c = CHR ''r'' then Some (CHR 0x0D)
      else if c = CHR ''t'' then Some (CHR 0x09) else if c = CHR ''b'' then Some (CHR 0x08)
      else if c = CHR ''f'' then Some (CHR 0x0C) else None)"

fun read_str :: "string \<Rightarrow> (string \<times> string) option" where
  "read_str [] = None"
| "read_str (c # r) =
     (if c = dquote then Some ([], r)
      else if c = bslash then
        (case r of
           [] \<Rightarrow> None
         | e # r1 \<Rightarrow>
             if e = CHR ''u'' then
               (case r1 of
                  a # b # d # f # r2 \<Rightarrow>
                    (case (hex_val a, hex_val b, hex_val d, hex_val f) of
                       (Some x, Some y, Some z, Some u) \<Rightarrow>
                         if x = 0 \<and> y = 0 then map_option (\<lambda>(s, q). (char_of (16 * z + u) # s, q)) (read_str r2)
                         else None
                     | _ \<Rightarrow> None)
                | _ \<Rightarrow> None)
             else (case unescape e of None \<Rightarrow> None
                   | Some c' \<Rightarrow> map_option (\<lambda>(s, q). (c' # s, q)) (read_str r1)))
      else if (of_char c :: nat) < 32 then None
      else map_option (\<lambda>(s, q). (c # s, q)) (read_str r))"

definition is_space :: "char \<Rightarrow> bool" where
  "is_space c \<longleftrightarrow> c = CHR '' '' \<or> c = CHR 0x09 \<or> c = CHR 0x0A \<or> c = CHR 0x0D"

definition skip_ws :: "string \<Rightarrow> string" where
  "skip_ws s = dropWhile is_space s"

definition read_int :: "string \<Rightarrow> (int \<times> string) option" where
  "read_int s =
     (let (neg, r) = (if startswith s ''-'' then (True, tl s) else (False, s));
          ds = takeWhile is_digit r
      in if ds = [] \<or> (length ds > 1 \<and> hd ds = CHR ''0'') then None
         else Some (if neg then - int (str_to_nat ds) else int (str_to_nat ds), dropWhile is_digit r))"

fun read_value :: "nat \<Rightarrow> string \<Rightarrow> (json \<times> string) option"
  and read_items :: "nat \<Rightarrow> string \<Rightarrow> (json list \<times> string) option"
  and read_members :: "nat \<Rightarrow> string \<Rightarrow> ((string \<times> json) list \<times> string) option" where
  "read_value 0 s = None"
| "read_value (Suc n) s =
     (case skip_ws s of
        [] \<Rightarrow> None
      | c # r \<Rightarrow>
          if c = dquote then map_option (\<lambda>(x, q). (JStr x, q)) (read_str r)
          else if c = CHR ''['' then
            (if startswith (skip_ws r) '']'' then Some (JList [], tl (skip_ws r))
             else map_option (\<lambda>(xs, q). (JList xs, q)) (read_items n r))
          else if c = CHR ''{'' then
            (if startswith (skip_ws r) ''}'' then Some (JObj [], tl (skip_ws r))
             else map_option (\<lambda>(xs, q). (JObj xs, q)) (read_members n r))
          else if startswith (c # r) ''null'' then Some (JNull, drop 4 (c # r))
          else if startswith (c # r) ''true'' then Some (JBool True, drop 4 (c # r))
          else if startswith (c # r) ''false'' then Some (JBool False, drop 5 (c # r))
          else map_option (\<lambda>(i, q). (JInt i, q)) (read_int (c # r)))"
| "read_items 0 s = None"
| "read_items (Suc n) s =
     (case read_value n s of
        None \<Rightarrow> None
      | Some (x, r) \<Rightarrow>
          (case skip_ws r of
             [] \<Rightarrow> None
           | c # q \<Rightarrow> if c = CHR '']'' then Some ([x], q)
                      else if c = CHR '','' then map_option (\<lambda>(xs, q'). (x # xs, q')) (read_items n q)
                      else None))"
| "read_members 0 s = None"
| "read_members (Suc n) s =
     (case skip_ws s of
        [] \<Rightarrow> None
      | c # r \<Rightarrow> if c \<noteq> dquote then None else
          (case read_str r of
             None \<Rightarrow> None
           | Some (k, r1) \<Rightarrow>
               (case skip_ws r1 of
                  [] \<Rightarrow> None
                | d # r2 \<Rightarrow> if d \<noteq> CHR '':'' then None else
                    (case read_value n r2 of
                       None \<Rightarrow> None
                     | Some (x, r3) \<Rightarrow>
                         (case skip_ws r3 of
                            [] \<Rightarrow> None
                          | e # q \<Rightarrow> if e = CHR ''}'' then Some ([(k, x)], q)
                                     else if e = CHR '','' then map_option (\<lambda>(xs, q'). ((k, x) # xs, q')) (read_members n q)
                                     else None)))))"

text \<open>A dictionary keeps the last value of a repeated key; \<open>loads\<close> refuses text after the value. The
  length of the text bounds the depth of the recursion.\<close>

fun dedup_keys :: "json \<Rightarrow> json" where
  "dedup_keys (JList xs) = JList (map dedup_keys xs)"
| "dedup_keys (JObj kvs) = JObj (dict_of (map (\<lambda>(k, v). (k, dedup_keys v)) kvs))"
| "dedup_keys j = j"

definition loads :: "string \<Rightarrow> exn + json" where
  "loads s = (case read_value (2 * length s + 2) s of
     Some (j, r) \<Rightarrow> if skip_ws r = [] then Inr (dedup_keys j) else Inl (ValueError ''JSONDecodeError'')
   | None \<Rightarrow> Inl (ValueError ''JSONDecodeError''))"

text \<open>\<open>bool(x)\<close> of a JSON-like value.\<close>

fun json_truthy :: "json \<Rightarrow> bool" where
  "json_truthy JNull = False"
| "json_truthy (JBool b) = b"
| "json_truthy (JInt i) = (i \<noteq> 0)"
| "json_truthy (JStr s) = (s \<noteq> [])"
| "json_truthy (JList xs) = (xs \<noteq> [])"
| "json_truthy (JObj kvs) = (kvs \<noteq> [])"

section \<open>Reading back what was written\<close>

lemma hex_val_digit: "n < 16 \<Longrightarrow> hex_val (hex_digit n) = Some n"
proof -
  assume "n < 16"
  then have "n \<in> set [0..<16]" by simp
  moreover have "list_all (\<lambda>n. hex_val (hex_digit n) = Some n) [0..<16]" by code_simp
  ultimately show ?thesis by (simp add: list_all_iff del: upt_conv_Cons_Cons)
qed

lemma of_char_less: "(of_char c :: nat) < 256"
  by (cases c) (simp add: of_char_def)

lemma read_escaped:
  "read_str (escape_char c @ r) = map_option (\<lambda>(s, q). (c # s, q)) (read_str r)"
proof -
  let ?n = "of_char c :: nat"
  consider (simple) "c \<in> {dquote, bslash, CHR 0x0A, CHR 0x0D, CHR 0x09, CHR 0x08, CHR 0x0C}"
    | (plain) "c \<notin> {dquote, bslash, CHR 0x0A, CHR 0x0D, CHR 0x09, CHR 0x08, CHR 0x0C}" "32 \<le> ?n \<and> ?n < 127"
    | (coded) "c \<notin> {dquote, bslash, CHR 0x0A, CHR 0x0D, CHR 0x09, CHR 0x08, CHR 0x0C}" "\<not> (32 \<le> ?n \<and> ?n < 127)"
    by blast
  then show ?thesis
  proof cases
    case simple
    then show ?thesis by (auto simp: escape_char_def unescape_def dquote_def bslash_def)
  next
    case plain
    then show ?thesis by (auto simp: escape_char_def Let_def)
  next
    case coded
    have "?n div 16 < 16" "?n mod 16 < 16"
      using less_mult_imp_div_less [of ?n 16 16] of_char_less [of c] by simp_all
    then have h: "hex_val (hex_digit (?n div 16)) = Some (?n div 16)" "hex_val (hex_digit (?n mod 16)) = Some (?n mod 16)"
      by (simp_all only: hex_val_digit)
    have z: "hex_val (CHR ''0'') = Some 0" by code_simp
    have "escape_char c = [bslash, CHR ''u'', CHR ''0'', CHR ''0'', hex_digit (?n div 16), hex_digit (?n mod 16)]"
      using coded by (simp add: escape_char_def Let_def)
    moreover have "bslash \<noteq> dquote" by (simp add: bslash_def dquote_def)
    ultimately show ?thesis by (simp add: h z)
  qed
qed

lemma read_dump_str: "read_str (concat (map escape_char s) @ dquote # r) = Some (s, r)"
  by (induction s) (simp_all add: read_escaped)

lemma hd_nat_to_str: "n > 0 \<Longrightarrow> hd (nat_to_str n) \<noteq> CHR ''0''"
proof (induction n rule: nat_to_str.induct)
  case (1 n)
  show ?case
  proof (cases "n < 10")
    case True
    then have "n \<in> set [1..<10]" using 1 by simp
    moreover have "list_all (\<lambda>n. hd (nat_to_str n) \<noteq> CHR ''0'') [1..<10]" by code_simp
    ultimately show ?thesis by (simp add: list_all_iff del: upt_conv_Cons_Cons nat_to_str.simps)
  next
    case False
    then show ?thesis using 1 nat_to_str_nonempty by (subst nat_to_str.simps) simp
  qed
qed

lemma digits_prefix:
  assumes "all_digits ds" and "r = [] \<or> \<not> is_digit (hd r)"
  shows "takeWhile is_digit (ds @ r) = ds" and "dropWhile is_digit (ds @ r) = r"
  using assms by (cases r; auto simp: all_digits_def list_all_iff takeWhile_append dropWhile_append)+

lemma read_dump_int:
  assumes "r = [] \<or> \<not> is_digit (hd r)"
  shows "read_int (int_to_str i @ r) = Some (i, r)"
proof -
  let ?d = "nat_to_str (nat \<bar>i\<bar>)"
  have d: "all_digits ?d" by (rule all_digits_to_str)
  have lead: "\<not> (length ?d > 1 \<and> hd ?d = CHR ''0'')"
    using hd_nat_to_str [of "nat \<bar>i\<bar>"] by (cases "i = 0") (auto simp: nat_to_str.simps [of 0])
  have no_minus: "\<not> startswith (?d @ r) ''-''"
    using d nat_to_str_nonempty [of "nat \<bar>i\<bar>"] by (cases ?d) (auto simp: all_digits_def is_digit_def startswith_def)
  show ?thesis
    using digits_prefix [OF d assms] lead no_minus
    by (cases "i < 0") (simp_all add: read_int_def int_to_str_def Let_def startswith_def)
qed

fun cost :: "json \<Rightarrow> nat" where
  "cost (JList xs) = Suc (foldr (\<lambda>x m. Suc (max (cost x) m)) xs 0)"
| "cost (JObj kvs) = Suc (foldr (\<lambda>(_, x) m. Suc (max (cost x) m)) kvs 0)"
| "cost j = 1"

definition items_cost :: "json list \<Rightarrow> nat" where
  "items_cost xs = foldr (\<lambda>x m. Suc (max (cost x) m)) xs 0"

lemma items_cost_simps [simp]:
  "items_cost [] = 0" "items_cost (x # xs) = Suc (max (cost x) (items_cost xs))"
  by (simp_all add: items_cost_def)

lemma cost_list [simp]: "cost (JList xs) = Suc (items_cost xs)" "cost (JObj kvs) = Suc (items_cost (map snd kvs))"
  by (simp_all add: items_cost_def foldr_map comp_def case_prod_unfold)

declare cost.simps(1,2) [simp del]

text \<open>A text that ends a value: nothing, or no digit next.\<close>

definition stops :: "string \<Rightarrow> bool" where
  "stops r \<longleftrightarrow> r = [] \<or> \<not> is_digit (hd r)"

definition reads_back :: "json \<Rightarrow> bool" where
  "reads_back j \<longleftrightarrow> (\<forall>n r. cost j \<le> n \<longrightarrow> stops r \<longrightarrow> read_value n (dumps j @ r) = Some (j, r))"

lemma reads_backD: "reads_back j \<Longrightarrow> cost j \<le> n \<Longrightarrow> stops r \<Longrightarrow> read_value n (dumps j @ r) = Some (j, r)"
  by (simp add: reads_back_def)

lemma skip_ws_simps [simp]:
  "skip_ws [] = []" "skip_ws (c # s) = (if is_space c then skip_ws s else c # s)"
  by (simp_all add: skip_ws_def)

lemma read_space: "read_value n (CHR '' '' # s) = read_value n s" "read_items n (CHR '' '' # s) = read_items n s"
  "read_members n (CHR '' '' # s) = read_members n s"
proof -
  have v: "read_value n (CHR '' '' # s) = read_value n s" for n s
    by (cases n) (simp_all add: is_space_def)
  show "read_value n (CHR '' '' # s) = read_value n s" by (rule v)
  show "read_items n (CHR '' '' # s) = read_items n s" by (cases n) (simp_all add: v)
  show "read_members n (CHR '' '' # s) = read_members n s" by (cases n) (simp_all add: is_space_def)
qed

lemma dumps_first:
  obtains c s where "dumps j = c # s" and "\<not> is_space c" and "c \<noteq> CHR '']''"
proof (cases j)
  case (JInt i)
  obtain c s where c: "nat_to_str (nat \<bar>i\<bar>) = c # s" "is_digit c"
    using all_digits_to_str [of "nat \<bar>i\<bar>"] by (cases "nat_to_str (nat \<bar>i\<bar>)") (auto simp: all_digits_def)
  then have "\<not> is_space c" "c \<noteq> CHR '']''" by (auto simp: is_space_def is_digit_def)
  with that c JInt show ?thesis
    by (cases "i < 0") (auto simp: int_to_str_def is_space_def)
next
  case (JBool b)
  with that show ?thesis by (cases b) (auto simp: is_space_def)
qed (use that in \<open>auto simp: dump_str_def dquote_def is_space_def\<close>)

lemma read_items_back:
  assumes "xs \<noteq> []" and "\<forall>x \<in> set xs. reads_back x" and "items_cost xs \<le> n"
  shows "read_items n (join '', '' (map dumps xs) @ '']'' @ r) = Some (xs, r)"
  using assms
proof (induction xs arbitrary: n)
  case (Cons x xs)
  then obtain m where n: "n = Suc m" and m: "cost x \<le> m" "items_cost xs \<le> m" by (cases n) auto
  have x: "read_value m (dumps x @ q) = Some (x, q)" if "stops q" for q
    using Cons.prems(2) m(1) that by (auto intro: reads_backD)
  show ?case
  proof (cases xs)
    case Nil
    then show ?thesis using x [of "'']'' @ r"] by (simp add: n stops_def is_digit_def is_space_def)
  next
    case (Cons y ys)
    have "read_items m (join '', '' (map dumps xs) @ '']'' @ r) = Some (xs, r)"
      using Cons.IH Cons.prems Cons m(2) Cons by (metis Cons.IH list.distinct(1) list.set_intros(2))
    with Cons x [of "'', '' @ join '', '' (map dumps xs) @ '']'' @ r"] show ?thesis
      by (simp add: n stops_def is_digit_def is_space_def read_space)
  qed
qed simp

definition dump_member :: "string \<times> json \<Rightarrow> string" where
  "dump_member = (\<lambda>(k, v). dump_str k @ '': '' @ dumps v)"

lemma read_members_back:
  assumes "kvs \<noteq> []" and "\<forall>x \<in> snd ` set kvs. reads_back x" and "items_cost (map snd kvs) \<le> n"
  shows "read_members n (join '', '' (map dump_member kvs) @ ''}'' @ r) = Some (kvs, r)"
  using assms
proof (induction kvs arbitrary: n)
  case (Cons p kvs)
  obtain k x where p: "p = (k, x)" by force
  from Cons.prems obtain m where n: "n = Suc m" and m: "cost x \<le> m" "items_cost (map snd kvs) \<le> m"
    by (cases n) (auto simp: p)
  have x: "read_value m (CHR '' '' # dumps x @ q) = Some (x, q)" if "stops q" for q
    using Cons.prems(2) m(1) that by (auto simp: p read_space intro: reads_backD)
  have q: "\<not> is_space dquote" "\<not> is_space (CHR '':'')" "\<not> is_space (CHR '','')" "\<not> is_space (CHR ''}'')"
    by (simp_all add: is_space_def dquote_def)
  show ?case
  proof (cases kvs)
    case Nil
    then show ?thesis using x [of "''}'' @ r"]
      by (simp add: n p dump_member_def dump_str_def stops_def is_digit_def q read_dump_str)
  next
    case (Cons y ys)
    have "read_members m (join '', '' (map dump_member kvs) @ ''}'' @ r) = Some (kvs, r)"
      using Cons.prems m(2) \<open>kvs = y # ys\<close> by (intro Cons.IH) auto
    with Cons x [of "'', '' @ join '', '' (map dump_member kvs) @ ''}'' @ r"] show ?thesis
      by (simp add: n p dump_member_def [of ] dump_str_def stops_def is_digit_def q read_dump_str read_space)
  qed
qed simp

lemma dumps_obj: "dumps (JObj kvs) = ''{'' @ join '', '' (map dump_member kvs) @ ''}''"
  by (simp add: dump_member_def)

lemma reads_back_all: "reads_back j"
proof (induction j)
  case (JInt i)
  show ?case
    unfolding reads_back_def
  proof (intro allI impI)
    fix n r assume n: "cost (JInt i) \<le> n" and r: "stops r"
    obtain c s where c: "dumps (JInt i) = c # s" "\<not> is_space c" by (rule dumps_first)
    have "is_digit c \<or> c = CHR ''-''"
      using c(1) all_digits_to_str [of "nat i"] nat_to_str_nonempty [of "nat i"]
      by (auto simp: int_to_str_def all_digits_def split: if_splits)
    then have "c \<noteq> dquote" "c \<noteq> CHR ''[''" "c \<noteq> CHR ''{''" "c \<noteq> CHR ''n''" "c \<noteq> CHR ''t''" "c \<noteq> CHR ''f''"
      by (auto simp: is_digit_def dquote_def)
    moreover have "read_int ((c # s) @ r) = Some (i, r)"
      using read_dump_int [of r i] r c(1) by (simp add: stops_def)
    ultimately show "read_value n (dumps (JInt i) @ r) = Some (JInt i, r)"
      using n c by (cases n) (auto simp: startswith_def)
  qed
next
  case (JList xs)
  show ?case
    unfolding reads_back_def
  proof (intro allI impI)
    fix n r assume "cost (JList xs) \<le> n" and r: "stops r"
    then obtain m where n: "n = Suc m" and m: "items_cost xs \<le> m" by (cases n) auto
    show "read_value n (dumps (JList xs) @ r) = Some (JList xs, r)"
    proof (cases xs)
      case Nil
      then show ?thesis by (simp add: n is_space_def dquote_def startswith_def)
    next
      case (Cons y ys)
      obtain c s where c: "dumps y = c # s" "\<not> is_space c" "c \<noteq> CHR '']''" by (rule dumps_first)
      have j: "\<exists>s'. join '', '' (map dumps xs) @ '']'' @ r = c # s'"
        using Cons c(1) by (cases ys) auto
      then obtain s' where s': "join '', '' (map dumps xs) @ '']'' @ r = c # s'" ..
      have "read_items m (c # s') = Some (xs, r)"
        using read_items_back [of xs m r] JList m Cons s' by auto
      with s' c(2,3) show ?thesis
        by (simp add: n is_space_def [of "CHR ''[''"] dquote_def startswith_def)
    qed
  qed
next
  case (JObj kvs)
  show ?case
    unfolding reads_back_def
  proof (intro allI impI)
    fix n r assume "cost (JObj kvs) \<le> n" and r: "stops r"
    then obtain m where n: "n = Suc m" and m: "items_cost (map snd kvs) \<le> m" by (cases n) auto
    show "read_value n (dumps (JObj kvs) @ r) = Some (JObj kvs, r)"
    proof (cases kvs)
      case Nil
      then show ?thesis by (simp add: n is_space_def dquote_def startswith_def)
    next
      case (Cons y ys)
      have "\<exists>s'. join '', '' (map dump_member kvs) @ ''}'' @ r = dquote # s'"
        using Cons by (cases y; cases ys) (auto simp: dump_member_def dump_str_def)
      then obtain s' where s': "join '', '' (map dump_member kvs) @ ''}'' @ r = dquote # s'" ..
      have "read_members m (dquote # s') = Some (kvs, r)"
        using read_members_back [of kvs m r] JObj m Cons s' by (auto simp: snds.simps)
      with s' show ?thesis
        unfolding dumps_obj by (simp add: n is_space_def dquote_def startswith_def)
    qed
  qed
qed (auto simp: reads_back_def is_space_def dquote_def startswith_def dump_str_def read_dump_str [unfolded dquote_def]
    split: nat.splits elim!: Suc_le_D dest!: Suc_le_D)

lemma items_cost_join:
  assumes "\<forall>x \<in> set xs. cost x \<le> length (f x)"
  shows "items_cost xs \<le> length (join '', '' (map f xs)) + 1"
  using assms
proof (induction xs)
  case (Cons x xs)
  then show ?case by (cases xs) auto
qed simp

lemma cost_length: "cost j \<le> length (dumps j)"
proof (induction j)
  case (JInt i)
  show ?case by (rule dumps_first [of "JInt i"]) simp
next
  case (JList xs)
  then show ?case using items_cost_join [of xs dumps] by simp
next
  case (JObj kvs)
  have "items_cost (map snd kvs) \<le> length (join '', '' (map dump_member kvs)) + 1"
    using JObj
  proof (induction kvs)
    case (Cons p kvs)
    have p: "cost (snd p) \<le> length (dump_member p)"
      using Cons.prems by (cases p) (fastforce simp: dump_member_def snds.simps)
    have "items_cost (map snd kvs) \<le> length (join '', '' (map dump_member kvs)) + 1"
      using Cons.prems by (intro Cons.IH) auto
    with p show ?case by (cases kvs) auto
  qed simp
  then show ?case unfolding dumps_obj by simp
qed (auto simp: dump_str_def)

text \<open>A value whose objects have no repeated key, as Python's dictionaries.\<close>

fun keys_distinct :: "json \<Rightarrow> bool" where
  "keys_distinct (JList xs) = list_all keys_distinct xs"
| "keys_distinct (JObj kvs) = (distinct (keys kvs) \<and> list_all (\<lambda>(_, v). keys_distinct v) kvs)"
| "keys_distinct j = True"

lemma dict_of_distinct: "distinct (keys d) \<Longrightarrow> dict_of d = d"
proof -
  have "distinct (keys (d @ r)) \<Longrightarrow> dict_update d r = d @ r" for d r :: "('a \<times> 'b) list"
  proof (induction r arbitrary: d)
    case (Cons p r)
    obtain k v where p: "p = (k, v)" by force
    have "dict_set k v d = d @ [(k, v)]"
      using Cons.prems by (induction d) (auto simp: p)
    then show ?case using Cons.IH [of "d @ [p]"] Cons.prems by (simp add: p)
  qed simp
  from this [of "[]" d] show "distinct (keys d) \<Longrightarrow> dict_of d = d"
    by (simp add: dict_of_def)
qed

lemma dedup_distinct: "keys_distinct j \<Longrightarrow> dedup_keys j = j"
proof (induction j)
  case (JList xs)
  then show ?case by (auto simp: list_all_iff intro: map_idI)
next
  case (JObj kvs)
  have "map (\<lambda>(k, v). (k, dedup_keys v)) kvs = kvs"
    using JObj by (intro map_idI) (fastforce simp: list_all_iff snds.simps)
  with JObj.prems show ?case by (simp add: dict_of_distinct)
qed simp_all

text \<open>Writing a value as JSON and reading the text gives the value back, for every value whose objects
  have no repeated key.\<close>

lemma loads_dumps:
  assumes "keys_distinct j"
  shows "loads (dumps j) = Inr j"
proof -
  have "read_value (2 * length (dumps j) + 2) (dumps j @ []) = Some (j, [])"
    using cost_length [of j] by (intro reads_backD reads_back_all) (auto simp: stops_def)
  then show ?thesis using dedup_distinct [OF assms] by (simp add: loads_def)
qed

lemma dumps_nonempty: "dumps j \<noteq> []"
  by (rule dumps_first [of j]) simp

end
