(* ===== verification/Dto.thy ===== *)
theory Dto
  imports MapperLaws Times Json Quantity Semver
begin

text \<open>
  Manifests, transfer objects and their conversion from records
  (\<open>racetrack_client/manifest\<close>, \<open>racetrack_commons/entities/dto.py\<close>,
  \<open>lifecycle/database/schema/dto_converter.py\<close>), and the state of the Lifecycle server above the
  database. YAML and pydantic are third-party code: what they return is part of the state.
\<close>

section \<open>Manifests\<close>

record GitManifest =
  git_remote :: string
  git_branch :: "string option"
  git_directory :: string

record ResourcesManifest =
  memory_min :: "quantity option"
  memory_max :: "quantity option"
  cpu_min :: "quantity option"
  cpu_max :: "quantity option"

record Manifest =
  mf_name :: string
  owner_email :: string
  git :: GitManifest
  mf_version :: string
  jobtype :: "string option"
  lang :: "string option"
  extends :: "string option"
  image_type :: string
  system_dependencies :: "string list option"
  build_env :: "(string, string) dict option"
  runtime_env :: "(string, string) dict option"
  secret_build_env_file :: "string option"
  secret_runtime_env_file :: "string option"
  labels :: "(string, json) dict option"
  public_endpoints :: "string list option"
  replicas :: int
  resources :: "ResourcesManifest option"
  jobtype_extra :: "(string, json) dict option"
  golang :: "(string, json) dict option"
  python :: "(string, json) dict option"
  docker :: "(string, json) dict option"
  wrapper_properties :: "(string, json) dict option"
  mf_infrastructure_target :: "string option"
  origin_yaml :: "string option"
  origin_dict :: "json option"

definition get_jobtype :: "Manifest \<Rightarrow> string option" where
  "get_jobtype m = (case jobtype m of Some t \<Rightarrow> if t = [] then lang m else Some t | None \<Rightarrow> lang m)"

fun first_some :: "'a option list \<Rightarrow> 'a option" where
  "first_some [] = None"
| "first_some (Some x # _) = Some x"
| "first_some (None # r) = first_some r"

definition get_jobtype_extra :: "Manifest \<Rightarrow> (string, json) dict" where
  "get_jobtype_extra m =
     (case first_some [jobtype_extra m, golang m, python m, wrapper_properties m] of None \<Rightarrow> [] | Some d \<Rightarrow> d)"

definition get_deprecated_fields :: "(string, string) dict" where
  "get_deprecated_fields = [(''lang'', ''jobtype:''), (''golang'', ''jobtype_extra:''), (''python'', ''jobtype_extra:''),
     (''docker'', ''jobtype_extra:''), (''wrapper_properties'', ''jobtype_extra:'')]"

text \<open>Whether an attribute of the deprecated ones is not None, and the warnings logged for them.\<close>

definition has_field :: "Manifest \<Rightarrow> string \<Rightarrow> bool" where
  "has_field m field = (if field = ''lang'' then lang m \<noteq> None else if field = ''golang'' then golang m \<noteq> None
     else if field = ''python'' then python m \<noteq> None else if field = ''docker'' then docker m \<noteq> None
     else if field = ''wrapper_properties'' then wrapper_properties m \<noteq> None else False)"

definition warn_if_using_deprecated_fields :: "Manifest \<Rightarrow> string list" where
  "warn_if_using_deprecated_fields m =
     map (\<lambda>(field, replacement). field @ '': is deprecated. Use '' @ replacement @ '': instead.'')
       (filter (\<lambda>(field, _). has_field m field) get_deprecated_fields)"

section \<open>The server state\<close>

text \<open>The configuration of the server (\<open>lifecycle/config/config.py\<close>).\<close>

record Config =
  log_level :: string
  http_addr :: string
  http_port :: int
  image_builder_url :: string
  internal_pub_url :: string
  external_pub_url :: string
  docker_registry :: string
  docker_registry_namespace :: string
  auth_required :: bool
  auth_debug :: bool
  plugins_dir :: string
  max_job_memory_limit :: quantity
  default_job_memory_min :: quantity
  default_job_memory_max :: quantity
  default_job_cpu_min :: quantity
  default_job_cpu_max :: quantity
  open_telemetry_enabled :: bool
  open_telemetry_endpoint :: string
  cfg_infrastructure_target :: "string option"
  job_watcher_interval :: rat
  database_status_refresh_interval :: rat
  database_connection_pool :: int
  database_log_queries :: bool
  allow_job_overwrite :: bool
  async_job_call_lifetime :: int
  timeout_until_job_alive :: int
  timeout_until_job_ready :: int
  http_worker_thread_pool :: "int option"
  reconciliation_loop :: bool

definition quantity_of :: "string \<Rightarrow> quantity" where
  "quantity_of s = (case Quantity s of Inr q \<Rightarrow> q | Inl _ \<Rightarrow> \<lparr>quantity_str = s, base_number = 0, suffix_of = []\<rparr>)"

definition default_config :: Config where
  "default_config = \<lparr>log_level = ''info'', http_addr = ''0.0.0.0'', http_port = 7202,
     image_builder_url = ''http://127.0.0.1:7201'', internal_pub_url = ''http://pub:7205/pub'',
     external_pub_url = ''http://127.0.0.1:7205/pub'', docker_registry = ''127.0.0.1:5000'',
     docker_registry_namespace = ''racetrack'', auth_required = True, auth_debug = False, plugins_dir = ''.plugins'',
     max_job_memory_limit = quantity_of ''8Gi'', default_job_memory_min = quantity_of ''256Mi'',
     default_job_memory_max = quantity_of ''1Gi'', default_job_cpu_min = quantity_of ''10m'',
     default_job_cpu_max = quantity_of ''1000m'', open_telemetry_enabled = False, open_telemetry_endpoint = ''console'',
     cfg_infrastructure_target = None, job_watcher_interval = 3, database_status_refresh_interval = 60,
     database_connection_pool = 20, database_log_queries = False, allow_job_overwrite = False,
     async_job_call_lifetime = 4 * 3600, timeout_until_job_alive = 15 * 60, timeout_until_job_ready = 10 * 60,
     http_worker_thread_pool = Some 60, reconciliation_loop = False\<rparr>"

record lifecycle = world +
  config :: Config
  environ :: "string \<Rightarrow> string option"
  yaml_load :: "string \<Rightarrow> exn + json"
  yaml_dump :: "json \<Rightarrow> string"
  manifest_model_validate :: "json \<Rightarrow> exn + Manifest"
  jsonschema_validate :: "Manifest \<Rightarrow> exn + unit"

type_synonym ('x, 'a) lcm = "('x lifecycle_scheme, 'a) py"

section \<open>Loading manifests\<close>

fun remove_none :: "json \<Rightarrow> json" where
  "remove_none (JList xs) = JList (map remove_none (filter (\<lambda>x. x \<noteq> JNull) xs))"
| "remove_none (JObj kvs) = JObj (map (\<lambda>(k, v). (k, remove_none v)) (filter (\<lambda>(k, v). v \<noteq> JNull) kvs))"
| "remove_none j = j"

definition convert_to_yaml :: "json \<Rightarrow> ('x, string) lcm" where
  "convert_to_yaml obj = gets (\<lambda>w. yaml_dump w (remove_none obj))"

definition load_manifest_from_dict :: "json \<Rightarrow> ('x, Manifest) lcm" where
  "load_manifest_from_dict manifest_dict =
     wrap_context ''parsing manifest data types'' (
       bind (gets (\<lambda>w. manifest_model_validate w manifest_dict)) (\<lambda>r.
       bind (lift r) (\<lambda>manifest.
       bind (convert_to_yaml manifest_dict) (\<lambda>y.
       ret (manifest\<lparr>origin_yaml := Some y, origin_dict := Some manifest_dict\<rparr>)))))"

definition parse_manifest_or_empty :: "string option \<Rightarrow> ('x, Manifest option) lcm" where
  "parse_manifest_or_empty manifest_yaml =
     (case manifest_yaml of None \<Rightarrow> ret None
      | Some y \<Rightarrow> if y = [] then ret None
          else try_except
            (bind (gets (\<lambda>w. yaml_load w y)) (\<lambda>r.
             bind (lift r) (\<lambda>d.
             let manifest_dict = (if d = JNull then JObj [] else d)
             in bind (gets (\<lambda>w. manifest_model_validate w manifest_dict)) (\<lambda>r.
                bind (lift r) (\<lambda>manifest.
                ret (Some (manifest\<lparr>origin_yaml := Some y, origin_dict := Some manifest_dict\<rparr>)))))))
            (\<lambda>_. True) (\<lambda>e. ret None))"

definition validate_manifest :: "Manifest \<Rightarrow> ('x, unit) lcm" where
  "validate_manifest manifest =
     bind (gets (\<lambda>w. jsonschema_validate w manifest)) (\<lambda>r.
     seq (lift r)
         (wrap_context ''parsing Job version'' (seq (lift (SemanticVersion (mf_version manifest))) (ret ()))))"

text \<open>\<open>merge_dicts\<close> updates the base in place, key by key of the overlay.\<close>

function merge_dicts :: "(string, json) dict \<Rightarrow> (string, json) dict \<Rightarrow> (string, json) dict" where
  "merge_dicts base [] = base"
| "merge_dicts base ((key, v) # overlay) =
     merge_dicts
       (case (map_of base key, v) of
          (Some (JObj b), JObj ov) \<Rightarrow> dict_set key (JObj (merge_dicts b ov)) base
        | _ \<Rightarrow> dict_set key v base)
       overlay"
  by pat_completeness auto
termination
  by (relation "measure (\<lambda>(_, overlay). size_list (size_prod (\<lambda>_. 0) size) overlay)") auto

section \<open>Transfer objects\<close>

datatype JobStatus = STARTING | RUNNING | ERROR | ORPHANED | LOST

fun job_status_value :: "JobStatus \<Rightarrow> string" where
  "job_status_value STARTING = ''starting''"
| "job_status_value RUNNING = ''running''"
| "job_status_value ERROR = ''error''"
| "job_status_value ORPHANED = ''orphaned''"
| "job_status_value LOST = ''lost''"

datatype DeploymentStatus = IN_PROGRESS | DONE | FAILED

fun deployment_status_value :: "DeploymentStatus \<Rightarrow> string" where
  "deployment_status_value IN_PROGRESS = ''in_progress''"
| "deployment_status_value DONE = ''done''"
| "deployment_status_value FAILED = ''failed''"

record JobFamilyDto =
  jf_name :: string
  jf_id :: "string option"

record JobDto =
  job_name :: string
  job_version :: string
  job_status :: string
  create_time :: int
  update_time :: int
  job_id :: "string option"
  job_manifest :: "Manifest option"
  manifest_yaml :: "string option"
  internal_name :: "string option"
  pub_url :: "string option"
  job_error :: "string option"
  notice :: "string option"
  image_tag :: "string option"
  deployed_by :: "string option"
  last_call_time :: "int option"
  infrastructure_target :: "string option"
  replica_internal_names :: "string list"
  job_type_version :: string
  infrastructure_stats :: "(string, json) dict"

record DeploymentDto =
  dep_id :: string
  dep_status :: string
  dep_create_time :: int
  dep_update_time :: int
  dep_error :: "string option"
  dep_job :: "JobDto option"
  dep_deployed_by :: "string option"
  dep_phase :: "string option"
  dep_image_name :: "string option"
  dep_infrastructure_target :: "string option"
  dep_manifest_yaml :: string
  dep_job_name :: string
  dep_job_version :: string
  dep_warnings :: "string option"

record EscDto =
  esc_name :: string
  esc_id :: "string option"

record UserProfileDto =
  up_username :: string
  up_token :: string
  up_is_staff :: bool

record PublicEndpointRequestDto =
  per_job_name :: string
  per_job_version :: string
  per_endpoint :: string
  per_active :: bool

record AuditLogEventDto =
  ev_id :: string
  ev_version :: int
  ev_timestamp :: int
  ev_type :: string
  ev_properties :: "(string, json) dict"
  ev_username_executor :: "string option"
  ev_username_subject :: "string option"
  ev_job_name :: "string option"
  ev_job_version :: "string option"

section \<open>Conversion of records\<close>

fun the_int :: "val \<Rightarrow> int" where
  "the_int (VInt i) = i"
| "the_int (VDt t) = t"
| "the_int v = 0"

fun opt_dt :: "val \<Rightarrow> int option" where
  "opt_dt (VDt t) = Some t"
| "opt_dt v = None"

definition dt_val :: "int option \<Rightarrow> val" where
  "dt_val t = (case t of None \<Rightarrow> VNone | Some i \<Rightarrow> VDt i)"

fun the_bool :: "val \<Rightarrow> bool" where
  "the_bool (VBool b) = b"
| "the_bool v = False"

definition parse_json_column :: "string option \<Rightarrow> exn + json" where
  "parse_json_column text =
     (case text of None \<Rightarrow> Inr JNull
      | Some s \<Rightarrow> if s = [] then Inr JNull
          else (case loads s of Inr j \<Rightarrow> Inr j
                | Inl e \<Rightarrow> Inl (ContextError (''Unparsable JSON content ('' @ s @ '')'') (Some e))))"

text \<open>\<open>parse_json_column(..) or {}\<close> as the value of a field annotated as a dictionary; any other value
  is refused by the transfer object.\<close>

definition json_or_empty :: "json \<Rightarrow> exn + (string, json) dict" where
  "json_or_empty j = (case j of JObj kvs \<Rightarrow> Inr kvs
     | JNull \<Rightarrow> Inr [] | JBool b \<Rightarrow> if b then Inl (ValidationError ''dict_type'') else Inr []
     | JInt i \<Rightarrow> if i \<noteq> 0 then Inl (ValidationError ''dict_type'') else Inr []
     | JStr s \<Rightarrow> if s \<noteq> [] then Inl (ValidationError ''dict_type'') else Inr []
     | JList l \<Rightarrow> if l \<noteq> [] then Inl (ValidationError ''dict_type'') else Inr [])"

definition get_external_pub_url :: "'x lifecycle_scheme \<Rightarrow> string \<Rightarrow> string" where
  "get_external_pub_url w default_pub_url =
     (let env = (\<lambda>k. case environ w k of None \<Rightarrow> [] | Some v \<Rightarrow> v)
      in if env ''CLUSTER_FQDN'' \<noteq> [] then
           ''https://'' @ (case environ w ''RACETRACK_SUBDOMAIN'' of None \<Rightarrow> ''racetrack'' | Some s \<Rightarrow> s)
             @ ''.'' @ env ''CLUSTER_FQDN'' @ ''/pub''
         else if default_pub_url \<noteq> [] then default_pub_url
         else if env ''EXTERNAL_PUB_URL'' \<noteq> [] then env ''EXTERNAL_PUB_URL''
         else ''default external pub url was not set'')"

definition cluster_url :: "'x lifecycle_scheme \<Rightarrow> string \<Rightarrow> string option" where
  "cluster_url w service =
     (case environ w ''CLUSTER_FQDN'' of None \<Rightarrow> None
      | Some domain \<Rightarrow> if domain = [] then None
          else Some (''https://'' @ (case environ w ''RACETRACK_SUBDOMAIN'' of None \<Rightarrow> ''racetrack'' | Some s \<Rightarrow> s)
                 @ ''.'' @ domain @ ''/'' @ service))"

definition get_external_lifecycle_url :: "'x lifecycle_scheme \<Rightarrow> string" where
  "get_external_lifecycle_url w =
     (case cluster_url w ''lifecycle'' of Some url \<Rightarrow> url
      | None \<Rightarrow> (case environ w ''EXTERNAL_LIFECYCLE_URL'' of
           None \<Rightarrow> ''neither CLUSTER_FQDN nor EXTERNAL_LIFECYCLE_URL has been set''
         | Some url \<Rightarrow> if url = [] then ''neither CLUSTER_FQDN nor EXTERNAL_LIFECYCLE_URL has been set'' else url))"

definition get_external_grafana_url :: "'x lifecycle_scheme \<Rightarrow> string" where
  "get_external_grafana_url w =
     (case cluster_url w ''grafana'' of Some url \<Rightarrow> url
      | None \<Rightarrow> (case environ w ''EXTERNAL_GRAFANA_URL'' of None \<Rightarrow> ''http://127.0.0.1:3000'' | Some url \<Rightarrow> url))"

definition get_job_pub_url :: "string \<Rightarrow> string \<Rightarrow> ('x, string) lcm" where
  "get_job_pub_url name version = gets (\<lambda>w.
     get_external_pub_url w (external_pub_url (config w)) @ ''/job/'' @ name @ ''/'' @ version)"

definition job_family_record_to_dto :: "robj \<Rightarrow> JobFamilyDto" where
  "job_family_record_to_dto model = \<lparr>jf_name = the_str (attr model ''name''), jf_id = opt_str (attr model ''id'')\<rparr>"

definition job_record_to_dto :: "robj \<Rightarrow> ('x, JobDto) lcm" where
  "job_record_to_dto model =
     bind (parse_manifest_or_empty (opt_str (attr model ''manifest''))) (\<lambda>mf.
     bind (get_job_pub_url (the_str (attr model ''name'')) (the_str (attr model ''version''))) (\<lambda>url.
     bind (lift (parse_json_column (opt_str (attr model ''infrastructure_stats'')))) (\<lambda>j.
     bind (lift (json_or_empty j)) (\<lambda>stats.
     ret \<lparr>job_name = the_str (attr model ''name''), job_version = the_str (attr model ''version''),
       job_status = the_str (attr model ''status''),
       create_time = datetime_to_timestamp (the_int (attr model ''create_time'')),
       update_time = datetime_to_timestamp (the_int (attr model ''update_time'')),
       job_id = opt_str (attr model ''id''), job_manifest = mf, manifest_yaml = opt_str (attr model ''manifest''),
       internal_name = opt_str (attr model ''internal_name''), pub_url = Some url,
       job_error = opt_str (attr model ''error''), notice = opt_str (attr model ''notice''),
       image_tag = opt_str (attr model ''image_tag''), deployed_by = opt_str (attr model ''deployed_by''),
       last_call_time = optional_datetime_to_timestamp (opt_dt (attr model ''last_call_time'')),
       infrastructure_target = opt_str (attr model ''infrastructure_target''),
       replica_internal_names = (if truthy (attr model ''replica_internal_names'')
         then split_on (CHR '','') (the_str (attr model ''replica_internal_names'')) else []),
       job_type_version = the_str (attr model ''job_type_version''), infrastructure_stats = stats\<rparr>))))"

definition deployment_record_to_dto :: "robj \<Rightarrow> DeploymentDto" where
  "deployment_record_to_dto model =
     \<lparr>dep_id = the_str (attr model ''id''), dep_status = the_str (attr model ''status''),
      dep_create_time = datetime_to_timestamp (the_int (attr model ''create_time'')),
      dep_update_time = datetime_to_timestamp (the_int (attr model ''update_time'')),
      dep_error = opt_str (attr model ''error''), dep_job = None,
      dep_deployed_by = opt_str (attr model ''deployed_by''), dep_phase = opt_str (attr model ''phase''),
      dep_image_name = opt_str (attr model ''image_name''),
      dep_infrastructure_target = opt_str (attr model ''infrastructure_target''),
      dep_manifest_yaml = the_str (attr model ''manifest''), dep_job_name = the_str (attr model ''job_name''),
      dep_job_version = the_str (attr model ''job_version''), dep_warnings = opt_str (attr model ''warnings'')\<rparr>"

definition esc_record_to_dto :: "robj \<Rightarrow> EscDto" where
  "esc_record_to_dto model = \<lparr>esc_name = the_str (attr model ''name''), esc_id = opt_str (attr model ''id'')\<rparr>"

definition public_endpoint_request_record_to_dto :: "robj \<Rightarrow> ('x, PublicEndpointRequestDto) lcm" where
  "public_endpoint_request_record_to_dto model =
     bind (find_one Job [(''id'', attr model ''job_id'')]) (\<lambda>job_record.
     ret \<lparr>per_job_name = the_str (attr job_record ''name''), per_job_version = the_str (attr job_record ''version''),
       per_endpoint = the_str (attr model ''endpoint''), per_active = the_bool (attr model ''active'')\<rparr>)"

definition audit_log_event_record_to_dto :: "robj \<Rightarrow> ('x, AuditLogEventDto) lcm" where
  "audit_log_event_record_to_dto model =
     bind (lift (parse_json_column (opt_str (attr model ''properties'')))) (\<lambda>j.
     bind (lift (json_or_empty j)) (\<lambda>properties.
     ret \<lparr>ev_id = the_str (attr model ''id''), ev_version = the_int (attr model ''version''),
       ev_timestamp = datetime_to_timestamp (the_int (attr model ''timestamp'')),
       ev_type = the_str (attr model ''event_type''), ev_properties = properties,
       ev_username_executor = opt_str (attr model ''username_executor''),
       ev_username_subject = opt_str (attr model ''username_subject''),
       ev_job_name = opt_str (attr model ''job_name''), ev_job_version = opt_str (attr model ''job_version'')\<rparr>))"

section \<open>A server state for evaluation\<close>

definition sample_config :: Config where
  "sample_config = default_config\<lparr>cfg_infrastructure_target := Some ''docker''\<rparr>"

definition sample_lifecycle :: lifecycle where
  "sample_lifecycle = world.extend sample_world (lifecycle.fields sample_config (\<lambda>_. None)
     (\<lambda>_. Inl (ValueError [])) dumps (\<lambda>_. Inl (ValidationError [])) (\<lambda>_. Inr ()))"

lemma db_sample_lifecycle [simp]: "db sample_lifecycle = sample_db"
  by (simp add: sample_lifecycle_def world.defs sample_world_def)

lemma sample_db_ok: "db_ok sample_db"
  using sample_ok by (simp add: sample_world_def)

lemma sample_lifecycle_ok: "wf sample_lifecycle"
  by (simp add: sample_db_ok)

section \<open>Properties\<close>

text \<open>
  A JSON column reads back what was written to it: a column without text is null, the text
  \<open>json.dumps\<close> writes for a value without repeated keys is read as that value, and a column whose text
  is not JSON raises an error that carries the parsing error as its cause.
\<close>

lemma json_column_roundtrip:
  assumes "keys_distinct j"
  shows "parse_json_column (Some (dumps j)) = Inr j
    \<and> parse_json_column None = Inr JNull \<and> parse_json_column (Some []) = Inr JNull
    \<and> (\<forall>text e. text \<noteq> [] \<longrightarrow> loads text = Inl e \<longrightarrow>
         (\<exists>ctx. parse_json_column (Some text) = Inl (ContextError ctx (Some e))))"
  using loads_dumps [OF assms] dumps_nonempty [of j] by (simp_all add: parse_json_column_def)

theorem json_column_roundtrip_witness:
  "parse_json_column (Some (dumps (JObj [(''replicas'', JInt 2), (''nodes'', JList [JStr ''a'', JNull])])))
     = Inr (JObj [(''replicas'', JInt 2), (''nodes'', JList [JStr ''a'', JNull])])"
  using json_column_roundtrip [of "JObj [(''replicas'', JInt 2), (''nodes'', JList [JStr ''a'', JNull])]"] by simp

text \<open>What the merge of two dictionaries holds under a key, as a reference definition on maps.\<close>

fun merge_value :: "json option \<Rightarrow> json option \<Rightarrow> json option" where
  "merge_value (Some (JObj b)) (Some (JObj ov)) = Some (JObj (merge_dicts b ov))"
| "merge_value b None = b"
| "merge_value b (Some v) = Some v"

lemma map_of_merge_dicts:
  "distinct (keys overlay) \<Longrightarrow> map_of (merge_dicts base overlay) k = merge_value (map_of base k) (map_of overlay k)"
proof (induction base overlay rule: merge_dicts.induct)
  case (2 base key v overlay)
  let ?base = "case (map_of base key, v) of (Some (JObj b), JObj ov) \<Rightarrow> dict_set key (JObj (merge_dicts b ov)) base
    | _ \<Rightarrow> dict_set key v base"
  have IH: "map_of (merge_dicts ?base overlay) k = merge_value (map_of ?base k) (map_of overlay k)"
    using "2.IH"(2) "2.prems" by simp
  have base: "map_of ?base k = (if k = key then merge_value (map_of base key) (Some v) else map_of base k)"
    by (cases "map_of base key"; cases v) (auto split: json.splits)
  have "k = key \<Longrightarrow> map_of overlay k = None"
    using "2.prems" by (auto simp: map_of_eq_None_iff)
  then show ?case
    using IH base by (cases "merge_value (map_of base key) (Some v)" rule: option.exhaust) auto
qed (cases "map_of base k"; simp)

text \<open>
  Merging an overlay manifest into its base works key by key: a key the overlay does not have
  keeps the base's value, a key of the overlay has the overlay's value, and where both values are
  dictionaries they are merged in the same way.
\<close>

lemma merge_dicts_overlay:
  assumes "distinct (keys overlay)"
  shows "(\<forall>k. map_of overlay k = None \<longrightarrow> map_of (merge_dicts base overlay) k = map_of base k)
    \<and> (\<forall>k v. map_of overlay k = Some v \<longrightarrow>
          map_of (merge_dicts base overlay) k = Some (case (map_of base k, v) of
            (Some (JObj b), JObj ov) \<Rightarrow> JObj (merge_dicts b ov) | _ \<Rightarrow> v))"
proof (intro conjI allI impI)
  show "map_of (merge_dicts base overlay) k = map_of base k" if "map_of overlay k = None" for k
    using that map_of_merge_dicts [OF assms, of base k] by (cases "map_of base k") auto
  show "map_of (merge_dicts base overlay) k = Some (case (map_of base k, v) of
      (Some (JObj b), JObj ov) \<Rightarrow> JObj (merge_dicts b ov) | _ \<Rightarrow> v)" if "map_of overlay k = Some v" for k v
    using that map_of_merge_dicts [OF assms, of base k]
    by (cases "map_of base k"; cases v) (auto split: json.splits)
qed

theorem merge_dicts_overlay_witness:
  "map_of (merge_dicts [(''git'', JObj [(''remote'', JStr ''r''), (''branch'', JStr ''master'')])]
     [(''git'', JObj [(''branch'', JStr ''dev'')])]) ''git''
   = Some (JObj [(''remote'', JStr ''r''), (''branch'', JStr ''dev'')])"
proof -
  have "distinct (keys [(''git'', JObj [(''branch'', JStr ''dev'')])])" by simp
  from merge_dicts_overlay [OF this, of "[(''git'', JObj [(''remote'', JStr ''r''), (''branch'', JStr ''master'')])]"]
  show ?thesis by simp
qed

end
