(* ===== verification/ModelsRegistry.thy ===== *)
theory ModelsRegistry
  imports Dto
begin

text \<open>
  The registry of job models (\<open>lifecycle/job/models_registry.py\<close>): jobs and job families stored in the
  database, found by an exact version or by an alias, created, updated, deleted and kept in the trash.
\<close>

section \<open>Operations\<close>

definition list_job_models :: "('x, robj list) lcm" where
  "list_job_models = list_all_records Job (Some [''-update_time'', ''name'']) None"

definition list_job_family_models :: "('x, robj list) lcm" where
  "list_job_family_models = list_all_records JobFamily (Some [''name'']) None"

definition read_job_model :: "string \<Rightarrow> string \<Rightarrow> ('x, robj) lcm" where
  "read_job_model name version = find_one Job [(''name'', VStr name), (''version'', VStr version)]"

definition job_exists :: "string \<Rightarrow> string \<Rightarrow> ('x, bool) lcm" where
  "job_exists name version = exists_one Job [(''name'', VStr name), (''version'', VStr version)]"

definition job_family_exists :: "string \<Rightarrow> ('x, bool) lcm" where
  "job_family_exists name = exists_one JobFamily [(''name'', VStr name)]"

definition available_jobs_condition :: "string \<Rightarrow> QueryCondition" where
  "available_jobs_condition name =
     query_condition (Conj [Cmp (Quoted ''name'') CmpEq, InList (Quoted ''status'') 3])
       [VStr name, VStr (job_status_value RUNNING), VStr (job_status_value ERROR), VStr (job_status_value LOST)]"

definition job_version_of :: "robj \<Rightarrow> string" where
  "job_version_of job = the_str (attr job ''version'')"

definition read_latest_job_model :: "string \<Rightarrow> ('x, robj) lcm" where
  "read_latest_job_model name =
     bind (filter_records Job (available_jobs_condition name) [] None None) (\<lambda>jobs.
     if jobs = [] then raise (EntityNotFound (''No job named '' @ name))
     else bind (lift (find_latest_stable jobs job_version_of)) (\<lambda>latest_job.
       case latest_job of
         None \<Rightarrow> raise (EntityNotFound ''No stable version found'')
       | Some job \<Rightarrow> ret job))"

definition read_latest_wildcard_job_model :: "string \<Rightarrow> string \<Rightarrow> ('x, robj) lcm" where
  "read_latest_wildcard_job_model name version_wildcard =
     bind (lift (from_x_pattern version_wildcard)) (\<lambda>version_pattern.
     bind (filter_records Job (available_jobs_condition name) [] None None) (\<lambda>jobs.
     if jobs = [] then raise (EntityNotFound (''No job named '' @ name))
     else bind (lift (find_latest_wildcard version_pattern jobs job_version_of True)) (\<lambda>latest_job.
       case latest_job of
         None \<Rightarrow> raise (EntityNotFound (''Not found any stable version matching pattern: '' @ version_wildcard))
       | Some job \<Rightarrow> ret job)))"

definition resolve_job_model :: "string \<Rightarrow> string \<Rightarrow> ('x, robj) lcm" where
  "resolve_job_model name version =
     (if version = ''latest'' then read_latest_job_model name
      else if is_x_pattern version then read_latest_wildcard_job_model name version
      else read_job_model name version)"

definition read_job_family_model :: "string \<Rightarrow> ('x, robj) lcm" where
  "read_job_family_model job_family =
     try_except (find_one JobFamily [(''name'', VStr job_family)]) is_EntityNotFound
       (\<lambda>_. raise (EntityNotFound (''Job Family with name '' @ job_family @ '' was not found'')))"

definition delete_job_model :: "string \<Rightarrow> string \<Rightarrow> ('x, unit) lcm" where
  "delete_job_model name version =
     bind (find_one Job [(''name'', VStr name), (''version'', VStr version)]) (\<lambda>job. delete_record job True)"

definition create_job_family_model :: "JobFamilyDto \<Rightarrow> ('x, robj) lcm" where
  "create_job_family_model dto =
     bind new_uuid (\<lambda>u. create_record (new_record JobFamily [(''id'', VStr u), (''name'', VStr (jf_name dto))]))"

definition create_job_family_if_not_exist :: "string \<Rightarrow> ('x, robj) lcm" where
  "create_job_family_if_not_exist job_family =
     try_except (read_job_family_model job_family) is_EntityNotFound
       (\<lambda>_. create_job_family_model \<lparr>jf_name = job_family, jf_id = None\<rparr>)"

definition new_job_row :: "string \<Rightarrow> val \<Rightarrow> JobDto \<Rightarrow> row" where
  "new_job_row u family_id dto = [
     (''id'', VStr u), (''family_id'', family_id), (''name'', VStr (job_name dto)), (''version'', VStr (job_version dto)),
     (''status'', VStr (job_status dto)), (''create_time'', VDt (timestamp_to_datetime (create_time dto))),
     (''update_time'', VDt (timestamp_to_datetime (update_time dto))), (''manifest'', str_val (manifest_yaml dto)),
     (''internal_name'', str_val (internal_name dto)), (''error'', str_val (job_error dto)), (''notice'', VNone),
     (''image_tag'', str_val (image_tag dto)), (''deployed_by'', str_val (deployed_by dto)), (''last_call_time'', VNone),
     (''infrastructure_target'', str_val (infrastructure_target dto)),
     (''replica_internal_names'', VStr (join '','' (replica_internal_names dto))),
     (''job_type_version'', VStr (job_type_version dto)),
     (''infrastructure_stats'', VStr (dumps (JObj (infrastructure_stats dto))))]"

definition create_job_model :: "JobDto \<Rightarrow> ('x, robj) lcm" where
  "create_job_model dto =
     bind (create_job_family_if_not_exist (job_name dto)) (\<lambda>job_family.
     bind new_uuid (\<lambda>u.
     create_record (new_record Job (new_job_row u (attr job_family ''id'') dto))))"

definition set_job_attrs :: "JobDto \<Rightarrow> robj \<Rightarrow> robj" where
  "set_job_attrs dto job =
     set_attr ''infrastructure_stats'' (VStr (dumps (JObj (infrastructure_stats dto))))
    (set_attr ''job_type_version'' (VStr (job_type_version dto))
    (set_attr ''replica_internal_names'' (VStr (join '','' (replica_internal_names dto)))
    (set_attr ''infrastructure_target'' (str_val (infrastructure_target dto))
    (set_attr ''last_call_time'' (dt_val (map_option timestamp_to_datetime (last_call_time dto)))
    (set_attr ''deployed_by'' (str_val (deployed_by dto))
    (set_attr ''image_tag'' (str_val (image_tag dto))
    (set_attr ''notice'' (str_val (notice dto))
    (set_attr ''error'' (str_val (job_error dto))
    (set_attr ''internal_name'' (str_val (internal_name dto))
    (set_attr ''manifest'' (str_val (manifest_yaml dto))
    (set_attr ''update_time'' (VDt (timestamp_to_datetime (update_time dto)))
    (set_attr ''status'' (VStr (job_status dto)) job))))))))))))"

definition update_or_gone :: "robj \<Rightarrow> ('x, robj) lcm" where
  "update_or_gone job = try_except (update_record job True) is_NoRowsAffected
     (\<lambda>_. raise (EntityNotFound (''Job model has gone before updating: '' @ the_str (attr job ''name'') @ '' '' @ the_str (attr job ''version''))))"

definition update_job_model :: "robj \<Rightarrow> JobDto \<Rightarrow> ('x, robj) lcm" where
  "update_job_model job dto = update_or_gone (set_job_attrs dto job)"

definition update_job_manifest :: "string \<Rightarrow> string \<Rightarrow> string \<Rightarrow> ('x, unit) lcm" where
  "update_job_manifest name version yaml =
     bind (wrap_context ''parsing YAML'' (bind (gets (\<lambda>w. yaml_load w yaml)) lift)) (\<lambda>manifest_dict.
     seq (wrap_context ''manifest validation'' (
            bind (load_manifest_from_dict manifest_dict) (\<lambda>manifest.
            seq (validate_manifest manifest)
            (seq (assert_py (mf_name manifest = name) ''job name cannot be changed'')
                 (assert_py (mf_version manifest = version) ''job version cannot be changed'')))))
     (bind (read_job_model name version) (\<lambda>job_model.
      seq (update_or_gone (set_attr ''manifest'' (VStr yaml) job_model)) (ret ()))))"

definition save_job_model :: "JobDto \<Rightarrow> ('x, robj) lcm" where
  "save_job_model dto =
     try_else (read_job_model (job_name dto) (job_version dto)) is_EntityNotFound
       (\<lambda>_. create_job_model dto)
       (\<lambda>job_model. update_job_model job_model dto)"

definition update_job :: "JobDto \<Rightarrow> ('x, robj) lcm" where
  "update_job dto = bind (read_job_model (job_name dto) (job_version dto)) (\<lambda>job_model. update_job_model job_model dto)"

definition create_trashed_job :: "JobDto \<Rightarrow> ('x, unit) lcm" where
  "create_trashed_job dto =
     bind (if create_time dto = 0 then ret 0 else now) (\<lambda>t0.
     let age_days = (case days_ago t0 (Some (create_time dto)) of None \<Rightarrow> 0 | Some d \<Rightarrow> d)
     in bind now (\<lambda>delete_time.
        try_except
          (seq (create_record (new_record TrashJob [
              (''id'', str_val (job_id dto)), (''name'', VStr (job_name dto)), (''version'', VStr (job_version dto)),
              (''status'', VStr (job_status dto)), (''create_time'', VDt (timestamp_to_datetime (create_time dto))),
              (''update_time'', VDt (timestamp_to_datetime (update_time dto))), (''delete_time'', VDt delete_time),
              (''manifest'', str_val (manifest_yaml dto)), (''internal_name'', str_val (internal_name dto)),
              (''error'', str_val (job_error dto)), (''image_tag'', str_val (image_tag dto)),
              (''deployed_by'', str_val (deployed_by dto)),
              (''last_call_time'', dt_val (map_option timestamp_to_datetime (last_call_time dto))),
              (''infrastructure_target'', str_val (infrastructure_target dto)), (''age_days'', VFloat age_days)]))
            (ret ()))
          is_AlreadyExists (\<lambda>_. ret ())))"

definition find_deleted_job :: "string \<Rightarrow> string \<Rightarrow> ('x, robj option) lcm" where
  "find_deleted_job name version =
     bind (find_many TrashJob None [(''name'', VStr name), (''version'', VStr version)]) (\<lambda>records.
     ret (case records of [] \<Rightarrow> None | r # _ \<Rightarrow> Some r))"

section \<open>The invariant\<close>

lemma keeps_wf_run: "keeps wf m \<Longrightarrow> wf w \<Longrightarrow> m w = (r, w') \<Longrightarrow> wf w'"
  by (auto simp: keeps_def)

lemma keeps_registry_reads [keeps_intro]:
  "keeps P (read_job_model name version)" "keeps P (job_exists name version)" "keeps P (job_family_exists name)"
  "keeps P (read_latest_job_model name)" "keeps P (read_latest_wildcard_job_model name version)"
  "keeps P (resolve_job_model name version)" "keeps P (read_job_family_model name)" "keeps P (find_deleted_job name version)"
  "keeps P list_job_models" "keeps P list_job_family_models"
  unfolding resolve_job_model_def read_latest_job_model_def read_latest_wildcard_job_model_def read_job_model_def
    job_exists_def job_family_exists_def read_job_family_model_def find_deleted_job_def list_job_models_def
    list_job_family_models_def
  by (intro keeps_intro)+

lemma keeps_registry_writes [keeps_intro]:
  "keeps wf (create_job_family_if_not_exist name)" "keeps wf (create_job_model dto)" "keeps wf (update_job_model job dto)"
  "keeps wf (save_job_model dto)" "keeps wf (update_job dto)" "keeps wf (delete_job_model name version)"
  "keeps wf (create_trashed_job dto)" "keeps wf (update_or_gone job)"
  unfolding save_job_model_def update_job_def create_job_model_def create_job_family_if_not_exist_def
    create_job_family_model_def update_job_model_def update_or_gone_def delete_job_model_def create_trashed_job_def Let_def
  by (intro keeps_intro)+

section \<open>Filtering and lookups by unique keys\<close>

lemma where_holds_condition:
  assumes "aligned c"
  shows "where_holds (filter_conditions c) (filter_params c) env \<longleftrightarrow> holds env c"
  using assms
  by (auto simp: where_holds_def filter_conditions_def filter_params_def holds_def aligned_def split: option.splits)

lemma run_filter:
  assumes "wf w" and "aligned c" and "set (order_columns order_by) \<subseteq> set (table_fields t)"
  shows "filter_records t c [] order_by limit w =
    (Inr (map (record_of t) (limit_rows limit None (order_rows order_by (filter (\<lambda>r. holds (row_env t r) c) (db w t))))), w)"
proof -
  have "\<forall>r \<in> set (limit_rows limit None (order_rows order_by (filter (\<lambda>r. holds (row_env t r) c) (db w t)))). row_ok t r"
    using assms(1) set_limit_rows by (fastforce dest: db_okD)
  then show ?thesis
    using assms(3)
    by (simp add: filter_records_def py_run run_select_many matching_no_joins where_holds_condition [OF assms(2)]
        map_project run_map_convert)
qed

lemma key_filter_key_of: "key_filter kw r \<longleftrightarrow> VNone \<notin> snd ` set kw \<and> key_of (keys kw) r = map snd kw"
  by (induction kw) (auto simp: key_filter_def key_of_def)

lemma filter_unique_key:
  assumes "wf w" and "r \<in> set (db w t)" and "keys kw \<in> set (unique_keys t)" and "key_filter kw r"
  shows "filter (key_filter kw) (db w t) = [r]"
proof -
  have "distinct (map (key_of (keys kw)) (db w t))"
    using db_okD(2) [OF assms(1), of t] assms(3) by (auto simp: unique_ok_def list_all_iff)
  from filter_key_unique [OF this assms(2)] show ?thesis
    using assms(4) by (simp add: key_filter_key_of fun_eq_iff [of "key_filter kw"] cong: filter_cong)
qed

definition named :: "string \<Rightarrow> string \<Rightarrow> row \<Rightarrow> bool" where
  "named name version r \<longleftrightarrow> row_val r ''name'' = VStr name \<and> row_val r ''version'' = VStr version"

lemma job_key: "key_filter [(''name'', VStr name), (''version'', VStr version)] r \<longleftrightarrow> named name version r"
  by (auto simp: key_filter_def named_def)

lemma job_key_fields: "{''name'', ''version''} \<subseteq> set (table_fields Job)" "''name'' \<in> set (table_fields JobFamily)"
  by (simp_all add: meta_eval)

lemma run_read_job:
  assumes "wf w"
  shows "r \<in> set (db w Job) \<Longrightarrow> named name version r \<Longrightarrow> read_job_model name version w = (Inr (record_of Job r), w)"
    and "\<forall>r \<in> set (db w Job). \<not> named name version r \<Longrightarrow>
      \<exists>msg. read_job_model name version w = (Inl (EntityNotFound msg), w)"
proof -
  let ?kw = "[(''name'', VStr name), (''version'', VStr version)]"
  have run: "read_job_model name version w = ((case filter (key_filter ?kw) (db w Job) of
      [] \<Rightarrow> Inl (EntityNotFound (cls_name (class_of Job) @ '' record not found for given '' @ join '', '' (keys ?kw)))
    | r # _ \<Rightarrow> Inr (record_of Job r)), w)"
    unfolding read_job_model_def using job_key_fields by (intro run_find_one [OF assms]) auto
  show "read_job_model name version w = (Inr (record_of Job r), w)" if r: "r \<in> set (db w Job)" "named name version r"
  proof -
    have "filter (key_filter ?kw) (db w Job) = [r]"
      using r by (intro filter_unique_key [OF assms]) (auto simp: job_key unique_keys_def)
    then show ?thesis by (simp add: run)
  qed
  show "\<exists>msg. read_job_model name version w = (Inl (EntityNotFound msg), w)"
    if "\<forall>r \<in> set (db w Job). \<not> named name version r"
  proof -
    have "filter (key_filter ?kw) (db w Job) = []"
      using that by (auto simp: filter_empty_conv job_key)
    then show ?thesis by (simp add: run)
  qed
qed

lemma run_read_family:
  assumes "wf w"
  shows "r \<in> set (db w JobFamily) \<Longrightarrow> row_val r ''name'' = VStr name \<Longrightarrow>
      read_job_family_model name w = (Inr (record_of JobFamily r), w)"
    and "\<forall>r \<in> set (db w JobFamily). row_val r ''name'' \<noteq> VStr name \<Longrightarrow>
      \<exists>msg. read_job_family_model name w = (Inl (EntityNotFound msg), w)"
proof -
  let ?kw = "[(''name'', VStr name)]"
  have run: "find_one JobFamily ?kw w = ((case filter (key_filter ?kw) (db w JobFamily) of
      [] \<Rightarrow> Inl (EntityNotFound (cls_name (class_of JobFamily) @ '' record not found for given '' @ join '', '' (keys ?kw)))
    | r # _ \<Rightarrow> Inr (record_of JobFamily r)), w)"
    using job_key_fields by (intro run_find_one [OF assms]) auto
  show "read_job_family_model name w = (Inr (record_of JobFamily r), w)"
    if r: "r \<in> set (db w JobFamily)" "row_val r ''name'' = VStr name"
  proof -
    have "filter (key_filter ?kw) (db w JobFamily) = [r]"
      using r by (intro filter_unique_key [OF assms]) (auto simp: key_filter_def unique_keys_def)
    then show ?thesis by (simp add: read_job_family_model_def py_run run)
  qed
  show "\<exists>msg. read_job_family_model name w = (Inl (EntityNotFound msg), w)"
    if "\<forall>r \<in> set (db w JobFamily). row_val r ''name'' \<noteq> VStr name"
  proof -
    have "filter (key_filter ?kw) (db w JobFamily) = []"
      using that by (auto simp: filter_empty_conv key_filter_def)
    then show ?thesis by (simp add: read_job_family_model_def py_run run)
  qed
qed

section \<open>Resolving aliases\<close>

definition available :: "string \<Rightarrow> row \<Rightarrow> bool" where
  "available name r \<longleftrightarrow> row_val r ''name'' = VStr name \<and>
     row_val r ''status'' \<in> {VStr ''running'', VStr ''error'', VStr ''lost''}"

lemma available_iff: "holds (row_env Job r) (available_jobs_condition name) \<longleftrightarrow> available name r"
  by (auto simp: available_jobs_condition_def available_def)

lemma aligned_available: "aligned (available_jobs_condition name)"
  by (simp add: available_jobs_condition_def)

lemma run_available:
  assumes "wf w"
  shows "filter_records Job (available_jobs_condition name) [] None None w
    = (Inr (map (record_of Job) (filter (available name) (db w Job))), w)"
  using run_filter [OF assms aligned_available, of None Job name None]
  by (simp add: order_columns_def order_rows_def limit_rows_def available_iff)

text \<open>The candidates of an alias: available jobs with a stable version that the alias covers.\<close>

definition candidate :: "(row \<Rightarrow> semantic_version) \<Rightarrow> string \<Rightarrow> string \<Rightarrow> row \<Rightarrow> bool" where
  "candidate ver name version r \<longleftrightarrow> available name r \<and> is_stable (ver r)
     \<and> (version = ''latest'' \<or> (\<exists>p. from_x_pattern version = Inr p \<and> matches p (ver r)))"

lemma latest_of_rows:
  assumes "\<forall>r \<in> set rows. SemanticVersion (the_str (row_val r ''version'')) = Inr (ver r)"
  shows "find_latest_stable (map (record_of Job) rows) job_version_of
      = Inr (latest_object (filter (\<lambda>(v, _). label v = []) (dict_of (map (\<lambda>x. (ver (attrs x), x)) (map (record_of Job) rows)))))"
    and "find_latest_wildcard p (map (record_of Job) rows) job_version_of True
      = Inr (latest_object (filter (\<lambda>(v, _). label v = [] \<and> matches p v) (dict_of (map (\<lambda>x. (ver (attrs x), x)) (map (record_of Job) rows)))))"
  using parse_versions_ok [of "map (record_of Job) rows" job_version_of "\<lambda>x. ver (attrs x)"] assms
  by (simp_all add: find_latest_stable_def find_latest_wildcard_def job_version_of_def case_prod_unfold)

lemma latest_result:
  assumes "\<forall>r. cand r \<longleftrightarrow> r \<in> set rows \<and> ok (ver r)"
    and "res = latest_object (filter (\<lambda>(v, _). ok v) (dict_of (map (\<lambda>x. (ver (attrs x), x)) (map (record_of Job) rows))))"
  shows "case res of None \<Rightarrow> (\<forall>r. \<not> cand r)
    | Some job \<Rightarrow> (\<exists>r. job = record_of Job r \<and> cand r \<and> (\<forall>q. cand q \<longrightarrow> ver q \<le> ver r))"
proof (cases res)
  case None
  then show ?thesis
    using conjunct1 [OF latest_filtered [of ok "\<lambda>x. ver (attrs x)" "map (record_of Job) rows"]] assms(1)
    unfolding assms(2) by auto
next
  case (Some job)
  have "job \<in> set (map (record_of Job) rows) \<and> ok (ver (attrs job))
      \<and> (\<forall>y \<in> set (map (record_of Job) rows). ok (ver (attrs y)) \<longrightarrow> ver (attrs y) \<le> ver (attrs job))"
    using conjunct2 [OF latest_filtered [of ok "\<lambda>x. ver (attrs x)" "map (record_of Job) rows"], rule_format]
      Some unfolding assms(2) by blast
  then show ?thesis using Some assms(1) by auto
qed

definition resolved :: "(row \<Rightarrow> bool) \<Rightarrow> (row \<Rightarrow> semantic_version) \<Rightarrow> exn + robj \<Rightarrow> bool" where
  "resolved cand ver res \<longleftrightarrow> (case res of
       Inl e \<Rightarrow> is_EntityNotFound e \<and> (\<forall>r. \<not> cand r)
     | Inr job \<Rightarrow> (\<exists>r. job = record_of Job r \<and> cand r \<and> (\<forall>q. cand q \<longrightarrow> ver q \<le> ver r)))"

lemma latest_resolved:
  assumes "\<forall>r. cand r \<longleftrightarrow> r \<in> set rows \<and> ok (ver r)"
    and "res = latest_object (filter (\<lambda>(v, _). ok v) (dict_of (map (\<lambda>x. (ver (attrs x), x)) (map (record_of Job) rows))))"
    and "is_EntityNotFound e1" and "is_EntityNotFound e2"
  shows "resolved cand ver (if rows = [] then Inl e1 else case res of None \<Rightarrow> Inl e2 | Some job \<Rightarrow> Inr job)"
proof (cases "rows = []")
  case True
  then show ?thesis using assms(1,3) by (simp add: resolved_def)
next
  case False
  then show ?thesis
    using latest_result [OF assms(1,2)] assms(4) by (cases res) (simp_all add: resolved_def)
qed

text \<open>
  C26. Resolving the alias \<open>latest\<close> or a version pattern returns, when the versions of the available
  jobs parse, the job with the greatest stable version that the alias covers among the jobs of that
  name that run, fail or are lost, and raises \<open>EntityNotFound\<close> exactly when there is none; the
  database is not changed.
\<close>
theorem resolve_job_model_correct:
  assumes "wf w"
    and "\<forall>r \<in> set (db w Job). available name r \<longrightarrow> SemanticVersion (the_str (row_val r ''version'')) = Inr (ver r)"
    and "version = ''latest'' \<or> is_x_pattern version"
  shows "\<exists>res. resolve_job_model name version w = (res, w) \<and>
    (case res of
       Inl e \<Rightarrow> is_EntityNotFound e \<and> (\<forall>r \<in> set (db w Job). \<not> candidate ver name version r)
     | Inr job \<Rightarrow> (\<exists>r \<in> set (db w Job). job = record_of Job r \<and> candidate ver name version r
         \<and> (\<forall>q \<in> set (db w Job). candidate ver name version q \<longrightarrow> ver q \<le> ver r)))"
proof -
  let ?rows = "filter (available name) (db w Job)"
  let ?cand = "\<lambda>r. r \<in> set (db w Job) \<and> candidate ver name version r"
  have parse: "\<forall>r \<in> set ?rows. SemanticVersion (the_str (row_val r ''version'')) = Inr (ver r)"
    using assms(2) by simp
  have "\<exists>res. resolve_job_model name version w = (res, w) \<and> resolved ?cand ver res"
  proof (cases "version = ''latest''")
    case True
    have c: "\<forall>r. ?cand r \<longleftrightarrow> r \<in> set ?rows \<and> label (ver r) = []"
      by (auto simp: candidate_def True is_stable_def)
    show ?thesis
      using latest_resolved [OF c refl, of "EntityNotFound (''No job named '' @ name)" "EntityNotFound ''No stable version found''"]
      by (simp add: resolve_job_model_def True read_latest_job_model_def py_run run_available [OF assms(1)]
          latest_of_rows(1) [OF parse] del: map_map split: option.splits if_splits)
  next
    case False
    with assms(3) obtain p where p: "from_x_pattern version = Inr p" and x: "is_x_pattern version"
      using is_x_pattern_compiles by blast
    have c: "\<forall>r. ?cand r \<longleftrightarrow> r \<in> set ?rows \<and> (label (ver r) = [] \<and> matches p (ver r))"
      by (auto simp: candidate_def False p is_stable_def)
    show ?thesis
      using latest_resolved [where ok = "\<lambda>v. label v = [] \<and> matches p v", OF c refl,
          of "EntityNotFound (''No job named '' @ name)"
             "EntityNotFound (''Not found any stable version matching pattern: '' @ version)"] False x
      by (simp add: resolve_job_model_def read_latest_wildcard_job_model_def p py_run run_available [OF assms(1)]
          latest_of_rows(2) [OF parse] del: map_map split: option.splits if_splits)
  qed
  then obtain res where "resolve_job_model name version w = (res, w)" and "resolved ?cand ver res" by blast
  then show ?thesis unfolding resolved_def by (intro exI [of _ res]) (cases res; auto)
qed

theorem resolve_job_model_correct_witness:
  "\<exists>r. resolve_job_model ''adder'' ''0.0.x'' sample_lifecycle = (Inr (record_of Job r), sample_lifecycle)
     \<and> available ''adder'' r"
proof -
  let ?ver = "\<lambda>r. projr (SemanticVersion (the_str (row_val r ''version'')))"
  have d: "db sample_lifecycle = sample_db" by simp
  have x: "is_x_pattern ''0.0.x''" by code_simp
  have v: "\<forall>r \<in> set (db sample_lifecycle Job). available ''adder'' r \<longrightarrow>
      SemanticVersion (the_str (row_val r ''version'')) = Inr (?ver r)"
    unfolding d by code_simp
  have c: "\<exists>r \<in> set (db sample_lifecycle Job). candidate ?ver ''adder'' ''0.0.x'' r"
    unfolding d
  proof
    show "job_row ''j1'' ''f1'' ''adder'' ''0.0.1'' \<in> set (sample_db Job)" by simp
    have "from_x_pattern ''0.0.x'' = Inr (projr (from_x_pattern ''0.0.x''))" by code_simp
    moreover have "matches (projr (from_x_pattern ''0.0.x'')) (?ver (job_row ''j1'' ''f1'' ''adder'' ''0.0.1''))" by code_simp
    moreover have "available ''adder'' (job_row ''j1'' ''f1'' ''adder'' ''0.0.1'')
      \<and> is_stable (?ver (job_row ''j1'' ''f1'' ''adder'' ''0.0.1''))" by code_simp
    ultimately show "candidate ?ver ''adder'' ''0.0.x'' (job_row ''j1'' ''f1'' ''adder'' ''0.0.1'')"
      unfolding candidate_def by blast
  qed
  from resolve_job_model_correct [OF sample_lifecycle_ok v] x obtain res
    where "resolve_job_model ''adder'' ''0.0.x'' sample_lifecycle = (res, sample_lifecycle)"
      and "case res of Inl e \<Rightarrow> is_EntityNotFound e \<and> (\<forall>r \<in> set (db sample_lifecycle Job). \<not> candidate ?ver ''adder'' ''0.0.x'' r)
        | Inr job \<Rightarrow> (\<exists>r \<in> set (db sample_lifecycle Job). job = record_of Job r \<and> candidate ?ver ''adder'' ''0.0.x'' r
            \<and> (\<forall>q \<in> set (db sample_lifecycle Job). candidate ?ver ''adder'' ''0.0.x'' q \<longrightarrow> ?ver q \<le> ?ver r))"
    by blast
  with c show ?thesis by (cases res) (auto simp: candidate_def)
qed

section \<open>Saving a job\<close>

lemma job_types:
  "has_type (col_type Job c) (VStr s) \<longleftrightarrow> c \<notin> {''create_time'', ''update_time'', ''last_call_time''}"
  if "c \<in> set (table_fields Job)"
  using that by (auto simp: has_type_def col_type_def meta_eval)

lemma job_optional:
  "has_type (col_type Job c) (str_val s)"
  if "c \<in> {''manifest'', ''internal_name'', ''error'', ''notice'', ''image_tag'', ''deployed_by'', ''infrastructure_target''}"
  using that by (cases s) (auto simp: has_type_def col_type_def meta_eval nullable_def str_val_def)

lemma job_times:
  "has_type (col_type Job ''create_time'') (VDt i)" "has_type (col_type Job ''update_time'') (VDt i)"
  "has_type (col_type Job ''last_call_time'') (dt_val d)"
  by (cases d; simp add: has_type_def col_type_def meta_eval nullable_def dt_val_def)+

definition job_columns :: "JobDto \<Rightarrow> row" where
  "job_columns dto = [
     (''status'', VStr (job_status dto)), (''update_time'', VDt (timestamp_to_datetime (update_time dto))),
     (''manifest'', str_val (manifest_yaml dto)), (''internal_name'', str_val (internal_name dto)),
     (''error'', str_val (job_error dto)), (''image_tag'', str_val (image_tag dto)),
     (''deployed_by'', str_val (deployed_by dto)), (''infrastructure_target'', str_val (infrastructure_target dto)),
     (''replica_internal_names'', VStr (join '','' (replica_internal_names dto))),
     (''job_type_version'', VStr (job_type_version dto)),
     (''infrastructure_stats'', VStr (dumps (JObj (infrastructure_stats dto))))]"

definition stores :: "JobDto \<Rightarrow> row \<Rightarrow> bool" where
  "stores dto r \<longleftrightarrow> list_all (\<lambda>(c, v). row_val r c = v) (job_columns dto)"

lemma set_job_attrs_row:
  assumes "row_ok Job r" and "r' = attrs (set_job_attrs dto (record_of Job r))"
  shows "row_ok Job r'" and "stores dto r'" and "row_val r' ''id'' = row_val r ''id''"
    and "row_val r' ''name'' = row_val r ''name''" and "row_val r' ''version'' = row_val r ''version''"
    and "row_val r' ''family_id'' = row_val r ''family_id''"
proof -
  have f: "set [''infrastructure_stats'', ''job_type_version'', ''replica_internal_names'', ''infrastructure_target'',
    ''last_call_time'', ''deployed_by'', ''image_tag'', ''notice'', ''error'', ''internal_name'', ''manifest'',
    ''update_time'', ''status''] \<subseteq> set (table_fields Job)"
    by (simp add: meta_eval)
  then show "row_ok Job r'"
    unfolding assms(2) set_job_attrs_def set_attr_def
    by (auto intro!: row_ok_dict_set job_optional job_times simp: assms(1) job_types)
  show "stores dto r'" "row_val r' ''id'' = row_val r ''id''" "row_val r' ''name'' = row_val r ''name''"
    "row_val r' ''version'' = row_val r ''version''" "row_val r' ''family_id'' = row_val r ''family_id''"
    by (simp_all add: assms(2) set_job_attrs_def set_attr_def stores_def job_columns_def)
qed

lemma run_update_job_model:
  assumes "wf w" and "r \<in> set (db w Job)" and "r' = attrs (set_job_attrs dto (record_of Job r))"
  shows "\<exists>w'. update_job_model (record_of Job r) dto w = (Inr (record_of Job r'), w')
    \<and> db w' = replace_row (db w) Job r r'"
proof -
  have r: "row_ok Job r" using db_okD(1) [OF assms(1,2)] .
  note r' = set_job_attrs_row [OF r assms(3)]
  have o': "set_job_attrs dto (record_of Job r) = \<lparr>rtype = Job, attrs = r', original_fields = Some r\<rparr>"
    by (simp add: assms(3) set_job_attrs_def set_attr_def record_of_def)
  have u: "updatable (db w) Job r r'"
    by (rule updatable_same_keys [OF assms(1,2)]) (auto simp: unique_keys_def key_of_def r')
  have "replace_row (db w) Job r r = db w"
    by (auto simp: replace_row_def intro: map_idI)
  then show ?thesis
    using run_update [OF assms(1,2) r'(1)] r'(3) u
    by (auto simp: update_job_model_def update_or_gone_def py_run o')
qed

lemma new_job_row_ok: "row_ok Job (new_job_row u (VStr f) dto)"
proof (rule row_okI)
  show "keys (new_job_row u (VStr f) dto) = table_fields Job"
    by (simp add: new_job_row_def meta_eval)
  have "has_type (col_type Job ''notice'') VNone" "has_type (col_type Job ''last_call_time'') VNone"
    by (simp_all add: has_type_def col_type_def meta_eval nullable_def)
  moreover have "set [''id'', ''family_id'', ''name'', ''version'', ''status'', ''replica_internal_names'', ''job_type_version'',
      ''infrastructure_stats''] \<subseteq> set (table_fields Job)"
    by (simp add: meta_eval)
  ultimately show "list_all (\<lambda>(c, v). has_type (col_type Job c) v \<and> (c = pk Job \<longrightarrow> v \<noteq> VNone)) (new_job_row u (VStr f) dto)"
    by (simp add: new_job_row_def job_optional job_times job_types)
qed

lemma new_job_row_vals:
  "row_val (new_job_row u f dto) ''id'' = VStr u" "row_val (new_job_row u f dto) ''family_id'' = f"
  "row_val (new_job_row u f dto) ''name'' = VStr (job_name dto)"
  "row_val (new_job_row u f dto) ''version'' = VStr (job_version dto)"
  "stores dto (new_job_row u f dto)"
  by (simp_all add: new_job_row_def row_val_def stores_def job_columns_def)

lemma family_row_ok: "row_ok JobFamily [(''id'', VStr u), (''name'', VStr n)]"
  by (simp add: row_ok_def meta_eval row_val_def has_type_def col_type_def)

lemma pk_value_string:
  assumes "wf w" and "r \<in> set (db w JobFamily)"
  obtains u where "row_val r ''id'' = VStr u"
proof -
  have "has_type (col_type JobFamily ''id'') (row_val r ''id'')"
    using row_ok_val [OF db_okD(1) [OF assms]] pk_in_fields [of JobFamily] by simp
  then show ?thesis
    using that by (cases "row_val r ''id''") (auto simp: has_type_def col_type_def meta_eval nullable_def)
qed

lemma add_row_same [simp]: "add_row d t r t = d t @ [r]"
  by (simp add: add_row_def)

lemma add_row_other: "t' \<noteq> t \<Longrightarrow> add_row d t r t' = d t'"
  by (simp add: add_row_def)

lemma run_create_family:
  assumes "wf w" and "uuid_of w (uuid_count w) = u" and "u \<noteq> []"
    and "\<forall>r \<in> set (db w JobFamily). row_val r ''id'' \<noteq> VStr u" and "\<forall>r \<in> set (db w JobFamily). row_val r ''name'' \<noteq> VStr name"
  shows "create_job_family_model \<lparr>jf_name = name, jf_id = None\<rparr> w
    = (Inr (new_record JobFamily [(''id'', VStr u), (''name'', VStr name)]),
       w\<lparr>uuid_count := Suc (uuid_count w), db := add_row (db w) JobFamily [(''id'', VStr u), (''name'', VStr name)]\<rparr>)"
proof -
  let ?r = "[(''id'', VStr u), (''name'', VStr name)]" and ?w = "w\<lparr>uuid_count := Suc (uuid_count w)\<rparr>"
  have v: "row_val ?r ''id'' = VStr u" "row_val ?r ''name'' = VStr name" by (simp_all add: row_val_def)
  have "insertable (db w) JobFamily ?r"
    using db_okD(2) [OF assms(1), of JobFamily] assms(4,5)
    by (auto simp: insertable_def unique_ok_def unique_keys_def key_of_def targets_ok_def v)
  moreover have "truthy (row_val ?r (pk JobFamily))"
    using assms(3) by (simp add: v)
  ultimately show ?thesis
    using run_create [of ?w JobFamily ?r] assms(1,2) family_row_ok
    by (simp add: create_job_family_model_def py_run new_uuid_def)
qed

lemma fresh_uuidsD:
  assumes "fresh_uuids w" and "uuid_count w \<le> n"
  shows "uuid_of w n \<noteq> []" and "r \<in> set (db w t) \<Longrightarrow> row_val r (pk t) \<noteq> VStr (uuid_of w n)"
  using assms unfolding fresh_uuids_def by blast+

lemma run_family:
  assumes "wf w" and "fresh_uuids w"
  shows "\<exists>o' f w'. create_job_family_if_not_exist name w = (Inr o', w') \<and> wf w' \<and> uuid_of w' = uuid_of w
    \<and> uuid_count w \<le> uuid_count w' \<and> (\<forall>t. t \<noteq> JobFamily \<longrightarrow> db w' t = db w t)
    \<and> set (db w JobFamily) \<subseteq> set (db w' JobFamily)
    \<and> f \<in> set (db w' JobFamily) \<and> row_val f ''name'' = VStr name \<and> attr o' ''id'' = row_val f ''id''"
proof (cases "\<exists>f \<in> set (db w JobFamily). row_val f ''name'' = VStr name")
  case True
  then obtain f where f: "f \<in> set (db w JobFamily)" "row_val f ''name'' = VStr name" by blast
  have "create_job_family_if_not_exist name w = (Inr (record_of JobFamily f), w)"
    by (simp add: create_job_family_if_not_exist_def py_run run_read_family(1) [OF assms(1) f])
  then show ?thesis using f assms(1) by auto
next
  case False
  let ?u = "uuid_of w (uuid_count w)"
  let ?r = "[(''id'', VStr ?u), (''name'', VStr name)]"
  have u: "?u \<noteq> []" "\<forall>r \<in> set (db w JobFamily). row_val r ''id'' \<noteq> VStr ?u"
    using fresh_uuidsD [OF assms(2) order_refl] fresh_uuidsD(2) [OF assms(2) order_refl, of _ JobFamily] by simp_all
  obtain msg where "read_job_family_model name w = (Inl (EntityNotFound msg), w)"
    using run_read_family(2) [OF assms(1), of name] False by blast
  then have run: "create_job_family_if_not_exist name w = (Inr (new_record JobFamily ?r),
      w\<lparr>uuid_count := Suc (uuid_count w), db := add_row (db w) JobFamily ?r\<rparr>)"
    using run_create_family [OF assms(1) refl u] False by (simp add: create_job_family_if_not_exist_def py_run)
  have "wf (w\<lparr>uuid_count := Suc (uuid_count w), db := add_row (db w) JobFamily ?r\<rparr>)"
    by (rule keeps_wf_run [OF keeps_registry_writes(1) assms(1) run])
  then show ?thesis
    using run by (auto simp: add_row_other new_record_def row_val_def)
qed

lemma job_family_of:
  assumes "wf w" and "r \<in> set (db w Job)"
  shows "\<exists>f \<in> set (db w JobFamily). row_val r ''family_id'' = row_val f ''id''"
proof -
  have "has_type (col_type Job ''family_id'') (row_val r ''family_id'')"
    by (rule row_ok_val [OF db_okD(1) [OF assms]]) (simp add: meta_eval)
  then have "row_val r ''family_id'' \<noteq> VNone"
    by (auto simp: has_type_def nullable_def col_type_def meta_eval)
  moreover have "targets_ok (db w) Job r"
    using db_okD(3) [OF assms(1)] assms(2) by (simp add: fk_ok_targets)
  ultimately show ?thesis by (force simp: targets_ok_iff)
qed

lemma run_create_job:
  assumes "wf w" and "fresh_uuids w" and "\<forall>r \<in> set (db w Job). \<not> named (job_name dto) (job_version dto) r"
  shows "\<exists>w' r f. create_job_model dto w = (Inr (new_record Job r), w') \<and> wf w' \<and> db w' Job = db w Job @ [r]
    \<and> stores dto r \<and> named (job_name dto) (job_version dto) r
    \<and> f \<in> set (db w' JobFamily) \<and> row_val f ''name'' = VStr (job_name dto) \<and> row_val r ''family_id'' = row_val f ''id''
    \<and> (\<forall>t. t \<noteq> Job \<longrightarrow> t \<noteq> JobFamily \<longrightarrow> db w' t = db w t)"
proof -
  from run_family [OF assms(1,2), of "job_name dto"] obtain o' f w1 where
    fam: "create_job_family_if_not_exist (job_name dto) w = (Inr o', w1)" and w1: "wf w1"
    and uu: "uuid_of w1 = uuid_of w" "uuid_count w \<le> uuid_count w1" and same: "\<forall>t. t \<noteq> JobFamily \<longrightarrow> db w1 t = db w t"
    and f: "f \<in> set (db w1 JobFamily)" "row_val f ''name'' = VStr (job_name dto)" "attr o' ''id'' = row_val f ''id''"
    by blast
  obtain fid where fid: "row_val f ''id'' = VStr fid" by (rule pk_value_string [OF w1 f(1)])
  let ?u = "uuid_of w (uuid_count w1)"
  let ?r = "new_job_row ?u (VStr fid) dto"
  let ?w = "w1\<lparr>uuid_count := Suc (uuid_count w1)\<rparr>"
  have job: "db w1 Job = db w Job" using same by simp
  have u: "?u \<noteq> []" "\<forall>q \<in> set (db w Job). row_val q ''id'' \<noteq> VStr ?u"
    using fresh_uuidsD [OF assms(2) uu(2)] fresh_uuidsD(2) [OF assms(2) uu(2), of _ Job] by simp_all
  have "unique_ok Job (db w Job @ [?r])"
    using db_okD(2) [OF assms(1), of Job] u(2) assms(3)
    by (auto simp: unique_ok_def unique_keys_def key_of_def new_job_row_vals named_def)
  moreover have "targets_ok (db w1) Job ?r"
    using f(1) fid by (auto simp: targets_ok_iff new_job_row_vals)
  ultimately have "insertable (db ?w) Job ?r"
    by (simp add: insertable_def job)
  moreover have "truthy (row_val ?r (pk Job))" using u(1) by (simp add: new_job_row_vals)
  ultimately have cr: "create_record (new_record Job ?r) ?w = (Inr (new_record Job ?r), ?w\<lparr>db := add_row (db ?w) Job ?r\<rparr>)"
    using run_create [of ?w Job ?r] w1 new_job_row_ok by simp
  have "wf (?w\<lparr>db := add_row (db ?w) Job ?r\<rparr>)"
    by (rule keeps_wf_run [OF keeps_writes(1) _ cr]) (simp add: w1)
  moreover have "create_job_model dto w = (Inr (new_record Job ?r), ?w\<lparr>db := add_row (db ?w) Job ?r\<rparr>)"
    using cr by (simp add: create_job_model_def py_run fam new_uuid_def uu(1) f(3) fid)
  ultimately show ?thesis
    using f fid job same
    by (intro exI [of _ "?w\<lparr>db := add_row (db ?w) Job ?r\<rparr>"] exI [of _ ?r] exI [of _ f])
      (simp add: add_row_other new_job_row_vals named_def)
qed


lemma sample_fresh: "fresh_uuids sample_lifecycle"
proof -
  have "uuid_of sample_lifecycle n = ''u'' @ nat_to_str n" for n
    by (simp add: sample_lifecycle_def world.defs sample_world_def)
  moreover have "row_val r (pk t) \<noteq> VStr (''u'' @ s)" if "r \<in> set (sample_db t)" for r t s
    using that by (cases t) (auto simp: row_val_def job_row_def)
  ultimately show ?thesis by (auto simp: fresh_uuids_def)
qed

definition sample_job :: JobDto where
  "sample_job = \<lparr>job_name = ''adder'', job_version = ''0.0.3'', job_status = ''running'', create_time = 10, update_time = 10,
     job_id = None, job_manifest = None, manifest_yaml = None, internal_name = None, pub_url = None, job_error = None,
     notice = None, image_tag = None, deployed_by = None, last_call_time = None, infrastructure_target = None,
     replica_internal_names = [], job_type_version = ''python3:1.0.0'', infrastructure_stats = []\<rparr>"


end
