(* ===== verification/RowChanges.thy ===== *)
theory RowChanges
  imports MapperLaws
begin

text \<open>
  What the services above the mapper use it for, in two lemmas: a record whose key is a fresh
  identifier is created, and a stored record is updated in columns that neither identify it nor
  refer to another table.
\<close>

definition plain_column :: "table \<Rightarrow> string \<Rightarrow> bool" where
  "plain_column t c \<longleftrightarrow> c \<in> set (table_fields t) \<and> (\<forall>ks \<in> set (unique_keys t). c \<notin> set ks)
     \<and> c \<notin> set (map fst (on_delete_cascade (meta t)))"

definition plain_changes :: "table \<Rightarrow> row \<Rightarrow> bool" where
  "plain_changes t ch \<longleftrightarrow> (\<forall>(c, v) \<in> set ch. plain_column t c \<and> has_type (col_type t c) v)"

lemma plain_changes_Nil [simp]: "plain_changes t []"
  by (simp add: plain_changes_def)

lemma plain_changes_Cons [simp]:
  "plain_changes t ((c, v) # ch) \<longleftrightarrow> plain_column t c \<and> has_type (col_type t c) v \<and> plain_changes t ch"
  by (simp add: plain_changes_def)

lemma plain_column_not_pk: "plain_column t c \<Longrightarrow> c \<noteq> pk t"
  using pk_unique_key [of t] by (auto simp: plain_column_def)

lemma row_ok_plain_changes: "plain_changes t ch \<Longrightarrow> row_ok t r \<Longrightarrow> row_ok t (dict_update r ch)"
proof (induction r ch rule: dict_update.induct)
  case (2 r c v ch)
  have "row_ok t (dict_set c v r)"
    using "2.prems" plain_column_not_pk [of t c] by (intro row_ok_dict_set) (auto simp: plain_column_def)
  with 2 show ?case by simp
qed simp

lemma row_val_dict_update_other: "c \<notin> set (keys ch) \<Longrightarrow> row_val (dict_update r ch) c = row_val r c"
  by (induction r ch rule: dict_update.induct) auto

lemma plain_changes_keep:
  assumes "plain_changes t ch"
  shows "ks \<in> set (unique_keys t) \<Longrightarrow> key_of ks (dict_update r ch) = key_of ks r"
    and "(c, o') \<in> set (on_delete_cascade (meta t)) \<Longrightarrow> row_val (dict_update r ch) c = row_val r c"
    and "row_val (dict_update r ch) (pk t) = row_val r (pk t)"
proof -
  have plain: "plain_column t c" if "c \<in> set (keys ch)" for c
    using assms that by (auto simp: plain_changes_def)
  show "key_of ks (dict_update r ch) = key_of ks r" if "ks \<in> set (unique_keys t)"
    using plain that by (auto simp: key_of_def plain_column_def intro!: row_val_dict_update_other)
  show "row_val (dict_update r ch) c = row_val r c" if "(c, o') \<in> set (on_delete_cascade (meta t))"
    using plain that by (force simp: plain_column_def intro!: row_val_dict_update_other)
  show "row_val (dict_update r ch) (pk t) = row_val r (pk t)"
    using plain plain_column_not_pk by (blast intro!: row_val_dict_update_other)
qed

lemma replace_row_same: "replace_row d t r r = d"
  by (auto simp: replace_row_def intro: map_idI)

lemma run_update_plain:
  assumes "wf w" and "r \<in> set (db w t)" and "plain_changes t ch"
  shows "update_record \<lparr>rtype = t, attrs = dict_update r ch, original_fields = Some r\<rparr> True w
    = (Inr (record_of t (dict_update r ch)), w\<lparr>db := replace_row (db w) t r (dict_update r ch)\<rparr>)"
proof -
  have "updatable (db w) t r (dict_update r ch)"
    using updatable_same_keys [OF assms(1,2)] plain_changes_keep [OF assms(3)] by blast
  then show ?thesis
    using run_update [OF assms(1,2) row_ok_plain_changes [OF assms(3) db_okD(1) [OF assms(1,2)]]]
    by (simp add: plain_changes_keep(3) [OF assms(3)] replace_row_same)
qed

lemma run_create_keyed:
  assumes "wf w" and "row_ok t r" and "unique_keys t = [[pk t]]" and "targets_ok (db w) t r"
    and "row_val r (pk t) = VStr u" and "u \<noteq> []" and "\<forall>q \<in> set (db w t). row_val q (pk t) \<noteq> VStr u"
  shows "create_record (new_record t r) w = (Inr (new_record t r), w\<lparr>db := add_row (db w) t r\<rparr>)"
proof -
  have "VStr u \<noteq> row_val q (pk t)" if "q \<in> set (db w t)" for q
    using assms(7) that by metis
  then have "insertable (db w) t r"
    using db_okD(2) [OF assms(1), of t] assms(4)
    by (auto simp: insertable_def unique_ok_def assms(3,5) key_of_def)
  then show ?thesis using run_create [OF assms(1,2)] assms(5,6) by simp
qed

section \<open>Lookups by the primary key\<close>

lemma run_find_by_pk:
  assumes "wf w" and "r \<in> set (db w t)" and "row_val r (pk t) = v"
  shows "find_one t [(pk t, v)] w = (Inr (record_of t r), w)"
  using filter_pk [OF assms(1,2)] run_find_one [OF assms(1), of "[(pk t, v)]" t] pk_in_fields [of t]
  by (simp add: assms(3))

lemma run_find_missing:
  assumes "wf w" and "\<forall>r \<in> set (db w t). row_val r (pk t) \<noteq> v"
  shows "\<exists>msg. find_one t [(pk t, v)] w = (Inl (EntityNotFound msg), w)"
  using filter_pk_none [of "db w" t v] run_find_one [OF assms(1), of "[(pk t, v)]" t] pk_in_fields [of t] assms(2)
  by simp

lemma pk_unique_row:
  assumes "wf w" and "r \<in> set (db w t)" and "q \<in> set (db w t)" and "row_val q (pk t) = row_val r (pk t)"
  shows "q = r"
  using run_find_by_pk [OF assms(1,2) refl] run_find_by_pk [OF assms(1,3,4)] by (simp add: record_of_def)

section \<open>Rows with given columns\<close>

definition has_columns :: "row \<Rightarrow> row \<Rightarrow> bool" where
  "has_columns r cs = list_all (\<lambda>(c, v). row_val r c = v) cs"

lemma has_columns_update: "distinct (keys cs) \<Longrightarrow> has_columns (dict_update r cs) cs"
  by (induction r cs rule: dict_update.induct) (auto simp: has_columns_def row_val_dict_update_other)

lemma dict_update_self:
  "has_columns r cs \<Longrightarrow> set (keys cs) \<subseteq> set (keys r) \<Longrightarrow> dict_update r cs = r"
proof (induction r cs rule: dict_update.induct)
  case (2 r c v cs)
  then have "dict_set c v r = r"
    by (intro dict_set_same) (auto simp: has_columns_def row_val_def map_of_eq_None_iff split: option.splits)
  with 2 show ?case by (auto simp: has_columns_def)
qed simp

end
