(* ===== verification/Deployments.thy ===== *)
theory Deployments
  imports ModelsRegistry RowChanges
begin

text \<open>
  Deployments, public endpoints and the audit log (\<open>lifecycle/job/deployment.py\<close>,
  \<open>lifecycle/job/public_endpoints.py\<close>, \<open>lifecycle/job/audit.py\<close>).
\<close>

section \<open>Deployments\<close>

definition ongoing_condition :: "Manifest \<Rightarrow> int \<Rightarrow> QueryCondition" where
  "ongoing_condition manifest update_time_after =
     query_condition (Conj [Cmp (Quoted ''status'') CmpEq, Cmp (Quoted ''job_name'') CmpEq,
         Cmp (Quoted ''job_version'') CmpEq, Cmp (Quoted ''update_time'') CmpGe])
       [VStr (deployment_status_value IN_PROGRESS), VStr (mf_name manifest), VStr (mf_version manifest), VDt update_time_after]"

definition check_for_concurrent_deployments :: "Manifest \<Rightarrow> ('x, unit) lcm" where
  "check_for_concurrent_deployments manifest =
     bind now (\<lambda>t.
     bind (filter_records Deployment (ongoing_condition manifest (t - 60 * usec)) [] None None) (\<lambda>ongoing_deployments.
     if ongoing_deployments \<noteq> [] then
       raise (RuntimeError (''There is already ongoing deployment of job '' @ mf_name manifest @ '' '' @ mf_version manifest))
     else ret ()))"

definition new_deployment_row :: "string \<Rightarrow> int \<Rightarrow> int \<Rightarrow> Manifest \<Rightarrow> string \<Rightarrow> string \<Rightarrow> row" where
  "new_deployment_row ident created updated manifest username infra_target = [
     (''id'', VStr ident), (''status'', VStr (deployment_status_value IN_PROGRESS)),
     (''create_time'', VDt created), (''update_time'', VDt updated),
     (''manifest'', VStr (case origin_yaml manifest of None \<Rightarrow> [] | Some y \<Rightarrow> y)), (''error'', VNone),
     (''job_name'', VStr (mf_name manifest)), (''job_version'', VStr (mf_version manifest)),
     (''deployed_by'', VStr username), (''build_logs'', VNone), (''phase'', VNone), (''image_name'', VNone),
     (''infrastructure_target'', VStr infra_target), (''warnings'', VNone)]"

definition create_deployment :: "Manifest \<Rightarrow> string \<Rightarrow> string \<Rightarrow> ('x, DeploymentDto) lcm" where
  "create_deployment manifest username infra_target =
     seq (check_for_concurrent_deployments manifest)
     (bind new_uuid (\<lambda>deployment_id.
      bind now (\<lambda>created.
      bind now (\<lambda>updated.
      bind (create_record (new_record Deployment
              (new_deployment_row deployment_id created updated manifest username infra_target))) (\<lambda>deployment.
      ret (deployment_record_to_dto deployment))))))"

definition check_deployment_result :: "string \<Rightarrow> ('x, DeploymentDto) lcm" where
  "check_deployment_result deploy_id =
     try_except
       (bind (find_one Deployment [(''id'', VStr deploy_id)]) (\<lambda>deployment.
        let dto = deployment_record_to_dto deployment
        in if attr deployment ''status'' = VStr (deployment_status_value DONE) then
             try_except
               (bind (read_job_model (the_str (attr deployment ''job_name'')) (the_str (attr deployment ''job_version''))) (\<lambda>job_model.
                bind (job_record_to_dto job_model) (\<lambda>job. ret (dto\<lparr>dep_job := Some job\<rparr>))))
               is_EntityNotFound (\<lambda>_. ret dto)
           else ret dto))
       is_EntityNotFound (\<lambda>_. raise (EntityNotFound (''deployment with ID '' @ deploy_id @ '' was not found'')))"

definition list_recent_deployments :: "int \<Rightarrow> ('x, DeploymentDto list) lcm" where
  "list_recent_deployments limit =
     bind (list_all_records Deployment (Some [''-update_time'']) (Some limit)) (\<lambda>models.
     ret (map deployment_record_to_dto models))"

definition list_deployments_by_status :: "string \<Rightarrow> ('x, robj list) lcm" where
  "list_deployments_by_status status = find_many Deployment None [(''status'', VStr status)]"

definition save_deployment_result :: "string \<Rightarrow> DeploymentStatus \<Rightarrow> string option \<Rightarrow> ('x, unit) lcm" where
  "save_deployment_result deployment_id status error =
     bind (find_one Deployment [(''id'', VStr deployment_id)]) (\<lambda>d0.
     let d1 = set_attr ''status'' (VStr (deployment_status_value status)) d0;
         d2 = (if truthy (str_val error) then set_attr ''error'' (str_val error) d1
               else set_attr ''phase'' VNone (set_attr ''error'' VNone d1))
     in bind now (\<lambda>t. seq (update_record (set_attr ''update_time'' (VDt t) d2) True) (ret ())))"

definition save_deployment_build_logs :: "string \<Rightarrow> string \<Rightarrow> ('x, unit) lcm" where
  "save_deployment_build_logs deployment_id build_logs =
     bind (find_one Deployment [(''id'', VStr deployment_id)]) (\<lambda>d.
     bind now (\<lambda>t. seq (update_record (set_attr ''update_time'' (VDt t) (set_attr ''build_logs'' (VStr build_logs) d)) True) (ret ())))"

definition find_deployment :: "string \<Rightarrow> ('x, robj) lcm" where
  "find_deployment deployment_id =
     try_except (find_one Deployment [(''id'', VStr deployment_id)]) is_EntityNotFound
       (\<lambda>_. raise (EntityNotFound (''deployment with ID '' @ deployment_id @ '' was not found'')))"

definition save_deployment_phase :: "string \<Rightarrow> string \<Rightarrow> ('x, unit) lcm" where
  "save_deployment_phase deployment_id phase =
     bind (find_deployment deployment_id) (\<lambda>d.
     bind now (\<lambda>t. seq (update_record (set_attr ''update_time'' (VDt t) (set_attr ''phase'' (VStr phase) d)) True) (ret ())))"

definition save_deployment_warnings :: "string \<Rightarrow> string \<Rightarrow> ('x, unit) lcm" where
  "save_deployment_warnings deployment_id warnings =
     bind (find_deployment deployment_id) (\<lambda>d.
     let text = (if truthy (attr d ''warnings'') then the_str (attr d ''warnings'') @ [CHR 0x0A] @ warnings else warnings)
     in bind now (\<lambda>t. seq (update_record (set_attr ''update_time'' (VDt t) (set_attr ''warnings'' (VStr text) d)) True) (ret ())))"

definition save_deployment_image_name :: "string option \<Rightarrow> string \<Rightarrow> ('x, unit) lcm" where
  "save_deployment_image_name deployment_id image_name =
     (case deployment_id of None \<Rightarrow> ret ()
      | Some ident \<Rightarrow> if ident = [] then ret ()
          else bind (find_one Deployment [(''id'', VStr ident)]) (\<lambda>d.
               bind now (\<lambda>t. seq (update_record (set_attr ''update_time'' (VDt t) (set_attr ''image_name'' (VStr image_name) d)) True) (ret ()))))"

section \<open>Public endpoints\<close>

definition read_active_job_public_endpoints :: "string \<Rightarrow> string \<Rightarrow> ('x, PublicEndpointRequestDto list) lcm" where
  "read_active_job_public_endpoints name version =
     bind (resolve_job_model name version) (\<lambda>job_model.
     bind (find_many PublicEndpointRequest None [(''job_id'', attr job_model ''id''), (''active'', VBool True)]) (\<lambda>records.
     map_py public_endpoint_request_record_to_dto records))"

definition read_job_model_public_endpoints :: "robj \<Rightarrow> ('x, string list) lcm" where
  "read_job_model_public_endpoints job_model =
     bind (find_many PublicEndpointRequest None [(''job_id'', attr job_model ''id''), (''active'', VBool True)]) (\<lambda>records.
     ret (map (\<lambda>r. the_str (attr r ''endpoint'')) records))"

definition create_job_public_endpoint_if_not_exist :: "string \<Rightarrow> string \<Rightarrow> string \<Rightarrow> ('x, robj) lcm" where
  "create_job_public_endpoint_if_not_exist name version endpoint =
     bind (read_job_model name version) (\<lambda>job_model.
     try_except (find_one PublicEndpointRequest [(''job_id'', attr job_model ''id''), (''endpoint'', VStr endpoint)])
       is_EntityNotFound
       (\<lambda>_. bind new_uuid (\<lambda>u.
         create_record (new_record PublicEndpointRequest [
           (''id'', VStr u), (''job_id'', attr job_model ''id''), (''endpoint'', VStr endpoint), (''active'', VBool False)]))))"

section \<open>Audit log\<close>

definition log_event :: "string \<Rightarrow> (string, json) dict option \<Rightarrow> string option \<Rightarrow> string option \<Rightarrow> string option
    \<Rightarrow> string option \<Rightarrow> ('x, unit) lcm" where
  "log_event event_type properties username_executor username_subject jname jversion =
     bind now (\<lambda>timestamp.
     let properties_json = (case properties of None \<Rightarrow> VNone | Some p \<Rightarrow> if p = [] then VNone else VStr (dumps (JObj p)))
     in bind new_uuid (\<lambda>u.
        seq (create_record (new_record AuditLogEvent [
          (''id'', VStr u), (''version'', VInt 1), (''timestamp'', VDt timestamp), (''event_type'', VStr event_type),
          (''properties'', properties_json), (''username_executor'', str_val username_executor),
          (''username_subject'', str_val username_subject), (''job_name'', str_val jname), (''job_version'', str_val jversion)]))
        (ret ())))"

definition eq_filter :: "string \<Rightarrow> string option \<Rightarrow> QueryCondition" where
  "eq_filter column v = (case v of None \<Rightarrow> empty
     | Some s \<Rightarrow> if s = [] then empty else query_condition (Cmp (Quoted column) CmpEq) [VStr s])"

definition username_filter :: "string option \<Rightarrow> QueryCondition" where
  "username_filter username = (case username of None \<Rightarrow> empty
     | Some s \<Rightarrow> if s = [] then empty
         else operator_or [query_condition (Cmp (Quoted ''username_executor'') CmpEq) [VStr s],
                           query_condition (Cmp (Quoted ''username_subject'') CmpEq) [VStr s]])"

definition audit_condition :: "string option \<Rightarrow> string option \<Rightarrow> string option \<Rightarrow> QueryCondition" where
  "audit_condition username jname jversion =
     operator_and [username_filter username, eq_filter ''job_name'' jname, eq_filter ''job_version'' jversion]"

definition read_audit_log_user_events :: "string option \<Rightarrow> string option \<Rightarrow> string option \<Rightarrow> ('x, AuditLogEventDto list) lcm" where
  "read_audit_log_user_events username jname jversion =
     bind (filter_records AuditLogEvent (audit_condition username jname jversion) [] (Some [''-timestamp'']) (Some 100)) (\<lambda>records.
     map_py audit_log_event_record_to_dto records)"

section \<open>Concurrent deployments\<close>

definition ongoing :: "Manifest \<Rightarrow> int \<Rightarrow> row \<Rightarrow> bool" where
  "ongoing manifest after r \<longleftrightarrow> row_val r ''status'' = VStr ''in_progress'' \<and> row_val r ''job_name'' = VStr (mf_name manifest)
     \<and> row_val r ''job_version'' = VStr (mf_version manifest) \<and> (\<exists>t \<ge> after. row_val r ''update_time'' = VDt t)"

lemma cmp_ge_time: "cmp3 CmpGe v (VDt a) = Some True \<longleftrightarrow> (\<exists>t \<ge> a. v = VDt t)"
  by (cases v) (auto simp: cmp3_def)

lemma ongoing_iff: "holds (row_env Deployment r) (ongoing_condition manifest a) \<longleftrightarrow> ongoing manifest a r"
  by (auto simp: ongoing_condition_def ongoing_def cmp_ge_time)

lemma run_check_concurrent:
  assumes "wf w"
  shows "check_for_concurrent_deployments manifest w =
    (if \<exists>r \<in> set (db w Deployment). ongoing manifest (time_of w (ticks w) - 60 * usec) r
     then (Inl (RuntimeError (''There is already ongoing deployment of job '' @ mf_name manifest @ '' '' @ mf_version manifest)),
           w\<lparr>ticks := Suc (ticks w)\<rparr>)
     else (Inr (), w\<lparr>ticks := Suc (ticks w)\<rparr>))"
proof -
  have al: "aligned (ongoing_condition manifest a)" for a by (simp add: ongoing_condition_def)
  let ?w = "w\<lparr>ticks := Suc (ticks w)\<rparr>" and ?a = "time_of w (ticks w) - 60 * usec"
  have "filter_records Deployment (ongoing_condition manifest ?a) [] None None ?w
      = (Inr (map (record_of Deployment) (filter (ongoing manifest ?a) (db w Deployment))), ?w)"
    using run_filter [of ?w "ongoing_condition manifest ?a" None Deployment None] assms al
    by (simp add: order_columns_def order_rows_def limit_rows_def ongoing_iff)
  then show ?thesis
    by (simp add: check_for_concurrent_deployments_def py_run now_def filter_empty_conv)
qed

lemma new_deployment_row_ok: "row_ok Deployment (new_deployment_row i c u m n t)"
  by (simp add: row_ok_def new_deployment_row_def meta_eval row_val_def has_type_def col_type_def nullable_def)

lemma run_create_deployment:
  assumes "wf w" and "fresh_uuids w"
    and "\<not> (\<exists>r \<in> set (db w Deployment). ongoing manifest (time_of w (ticks w) - 60 * usec) r)"
    and "r = new_deployment_row (uuid_of w (uuid_count w)) (time_of w (Suc (ticks w))) (time_of w (Suc (Suc (ticks w))))
           manifest username target"
  shows "\<exists>w'. create_deployment manifest username target w = (Inr (deployment_record_to_dto (new_record Deployment r)), w')
    \<and> wf w' \<and> db w' = add_row (db w) Deployment r"
proof -
  let ?w = "w\<lparr>uuid_count := Suc (uuid_count w), ticks := Suc (Suc (Suc (ticks w)))\<rparr>"
  have id: "row_val r ''id'' = VStr (uuid_of w (uuid_count w))"
    by (simp add: assms(4) new_deployment_row_def row_val_def)
  have ok: "row_ok Deployment r" by (simp add: assms(4) new_deployment_row_ok)
  have cr: "create_record (new_record Deployment r) ?w = (Inr (new_record Deployment r), ?w\<lparr>db := add_row (db w) Deployment r\<rparr>)"
    using run_create_keyed [of ?w Deployment r "uuid_of w (uuid_count w)"] assms(1) id
      fresh_uuidsD(1) [OF assms(2) order_refl] fresh_uuidsD(2) [OF assms(2) order_refl, of _ Deployment]
    by (simp add: ok unique_keys_def targets_ok_def)
  have run: "create_deployment manifest username target w
      = (Inr (deployment_record_to_dto (new_record Deployment r)), ?w\<lparr>db := add_row (db w) Deployment r\<rparr>)"
    using assms(3) cr by (simp add: create_deployment_def py_run run_check_concurrent [OF assms(1)] new_uuid_def now_def assms(4))
  have "wf (?w\<lparr>db := add_row (db w) Deployment r\<rparr>)"
    by (rule keeps_wf_run [OF keeps_writes(1) _ cr]) (simp add: assms(1))
  with run show ?thesis by auto
qed


definition sample_manifest :: Manifest where
  "sample_manifest = \<lparr>mf_name = ''adder'', owner_email = ''a@example.com'',
     git = \<lparr>git_remote = ''r'', git_branch = None, git_directory = ''.''\<rparr>, mf_version = ''0.0.3'', jobtype = Some ''python3'',
     lang = None, extends = None, image_type = ''docker'', system_dependencies = None, build_env = None, runtime_env = None,
     secret_build_env_file = None, secret_runtime_env_file = None, labels = None, public_endpoints = None, replicas = 1,
     resources = None, jobtype_extra = None, golang = None, python = None, docker = None, wrapper_properties = None,
     mf_infrastructure_target = None, origin_yaml = Some ''name: adder'', origin_dict = None\<rparr>"


section \<open>The outcome of a deployment\<close>

lemmas filter_by_id = run_find_by_pk [of _ _ Deployment, simplified]

lemmas missing_id = run_find_missing [of _ Deployment, simplified]

lemma deployment_plain:
  "plain_column Deployment ''status''" "plain_column Deployment ''error''" "plain_column Deployment ''phase''"
  "plain_column Deployment ''update_time''"
  "has_type (col_type Deployment ''status'') (VStr s)" "has_type (col_type Deployment ''error'') (VStr s)"
  "has_type (col_type Deployment ''error'') VNone" "has_type (col_type Deployment ''phase'') VNone"
  "has_type (col_type Deployment ''update_time'') (VDt t)"
  by (simp_all add: plain_column_def meta_eval unique_keys_def has_type_def col_type_def nullable_def)

text \<open>The columns the outcome of a deployment changes.\<close>

definition outcome :: "DeploymentStatus \<Rightarrow> string option \<Rightarrow> int \<Rightarrow> row" where
  "outcome status error t = (''status'', VStr (deployment_status_value status)) #
     (if error = None \<or> error = Some [] then [(''error'', VNone), (''phase'', VNone)] else [(''error'', VStr (the error))])
     @ [(''update_time'', VDt t)]"

lemma plain_outcome: "plain_changes Deployment (outcome status error t)"
  by (simp add: outcome_def deployment_plain)

lemma run_save_result:
  assumes "wf w" and "r \<in> set (db w Deployment)" and "row_val r ''id'' = VStr ident"
  shows "\<exists>w'. save_deployment_result ident status error w = (Inr (), w') \<and> wf w'
    \<and> db w' = replace_row (db w) Deployment r (dict_update r (outcome status error (time_of w (ticks w))))"
proof -
  let ?t = "time_of w (ticks w)" and ?w = "w\<lparr>ticks := Suc (ticks w)\<rparr>"
  let ?r' = "dict_update r (outcome status error ?t)"
  have up: "update_record \<lparr>rtype = Deployment, attrs = ?r', original_fields = Some r\<rparr> True ?w
      = (Inr (record_of Deployment ?r'), ?w\<lparr>db := replace_row (db w) Deployment r ?r'\<rparr>)"
    using run_update_plain [OF _ _ plain_outcome, of ?w r status error ?t] assms(1,2) by simp
  have "save_deployment_result ident status error w = (Inr (), ?w\<lparr>db := replace_row (db w) Deployment r ?r'\<rparr>)"
    using up by (cases error)
      (auto simp: save_deployment_result_def py_run filter_by_id [OF assms] now_def str_val_def set_attr_def record_of_def
        outcome_def split: if_splits)
  moreover have "wf (?w\<lparr>db := replace_row (db w) Deployment r ?r'\<rparr>)"
    by (rule keeps_wf_run [OF keeps_writes(3) _ up]) (simp add: assms(1))
  ultimately show ?thesis by auto
qed

text \<open>
  Saving the outcome of a deployment changes that deployment alone: its status becomes the given
  one, a non-empty error text is stored, an absent or empty one clears the error and the phase, and the
  update time advances; every other column keeps its value. An unknown identifier raises
  \<open>EntityNotFound\<close> and changes nothing.
\<close>
lemma save_deployment_result_outcome:
  assumes "wf w"
  shows "(\<forall>r \<in> set (db w Deployment). row_val r ''id'' = VStr ident \<longrightarrow>
      (\<exists>w'. save_deployment_result ident status error w = (Inr (), w') \<and> wf w'
         \<and> db w' = replace_row (db w) Deployment r (dict_update r (outcome status error (time_of w (ticks w))))))
    \<and> ((\<forall>r \<in> set (db w Deployment). row_val r ''id'' \<noteq> VStr ident) \<longrightarrow>
      (\<exists>msg. save_deployment_result ident status error w = (Inl (EntityNotFound msg), w)))"
proof (intro conjI ballI impI)
  fix r assume "r \<in> set (db w Deployment)" "row_val r ''id'' = VStr ident"
  from run_save_result [OF assms this] show "\<exists>w'. save_deployment_result ident status error w = (Inr (), w') \<and> wf w'
      \<and> db w' = replace_row (db w) Deployment r (dict_update r (outcome status error (time_of w (ticks w))))" .
next
  assume "\<forall>r \<in> set (db w Deployment). row_val r ''id'' \<noteq> VStr ident"
  with missing_id [OF assms, of "VStr ident"] show "\<exists>msg. save_deployment_result ident status error w = (Inl (EntityNotFound msg), w)"
    by (auto simp: save_deployment_result_def py_run)
qed

definition sample_deployment :: row where
  "sample_deployment = new_deployment_row ''d1'' 0 0 sample_manifest ''alice'' ''docker''"

definition deployed_lifecycle :: lifecycle where
  "deployed_lifecycle = sample_lifecycle\<lparr>db := add_row sample_db Deployment sample_deployment\<rparr>"

lemma deployed_db_ok: "db_ok (add_row sample_db Deployment sample_deployment)"
  by code_simp

lemma save_deployment_result_outcome_witness:
  "\<exists>w'. save_deployment_result ''d1'' FAILED (Some ''out of memory'') deployed_lifecycle = (Inr (), w')
     \<and> row_val (hd (db w' Deployment)) ''status'' = VStr ''failed''"
proof -
  have "wf deployed_lifecycle" by (simp add: deployed_lifecycle_def deployed_db_ok)
  from save_deployment_result_outcome [OF this, of "''d1''" FAILED "Some ''out of memory''"]
  have "\<exists>w'. save_deployment_result ''d1'' FAILED (Some ''out of memory'') deployed_lifecycle = (Inr (), w') \<and> db w'
      = replace_row (db deployed_lifecycle) Deployment sample_deployment
          (dict_update sample_deployment (outcome FAILED (Some ''out of memory'') (time_of deployed_lifecycle (ticks deployed_lifecycle))))"
    by (auto simp: deployed_lifecycle_def add_row_def sample_deployment_def new_deployment_row_def row_val_def)
  then show ?thesis
    by (auto simp: replace_row_def deployed_lifecycle_def add_row_def outcome_def)
qed

end
