(* ===== verification/Bytes.thy ===== *)
theory Bytes
  imports PyString
begin

text \<open>
  The byte-level parts of Python's library that the authentication code uses: UTF-8, base64, and the
  string methods \<open>strip\<close>, \<open>lower\<close>, \<open>isdigit\<close> and \<open>int\<close> on characters up to U+00FF. A byte
  string is a character list.
\<close>

section \<open>UTF-8\<close>

fun utf8_encode :: "string \<Rightarrow> string" where
  "utf8_encode [] = []"
| "utf8_encode (c # s) =
     (let n = of_char c :: nat
      in if n < 128 then c # utf8_encode s
         else char_of (192 + n div 64) # char_of (128 + n mod 64) # utf8_encode s)"

text \<open>Strict decoding; None is a \<open>UnicodeDecodeError\<close>. Sequences for code points above U+00FF are
  outside the model's strings.\<close>

fun utf8_decode :: "string \<Rightarrow> string option" where
  "utf8_decode [] = Some []"
| "utf8_decode [c] = (if of_char c < (128 :: nat) then Some [c] else None)"
| "utf8_decode (c # d # s) =
     (let n = of_char c :: nat; m = of_char d :: nat
      in if n < 128 then map_option (Cons c) (utf8_decode (d # s))
         else if (n = 194 \<or> n = 195) \<and> 128 \<le> m \<and> m < 192
         then map_option (Cons (char_of (64 * (n - 192) + (m - 128)))) (utf8_decode s)
         else None)"

lemma char_code_less: "of_char c < (256 :: nat)"
  using of_char_mod_256 [of c, where 'a = nat] by (metis mod_less_divisor zero_less_numeral)

lemma utf8_decode_ascii: "of_char c < (128 :: nat) \<Longrightarrow> utf8_decode (c # s) = map_option (Cons c) (utf8_decode s)"
  by (cases s) (auto simp: Let_def)

lemma utf8_roundtrip: "utf8_decode (utf8_encode s) = Some s"
proof (induction s)
  case (Cons c s)
  let ?n = "of_char c :: nat"
  show ?case
  proof (cases "?n < 128")
    case True
    with Cons show ?thesis by (simp add: utf8_decode_ascii Let_def)
  next
    case False
    have n: "?n < 256" by (rule char_code_less)
    have q: "?n div 64 = 2 \<or> ?n div 64 = 3" 
      using div_le_mono [of 128 ?n 64] less_mult_imp_div_less [of ?n 4 64] False n by auto
    have "?n div 64 = 2 \<Longrightarrow> 128 + ?n mod 64 = ?n" "?n div 64 = 3 \<Longrightarrow> 192 + ?n mod 64 = ?n"
      using mult_div_mod_eq [of 64 ?n] by simp_all
    then have "?n div 64 = 2 \<Longrightarrow> char_of (128 + ?n mod 64) = c" "?n div 64 = 3 \<Longrightarrow> char_of (192 + ?n mod 64) = c"
      by simp_all
    with q False Cons show ?thesis by (auto simp: Let_def)
  qed
qed simp

section \<open>Base64\<close>

definition b64_alphabet :: string where
  "b64_alphabet = ''ABCDEFGHIJKLMNOPQRSTUVWXYZabcdefghijklmnopqrstuvwxyz0123456789+/''"

definition b64_char :: "nat \<Rightarrow> char" where
  "b64_char i = b64_alphabet ! i"

definition b64_index :: "char \<Rightarrow> nat option" where
  "b64_index c = map_of (zip b64_alphabet [0..<64]) c"

fun b64encode :: "string \<Rightarrow> string" where
  "b64encode [] = []"
| "b64encode [x] = (let a = of_char x in [b64_char (a div 4), b64_char ((a mod 4) * 16), CHR ''='', CHR ''=''])"
| "b64encode [x, y] = (let a = of_char x; b = of_char y
     in [b64_char (a div 4), b64_char ((a mod 4) * 16 + b div 16), b64_char ((b mod 16) * 4), CHR ''=''])"
| "b64encode (x # y # z # s) = (let a = of_char x; b = of_char y; c = of_char z
     in b64_char (a div 4) # b64_char ((a mod 4) * 16 + b div 16) # b64_char ((b mod 16) * 4 + c div 64)
        # b64_char (c mod 64) # b64encode s)"

text \<open>\<open>base64.b64decode(.., validate=True)\<close>; None is a \<open>binascii.Error\<close>.\<close>

fun b64decode :: "string \<Rightarrow> string option" where
  "b64decode [] = Some []"
| "b64decode (p # q # r # t # s) =
     (case (b64_index p, b64_index q, b64_index r, b64_index t) of
        (Some i, Some j, Some k, Some l) \<Rightarrow>
          map_option (\<lambda>d. char_of (i * 4 + j div 16) # char_of ((j mod 16) * 16 + k div 4)
            # char_of ((k mod 4) * 64 + l) # d) (b64decode s)
      | (Some i, Some j, Some k, None) \<Rightarrow>
          if t = CHR ''='' \<and> s = [] then Some [char_of (i * 4 + j div 16), char_of ((j mod 16) * 16 + k div 4)] else None
      | (Some i, Some j, None, None) \<Rightarrow>
          if r = CHR ''='' \<and> t = CHR ''='' \<and> s = [] then Some [char_of (i * 4 + j div 16)] else None
      | _ \<Rightarrow> None)"
| "b64decode s = None"

lemma b64_alphabet_length: "length b64_alphabet = 64"
  by (simp add: b64_alphabet_def)

lemma b64_alphabet_distinct: "distinct b64_alphabet"
  by code_simp

lemma b64_index_char [simp]: "i < 64 \<Longrightarrow> b64_index (b64_char i) = Some i"
  unfolding b64_index_def b64_char_def
  using map_of_zip_nth [of b64_alphabet "[0..<64]" i] by (simp add: b64_alphabet_length b64_alphabet_distinct)

lemma b64_index_pad [simp]: "b64_index (CHR ''='') = None"
  by code_simp

lemma b64_bounds:
  "(of_char x :: nat) div 4 < 64" "((of_char x :: nat) mod 4) * 16 + (of_char y :: nat) div 16 < 64"
  "((of_char y :: nat) mod 16) * 4 + (of_char z :: nat) div 64 < 64" "((of_char x :: nat) mod 4) * 16 < 64"
  "((of_char y :: nat) mod 16) * 4 < 64"
  using char_code_less [of x] char_code_less [of y] char_code_less [of z] by linarith+

lemma b64_bytes:
  "(a div 4) * 4 + ((a mod 4) * 16 + b div 16) div 16 = a"
  "(((a mod 4) * 16 + b div 16) mod 16) * 16 + ((b mod 16) * 4 + c div 64) div 4 = b"
  "((((b mod 16) * 4 + c div 64) mod 4) * 64) + c mod 64 = c"
  if "b < 256" "c < 256" for a b c :: nat
proof -
  have b: "b div 16 < 16" and c: "c div 64 < 4" using that by auto
  then have "((a mod 4) * 16 + b div 16) div 16 = a mod 4" "((a mod 4) * 16 + b div 16) mod 16 = b div 16"
    "((b mod 16) * 4 + c div 64) div 4 = b mod 16" "((b mod 16) * 4 + c div 64) mod 4 = c div 64"
    by auto
  then show "(a div 4) * 4 + ((a mod 4) * 16 + b div 16) div 16 = a"
    "(((a mod 4) * 16 + b div 16) mod 16) * 16 + ((b mod 16) * 4 + c div 64) div 4 = b"
    "((((b mod 16) * 4 + c div 64) mod 4) * 64) + c mod 64 = c"
    by simp_all
qed

lemma b64_roundtrip: "b64decode (b64encode s) = Some s"
proof (induction s rule: b64encode.induct)
  case (2 x)
  show ?case using b64_bounds(1,4) [of x] b64_bytes(1) [of 0 0 "of_char x"] by (simp add: Let_def)
next
  case (3 x y)
  show ?case
    using b64_bounds(1) [of x] b64_bounds(2) [of x y] b64_bounds(5) [of y] char_code_less [of y]
      b64_bytes(1) [of "of_char y" 0 "of_char x"] b64_bytes(2) [of "of_char y" 0 "of_char x"]
    by (simp add: Let_def)
next
  case (4 x y z s)
  have y: "(of_char y :: nat) div 16 mod 16 = of_char y div 16"
    using less_mult_imp_div_less [of "of_char y" 16 16] char_code_less [of y] by simp
  show ?case
    using b64_bounds(1) [of x] b64_bounds(2) [of x y] b64_bounds(3) [of y z] char_code_less [of y] char_code_less [of z]
      b64_bytes(1,2) [of "of_char y" "of_char z" "of_char x"] b64_bytes(3) [of "of_char y" "of_char z"] 4
    by (simp add: Let_def y)
qed simp

section \<open>String methods\<close>

definition py_space :: "char \<Rightarrow> bool" where
  "py_space c \<longleftrightarrow> (let n = of_char c :: nat in (9 \<le> n \<and> n \<le> 13) \<or> (28 \<le> n \<and> n \<le> 32) \<or> n = 133 \<or> n = 160)"

definition strip :: "string \<Rightarrow> string" where
  "strip s = rev (dropWhile py_space (rev (dropWhile py_space s)))"

definition lower :: "string \<Rightarrow> string" where
  "lower s = map (\<lambda>c. let n = of_char c :: nat
     in if (65 \<le> n \<and> n \<le> 90) \<or> (192 \<le> n \<and> n \<le> 222 \<and> n \<noteq> 215) then char_of (n + 32) else c) s"

definition isdigit :: "string \<Rightarrow> bool" where
  "isdigit s \<longleftrightarrow> s \<noteq> [] \<and> list_all (\<lambda>c. is_digit c \<or> of_char c \<in> {178, 179, 185 :: nat}) s"

definition py_int :: "string \<Rightarrow> exn + int" where
  "py_int s =
     (let t = strip s;
          neg = startswith t ''-'';
          digits = (if neg \<or> startswith t ''+'' then tl t else t);
          parts = split_on (CHR ''_'') digits
      in if list_all all_digits parts
         then Inr (if neg then - int (str_to_nat (concat parts)) else int (str_to_nat (concat parts)))
         else Inl (ValueError (''invalid literal for int() with base 10: '' @ s)))"

lemma digit_not_space: "is_digit c \<Longrightarrow> \<not> py_space c"
  by (auto simp: is_digit_def py_space_def)

lemma strip_all_digits:
  assumes "list_all is_digit s"
  shows "strip s = s"
proof -
  have "dropWhile py_space t = t" if "list_all is_digit t" for t
    using that by (cases t) (auto dest: digit_not_space)
  with assms show ?thesis by (simp add: strip_def)
qed

lemma py_int_nat_to_str: "py_int (nat_to_str n) = Inr (int n)"
proof -
  have d: "list_all is_digit (nat_to_str n)"
    using all_digits_to_str [of n] by (simp add: all_digits_def)
  have "is_digit (hd (nat_to_str n))"
    using d by (cases "nat_to_str n") auto
  then have "hd (nat_to_str n) \<noteq> CHR ''-''" "hd (nat_to_str n) \<noteq> CHR ''+''"
    by (auto simp: is_digit_def)
  then have "\<not> startswith (nat_to_str n) ''-''" "\<not> startswith (nat_to_str n) ''+''"
    by (cases "nat_to_str n"; auto simp: startswith_def)+
  moreover have "CHR ''_'' \<notin> set (nat_to_str n)"
    using d by (auto simp: list_all_iff is_digit_def)
  ultimately show ?thesis
    by (simp add: py_int_def strip_all_digits [OF d] split_on_free)
qed

end
