(* ===== verification/Tokens.thy ===== *)
theory Tokens
  imports Bytes ModelsRegistry
begin

text \<open>
  Tokens and passwords (\<open>racetrack_commons/auth\<close>, \<open>lifecycle/auth/hasher.py\<close>,
  \<open>lifecycle/auth/validate.py\<close>). The signature of tokens (PyJWT), the validation of payloads
  (pydantic) and the key derivation of \<open>hashlib\<close> are functions in the state, as are the random
  choices and the file of common passwords.
\<close>

section \<open>Subjects, scopes and payloads\<close>

datatype AuthSubjectType = USER | ESC | JOB_FAMILY | INTERNAL

fun subject_type_value :: "AuthSubjectType \<Rightarrow> string" where
  "subject_type_value USER = ''user''"
| "subject_type_value ESC = ''esc''"
| "subject_type_value JOB_FAMILY = ''job_family''"
| "subject_type_value INTERNAL = ''internal''"

datatype AuthScope = READ_JOB | DEPLOY_JOB | DEPLOY_NEW_FAMILY | DELETE_JOB | CALL_JOB | CALL_ADMIN_API | FULL_ACCESS

fun scope_value :: "AuthScope \<Rightarrow> string" where
  "scope_value READ_JOB = ''read_job''"
| "scope_value DEPLOY_JOB = ''deploy_job''"
| "scope_value DEPLOY_NEW_FAMILY = ''deploy_new_family''"
| "scope_value DELETE_JOB = ''delete_job''"
| "scope_value CALL_JOB = ''call_job''"
| "scope_value CALL_ADMIN_API = ''call_admin_api''"
| "scope_value FULL_ACCESS = ''full_access''"

record AuthTokenPayload =
  tp_seed :: string
  tp_subject :: string
  tp_subject_type :: string
  tp_scopes :: "string list option"

text \<open>\<open>datamodel_to_dict\<close> of a payload: the fields in order, without those that are None.\<close>

definition payload_to_dict :: "AuthTokenPayload \<Rightarrow> json" where
  "payload_to_dict p = remove_none (JObj [(''seed'', JStr (tp_seed p)), (''subject'', JStr (tp_subject p)),
     (''subject_type'', JStr (tp_subject_type p)),
     (''scopes'', case tp_scopes p of None \<Rightarrow> JNull | Some ss \<Rightarrow> JList (map JStr ss))])"

record server = lifecycle +
  jwt_encode :: "json \<Rightarrow> string \<Rightarrow> string"
  jwt_decode :: "string \<Rightarrow> string option \<Rightarrow> exn + json"
  payload_model_validate :: "json \<Rightarrow> exn + AuthTokenPayload"
  pbkdf2_hmac :: "string \<Rightarrow> string \<Rightarrow> string \<Rightarrow> int \<Rightarrow> string"
  random_of :: "nat \<Rightarrow> nat"
  random_count :: nat
  common_passwords :: "string list"

type_synonym ('x, 'a) svm = "('x server_scheme, 'a) py"

section \<open>Obsolete base64 tokens\<close>

definition decode_from_base64 :: "string \<Rightarrow> string \<times> bool" where
  "decode_from_base64 content_base64 =
     (case b64decode (utf8_encode content_base64) of
        None \<Rightarrow> ([], False)
      | Some content_bytes \<Rightarrow> (case utf8_decode content_bytes of None \<Rightarrow> ([], False) | Some content \<Rightarrow> (content, True)))"

definition decode_esc_auth_base64 :: "string \<Rightarrow> exn + json \<times> json \<times> bool" where
  "decode_esc_auth_base64 esc_auth_encoded =
     (let (esc_auth_json, ok) = decode_from_base64 esc_auth_encoded
      in if \<not> ok then Inr (JStr [], JStr [], False)
         else case loads esc_auth_json of
             Inl e \<Rightarrow> Inl e
           | Inr (JObj esc_auth) \<Rightarrow>
               (case (map_of esc_auth ''esc-id'', map_of esc_auth ''api-key'') of
                  (Some esc, Some token) \<Rightarrow> Inr (esc, token, True)
                | _ \<Rightarrow> Inr (JStr [], JStr [], False))
           | Inr _ \<Rightarrow> Inl (TypeError ''indices must be integers''))"

text \<open>The fields of a payload are validated when it is built: seed and subject have to be strings.\<close>

definition decode_token_fallback :: "string \<Rightarrow> exn + AuthTokenPayload option" where
  "decode_token_fallback token =
     (case decode_esc_auth_base64 token of
        Inl e \<Rightarrow> Inr None
      | Inr (esc, seed, ok) \<Rightarrow>
          if \<not> ok then Inr None
          else case (esc, seed) of
              (JStr i, JStr s) \<Rightarrow>
                Inr (Some \<lparr>tp_seed = s, tp_subject = i, tp_subject_type = subject_type_value ESC, tp_scopes = None\<rparr>)
            | _ \<Rightarrow> Inl (ValidationError ''string_type''))"

section \<open>JSON web tokens\<close>

definition encode_jwt :: "AuthTokenPayload \<Rightarrow> string \<Rightarrow> ('x, string) svm" where
  "encode_jwt payload signature_key = gets (\<lambda>w. jwt_encode w (payload_to_dict payload) signature_key)"

definition decode_payload :: "string \<Rightarrow> string option \<Rightarrow> ('x, AuthTokenPayload) svm" where
  "decode_payload token key =
     try_except
       (bind (gets (\<lambda>w. jwt_decode w token key)) (\<lambda>r.
        bind (lift r) (\<lambda>payload_dict.
        bind (gets (\<lambda>w. payload_model_validate w payload_dict)) (\<lambda>r. lift r))))
       (\<lambda>_. True)
       (\<lambda>e. bind (lift (decode_token_fallback token)) (\<lambda>payload.
          case payload of
            Some p \<Rightarrow> ret p
          | None \<Rightarrow> raise (UnauthorizedError ''invalid JWT token'' (exn_str e @ '', token='' @ token))))"

definition verify_and_decode_jwt :: "string \<Rightarrow> string \<Rightarrow> ('x, AuthTokenPayload) svm" where
  "verify_and_decode_jwt token signature_key = decode_payload token (Some signature_key)"

definition decode_jwt :: "string \<Rightarrow> ('x, AuthTokenPayload) svm" where
  "decode_jwt token = decode_payload token None"

definition generate_internal_token :: "string \<Rightarrow> string \<Rightarrow> AuthScope list \<Rightarrow> ('x, string) svm" where
  "generate_internal_token subject_name signature_key scopes =
     bind new_uuid (\<lambda>seed.
     encode_jwt \<lparr>tp_seed = seed, tp_subject = subject_name, tp_subject_type = subject_type_value INTERNAL,
       tp_scopes = Some (map scope_value scopes)\<rparr> signature_key)"

text \<open>\<open>generate_service_token\<close> prints the token; its text is returned.\<close>

definition generate_service_token :: "string \<Rightarrow> bool \<Rightarrow> ('x, string) svm" where
  "generate_service_token subject_name short =
     bind (gets (\<lambda>w. case environ w ''AUTH_KEY'' of None \<Rightarrow> [] | Some k \<Rightarrow> k)) (\<lambda>auth_secret_key.
     seq (assert_py (auth_secret_key \<noteq> []) ''fill AUTH_KEY var with your secret key'')
     (bind (generate_internal_token subject_name auth_secret_key [FULL_ACCESS]) (\<lambda>token.
      ret (if short then token
           else ''Service: '' @ subject_name @ [CHR 0x0A] @ ''LIFECYCLE_AUTH_TOKEN:'' @ [CHR 0x0A] @ token @ [CHR 0x0A]))))"

section \<open>Passwords\<close>

definition random_string_chars :: string where
  "random_string_chars = ''abcdefghijklmnopqrstuvwxyzABCDEFGHIJKLMNOPQRSTUVWXYZ0123456789''"

definition random_choice :: "string \<Rightarrow> ('x, char) svm" where
  "random_choice allowed_chars = (\<lambda>w.
     (Inr (allowed_chars ! (random_of w (random_count w) mod length allowed_chars)), w\<lparr>random_count := Suc (random_count w)\<rparr>))"

fun get_random_string :: "nat \<Rightarrow> string \<Rightarrow> ('x, string) svm" where
  "get_random_string 0 allowed_chars = ret []"
| "get_random_string (Suc n) allowed_chars =
     bind (random_choice allowed_chars) (\<lambda>c. bind (get_random_string n allowed_chars) (\<lambda>s. ret (c # s)))"

definition algorithm :: string where
  "algorithm = ''pbkdf2_sha256''"

definition iterations :: int where
  "iterations = 600000"

definition salt_entropy :: nat where
  "salt_entropy = 128"

text \<open>\<open>math.ceil(salt_entropy / math.log2(62))\<close> is the least number of characters from an alphabet of
  62 that has the entropy.\<close>

definition salt_length :: nat where
  "salt_length = 22"

definition salt :: "('x, string) svm" where
  "salt = get_random_string salt_length random_string_chars"

definition pbkdf2 :: "'x server_scheme \<Rightarrow> string \<Rightarrow> string \<Rightarrow> int \<Rightarrow> exn + string" where
  "pbkdf2 w password salt_text n =
     (if n < 1 then Inl (ValueError ''iteration value must be greater than 0.'')
      else Inr (pbkdf2_hmac w ''sha256'' (utf8_encode password) (utf8_encode salt_text) n))"

definition hash_encode :: "string \<Rightarrow> string \<Rightarrow> int option \<Rightarrow> ('x, string) svm" where
  "hash_encode password salt_text iters =
     (let n = (case iters of None \<Rightarrow> iterations | Some i \<Rightarrow> if i = 0 then iterations else i)
      in bind (gets (\<lambda>w. pbkdf2 w password salt_text n)) (\<lambda>r.
         bind (lift r) (\<lambda>hash.
         ret (algorithm @ ''$'' @ int_to_str n @ ''$'' @ salt_text @ ''$'' @ strip (b64encode hash)))))"

fun split_max :: "nat \<Rightarrow> char \<Rightarrow> string \<Rightarrow> string list" where
  "split_max 0 c s = [s]"
| "split_max (Suc n) c s =
     (case dropWhile (\<lambda>x. x \<noteq> c) s of [] \<Rightarrow> [s] | _ # r \<Rightarrow> takeWhile (\<lambda>x. x \<noteq> c) s # split_max n c r)"

definition hash_decode :: "string \<Rightarrow> exn + int \<times> string \<times> string" where
  "hash_decode encoded =
     (case split_max 3 (CHR ''$'') encoded of
        [alg, iters, salt_text, hash] \<Rightarrow>
          if alg \<noteq> algorithm then Inl (AssertionError [])
          else (case py_int iters of Inl e \<Rightarrow> Inl e | Inr n \<Rightarrow> Inr (n, salt_text, hash))
      | _ \<Rightarrow> Inl (ValueError ''not enough values to unpack (expected 4)''))"

definition hash_verify :: "string \<Rightarrow> string \<Rightarrow> ('x, bool) svm" where
  "hash_verify password encoded =
     bind (lift (hash_decode encoded)) (\<lambda>(n, salt_text, hash).
     bind (hash_encode password salt_text (Some n)) (\<lambda>encoded_2. ret (encoded = encoded_2)))"

definition make_password :: "string \<Rightarrow> ('x, string) svm" where
  "make_password password = bind salt (\<lambda>s. hash_encode password s None)"

definition check_password :: "string \<Rightarrow> string \<Rightarrow> ('x, bool) svm" where
  "check_password password encoded = hash_verify password encoded"

definition validate_password_length :: "string \<Rightarrow> ('x, unit) svm" where
  "validate_password_length password =
     (if length password < 8
      then raise (ValidationError ''This password is too short. It must contain at least 8 characters.'') else ret ())"

definition validate_numeric_password :: "string \<Rightarrow> ('x, unit) svm" where
  "validate_numeric_password password =
     (if isdigit password then raise (ValidationError ''This password is entirely numeric.'') else ret ())"

definition validate_common_password :: "string \<Rightarrow> ('x, unit) svm" where
  "validate_common_password password =
     bind (gets (\<lambda>w. map strip (common_passwords w))) (\<lambda>passwords.
     if strip (lower password) \<in> set passwords then raise (ValidationError ''This password is too common.'') else ret ())"

definition validate_password :: "string \<Rightarrow> ('x, unit) svm" where
  "validate_password password =
     for_each [validate_password_length, validate_numeric_password, validate_common_password] (\<lambda>validator. validator password)"

section \<open>Stored passwords\<close>

text \<open>The salt has the entropy the hasher asks for, and one character less would not have it.\<close>

lemma salt_length_least: "62 ^ (salt_length - 1) < (2 :: nat) ^ salt_entropy \<and> (2 :: nat) ^ salt_entropy \<le> 62 ^ salt_length"
  by (simp add: salt_length_def salt_entropy_def)

lemma random_choice_ok:
  "\<exists>c. random_choice cs w = (Inr c, w\<lparr>random_count := Suc (random_count w)\<rparr>) \<and> (cs \<noteq> [] \<longrightarrow> c \<in> set cs)"
  by (simp add: random_choice_def)

lemma get_random_string_ok:
  assumes "cs \<noteq> []"
  shows "\<exists>s. get_random_string n cs w = (Inr s, w\<lparr>random_count := random_count w + n\<rparr>) \<and> length s = n \<and> set s \<subseteq> set cs"
proof (induction n arbitrary: w)
  case (Suc n)
  obtain c where c: "random_choice cs w = (Inr c, w\<lparr>random_count := Suc (random_count w)\<rparr>)" "c \<in> set cs"
    using random_choice_ok [of cs w] assms by blast
  obtain s where "get_random_string n cs (w\<lparr>random_count := Suc (random_count w)\<rparr>)
      = (Inr s, w\<lparr>random_count := Suc (random_count w) + n\<rparr>)" "length s = n" "set s \<subseteq> set cs"
    using Suc.IH [of "w\<lparr>random_count := Suc (random_count w)\<rparr>"] by auto
  with c show ?case by (simp add: py_run)
qed (simp add: py_run)

lemma split_max_append: "c \<notin> set p \<Longrightarrow> split_max (Suc n) c (p @ c # s) = p # split_max n c s"
  by (auto simp: dropWhile_append takeWhile_append)

lemma split_max_four:
  "c \<notin> set a \<Longrightarrow> c \<notin> set b \<Longrightarrow> c \<notin> set s \<Longrightarrow> split_max 3 c (a @ c # b @ c # s @ c # h) = [a, b, s, h]"
  by (simp add: numeral_3_eq_3 split_max_append del: split_max.simps(2))

lemma hash_decode_encoded:
  assumes "CHR ''$'' \<notin> set s"
  shows "hash_decode (algorithm @ ''$'' @ nat_to_str n @ ''$'' @ s @ ''$'' @ h) = Inr (int n, s, h)"
proof -
  have "\<not> is_digit (CHR ''$'')" by code_simp
  then have "CHR ''$'' \<notin> set (nat_to_str n)"
    using all_digits_to_str [of n] unfolding all_digits_def list_all_iff by blast
  then have "split_max 3 (CHR ''$'') (algorithm @ CHR ''$'' # nat_to_str n @ CHR ''$'' # s @ CHR ''$'' # h)
      = [algorithm, nat_to_str n, s, h]"
    using assms by (intro split_max_four) (simp_all add: algorithm_def)
  then show ?thesis
    by (simp add: hash_decode_def py_int_nat_to_str)
qed

lemma b64encode_inject: "b64encode a = b64encode b \<longleftrightarrow> a = b"
  by (metis b64_roundtrip option.inject)

lemma b64_no_space: "list_all (\<lambda>c. \<not> py_space c) (b64encode s)"
proof -
  have "list_all (\<lambda>c. \<not> py_space c) b64_alphabet" by code_simp
  then have c: "i < 64 \<Longrightarrow> \<not> py_space (b64_char i)" for i
    by (simp add: list_all_iff b64_char_def b64_alphabet_length)
  have "\<not> py_space (CHR ''='')" by code_simp
  with c b64_bounds show ?thesis
    by (induction s rule: b64encode.induct) (auto simp: Let_def)
qed

lemma strip_b64: "strip (b64encode s) = b64encode s"
proof -
  have "dropWhile py_space t = t" if "list_all (\<lambda>c. \<not> py_space c) t" for t
    using that by (cases t) auto
  with b64_no_space [of s] show ?thesis by (simp add: strip_def)
qed


section \<open>Issued tokens\<close>

text \<open>What the code relies on from PyJWT and pydantic: a signed payload is decoded with the key that
  signed it, and the dictionary of a payload validates as that payload.\<close>

definition jwt_ok :: "'x server_scheme \<Rightarrow> string \<Rightarrow> bool" where
  "jwt_ok w key \<longleftrightarrow> (\<forall>j. keys_distinct j \<longrightarrow> jwt_decode w (jwt_encode w j key) (Some key) = Inr j)
     \<and> (\<forall>p. payload_model_validate w (payload_to_dict p) = Inr p)"

lemma keys_distinct_payload: "keys_distinct (payload_to_dict p)"
  by (cases "tp_scopes p") (auto simp: payload_to_dict_def list_all_iff)

lemma verify_encoded:
  "jwt_ok w key \<Longrightarrow> verify_and_decode_jwt (jwt_encode w (payload_to_dict p) key) key w = (Inr p, w)"
  by (simp add: verify_and_decode_jwt_def decode_payload_def py_run jwt_ok_def keys_distinct_payload)

lemma b64_ascii: "utf8_encode (b64encode s) = b64encode s"
proof -
  have "list_all (\<lambda>c. (of_char c :: nat) < 128) b64_alphabet" by code_simp
  then have c: "i < 64 \<Longrightarrow> (of_char (b64_char i) :: nat) < 128" for i
    by (simp add: list_all_iff b64_char_def b64_alphabet_length)
  have "list_all (\<lambda>c. (of_char c :: nat) < 128) (b64encode s)"
    using c b64_bounds by (induction s rule: b64encode.induct) (auto simp: Let_def)
  moreover have "utf8_encode t = t" if "list_all (\<lambda>c. (of_char c :: nat) < 128) t" for t
    using that by (induction t) (auto simp: Let_def)
  ultimately show ?thesis by blast
qed

lemma fallback_decodes:
  "decode_token_fallback (b64encode (utf8_encode (dumps (JObj [(''esc-id'', JStr i), (''api-key'', JStr k)]))))
     = Inr (Some \<lparr>tp_seed = k, tp_subject = i, tp_subject_type = ''esc'', tp_scopes = None\<rparr>)"
  by (simp add: decode_token_fallback_def decode_esc_auth_base64_def decode_from_base64_def b64_ascii b64_roundtrip
      utf8_roundtrip loads_dumps del: dumps.simps)

text \<open>
  Tokens are recognised: an internal token that the server generates is verified with its key and
  carries the name, the internal subject type and exactly the scopes it was generated with; and an
  obsolete token, the base64 text of a JSON object with an identifier and a key, is accepted as a token
  of that external caller whenever it is not a valid signed token.
\<close>
lemma issued_tokens_verify:
  assumes "jwt_ok w key"
  shows "(\<exists>token w'. generate_internal_token name key scopes w = (Inr token, w')
      \<and> verify_and_decode_jwt token key w' = (Inr \<lparr>tp_seed = uuid_of w (uuid_count w), tp_subject = name,
            tp_subject_type = ''internal'', tp_scopes = Some (map scope_value scopes)\<rparr>, w'))
    \<and> (\<forall>i k token e. token = b64encode (utf8_encode (dumps (JObj [(''esc-id'', JStr i), (''api-key'', JStr k)])))
         \<longrightarrow> jwt_decode w token (Some key) = Inl e
         \<longrightarrow> verify_and_decode_jwt token key w
               = (Inr \<lparr>tp_seed = k, tp_subject = i, tp_subject_type = ''esc'', tp_scopes = None\<rparr>, w))"
proof (intro conjI allI impI)
  let ?w = "w\<lparr>uuid_count := Suc (uuid_count w)\<rparr>"
  have "jwt_ok ?w key" using assms by (simp add: jwt_ok_def)
  from verify_encoded [OF this] show "\<exists>token w'. generate_internal_token name key scopes w = (Inr token, w')
      \<and> verify_and_decode_jwt token key w' = (Inr \<lparr>tp_seed = uuid_of w (uuid_count w), tp_subject = name,
            tp_subject_type = ''internal'', tp_scopes = Some (map scope_value scopes)\<rparr>, w')"
    by (auto simp: generate_internal_token_def encode_jwt_def py_run new_uuid_def)
next
  fix i k token e
  assume "token = b64encode (utf8_encode (dumps (JObj [(''esc-id'', JStr i), (''api-key'', JStr k)])))"
    and "jwt_decode w token (Some key) = Inl e"
  then show "verify_and_decode_jwt token key w
      = (Inr \<lparr>tp_seed = k, tp_subject = i, tp_subject_type = ''esc'', tp_scopes = None\<rparr>, w)"
    using fallback_decodes [of i k] by (simp add: verify_and_decode_jwt_def decode_payload_def py_run del: dumps.simps)
qed

text \<open>A server on which the statements are evaluated: its tokens are the JSON text of the key and the
  payload.\<close>

definition sample_jwt_decode :: "string \<Rightarrow> string option \<Rightarrow> exn + json" where
  "sample_jwt_decode token key = (case loads token of
     Inr (JList [JStr k, j]) \<Rightarrow> if key = None \<or> key = Some k then Inr j else Inl (ValueError ''Signature verification failed'')
   | _ \<Rightarrow> Inl (ValueError ''Not enough segments''))"

definition sample_payload_validate :: "json \<Rightarrow> exn + AuthTokenPayload" where
  "sample_payload_validate j = (case j of
     JObj [(a, JStr s), (b, JStr n), (c, JStr t)] \<Rightarrow> Inr \<lparr>tp_seed = s, tp_subject = n, tp_subject_type = t, tp_scopes = None\<rparr>
   | JObj [(a, JStr s), (b, JStr n), (c, JStr t), (d, JList ss)] \<Rightarrow>
       Inr \<lparr>tp_seed = s, tp_subject = n, tp_subject_type = t, tp_scopes = Some (map (\<lambda>x. case x of JStr u \<Rightarrow> u | _ \<Rightarrow> []) ss)\<rparr>
   | _ \<Rightarrow> Inl (ValidationError ''missing''))"

definition sample_server :: server where
  "sample_server = lifecycle.extend (sample_lifecycle\<lparr>environ := [''AUTH_KEY'' \<mapsto> ''key'']\<rparr>)
     (server.fields (\<lambda>j k. dumps (JList [JStr k, j])) sample_jwt_decode sample_payload_validate (\<lambda>d p s n. p @ s)
        (\<lambda>n. n) 0 [''password''])"

lemma sample_server_sel [simp]:
  "db sample_server = sample_db" "uuid_of sample_server n = ''u'' @ nat_to_str n" "uuid_count sample_server = 0"
  "time_of sample_server n = int n" "ticks sample_server = 0" "environ sample_server = [''AUTH_KEY'' \<mapsto> ''key'']"
  "jwt_encode sample_server j k = dumps (JList [JStr k, j])" "jwt_decode sample_server = sample_jwt_decode"
  "payload_model_validate sample_server = sample_payload_validate"
  by (simp_all add: sample_server_def lifecycle.defs server.defs sample_lifecycle_def world.defs sample_world_def)

lemma sample_server_ok: "wf sample_server"
  by (simp add: sample_db_ok)

lemma sample_payload_ok: "sample_payload_validate (payload_to_dict p) = Inr p"
  by (cases p; cases "tp_scopes p") (auto simp: sample_payload_validate_def payload_to_dict_def comp_def)

lemma sample_jwt_ok: "jwt_ok sample_server key"
proof -
  have "sample_jwt_decode (dumps (JList [JStr key, j])) (Some key) = Inr j" if "keys_distinct j" for j
    using that loads_dumps [of "JList [JStr key, j]"] by (simp add: sample_jwt_decode_def del: dumps.simps)
  then show ?thesis by (simp add: jwt_ok_def sample_payload_ok)
qed

lemma issued_tokens_verify_witness:
  "\<exists>token w'. generate_internal_token ''pub'' ''key'' [CALL_JOB] sample_server = (Inr token, w')
     \<and> verify_and_decode_jwt token ''key'' w' = (Inr \<lparr>tp_seed = ''u0'', tp_subject = ''pub'', tp_subject_type = ''internal'',
          tp_scopes = Some [''call_job'']\<rparr>, w')"
  using issued_tokens_verify [OF sample_jwt_ok [of "''key''"], of "''pub''" "[CALL_JOB]"]
  by (simp add: nat_to_str.simps digit_char_def)

end
