(* ===== verification/Subject.thy ===== *)
theory Subject
  imports Tokens RowChanges
begin

text \<open>
  Auth subjects and their tokens (\<open>lifecycle/auth/subject.py\<close>, \<open>lifecycle/auth/job_family.py\<close>): a user,
  an external caller (ESC) or a job family has one subject, and a subject has tokens, which are
  created, regenerated and revoked.
\<close>

section \<open>Names and types of subjects\<close>

definition get_subject_type_from_auth_subject :: "robj \<Rightarrow> ('x, AuthSubjectType) svm" where
  "get_subject_type_from_auth_subject auth_subject =
     (if attr auth_subject ''user_id'' \<noteq> VNone then ret USER
      else if attr auth_subject ''esc_id'' \<noteq> VNone then ret ESC
      else if attr auth_subject ''job_family_id'' \<noteq> VNone then ret JOB_FAMILY
      else raise (ValueError ''Unknown auth_subject type''))"

definition get_subject_name_from_auth_subject :: "robj \<Rightarrow> ('x, string) svm" where
  "get_subject_name_from_auth_subject auth_subject =
     (if attr auth_subject ''user_id'' \<noteq> VNone then
        bind (find_one User [(''id'', attr auth_subject ''user_id'')]) (\<lambda>user. ret (the_str (attr user ''username'')))
      else if attr auth_subject ''esc_id'' \<noteq> VNone then
        bind (find_one Esc [(''id'', attr auth_subject ''esc_id'')]) (\<lambda>esc. ret (the_str (attr esc ''id'')))
      else if attr auth_subject ''job_family_id'' \<noteq> VNone then
        bind (find_one JobFamily [(''id'', attr auth_subject ''job_family_id'')]) (\<lambda>job_family.
          ret (the_str (attr job_family ''name'')))
      else raise (ValueError ''Unknown auth_subject type''))"

definition get_description_from_auth_subject :: "robj \<Rightarrow> ('x, string) svm" where
  "get_description_from_auth_subject auth_subject =
     (if attr auth_subject ''user_id'' \<noteq> VNone then
        bind (find_one User [(''id'', attr auth_subject ''user_id'')]) (\<lambda>user.
          ret (''User '' @ the_str (attr user ''username'')))
      else if attr auth_subject ''esc_id'' \<noteq> VNone then
        bind (find_one Esc [(''id'', attr auth_subject ''esc_id'')]) (\<lambda>esc. ret (''ESC '' @ the_str (attr esc ''name'')))
      else if attr auth_subject ''job_family_id'' \<noteq> VNone then
        bind (find_one JobFamily [(''id'', attr auth_subject ''job_family_id'')]) (\<lambda>job_family.
          ret (''Job family '' @ the_str (attr job_family ''name'')))
      else raise (ValueError ''Unknown auth_subject type''))"

section \<open>Tokens of a subject\<close>

definition environ_required :: "string \<Rightarrow> ('x, string) svm" where
  "environ_required name = bind (gets (\<lambda>w. environ w name)) (\<lambda>v.
     case v of None \<Rightarrow> raise (KeyError (py_repr name)) | Some s \<Rightarrow> ret s)"

definition generate_jwt_token :: "robj \<Rightarrow> ('x, string) svm" where
  "generate_jwt_token auth_subject =
     bind (get_subject_name_from_auth_subject auth_subject) (\<lambda>subject_name.
     bind (get_subject_type_from_auth_subject auth_subject) (\<lambda>stype.
     bind new_uuid (\<lambda>seed.
     bind (environ_required ''AUTH_KEY'') (\<lambda>auth_secret_key.
     encode_jwt \<lparr>tp_seed = seed, tp_subject = subject_name, tp_subject_type = subject_type_value stype, tp_scopes = None\<rparr>
       auth_secret_key))))"

definition token_row :: "string \<Rightarrow> val \<Rightarrow> string \<Rightarrow> int option \<Rightarrow> row" where
  "token_row ident subject_id token expiry_time = [
     (''id'', VStr ident), (''auth_subject_id'', subject_id), (''token'', VStr token), (''expiry_time'', dt_val expiry_time),
     (''active'', VBool True), (''last_use_time'', VNone)]"

definition create_auth_token :: "robj \<Rightarrow> int option \<Rightarrow> ('x, robj) svm" where
  "create_auth_token auth_subject expiry_time =
     bind new_uuid (\<lambda>ident.
     bind (generate_jwt_token auth_subject) (\<lambda>token.
     bind (create_record (new_record AuthToken (token_row ident (attr auth_subject ''id'') token expiry_time))) (\<lambda>auth_token.
     seq (get_description_from_auth_subject auth_subject) (ret auth_token))))"

definition get_auth_token_by_subject :: "robj \<Rightarrow> ('x, robj) svm" where
  "get_auth_token_by_subject auth_subject =
     try_except (find_one AuthToken [(''auth_subject_id'', attr auth_subject ''id'')])
       is_EntityNotFound (\<lambda>_. create_auth_token auth_subject None)"

definition get_auth_tokens_by_subject :: "robj \<Rightarrow> ('x, robj list) svm" where
  "get_auth_tokens_by_subject auth_subject = find_many AuthToken None [(''auth_subject_id'', attr auth_subject ''id'')]"

definition regenerate_token :: "robj \<Rightarrow> robj \<Rightarrow> ('x, unit) svm" where
  "regenerate_token auth_subject auth_token =
     bind (generate_jwt_token auth_subject) (\<lambda>token.
     seq (update_record (set_attr ''last_use_time'' VNone (set_attr ''token'' (VStr token) auth_token)) True) (ret ()))"

definition regenerate_auth_tokens :: "robj \<Rightarrow> ('x, unit) svm" where
  "regenerate_auth_tokens auth_subject =
     bind (find_many AuthToken None [(''auth_subject_id'', attr auth_subject ''id'')]) (\<lambda>auth_tokens.
     for_each auth_tokens (regenerate_token auth_subject))"

definition regenerate_auth_token_by_id :: "string \<Rightarrow> ('x, unit) svm" where
  "regenerate_auth_token_by_id auth_token_id =
     bind (find_one AuthToken [(''id'', VStr auth_token_id)]) (\<lambda>auth_token.
     bind (find_one AuthSubject [(''id'', attr auth_token ''auth_subject_id'')]) (\<lambda>auth_subject.
     regenerate_token auth_subject auth_token))"

definition regenerate_specific_user_token :: "robj \<Rightarrow> ('x, string) svm" where
  "regenerate_specific_user_token auth_subject =
     seq (regenerate_auth_tokens auth_subject)
     (seq (get_subject_name_from_auth_subject auth_subject)
      (bind (get_auth_token_by_subject auth_subject) (\<lambda>auth_token. ret (the_str (attr auth_token ''token'')))))"

definition regenerate_all_tokens :: "string \<Rightarrow> ('x, unit) svm" where
  "regenerate_all_tokens column =
     bind (filter_records AuthSubject (query_condition (IsNotNull (Quoted column)) []) [] None None) (\<lambda>auth_subjects.
     for_each auth_subjects regenerate_auth_tokens)"

definition regenerate_all_user_tokens :: "('x, unit) svm" where
  "regenerate_all_user_tokens = regenerate_all_tokens ''user_id''"

definition regenerate_all_job_family_tokens :: "('x, unit) svm" where
  "regenerate_all_job_family_tokens = regenerate_all_tokens ''job_family_id''"

definition regenerate_all_esc_tokens :: "('x, unit) svm" where
  "regenerate_all_esc_tokens = regenerate_all_tokens ''esc_id''"

definition revoke_token :: "string \<Rightarrow> ('x, unit) svm" where
  "revoke_token token_id =
     bind (find_one AuthToken [(''id'', VStr token_id)]) (\<lambda>auth_token.
     bind (find_one AuthSubject [(''id'', attr auth_token ''auth_subject_id'')]) (\<lambda>auth_subject.
     seq (get_description_from_auth_subject auth_subject)
         (delete_record auth_token True)))"

section \<open>Finding and creating subjects\<close>

definition subject_row :: "string \<Rightarrow> val \<Rightarrow> val \<Rightarrow> val \<Rightarrow> row" where
  "subject_row ident user esc family = [(''id'', VStr ident), (''user_id'', user), (''esc_id'', esc), (''job_family_id'', family)]"

definition get_auth_subject_by_user :: "robj \<Rightarrow> ('x, robj) svm" where
  "get_auth_subject_by_user user_model =
     try_except (find_one AuthSubject [(''user_id'', attr user_model ''id'')]) is_EntityNotFound (\<lambda>_.
       bind new_uuid (\<lambda>ident.
       bind (create_record (new_record AuthSubject (subject_row ident (attr user_model ''id'') VNone VNone))) (\<lambda>auth_subject.
       seq (create_auth_token auth_subject None) (ret auth_subject))))"

definition get_auth_subject_by_esc :: "robj \<Rightarrow> ('x, robj) svm" where
  "get_auth_subject_by_esc esc_model =
     try_except (find_one AuthSubject [(''esc_id'', attr esc_model ''id'')]) is_EntityNotFound (\<lambda>_.
       bind new_uuid (\<lambda>ident.
       create_record (new_record AuthSubject (subject_row ident VNone (attr esc_model ''id'') VNone))))"

definition get_auth_subject_by_job_family :: "robj \<Rightarrow> ('x, robj) svm" where
  "get_auth_subject_by_job_family job_family =
     try_except (find_one AuthSubject [(''job_family_id'', attr job_family ''id'')]) is_EntityNotFound (\<lambda>_.
       bind new_uuid (\<lambda>ident.
       bind (create_record (new_record AuthSubject (subject_row ident VNone VNone (attr job_family ''id'')))) (\<lambda>auth_subject.
       seq (create_auth_token auth_subject None) (ret auth_subject))))"

definition find_auth_subject_by_job_family_name :: "string \<Rightarrow> ('x, robj) svm" where
  "find_auth_subject_by_job_family_name name =
     try_except
       (bind (find_one JobFamily [(''name'', VStr name)]) (\<lambda>family.
        find_one AuthSubject [(''job_family_id'', attr family ''id'')]))
       is_EntityNotFound
       (\<lambda>_. raise (EntityNotFound (''Auth subject for Job family '' @ name @ '' not found'')))"

definition find_auth_subject_by_esc_id :: "string \<Rightarrow> ('x, robj) svm" where
  "find_auth_subject_by_esc_id esc =
     try_except (find_one AuthSubject [(''esc_id'', VStr esc)]) is_EntityNotFound
       (\<lambda>_. raise (EntityNotFound (''Auth subject for ESC '' @ esc @ '' not found'')))"

definition get_job_family_jwt_token :: "string \<Rightarrow> ('x, string) svm" where
  "get_job_family_jwt_token name =
     bind (read_job_family_model name) (\<lambda>family_model.
     bind (get_auth_subject_by_job_family family_model) (\<lambda>auth_subject.
     bind (get_auth_token_by_subject auth_subject) (\<lambda>auth_token. ret (the_str (attr auth_token ''token'')))))"

section \<open>Subjects refer to their owner\<close>

lemma foreign_row:
  assumes "wf w" and "r \<in> set (db w t)" and "(c, o') \<in> set (on_delete_cascade (meta t))" and "row_val r c \<noteq> VNone"
  obtains q where "q \<in> set (db w o')" and "row_val q (pk o') = row_val r c"
proof -
  have "targets_ok (db w) t r" using db_okD(3) [OF assms(1)] assms(2) by (simp add: fk_ok_targets)
  with assms(3,4) that show thesis by (force simp: targets_ok_iff)
qed

lemma run_find_foreign:
  assumes "wf w" and "r \<in> set (db w t)" and "(c, o') \<in> set (on_delete_cascade (meta t))" and "row_val r c \<noteq> VNone"
  shows "\<exists>q \<in> set (db w o'). row_val q (pk o') = row_val r c \<and> find_one o' [(pk o', row_val r c)] w = (Inr (record_of o' q), w)"
  using foreign_row [OF assms] run_find_by_pk [OF assms(1)] by metis

lemma subject_columns:
  "(''user_id'', User) \<in> set (on_delete_cascade (meta AuthSubject))" "(''esc_id'', Esc) \<in> set (on_delete_cascade (meta AuthSubject))"
  "(''job_family_id'', JobFamily) \<in> set (on_delete_cascade (meta AuthSubject))"
  "(''auth_subject_id'', AuthSubject) \<in> set (on_delete_cascade (meta AuthToken))"
  by (simp_all add: meta_eval)

text \<open>A subject with an owner: one of its three references is set.\<close>

definition owned :: "row \<Rightarrow> bool" where
  "owned s \<longleftrightarrow> row_val s ''user_id'' \<noteq> VNone \<or> row_val s ''esc_id'' \<noteq> VNone \<or> row_val s ''job_family_id'' \<noteq> VNone"

lemma run_subject_names:
  assumes "wf w" and "s \<in> set (db w AuthSubject)" and "owned s" and "attrs o' = s"
  shows "\<exists>n. get_subject_name_from_auth_subject o' w = (Inr n, w)"
    and "\<exists>st. get_subject_type_from_auth_subject o' w = (Inr st, w)"
    and "\<exists>d. get_description_from_auth_subject o' w = (Inr d, w)"
proof -
  note owner = run_find_foreign [OF assms(1,2) subject_columns(1)] run_find_foreign [OF assms(1,2) subject_columns(2)]
    run_find_foreign [OF assms(1,2) subject_columns(3)]
  have u: "\<exists>q. find_one User [(''id'', row_val s ''user_id'')] w = (Inr (record_of User q), w)" if "row_val s ''user_id'' \<noteq> VNone"
    using owner(1) [OF that] by auto
  have e: "\<exists>q. find_one Esc [(''id'', row_val s ''esc_id'')] w = (Inr (record_of Esc q), w)" if "row_val s ''esc_id'' \<noteq> VNone"
    using owner(2) [OF that] by auto
  have f: "\<exists>q. find_one JobFamily [(''id'', row_val s ''job_family_id'')] w = (Inr (record_of JobFamily q), w)"
    if "row_val s ''job_family_id'' \<noteq> VNone"
    using owner(3) [OF that] by auto
  show "\<exists>n. get_subject_name_from_auth_subject o' w = (Inr n, w)"
    using u e f assms(3) by (auto simp: get_subject_name_from_auth_subject_def assms(4) owned_def py_run)
  show "\<exists>st. get_subject_type_from_auth_subject o' w = (Inr st, w)"
    using assms(3) by (auto simp: get_subject_type_from_auth_subject_def assms(4) owned_def py_run)
  show "\<exists>d. get_description_from_auth_subject o' w = (Inr d, w)"
    using u e f assms(3) by (auto simp: get_description_from_auth_subject_def assms(4) owned_def py_run)
qed

section \<open>Regenerated tokens\<close>

definition fresh_token :: "'x server_scheme \<Rightarrow> string \<Rightarrow> string \<Rightarrow> string \<Rightarrow> nat \<Rightarrow> row \<Rightarrow> row" where
  "fresh_token w key name stype n r = dict_update r [
     (''token'', VStr (jwt_encode w (payload_to_dict \<lparr>tp_seed = uuid_of w n, tp_subject = name, tp_subject_type = stype,
         tp_scopes = None\<rparr>) key)),
     (''last_use_time'', VNone)]"

lemma token_plain:
  "plain_column AuthToken ''token''" "plain_column AuthToken ''last_use_time''"
  "has_type (col_type AuthToken ''token'') (VStr s)" "has_type (col_type AuthToken ''last_use_time'') VNone"
  "has_type (col_type AuthToken ''last_use_time'') (VDt t)"
  by (simp_all add: plain_column_def meta_eval unique_keys_def has_type_def col_type_def nullable_def)

lemma subject_name_same:
  assumes "wf w" and "wf w1" and "\<forall>t. t \<noteq> AuthToken \<longrightarrow> db w1 t = db w t"
  shows "get_subject_name_from_auth_subject o' w1 = (fst (get_subject_name_from_auth_subject o' w), w1)"
proof -
  have "find_one t [(''id'', v)] w1 = (fst (find_one t [(''id'', v)] w), w1)" if "t \<noteq> AuthToken" "pk t = ''id''" for t v
    using that assms pk_in_fields [of t] by (simp add: run_find_one)
  then show ?thesis
    by (auto simp: get_subject_name_from_auth_subject_def py_run split: sum.splits prod.splits)
qed

text \<open>The states in which the tokens of a subject can be generated: its name and its type are known.\<close>

definition ready :: "robj \<Rightarrow> string \<Rightarrow> string \<Rightarrow> AuthSubjectType \<Rightarrow> 'x server_scheme \<Rightarrow> bool" where
  "ready o' key name st w \<longleftrightarrow> wf w \<and> environ w ''AUTH_KEY'' = Some key
     \<and> get_subject_name_from_auth_subject o' w = (Inr name, w) \<and> get_subject_type_from_auth_subject o' w = (Inr st, w)"

lemma subject_type_same: "get_subject_type_from_auth_subject o' w = (Inr st, w) \<Longrightarrow> get_subject_type_from_auth_subject o' w1 = (Inr st, w1)"
  by (auto simp: get_subject_type_from_auth_subject_def py_run split: if_splits)

lemma run_generate:
  assumes "ready o' key name st w"
  shows "generate_jwt_token o' w = (Inr (jwt_encode w (payload_to_dict \<lparr>tp_seed = uuid_of w (uuid_count w), tp_subject = name,
      tp_subject_type = subject_type_value st, tp_scopes = None\<rparr>) key), w\<lparr>uuid_count := Suc (uuid_count w)\<rparr>)"
  using assms by (simp add: generate_jwt_token_def ready_def py_run new_uuid_def environ_required_def encode_jwt_def)

lemma run_regenerate_token:
  assumes "ready o' key name st w" and "r \<in> set (db w AuthToken)"
    and "w1 = w\<lparr>uuid_count := Suc (uuid_count w),
           db := replace_row (db w) AuthToken r (fresh_token w key name (subject_type_value st) (uuid_count w) r)\<rparr>"
  shows "regenerate_token o' (record_of AuthToken r) w = (Inr (), w1)" and "ready o' key name st w1"
proof -
  let ?w = "w\<lparr>uuid_count := Suc (uuid_count w)\<rparr>"
  let ?r = "fresh_token w key name (subject_type_value st) (uuid_count w) r"
  let ?o = "\<lparr>rtype = AuthToken, attrs = ?r, original_fields = Some r\<rparr>"
  have w: "wf ?w" using assms(1) by (simp add: ready_def)
  have up: "update_record ?o True ?w = (Inr (record_of AuthToken ?r), w1)"
    unfolding fresh_token_def assms(3)
    by (subst run_update_plain [OF w]) (use assms(2) in \<open>simp_all add: token_plain\<close>)
  have o: "set_attr ''last_use_time'' VNone (set_attr ''token'' (VStr (jwt_encode w (payload_to_dict
      \<lparr>tp_seed = uuid_of w (uuid_count w), tp_subject = name, tp_subject_type = subject_type_value st, tp_scopes = None\<rparr>) key))
      (record_of AuthToken r)) = ?o"
    by (simp add: set_attr_def record_of_def fresh_token_def)
  show "regenerate_token o' (record_of AuthToken r) w = (Inr (), w1)"
    using run_generate [OF assms(1)] up by (simp add: regenerate_token_def py_run o)
  have w1: "wf w1" by (rule keeps_wf_run [OF keeps_writes(3) w up])
  have "\<forall>t. t \<noteq> AuthToken \<longrightarrow> db w1 t = db w t" by (simp add: assms(3) replace_row_def)
  from subject_name_same [OF _ w1 this] w1 assms(1,3) show "ready o' key name st w1"
    by (auto simp: ready_def intro: subject_type_same)
qed

lemma run_regenerate_loop:
  assumes "ready o' key name st w" and "distinct rs" and "set rs \<subseteq> set (db w AuthToken)"
  shows "\<exists>w'. for_each (map (record_of AuthToken) rs) (regenerate_token o') w = (Inr (), w') \<and> wf w'
    \<and> (\<forall>t. t \<noteq> AuthToken \<longrightarrow> db w' t = db w t)
    \<and> list_all2 (\<lambda>r r'. if r \<in> set rs then \<exists>n \<ge> uuid_count w. r' = fresh_token w key name (subject_type_value st) n r else r' = r)
        (db w AuthToken) (db w' AuthToken)"
  using assms
proof (induction rs arbitrary: w)
  case Nil
  then show ?case by (simp add: py_run ready_def list_all2_same)
next
  case (Cons r rs)
  let ?new = "fresh_token w key name (subject_type_value st) (uuid_count w) r"
  define w1 where "w1 = w\<lparr>uuid_count := Suc (uuid_count w), db := replace_row (db w) AuthToken r ?new\<rparr>"
  have wf: "wf w" using Cons.prems(1) by (simp add: ready_def)
  have r: "r \<in> set (db w AuthToken)" "r \<notin> set rs" "distinct rs" using Cons.prems by auto
  note step = run_regenerate_token [OF Cons.prems(1) r(1) w1_def]
  have d1: "db w1 AuthToken = map (\<lambda>q. if q = r then ?new else q) (db w AuthToken)"
    by (simp add: w1_def replace_row_def)
  then have sub: "set rs \<subseteq> set (db w1 AuthToken)" using Cons.prems(3) r(2) by auto
  have same_key: "row_val ?new (pk AuthToken) = row_val r (pk AuthToken)" by (simp add: fresh_token_def)
  have new: "?new \<notin> set rs"
  proof
    assume n: "?new \<in> set rs"
    then have "?new = r" using pk_identifies [OF wf _ r(1) same_key] Cons.prems(3) by auto
    with n r(2) show False by simp
  qed
  from Cons.IH [OF step(2) r(3) sub] obtain w' where
    w': "for_each (map (record_of AuthToken) rs) (regenerate_token o') w1 = (Inr (), w')" "wf w'"
    and other: "\<forall>t. t \<noteq> AuthToken \<longrightarrow> db w' t = db w1 t"
    and rel: "list_all2 (\<lambda>q q'. if q \<in> set rs then \<exists>n \<ge> uuid_count w1. q' = fresh_token w1 key name (subject_type_value st) n q
        else q' = q) (db w1 AuthToken) (db w' AuthToken)" by blast
  have fresh: "fresh_token w1 key name (subject_type_value st) n q = fresh_token w key name (subject_type_value st) n q" for n q
    by (simp add: fresh_token_def w1_def)
  have "list_all2 (\<lambda>q q'. if q \<in> set (r # rs) then \<exists>n \<ge> uuid_count w. q' = fresh_token w key name (subject_type_value st) n q
      else q' = q) (db w AuthToken) (db w' AuthToken)"
    using rel unfolding d1 list_all2_map1 fresh
    by (rule list_all2_mono) (use new r(2) in \<open>auto simp: w1_def split: if_splits intro: le_SucI dest: Suc_leD\<close>)
  with w' other step(1) show ?case
    by (auto simp: py_run w1_def replace_row_def)
qed

text \<open>
  Regenerating the tokens of a subject succeeds on a well-formed database when the signing key is
  set: every token of the subject gets a newly signed text (with a seed not used before) and an empty
  time of last use, and no other row of any table changes.
\<close>
lemma regenerate_auth_tokens_replaces:
  assumes "wf w" and "s \<in> set (db w AuthSubject)" and "owned s" and "environ w ''AUTH_KEY'' = Some key"
  shows "\<exists>w' name stype. regenerate_auth_tokens (record_of AuthSubject s) w = (Inr (), w') \<and> wf w'
    \<and> (\<forall>t. t \<noteq> AuthToken \<longrightarrow> db w' t = db w t)
    \<and> list_all2 (\<lambda>r r'. if row_val r ''auth_subject_id'' = row_val s ''id''
          then \<exists>n \<ge> uuid_count w. r' = fresh_token w key name stype n r else r' = r)
        (db w AuthToken) (db w' AuthToken)"
proof -
  have a: "attrs (record_of AuthSubject s) = s" by (simp add: record_of_def)
  obtain name st where ready: "ready (record_of AuthSubject s) key name st w"
    using run_subject_names(1,2) [OF assms(1-3) a] assms(1,4) by (auto simp: ready_def)
  let ?rs = "filter (key_filter [(''auth_subject_id'', row_val s ''id'')]) (db w AuthToken)"
  have "row_val s ''id'' \<noteq> VNone" using pk_not_null [OF assms(1,2)] by simp
  then have mine: "key_filter [(''auth_subject_id'', row_val s ''id'')] r \<longleftrightarrow> row_val r ''auth_subject_id'' = row_val s ''id''" for r
    by (auto simp: key_filter_def)
  have "distinct (db w AuthToken)" using unique_pk [OF db_okD(2) [OF assms(1)], of AuthToken] by (simp add: distinct_map)
  then obtain w' where loop: "for_each (map (record_of AuthToken) ?rs) (regenerate_token (record_of AuthSubject s)) w = (Inr (), w')"
    "wf w'" "\<forall>t. t \<noteq> AuthToken \<longrightarrow> db w' t = db w t"
    "list_all2 (\<lambda>r r'. if r \<in> set ?rs then \<exists>n \<ge> uuid_count w. r' = fresh_token w key name (subject_type_value st) n r else r' = r)
        (db w AuthToken) (db w' AuthToken)"
    using run_regenerate_loop [OF ready, of ?rs] by auto
  have "find_many AuthToken None [(''auth_subject_id'', row_val s ''id'')] w = (Inr (map (record_of AuthToken) ?rs), w)"
    by (subst run_find_many [OF assms(1)]) (simp_all add: meta_eval order_columns_def order_rows_def)
  then have "regenerate_auth_tokens (record_of AuthSubject s) w = (Inr (), w')"
    using loop(1) by (simp add: regenerate_auth_tokens_def py_run a)
  moreover have "list_all2 (\<lambda>r r'. if row_val r ''auth_subject_id'' = row_val s ''id''
      then \<exists>n \<ge> uuid_count w. r' = fresh_token w key name (subject_type_value st) n r else r' = r) (db w AuthToken) (db w' AuthToken)"
    using loop(4) by (rule list.rel_mono_strong) (auto simp: mine)
  ultimately show ?thesis using loop(2,3) by blast
qed

lemma regenerate_auth_tokens_replaces_witness:
  "\<exists>w' n name stype. regenerate_auth_tokens (record_of AuthSubject (sample_db AuthSubject ! 1)) sample_server = (Inr (), w')
     \<and> db w' AuthToken = [fresh_token sample_server ''key'' name stype n (hd (sample_db AuthToken))]"
proof -
  have "sample_db AuthSubject ! 1 \<in> set (db sample_server AuthSubject)" "owned (sample_db AuthSubject ! 1)"
    "environ sample_server ''AUTH_KEY'' = Some ''key''"
    by (simp_all add: owned_def row_val_def)
  from regenerate_auth_tokens_replaces [OF sample_server_ok this] show ?thesis
    by (auto simp: row_val_def list_all2_Cons1 fresh_token_def)
qed

end
