(* ===== verification/Authorize.thy ===== *)
theory Authorize
  imports Subject "HOL-Library.Product_Lexorder"
begin

text \<open>
  Authorization (\<open>lifecycle/auth/authorize.py\<close>): which subject may access which job within which scope,
  decided by queries that join the permissions with the jobs and the families they name.
\<close>

section \<open>Checks without the database\<close>

definition the_default :: "'a \<Rightarrow> 'a option \<Rightarrow> 'a" where
  "the_default d x = (case x of None \<Rightarrow> d | Some y \<Rightarrow> y)"

definition authorize_subject_type :: "AuthTokenPayload \<Rightarrow> AuthSubjectType list \<Rightarrow> ('x, unit) svm" where
  "authorize_subject_type token_payload allowed_types =
     (let allowed_type_values = map subject_type_value allowed_types
      in if tp_subject_type token_payload \<notin> set allowed_type_values then
           raise (UnauthorizedError ''wrong subject type to do this operation''
             (''auth subject type '' @ tp_subject_type token_payload @ '' is not one of required types: ''
                @ join '', '' allowed_type_values))
         else ret ())"

definition authorize_internal_token :: "AuthTokenPayload \<Rightarrow> string option \<Rightarrow> ('x, unit) svm" where
  "authorize_internal_token token_payload scope =
     (case tp_scopes token_payload of
        None \<Rightarrow> ret ()
      | Some scopes \<Rightarrow>
          if scopes = [] then ret ()
          else if scope_value FULL_ACCESS \<in> set scopes then ret ()
          else if scope \<notin> Some ` set scopes then
            raise (UnauthorizedError (''no permission to do this operation, scope '' @ the_default ''None'' scope @ '' is required'')
              (''internal token does not have permission with scope '' @ the_default ''None'' scope))
          else ret ())"

section \<open>Permissions\<close>

definition permission_joins :: "left_join list" where
  "permission_joins = [(JobFamily, ''id'', AuthResourcePermission, ''job_family_id''),
     (Job, ''id'', AuthResourcePermission, ''job_id'')]"

definition subject_filter :: "robj \<Rightarrow> QueryCondition" where
  "subject_filter auth_subject =
     query_condition (Cmp (Qual AuthResourcePermission ''auth_subject_id'') CmpEq) [attr auth_subject ''id'']"

definition job_name_filter :: "string \<Rightarrow> QueryCondition" where
  "job_name_filter name = operator_or [query_condition (Cmp (Qual JobFamily ''name'') CmpEq) [VStr name],
     query_condition (IsNull (Qual AuthResourcePermission ''job_family_id'')) []]"

definition job_version_filter :: "string \<Rightarrow> QueryCondition" where
  "job_version_filter version = operator_or [query_condition (Cmp (Qual Job ''version'') CmpEq) [VStr version],
     query_condition (IsNull (Qual AuthResourcePermission ''job_id'')) []]"

definition endpoint_filter :: "string \<Rightarrow> QueryCondition" where
  "endpoint_filter endpoint = operator_or [query_condition (Cmp (Qual AuthResourcePermission ''endpoint'') CmpEq) [VStr endpoint],
     query_condition (IsNull (Qual AuthResourcePermission ''endpoint'')) []]"

definition scope_filter :: "colref \<Rightarrow> string \<Rightarrow> QueryCondition" where
  "scope_filter column scope = operator_or [query_condition (Cmp column CmpEq) [VStr scope],
     query_condition (Cmp column CmpEq) [VStr (scope_value FULL_ACCESS)]]"

definition has_endpoint_permission :: "robj \<Rightarrow> string \<Rightarrow> string \<Rightarrow> string \<Rightarrow> string \<Rightarrow> ('x, bool) svm" where
  "has_endpoint_permission auth_subject name version endpoint scope =
     exists_on_condition AuthResourcePermission
       (operator_and [subject_filter auth_subject,
          operator_and [job_name_filter name, job_version_filter version, endpoint_filter endpoint],
          scope_filter (Qual AuthResourcePermission ''scope'') scope])
       permission_joins"

definition has_resource_permission :: "robj \<Rightarrow> string \<Rightarrow> string \<Rightarrow> string \<Rightarrow> ('x, bool) svm" where
  "has_resource_permission auth_subject name version scope =
     exists_on_condition AuthResourcePermission
       (operator_and [subject_filter auth_subject,
          operator_and [job_name_filter name, job_version_filter version],
          scope_filter (Qual AuthResourcePermission ''scope'') scope])
       permission_joins"

definition has_scope_permission :: "robj \<Rightarrow> string \<Rightarrow> ('x, bool) svm" where
  "has_scope_permission auth_subject scope =
     exists_on_condition AuthResourcePermission
       (operator_and [subject_filter auth_subject, scope_filter (Qual AuthResourcePermission ''scope'') scope]) []"

definition authorize_resource_access :: "robj \<Rightarrow> string \<Rightarrow> string \<Rightarrow> string \<Rightarrow> string option \<Rightarrow> ('x, unit) svm" where
  "authorize_resource_access auth_subject name version scope endpoint =
     bind (try_except (bind (resolve_job_model name version) (\<lambda>job_model. ret (the_str (attr job_model ''version''))))
             is_EntityNotFound (\<lambda>_. ret [])) (\<lambda>resolved_version.
     case (if endpoint = Some [] then None else endpoint) of
       Some e \<Rightarrow>
         bind (has_endpoint_permission auth_subject name resolved_version e scope) (\<lambda>ok.
         if \<not> ok then
           bind (get_description_from_auth_subject auth_subject) (\<lambda>subject_info.
           raise (UnauthorizedError ''no permission to do this operation''
             (''auth subject '' @ subject_info @ '' does not have permission to access endpoint '' @ e @ '' at resource ''
                @ name @ '' v'' @ resolved_version @ '' with scope '' @ scope)))
         else ret ())
     | None \<Rightarrow>
         bind (has_resource_permission auth_subject name resolved_version scope) (\<lambda>ok.
         if \<not> ok then
           bind (get_description_from_auth_subject auth_subject) (\<lambda>subject_info.
           raise (UnauthorizedError ''no permission to do this operation''
             (''auth subject '' @ subject_info @ '' does not have permission to access resource ''
                @ name @ '' v'' @ resolved_version @ '' with scope '' @ scope)))
         else ret ()))"

definition authorize_scope_access :: "robj \<Rightarrow> string \<Rightarrow> ('x, unit) svm" where
  "authorize_scope_access auth_subject scope =
     bind (has_scope_permission auth_subject scope) (\<lambda>ok.
     if \<not> ok then
       bind (get_description_from_auth_subject auth_subject) (\<lambda>subject_info.
       raise (UnauthorizedError (''permission scope '' @ scope @ '' is required to do this operation'')
         (''auth subject '' @ subject_info @ '' does not have permission with scope '' @ scope)))
     else ret ())"

section \<open>Permitted jobs and families\<close>

definition subject_permissions :: "robj \<Rightarrow> string \<Rightarrow> ('x, robj list) svm" where
  "subject_permissions auth_subject scope =
     filter_records AuthResourcePermission
       (operator_and [query_condition (Cmp (Bare ''auth_subject_id'') CmpEq) [attr auth_subject ''id''],
          scope_filter (Bare ''scope'') scope]) [] None None"

text \<open>A Python set of identifiers, in the order of insertion.\<close>

definition set_add :: "'a \<Rightarrow> 'a list \<Rightarrow> 'a list" where
  "set_add x s = (if x \<in> set s then s else s @ [x])"

text \<open>The jobs of a family, as \<open>defaultdict(list)\<close> collects them by the name of the job.\<close>

definition family_to_job_ids :: "JobDto list \<Rightarrow> string \<Rightarrow> string option list" where
  "family_to_job_ids all_jobs family = map job_id (filter (\<lambda>job. job_name job = family) all_jobs)"

text \<open>The loop over the permissions; None is the early return of all jobs.\<close>

fun permitted_job_ids :: "JobDto list \<Rightarrow> robj list \<Rightarrow> string option list \<Rightarrow> string option list option" where
  "permitted_job_ids all_jobs [] job_ids = Some job_ids"
| "permitted_job_ids all_jobs (permission # permissions) job_ids =
     (if attr permission ''job_family_id'' = VNone \<and> attr permission ''job_id'' = VNone then None
      else let ids1 = (if attr permission ''job_id'' \<noteq> VNone then set_add (opt_str (attr permission ''job_id'')) job_ids else job_ids);
               ids2 = (if attr permission ''job_family_id'' \<noteq> VNone
                       then fold set_add (family_to_job_ids all_jobs (the_str (attr permission ''job_family_id''))) ids1 else ids1)
           in permitted_job_ids all_jobs permissions ids2)"

fun lookup_all :: "(string, 'a) dict \<Rightarrow> string option list \<Rightarrow> exn + 'a list" where
  "lookup_all d [] = Inr []"
| "lookup_all d (k # ks) =
     (case Option.bind k (map_of d) of
        None \<Rightarrow> Inl (KeyError (case k of None \<Rightarrow> ''None'' | Some i \<Rightarrow> py_repr i))
      | Some x \<Rightarrow> (case lookup_all d ks of Inl e \<Rightarrow> Inl e | Inr xs \<Rightarrow> Inr (x # xs)))"

definition list_permitted_jobs :: "robj \<Rightarrow> string \<Rightarrow> JobDto list \<Rightarrow> ('x, JobDto list) svm" where
  "list_permitted_jobs auth_subject scope all_jobs =
     bind (subject_permissions auth_subject scope) (\<lambda>permissions.
     let id_to_job = dict_of (map (\<lambda>job. (the_default [] (job_id job), job)) all_jobs)
     in case permitted_job_ids all_jobs permissions [] of
          None \<Rightarrow> ret all_jobs
        | Some job_ids \<Rightarrow>
            bind (lift (lookup_all id_to_job job_ids)) (\<lambda>jobs.
            ret (sort_key (\<lambda>job. (job_name job, job_version job)) jobs)))"

fun permitted_family_ids :: "robj list \<Rightarrow> string option list \<Rightarrow> string option list option" where
  "permitted_family_ids [] family_ids = Some family_ids"
| "permitted_family_ids (permission # permissions) family_ids =
     (if attr permission ''job_family_id'' = VNone \<and> attr permission ''job_id'' = VNone then None
      else permitted_family_ids permissions
        (if attr permission ''job_family_id'' \<noteq> VNone then set_add (opt_str (attr permission ''job_family_id'')) family_ids
         else family_ids))"

definition list_permitted_families :: "robj \<Rightarrow> string \<Rightarrow> JobFamilyDto list \<Rightarrow> ('x, JobFamilyDto list) svm" where
  "list_permitted_families auth_subject scope all_families =
     bind (subject_permissions auth_subject scope) (\<lambda>permissions.
     let id_to_family = dict_of (map (\<lambda>f. (the_default [] (jf_id f), f)) all_families)
     in case permitted_family_ids permissions [] of
          None \<Rightarrow> ret all_families
        | Some family_ids \<Rightarrow>
            bind (lift (lookup_all id_to_family family_ids)) (\<lambda>families. ret (sort_key jf_name families)))"

section \<open>Granting\<close>

definition given :: "string option \<Rightarrow> bool" where
  "given s \<longleftrightarrow> s \<noteq> None \<and> s \<noteq> Some []"

definition resource_filter :: "string option \<Rightarrow> string option \<Rightarrow> QueryCondition" where
  "resource_filter name version =
     (if given name \<and> given version then
        operator_and [query_condition (Cmp (Qual Job ''name'') CmpEq) [VStr (the name)],
          query_condition (Cmp (Qual Job ''version'') CmpEq) [VStr (the version)]]
      else if given name then
        operator_and [query_condition (Cmp (Qual JobFamily ''name'') CmpEq) [VStr (the name)],
          query_condition (IsNull (Qual AuthResourcePermission ''job_id'')) []]
      else
        operator_and [query_condition (IsNull (Qual AuthResourcePermission ''job_family_id'')) [],
          query_condition (IsNull (Qual AuthResourcePermission ''job_id'')) []])"

definition permission_exists :: "robj \<Rightarrow> string option \<Rightarrow> string option \<Rightarrow> string \<Rightarrow> ('x, bool) svm" where
  "permission_exists auth_subject name version scope =
     exists_on_condition AuthResourcePermission
       (operator_and [subject_filter auth_subject, resource_filter name version,
          query_condition (Cmp (Qual AuthResourcePermission ''scope'') CmpEq) [VStr scope]])
       permission_joins"

definition permission_row :: "val \<Rightarrow> val \<Rightarrow> string \<Rightarrow> val \<Rightarrow> val \<Rightarrow> row" where
  "permission_row ident subject_id scope family job = [
     (''id'', ident), (''auth_subject_id'', subject_id), (''scope'', VStr scope), (''job_family_id'', family),
     (''job_id'', job), (''endpoint'', VNone)]"

text \<open>The row a grant writes, by the resource that is named.\<close>

definition grant_row :: "robj \<Rightarrow> string option \<Rightarrow> string option \<Rightarrow> string \<Rightarrow> ('x, row) svm" where
  "grant_row auth_subject name version scope =
     (if given name \<and> given version then
        bind (find_one Job [(''name'', VStr (the name)), (''version'', VStr (the version))]) (\<lambda>job_model.
        ret (permission_row VNone (attr auth_subject ''id'') scope VNone (attr job_model ''id'')))
      else if given name then
        bind (find_one JobFamily [(''name'', VStr (the name))]) (\<lambda>job_family_model.
        ret (permission_row VNone (attr auth_subject ''id'') scope (attr job_family_model ''id'') VNone))
      else ret (permission_row VNone (attr auth_subject ''id'') scope VNone VNone))"

definition grant_permission :: "robj \<Rightarrow> string option \<Rightarrow> string option \<Rightarrow> string \<Rightarrow> ('x, unit) svm" where
  "grant_permission auth_subject name version scope =
     bind (permission_exists auth_subject name version scope) (\<lambda>found.
     if found then seq (get_description_from_auth_subject auth_subject) (ret ())
     else bind (grant_row auth_subject name version scope) (\<lambda>permission.
       seq (create_record (new_record AuthResourcePermission permission))
           (seq (get_description_from_auth_subject auth_subject) (ret ()))))"

end
