(* ===== verification/AutoIds.thy ===== *)
theory AutoIds
  imports RowChanges
begin

text \<open>
  Rows that the database numbers (users and permissions): the sequence of a table gives the next
  identifier, and a record without one is stored under it.
\<close>

definition next_id :: "'x world_scheme \<Rightarrow> table \<Rightarrow> int" where
  "next_id w t = last_id w t + 1"

text \<open>The sequence is ahead of the identifiers in use.\<close>

definition sequence_ok :: "'x world_scheme \<Rightarrow> table \<Rightarrow> bool" where
  "sequence_ok w t \<longleftrightarrow> (\<forall>r \<in> set (db w t). \<forall>i. row_val r (pk t) = VInt i \<longrightarrow> i < next_id w t)"

lemma run_insert_auto:
  assumes "wf w" and "auto_id t" and "row_ok t r" and "row_val r (pk t) = VInt (next_id w t)"
    and "\<And>c. c \<noteq> pk t \<Longrightarrow> map_of data c = map_of r c" and "pk t \<notin> set (keys data)" and "set (keys data) \<subseteq> set (table_fields t)"
  shows "insert_one t data [pk t] w =
    (if insertable (db w) t r
     then (Inr [(pk t, VInt (next_id w t))], w\<lparr>last_id := (last_id w)(t := next_id w t), db := add_row (db w) t r\<rparr>)
     else (Inl integrity_error, w\<lparr>last_id := (last_id w)(t := next_id w t)\<rparr>))"
proof -
  have none: "map_of data (pk t) = None" using assms(6) by (simp add: map_of_eq_None_iff)
  have "full_row t (next_id w t) data = project (table_fields t) r"
    unfolding full_row_def project_def using assms(2,4,5) none by (auto simp: row_ok_map_of [OF assms(3)])
  then have full: "full_row t (last_id w t + 1) data = r" by (simp add: project_row [OF assms(3)] next_id_def)
  show ?thesis
    using assms(2,4,6,7) pk_in_fields [of t] fk_add_row [OF db_okD(3) [OF assms(1)], of t r] db_okD(3) [OF assms(1)]
    by (simp add: insert_one_def execute_sql_fetch_one_def with_connection_def py_run Let_def full
        store_row [OF assms(3)] insertable_def project_def add_row_def next_id_def)
qed

lemma run_create_auto:
  assumes "wf w" and "auto_id t" and "primary_key_generator (meta t) = None" and "rest_ok t r" and "row_val r (pk t) = VNone"
    and "has_type (col_type t (pk t)) (VInt (next_id w t))" and "r' = with_pk t (VInt (next_id w t)) r"
  shows "create_record (new_record t r) w =
    (if insertable (db w) t r'
     then (Inr (new_record t r'), w\<lparr>last_id := (last_id w)(t := next_id w t), db := add_row (db w) t r'\<rparr>)
     else (Inl integrity_error, w\<lparr>last_id := (last_id w)(t := next_id w t)\<rparr>))"
proof -
  have ok: "row_ok t r'" unfolding assms(7) by (rule with_pk_ok [OF assms(4,6)]) simp
  have "pk t \<notin> set (keys (dict_del (pk t) r))" "set (keys (dict_del (pk t) r)) \<subseteq> set (table_fields t)"
    using assms(4) by (auto simp: rest_ok_def delete_keys)
  moreover have "\<And>c. c \<noteq> pk t \<Longrightarrow> map_of (dict_del (pk t) r) c = map_of r' c"
    by (simp add: assms(7) with_pk_def)
  moreover have "row_val r' (pk t) = VInt (next_id w t)" by (simp add: assms(7) with_pk_def)
  ultimately have "insert_one t (dict_del (pk t) r) [pk t] w =
    (if insertable (db w) t r'
     then (Inr [(pk t, VInt (next_id w t))], w\<lparr>last_id := (last_id w)(t := next_id w t), db := add_row (db w) t r'\<rparr>)
     else (Inl integrity_error, w\<lparr>last_id := (last_id w)(t := next_id w t)\<rparr>))"
    by (intro run_insert_auto [OF assms(1,2) ok]) auto
  then show ?thesis
    using assms(3,5) extract_rest [OF assms(4)] project_rest [OF assms(4)]
    by (simp add: create_record_def py_run supplement_primary_key_def new_record_def assms(7) with_pk_def)
qed

lemma insertable_auto:
  assumes "wf w" and "unique_keys t = [[pk t]]" and "sequence_ok w t" and "row_val r (pk t) = VInt (next_id w t)"
    and "targets_ok (db w) t r"
  shows "insertable (db w) t r"
proof -
  have "VInt (next_id w t) \<noteq> row_val q (pk t)" if "q \<in> set (db w t)" for q
    using assms(3) that unfolding sequence_ok_def by (metis less_irrefl)
  then show ?thesis
    using db_okD(2) [OF assms(1), of t] assms(5)
    by (auto simp: insertable_def unique_ok_def assms(2,4) key_of_def)
qed

end
