(* ===== verification/AuthorizeLaws.thy ===== *)
theory AuthorizeLaws
  imports Authorize AutoIds
begin

text \<open>
  What the permission queries decide, stated on the rows themselves: the joins are eliminated, and the
  operations that grant and check permissions are related to each other.
\<close>

section \<open>The joins\<close>

text \<open>The partners a left join finds for a value: none, or the rows with that key.\<close>

definition partners :: "(table \<Rightarrow> row list) \<Rightarrow> table \<Rightarrow> val \<Rightarrow> row option set" where
  "partners d t v = (let ps = {q \<in> set (d t). row_val q ''id'' = v \<and> v \<noteq> VNone} in if ps = {} then {None} else Some ` ps)"

definition partner_part :: "table \<Rightarrow> row option \<Rightarrow> joined" where
  "partner_part t x = (case x of None \<Rightarrow> [] | Some q \<Rightarrow> [(t, q)])"

definition joined_row :: "row \<Rightarrow> row option \<Rightarrow> row option \<Rightarrow> joined" where
  "joined_row p f j = partner_part Job j @ partner_part JobFamily f @ [(AuthResourcePermission, p)]"

lemma map_of_partner [simp]: "map_of (partner_part t x) t' = (if t = t' then x else None)"
  by (cases x) (auto simp: partner_part_def)

lemma set_join_step:
  "set (join_step d (t, ''id'', AuthResourcePermission, c) js)
     = (\<lambda>x. partner_part t x @ js) ` partners d t (joined_env AuthResourcePermission js (Qual AuthResourcePermission c))"
  by (auto simp: join_step_def partners_def partner_part_def Let_def filter_empty_conv image_iff)

lemma set_permission_joins:
  "set (join_all d permission_joins (map (\<lambda>r. [(AuthResourcePermission, r)]) rows))
     = (\<Union>p \<in> set rows. \<Union>f \<in> partners d JobFamily (row_val p ''job_family_id''). \<Union>j \<in> partners d Job (row_val p ''job_id'').
          {joined_row p f j})"
  by (auto simp: permission_joins_def set_join_step joined_row_def map_add_def)

lemma map_of_joined_row [simp]:
  "map_of (joined_row p f j) AuthResourcePermission = Some p" "map_of (joined_row p f j) JobFamily = f"
  "map_of (joined_row p f j) Job = j"
  by (auto simp: joined_row_def map_add_def split: option.splits)

lemma run_exists_on_condition:
  assumes "aligned c"
  shows "exists_on_condition t c joins w =
    (Inr (\<exists>j \<in> set (join_all (db w) joins (map (\<lambda>r. [(t, r)]) (db w t))). holds (joined_env t j) c), w)"
  using pk_in_fields [of t]
  by (auto simp: exists_on_condition_def py_run run_select_many order_columns_def order_rows_def limit_rows_def matching_def
      where_holds_condition [OF assms] filter_empty_conv)

lemma partners_exists:
  "(\<exists>x \<in> partners d t v. case x of None \<Rightarrow> False | Some q \<Rightarrow> P q) \<longleftrightarrow> v \<noteq> VNone \<and> (\<exists>q \<in> set (d t). row_val q ''id'' = v \<and> P q)"
  by (auto simp: partners_def Let_def)

lemma partners_nonempty: "partners d t v \<noteq> {}"
  by (simp add: partners_def Let_def)

lemma partners_disj:
  "(\<exists>x \<in> partners d t v. b \<or> (case x of None \<Rightarrow> False | Some q \<Rightarrow> P q))
     \<longleftrightarrow> b \<or> (v \<noteq> VNone \<and> (\<exists>q \<in> set (d t). row_val q ''id'' = v \<and> P q))"
  using partners_nonempty [of d t v] partners_exists [of d t v P] by auto

text \<open>A joined row satisfies a condition on the permission, the family and the job separately.\<close>

lemma permission_choice:
  "(\<exists>x \<in> (\<Union>p \<in> S. \<Union>f \<in> F p. \<Union>j \<in> J p. {g p f j}). Q x) \<longleftrightarrow> (\<exists>p \<in> S. \<exists>f \<in> F p. \<exists>j \<in> J p. Q (g p f j))"
  by blast

section \<open>What a permission covers\<close>

definition names_family :: "(table \<Rightarrow> row list) \<Rightarrow> val \<Rightarrow> string \<Rightarrow> bool" where
  "names_family d v name \<longleftrightarrow> v \<noteq> VNone \<and> (\<exists>f \<in> set (d JobFamily). row_val f ''id'' = v \<and> row_val f ''name'' = VStr name)"

definition names_version :: "(table \<Rightarrow> row list) \<Rightarrow> val \<Rightarrow> string \<Rightarrow> bool" where
  "names_version d v version \<longleftrightarrow> v \<noteq> VNone \<and> (\<exists>j \<in> set (d Job). row_val j ''id'' = v \<and> row_val j ''version'' = VStr version)"

definition in_scope :: "row \<Rightarrow> string \<Rightarrow> bool" where
  "in_scope p scope \<longleftrightarrow> row_val p ''scope'' = VStr scope \<or> row_val p ''scope'' = VStr ''full_access''"

definition covers :: "(table \<Rightarrow> row list) \<Rightarrow> row \<Rightarrow> string \<Rightarrow> string \<Rightarrow> bool" where
  "covers d p name version \<longleftrightarrow>
     (row_val p ''job_family_id'' = VNone \<or> names_family d (row_val p ''job_family_id'') name)
   \<and> (row_val p ''job_id'' = VNone \<or> names_version d (row_val p ''job_id'') version)"

definition of_subject :: "robj \<Rightarrow> row \<Rightarrow> bool" where
  "of_subject s p \<longleftrightarrow> row_val p ''auth_subject_id'' = attr s ''id'' \<and> attr s ''id'' \<noteq> VNone"

lemmas filter_defs = subject_filter_def job_name_filter_def job_version_filter_def endpoint_filter_def scope_filter_def

lemma aligned_filters [simp]:
  "aligned (subject_filter s)" "aligned (job_name_filter name)" "aligned (job_version_filter version)"
  "aligned (endpoint_filter endpoint)" "aligned (scope_filter c scope)"
  by (simp_all add: filter_defs aligned_operator_or)

lemma filters_not_empty [simp]:
  "\<not> is_empty (subject_filter s)" "\<not> is_empty (job_name_filter name)" "\<not> is_empty (job_version_filter version)"
  "\<not> is_empty (endpoint_filter endpoint)" "\<not> is_empty (scope_filter c scope)"
  by (simp_all add: filter_defs is_empty_operator remove_empty_def)

lemma holds_filters:
  "holds env (subject_filter s) \<longleftrightarrow> env (Qual AuthResourcePermission ''auth_subject_id'') = attr s ''id'' \<and> attr s ''id'' \<noteq> VNone"
  "holds env (job_name_filter name) \<longleftrightarrow> env (Qual AuthResourcePermission ''job_family_id'') = VNone
     \<or> env (Qual JobFamily ''name'') = VStr name"
  "holds env (job_version_filter version) \<longleftrightarrow> env (Qual AuthResourcePermission ''job_id'') = VNone
     \<or> env (Qual Job ''version'') = VStr version"
  "holds env (endpoint_filter endpoint) \<longleftrightarrow> env (Qual AuthResourcePermission ''endpoint'') = VNone
     \<or> env (Qual AuthResourcePermission ''endpoint'') = VStr endpoint"
  "holds env (scope_filter c scope) \<longleftrightarrow> env c = VStr scope \<or> env c = VStr ''full_access''"
  by (auto simp: filter_defs holds_operator_or remove_empty_def)

lemma case_option_val: "(case f of None \<Rightarrow> VNone | Some q \<Rightarrow> row_val q c) = VStr v \<longleftrightarrow> (case f of None \<Rightarrow> False | Some q \<Rightarrow> row_val q c = VStr v)"
  by (simp split: option.splits)

lemma run_has_resource_permission:
  "has_resource_permission s name version scope w
     = (Inr (\<exists>p \<in> set (db w AuthResourcePermission). of_subject s p \<and> covers (db w) p name version \<and> in_scope p scope), w)"
proof -
  let ?c = "operator_and [subject_filter s, operator_and [job_name_filter name, job_version_filter version],
      scope_filter (Qual AuthResourcePermission ''scope'') scope]"
  have al: "aligned ?c" by (simp add: aligned_operator_and)
  have h: "holds (joined_env AuthResourcePermission (joined_row p f j)) ?c \<longleftrightarrow> of_subject s p \<and> in_scope p scope
      \<and> (row_val p ''job_family_id'' = VNone \<or> (case f of None \<Rightarrow> False | Some q \<Rightarrow> row_val q ''name'' = VStr name))
      \<and> (row_val p ''job_id'' = VNone \<or> (case j of None \<Rightarrow> False | Some q \<Rightarrow> row_val q ''version'' = VStr version))" for p f j
    by (auto simp: condition_simps holds_filters of_subject_def in_scope_def case_option_val)
  have "(\<exists>f \<in> partners (db w) JobFamily (row_val p ''job_family_id''). \<exists>j \<in> partners (db w) Job (row_val p ''job_id'').
      holds (joined_env AuthResourcePermission (joined_row p f j)) ?c)
    \<longleftrightarrow> of_subject s p \<and> covers (db w) p name version \<and> in_scope p scope" for p
    using partners_disj [of "db w" JobFamily "row_val p ''job_family_id''" "row_val p ''job_family_id'' = VNone" "\<lambda>q. row_val q ''name'' = VStr name"]
      partners_disj [of "db w" Job "row_val p ''job_id''" "row_val p ''job_id'' = VNone" "\<lambda>q. row_val q ''version'' = VStr version"]
    unfolding h covers_def names_family_def names_version_def by blast
  then show ?thesis
    unfolding has_resource_permission_def run_exists_on_condition [OF al] set_permission_joins permission_choice by simp
qed

lemma run_has_endpoint_permission:
  "has_endpoint_permission s name version endpoint scope w
     = (Inr (\<exists>p \<in> set (db w AuthResourcePermission). of_subject s p \<and> covers (db w) p name version \<and> in_scope p scope
          \<and> row_val p ''endpoint'' \<in> {VNone, VStr endpoint}), w)"
proof -
  let ?c = "operator_and [subject_filter s, operator_and [job_name_filter name, job_version_filter version, endpoint_filter endpoint],
      scope_filter (Qual AuthResourcePermission ''scope'') scope]"
  have al: "aligned ?c" by (simp add: aligned_operator_and)
  have h: "holds (joined_env AuthResourcePermission (joined_row p f j)) ?c \<longleftrightarrow> of_subject s p \<and> in_scope p scope
      \<and> row_val p ''endpoint'' \<in> {VNone, VStr endpoint}
      \<and> (row_val p ''job_family_id'' = VNone \<or> (case f of None \<Rightarrow> False | Some q \<Rightarrow> row_val q ''name'' = VStr name))
      \<and> (row_val p ''job_id'' = VNone \<or> (case j of None \<Rightarrow> False | Some q \<Rightarrow> row_val q ''version'' = VStr version))" for p f j
    by (auto simp: condition_simps holds_filters of_subject_def in_scope_def case_option_val)
  have "(\<exists>f \<in> partners (db w) JobFamily (row_val p ''job_family_id''). \<exists>j \<in> partners (db w) Job (row_val p ''job_id'').
      holds (joined_env AuthResourcePermission (joined_row p f j)) ?c)
    \<longleftrightarrow> of_subject s p \<and> covers (db w) p name version \<and> in_scope p scope \<and> row_val p ''endpoint'' \<in> {VNone, VStr endpoint}" for p
    using partners_disj [of "db w" JobFamily "row_val p ''job_family_id''" "row_val p ''job_family_id'' = VNone" "\<lambda>q. row_val q ''name'' = VStr name"]
      partners_disj [of "db w" Job "row_val p ''job_id''" "row_val p ''job_id'' = VNone" "\<lambda>q. row_val q ''version'' = VStr version"]
    unfolding h covers_def names_family_def names_version_def by blast
  then show ?thesis
    unfolding has_endpoint_permission_def run_exists_on_condition [OF al] set_permission_joins permission_choice by simp
qed

lemma run_has_scope_permission:
  "has_scope_permission s scope w
     = (Inr (\<exists>p \<in> set (db w AuthResourcePermission). of_subject s p \<and> in_scope p scope), w)"
proof -
  let ?c = "operator_and [subject_filter s, scope_filter (Qual AuthResourcePermission ''scope'') scope]"
  have al: "aligned ?c" by (simp add: aligned_operator_and)
  show ?thesis
    unfolding has_scope_permission_def run_exists_on_condition [OF al]
    by (auto simp: condition_simps holds_filters of_subject_def in_scope_def)
qed

text \<open>
  C15. The permission queries decide access as follows, on every database: a permission row of the
  subject, in the requested scope or in the full scope, grants access when its family reference is
  empty or names the family and its job reference is empty or names a job of the requested version;
  with an endpoint, its endpoint must be empty or the requested one. The queries change nothing.
\<close>
theorem permission_queries_decide:
  "has_resource_permission s name version scope w
     = (Inr (\<exists>p \<in> set (db w AuthResourcePermission). of_subject s p \<and> covers (db w) p name version \<and> in_scope p scope), w)
   \<and> has_endpoint_permission s name version endpoint scope w
     = (Inr (\<exists>p \<in> set (db w AuthResourcePermission). of_subject s p \<and> covers (db w) p name version \<and> in_scope p scope
          \<and> row_val p ''endpoint'' \<in> {VNone, VStr endpoint}), w)
   \<and> has_scope_permission s scope w
     = (Inr (\<exists>p \<in> set (db w AuthResourcePermission). of_subject s p \<and> in_scope p scope), w)"
  by (simp add: run_has_resource_permission run_has_endpoint_permission run_has_scope_permission)

section \<open>Checking access\<close>

text \<open>The version a request refers to: that of the job it resolves to, or the empty one.\<close>

definition resolves_to :: "string \<Rightarrow> string \<Rightarrow> 'x server_scheme \<Rightarrow> string \<Rightarrow> bool" where
  "resolves_to name version w v \<longleftrightarrow>
     (\<exists>r. resolve_job_model name version w = (Inr (record_of Job r), w) \<and> v = the_str (row_val r ''version''))
   \<or> (\<exists>msg. resolve_job_model name version w = (Inl (EntityNotFound msg), w) \<and> v = [])"

lemma record_of_attrs [simp]: "attrs (record_of t r) = r" "rtype (record_of t r) = t"
  by (simp_all add: record_of_def)

text \<open>
  C34. Access of a subject to a job is allowed exactly when it has a permission for the version the
  request resolves to; otherwise an \<open>UnauthorizedError\<close> is raised. Nothing is changed either way. The
  scope check behaves in the same way.
\<close>
theorem authorize_access_sound:
  assumes "wf w" and "s \<in> set (db w AuthSubject)" and "owned s" and "resolves_to name version w v"
  shows "(if \<exists>p \<in> set (db w AuthResourcePermission). of_subject (record_of AuthSubject s) p \<and> covers (db w) p name v \<and> in_scope p scope
      then authorize_resource_access (record_of AuthSubject s) name version scope None w = (Inr (), w)
      else \<exists>d. authorize_resource_access (record_of AuthSubject s) name version scope None w
             = (Inl (UnauthorizedError ''no permission to do this operation'' d), w))
    \<and> (if \<exists>p \<in> set (db w AuthResourcePermission). of_subject (record_of AuthSubject s) p \<and> in_scope p scope
      then authorize_scope_access (record_of AuthSubject s) scope w = (Inr (), w)
      else \<exists>c d. authorize_scope_access (record_of AuthSubject s) scope w = (Inl (UnauthorizedError c d), w))"
proof -
  obtain d where d: "get_description_from_auth_subject (record_of AuthSubject s) w = (Inr d, w)"
    using run_subject_names(3) [OF assms(1-3), of "record_of AuthSubject s"] by auto
  have res: "try_except (bind (resolve_job_model name version) (\<lambda>job_model. ret (the_str (attr job_model ''version''))))
      is_EntityNotFound (\<lambda>_. ret []) w = (Inr v, w)"
    using assms(4) by (auto simp: resolves_to_def py_run)
  have "authorize_resource_access (record_of AuthSubject s) name version scope None w
      = (if \<exists>p \<in> set (db w AuthResourcePermission). of_subject (record_of AuthSubject s) p \<and> covers (db w) p name v \<and> in_scope p scope
         then (Inr (), w)
         else (Inl (UnauthorizedError ''no permission to do this operation''
             (''auth subject '' @ d @ '' does not have permission to access resource '' @ name @ '' v'' @ v @ '' with scope '' @ scope)), w))"
    by (simp add: authorize_resource_access_def run_bind res run_has_resource_permission d run_raise run_ret)
  moreover have "authorize_scope_access (record_of AuthSubject s) scope w
      = (if \<exists>p \<in> set (db w AuthResourcePermission). of_subject (record_of AuthSubject s) p \<and> in_scope p scope
         then (Inr (), w)
         else (Inl (UnauthorizedError (''permission scope '' @ scope @ '' is required to do this operation'')
             (''auth subject '' @ d @ '' does not have permission with scope '' @ scope)), w))"
    by (simp add: authorize_scope_access_def run_bind run_has_scope_permission d run_raise run_ret)
  ultimately show ?thesis by (auto split: if_splits)
qed

section \<open>Granting\<close>

text \<open>The permission a grant looks for, the resource it needs, and the rows it may write.\<close>

definition grants :: "(table \<Rightarrow> row list) \<Rightarrow> row \<Rightarrow> string option \<Rightarrow> string option \<Rightarrow> bool" where
  "grants d p name version \<longleftrightarrow>
     (if given name \<and> given version then row_val p ''job_id'' \<noteq> VNone \<and> (\<exists>j \<in> set (d Job). row_val j ''id'' = row_val p ''job_id''
           \<and> row_val j ''name'' = VStr (the name) \<and> row_val j ''version'' = VStr (the version))
      else if given name then names_family d (row_val p ''job_family_id'') (the name) \<and> row_val p ''job_id'' = VNone
      else row_val p ''job_family_id'' = VNone \<and> row_val p ''job_id'' = VNone)"

definition resource_exists :: "(table \<Rightarrow> row list) \<Rightarrow> string option \<Rightarrow> string option \<Rightarrow> bool" where
  "resource_exists d name version \<longleftrightarrow>
     (if given name \<and> given version then \<exists>j \<in> set (d Job). named (the name) (the version) j
      else given name \<longrightarrow> (\<exists>f \<in> set (d JobFamily). row_val f ''name'' = VStr (the name)))"

definition single_resource :: "(table \<Rightarrow> row list) \<Rightarrow> bool" where
  "single_resource d \<longleftrightarrow> (\<forall>p \<in> set (d AuthResourcePermission). row_val p ''job_id'' = VNone \<or> row_val p ''job_family_id'' = VNone)"

lemma resource_filter_simps [simp]: "aligned (resource_filter name version)" "\<not> is_empty (resource_filter name version)"
  by (simp_all add: resource_filter_def aligned_operator_and is_empty_operator remove_empty_def)

lemma holds_resource_filter:
  "holds env (resource_filter name version) \<longleftrightarrow>
     (if given name \<and> given version then env (Qual Job ''name'') = VStr (the name) \<and> env (Qual Job ''version'') = VStr (the version)
      else if given name then env (Qual JobFamily ''name'') = VStr (the name) \<and> env (Qual AuthResourcePermission ''job_id'') = VNone
      else env (Qual AuthResourcePermission ''job_family_id'') = VNone \<and> env (Qual AuthResourcePermission ''job_id'') = VNone)"
  by (auto simp: resource_filter_def holds_operator_and remove_empty_def)

lemma run_permission_exists:
  "permission_exists s name version scope w
     = (Inr (\<exists>p \<in> set (db w AuthResourcePermission). of_subject s p \<and> grants (db w) p name version \<and> row_val p ''scope'' = VStr scope), w)"
proof -
  let ?c = "operator_and [subject_filter s, resource_filter name version,
      query_condition (Cmp (Qual AuthResourcePermission ''scope'') CmpEq) [VStr scope]]"
  have al: "aligned ?c" by (simp add: aligned_operator_and)
  have h: "holds (joined_env AuthResourcePermission (joined_row p f j)) ?c \<longleftrightarrow> of_subject s p \<and> row_val p ''scope'' = VStr scope
      \<and> (if given name \<and> given version then (case j of None \<Rightarrow> False | Some q \<Rightarrow> row_val q ''name'' = VStr (the name)
            \<and> row_val q ''version'' = VStr (the version))
         else if given name then (case f of None \<Rightarrow> False | Some q \<Rightarrow> row_val q ''name'' = VStr (the name)) \<and> row_val p ''job_id'' = VNone
         else row_val p ''job_family_id'' = VNone \<and> row_val p ''job_id'' = VNone)" for p f j
    by (auto simp: holds_operator_and remove_empty_def aligned_operator_and holds_filters holds_resource_filter of_subject_def
        case_option_val split: option.splits)
  have "(\<exists>f \<in> partners (db w) JobFamily (row_val p ''job_family_id''). \<exists>j \<in> partners (db w) Job (row_val p ''job_id'').
      holds (joined_env AuthResourcePermission (joined_row p f j)) ?c)
    \<longleftrightarrow> of_subject s p \<and> grants (db w) p name version \<and> row_val p ''scope'' = VStr scope" for p
    using partners_exists [of "db w" JobFamily "row_val p ''job_family_id''" "\<lambda>q. row_val q ''name'' = VStr (the name)"]
      partners_exists [of "db w" Job "row_val p ''job_id''" "\<lambda>q. row_val q ''name'' = VStr (the name) \<and> row_val q ''version'' = VStr (the version)"]
      partners_nonempty [of "db w" JobFamily "row_val p ''job_family_id''"] partners_nonempty [of "db w" Job "row_val p ''job_id''"]
    unfolding h grants_def names_family_def by (simp split: if_splits) blast
  then show ?thesis
    unfolding permission_exists_def run_exists_on_condition [OF al] set_permission_joins permission_choice by simp
qed

text \<open>The requests a grant is about.\<close>

definition requested :: "string option \<Rightarrow> string option \<Rightarrow> string \<Rightarrow> string \<Rightarrow> bool" where
  "requested name version n v \<longleftrightarrow> (given name \<longrightarrow> name = Some n) \<and> (given name \<and> given version \<longrightarrow> version = Some v)"

lemma grants_covers:
  assumes "grants d p name version" and "requested name version n v" and "row_val p ''job_id'' = VNone \<or> row_val p ''job_family_id'' = VNone"
  shows "covers d p n v"
  using assms by (auto simp: grants_def requested_def covers_def names_family_def names_version_def split: if_splits)

lemma permission_row_ok:
  "f = VNone \<or> (\<exists>u. f = VStr u) \<Longrightarrow> j = VNone \<or> (\<exists>u. j = VStr u) \<Longrightarrow>
     rest_ok AuthResourcePermission (permission_row i (VStr a) scope f j)"
  by (auto simp: rest_ok_def permission_row_def meta_eval has_type_def col_type_def nullable_def)

lemma run_write_permission:
  assumes "wf w" and "s \<in> set (db w AuthSubject)" and "sequence_ok w AuthResourcePermission"
    and "f = VNone \<or> (\<exists>q \<in> set (db w JobFamily). row_val q ''id'' = f)" and "j = VNone \<or> (\<exists>q \<in> set (db w Job). row_val q ''id'' = j)"
    and "p = permission_row (VInt (next_id w AuthResourcePermission)) (row_val s ''id'') scope f j"
  shows "create_record (new_record AuthResourcePermission (permission_row VNone (row_val s ''id'') scope f j)) w
    = (Inr (new_record AuthResourcePermission p), w\<lparr>last_id := (last_id w)(AuthResourcePermission := next_id w AuthResourcePermission),
         db := add_row (db w) AuthResourcePermission p\<rparr>)"
proof -
  have key: "\<exists>u. v = VStr u" if "q \<in> set (db w t)" "row_val q ''id'' = v" "t \<in> {AuthSubject, JobFamily, Job}" for q t v
    using row_ok_val [OF db_okD(1) [OF assms(1) that(1)], of "''id''"] that
    by (cases v) (auto simp: has_type_def col_type_def nullable_def meta_eval)
  have "\<exists>u. row_val s ''id'' = VStr u" "f = VNone \<or> (\<exists>u. f = VStr u)" "j = VNone \<or> (\<exists>u. j = VStr u)"
    using key [OF assms(2) refl] key [of _ JobFamily f] key [of _ Job j] assms(4,5) by auto
  then have ok: "rest_ok AuthResourcePermission (permission_row VNone (row_val s ''id'') scope f j)"
    using permission_row_ok by auto
  have p: "p = with_pk AuthResourcePermission (VInt (next_id w AuthResourcePermission)) (permission_row VNone (row_val s ''id'') scope f j)"
    by (simp add: assms(6) with_pk_def permission_row_def)
  have "targets_ok (db w) AuthResourcePermission p"
    using assms(2,4,5) by (auto simp: targets_ok_iff assms(6) permission_row_def row_val_def meta_eval)
  moreover have "row_val p (pk AuthResourcePermission) = VInt (next_id w AuthResourcePermission)"
    by (simp add: assms(6) permission_row_def row_val_def)
  ultimately have "insertable (db w) AuthResourcePermission p"
    using insertable_auto [OF assms(1) _ assms(3)] by (simp add: unique_keys_def)
  then show ?thesis
    using run_create_auto [OF assms(1) _ _ ok _ _ p] by (simp add: auto_id_def meta_eval permission_row_def row_val_def has_type_def col_type_def)
qed

lemma run_find_family:
  fixes w :: "'x lifecycle_scheme"
  assumes "wf w" and "r \<in> set (db w JobFamily)" and "row_val r ''name'' = VStr name"
  shows "find_one JobFamily [(''name'', VStr name)] w = (Inr (record_of JobFamily r), w)"
  using run_read_family(1) [OF assms] by (auto simp: read_job_family_model_def py_run split: sum.splits prod.splits if_splits)

lemma run_grant_row:
  assumes "wf w" and "resource_exists (db w) name version"
  shows "\<exists>f j. grant_row s name version scope w = (Inr (permission_row VNone (attr s ''id'') scope f j), w)
    \<and> (f = VNone \<or> (\<exists>q \<in> set (db w JobFamily). row_val q ''id'' = f)) \<and> (j = VNone \<or> (\<exists>q \<in> set (db w Job). row_val q ''id'' = j))
    \<and> (f = VNone \<or> j = VNone)
    \<and> (\<forall>p. row_val p ''job_family_id'' = f \<longrightarrow> row_val p ''job_id'' = j \<longrightarrow> grants (db w) p name version)"
proof -
  consider (job) "given name" "given version" | (family) "given name" "\<not> given version" | (all) "\<not> given name" by blast
  then show ?thesis
  proof cases
    case job
    then obtain q where q: "q \<in> set (db w Job)" "named (the name) (the version) q"
      using assms(2) by (auto simp: resource_exists_def)
    have "grant_row s name version scope w = (Inr (permission_row VNone (attr s ''id'') scope VNone (row_val q ''id'')), w)"
      using job run_read_job(1) [OF assms(1) q] by (simp add: grant_row_def read_job_model_def py_run)
    moreover have "row_val q ''id'' \<noteq> VNone" using pk_not_null [OF assms(1) q(1)] by simp
    ultimately show ?thesis
      using job q by (intro exI [of _ VNone] exI [of _ "row_val q ''id''"]) (auto simp: grants_def named_def)
  next
    case family
    then obtain q where q: "q \<in> set (db w JobFamily)" "row_val q ''name'' = VStr (the name)"
      using assms(2) by (auto simp: resource_exists_def)
    have "grant_row s name version scope w = (Inr (permission_row VNone (attr s ''id'') scope (row_val q ''id'') VNone), w)"
      using family run_find_family [OF assms(1) q] by (simp add: grant_row_def py_run)
    moreover have "row_val q ''id'' \<noteq> VNone" using pk_not_null [OF assms(1) q(1)] by simp
    ultimately show ?thesis
      using family q by (intro exI [of _ "row_val q ''id''"] exI [of _ VNone]) (auto simp: grants_def names_family_def)
  next
    case all
    then show ?thesis by (intro exI [of _ VNone]) (simp add: grant_row_def py_run grants_def)
  qed
qed

lemma run_grant_new:
  assumes "wf w" and "s \<in> set (db w AuthSubject)" and "sequence_ok w AuthResourcePermission" and "resource_exists (db w) name version"
    and "\<not> (\<exists>p \<in> set (db w AuthResourcePermission). of_subject (record_of AuthSubject s) p \<and> grants (db w) p name version
           \<and> row_val p ''scope'' = VStr scope)"
    and "owned s"
  shows "\<exists>p w'. grant_permission (record_of AuthSubject s) name version scope w = (Inr (), w') \<and> wf w'
    \<and> db w' = add_row (db w) AuthResourcePermission p \<and> of_subject (record_of AuthSubject s) p \<and> grants (db w) p name version
    \<and> row_val p ''scope'' = VStr scope \<and> (row_val p ''job_id'' = VNone \<or> row_val p ''job_family_id'' = VNone)"
proof -
  obtain f j where fj: "f = VNone \<or> (\<exists>q \<in> set (db w JobFamily). row_val q ''id'' = f)"
      "j = VNone \<or> (\<exists>q \<in> set (db w Job). row_val q ''id'' = j)" "f = VNone \<or> j = VNone"
    and g: "\<And>p. row_val p ''job_family_id'' = f \<Longrightarrow> row_val p ''job_id'' = j \<Longrightarrow> grants (db w) p name version"
    and row: "grant_row (record_of AuthSubject s) name version scope w = (Inr (permission_row VNone (row_val s ''id'') scope f j), w)"
    using run_grant_row [OF assms(1,4), of "record_of AuthSubject s" scope] by auto
  let ?p = "permission_row (VInt (next_id w AuthResourcePermission)) (row_val s ''id'') scope f j"
  note cr = run_write_permission [OF assms(1,2,3) fj(1,2) refl, of scope]
  let ?w = "w\<lparr>last_id := (last_id w)(AuthResourcePermission := next_id w AuthResourcePermission),
      db := add_row (db w) AuthResourcePermission ?p\<rparr>"
  have w': "wf ?w" by (rule keeps_wf_run [OF keeps_writes(1) assms(1) cr])
  have "s \<in> set (db ?w AuthSubject)" using assms(2) by (simp add: add_row_other)
  then obtain d where "get_description_from_auth_subject (record_of AuthSubject s) ?w = (Inr d, ?w)"
    using run_subject_names(3) [OF w' _ assms(6), of "record_of AuthSubject s"] by auto
  moreover have "permission_exists (record_of AuthSubject s) name version scope w = (Inr False, w)"
    using assms(5) by (auto simp: run_permission_exists)
  ultimately have "grant_permission (record_of AuthSubject s) name version scope w = (Inr (), ?w)"
    by (simp add: grant_permission_def run_bind run_seq row cr run_ret)
  moreover have "row_val s ''id'' \<noteq> VNone" using pk_not_null [OF assms(1,2)] by simp
  then have "of_subject (record_of AuthSubject s) ?p" "row_val ?p ''scope'' = VStr scope"
    "row_val ?p ''job_family_id'' = f" "row_val ?p ''job_id'' = j"
    by (simp_all add: of_subject_def permission_row_def row_val_def)
  ultimately show ?thesis using w' fj(3) g by (intro exI [of _ ?p] exI [of _ ?w]) auto
qed

text \<open>
  C16. After a permission is granted the access is allowed: granting to a subject the access to a job, a
  family or everything succeeds when the resource exists, adds at most one permission row (none when
  the same permission is there), and from then on the check of every request it is about succeeds.
\<close>
theorem grant_then_permitted:
  assumes "wf w" and "s \<in> set (db w AuthSubject)" and "owned s" and "sequence_ok w AuthResourcePermission"
    and "single_resource (db w)" and "resource_exists (db w) name version"
  shows "\<exists>w'. grant_permission (record_of AuthSubject s) name version scope w = (Inr (), w') \<and> wf w'
    \<and> (\<forall>t. t \<noteq> AuthResourcePermission \<longrightarrow> db w' t = db w t)
    \<and> (db w' = db w \<or> (\<exists>p. db w' = add_row (db w) AuthResourcePermission p))
    \<and> (\<forall>n v. requested name version n v \<longrightarrow>
         has_resource_permission (record_of AuthSubject s) n v scope w' = (Inr True, w'))"
proof (cases "\<exists>p \<in> set (db w AuthResourcePermission). of_subject (record_of AuthSubject s) p \<and> grants (db w) p name version
           \<and> row_val p ''scope'' = VStr scope")
  case True
  then obtain p where p: "p \<in> set (db w AuthResourcePermission)" "of_subject (record_of AuthSubject s) p"
    "grants (db w) p name version" "row_val p ''scope'' = VStr scope" by blast
  obtain d where "get_description_from_auth_subject (record_of AuthSubject s) w = (Inr d, w)"
    using run_subject_names(3) [OF assms(1-3), of "record_of AuthSubject s"] by auto
  moreover have "permission_exists (record_of AuthSubject s) name version scope w = (Inr True, w)"
    using True by (auto simp: run_permission_exists)
  ultimately have "grant_permission (record_of AuthSubject s) name version scope w = (Inr (), w)"
    by (simp add: grant_permission_def run_bind run_seq run_ret)
  moreover have "covers (db w) p n v" if "requested name version n v" for n v
    using grants_covers [OF p(3) that] p(1) assms(5) by (auto simp: single_resource_def)
  ultimately show ?thesis
    using p assms(1) by (auto simp: run_has_resource_permission in_scope_def intro!: exI [of _ w])
next
  case False
  from run_grant_new [OF assms(1,2,4,6) False assms(3)] obtain p w' where
    run: "grant_permission (record_of AuthSubject s) name version scope w = (Inr (), w')" "wf w'"
    and d: "db w' = add_row (db w) AuthResourcePermission p"
    and p: "of_subject (record_of AuthSubject s) p" "grants (db w) p name version" "row_val p ''scope'' = VStr scope"
      "row_val p ''job_id'' = VNone \<or> row_val p ''job_family_id'' = VNone" by blast
  have "covers (db w') p n v" if "requested name version n v" for n v
    using grants_covers [OF p(2) that p(4)] by (simp add: covers_def names_family_def names_version_def d add_row_other)
  then have "has_resource_permission (record_of AuthSubject s) n v scope w' = (Inr True, w')" if "requested name version n v" for n v
    using that p by (auto simp: run_has_resource_permission d in_scope_def)
  with run d show ?thesis by (auto simp: add_row_other)
qed

section \<open>On the sample database\<close>

abbreviation sample_esc :: row where
  "sample_esc \<equiv> sample_db AuthSubject ! 1"

lemma sample_esc_ok: "sample_esc \<in> set (db sample_server AuthSubject)" "owned sample_esc"
  by (simp_all add: owned_def row_val_def)

lemma sample_resolves: "resolves_to ''adder'' ''0.0.1'' sample_server ''0.0.1''"
proof -
  have "read_job_model ''adder'' ''0.0.1'' sample_server = (Inr (record_of Job (hd (sample_db Job))), sample_server)"
    by (rule run_read_job(1) [OF sample_server_ok]) (simp_all add: named_def row_val_def job_row_def)
  moreover have "\<not> is_x_pattern ''0.0.1''" by code_simp
  ultimately have "resolve_job_model ''adder'' ''0.0.1'' sample_server = (Inr (record_of Job (hd (sample_db Job))), sample_server)"
    by (simp add: resolve_job_model_def py_run)
  then show ?thesis
    unfolding resolves_to_def by (intro disjI1 exI [of _ "hd (sample_db Job)"]) (simp add: row_val_def job_row_def)
qed

theorem authorize_access_sound_witness:
  "authorize_resource_access (record_of AuthSubject sample_esc) ''adder'' ''0.0.1'' ''call_job'' None sample_server = (Inr (), sample_server)
   \<and> (\<exists>d. authorize_resource_access (record_of AuthSubject sample_esc) ''adder'' ''0.0.1'' ''delete_job'' None sample_server
        = (Inl (UnauthorizedError ''no permission to do this operation'' d), sample_server))"
proof
  note ok = sample_server_ok sample_esc_ok sample_resolves
  have "\<exists>p \<in> set (db sample_server AuthResourcePermission). of_subject (record_of AuthSubject sample_esc) p
      \<and> covers (db sample_server) p ''adder'' ''0.0.1'' \<and> in_scope p ''call_job''"
    by (intro bexI [of _ "sample_db AuthResourcePermission ! 1"])
      (simp_all add: of_subject_def covers_def names_version_def in_scope_def row_val_def job_row_def)
  with authorize_access_sound [OF ok, of "''call_job''"]
  show "authorize_resource_access (record_of AuthSubject sample_esc) ''adder'' ''0.0.1'' ''call_job'' None sample_server = (Inr (), sample_server)"
    by (simp only: if_True)
  have "\<not> (\<exists>p \<in> set (db sample_server AuthResourcePermission). of_subject (record_of AuthSubject sample_esc) p
      \<and> covers (db sample_server) p ''adder'' ''0.0.1'' \<and> in_scope p ''delete_job'')"
    by (simp add: of_subject_def in_scope_def row_val_def)
  with authorize_access_sound [OF ok, of "''delete_job''"]
  show "\<exists>d. authorize_resource_access (record_of AuthSubject sample_esc) ''adder'' ''0.0.1'' ''delete_job'' None sample_server
        = (Inl (UnauthorizedError ''no permission to do this operation'' d), sample_server)"
    by (simp only: if_False)
qed

lemma sample_sequence: "sequence_ok sample_server AuthResourcePermission" "single_resource (db sample_server)"
  by (simp_all add: sequence_ok_def next_id_def single_resource_def row_val_def sample_server_def lifecycle.defs server.defs
      sample_lifecycle_def world.defs sample_world_def)

theorem grant_then_permitted_witness:
  "\<exists>w'. grant_permission (record_of AuthSubject sample_esc) (Some ''primer'') None ''read_job'' sample_server = (Inr (), w')
     \<and> has_resource_permission (record_of AuthSubject sample_esc) ''primer'' ''9.9.9'' ''read_job'' w' = (Inr True, w')"
proof -
  have "resource_exists (db sample_server) (Some ''primer'') None"
    by (simp add: resource_exists_def given_def row_val_def)
  moreover have "requested (Some ''primer'') None ''primer'' ''9.9.9''" by (simp add: requested_def given_def)
  ultimately show ?thesis
    using grant_then_permitted [OF sample_server_ok sample_esc_ok sample_sequence, of "Some ''primer''" None "''read_job''"] by blast
qed

end
