(* ===== verification/PermittedLists.thy ===== *)
theory PermittedLists
  imports AuthorizeLaws
begin

text \<open>
  The lists of what a subject may access (\<open>list_permitted_jobs\<close>, \<open>list_permitted_families\<close>), and what
  follows from the permission queries for a permission on one job.
\<close>

section \<open>The permissions of a subject\<close>

definition permitted_rows :: "(table \<Rightarrow> row list) \<Rightarrow> robj \<Rightarrow> string \<Rightarrow> row list" where
  "permitted_rows d s scope = filter (\<lambda>p. of_subject s p \<and> in_scope p scope) (d AuthResourcePermission)"

definition wildcard :: "row \<Rightarrow> bool" where
  "wildcard p \<longleftrightarrow> row_val p ''job_family_id'' = VNone \<and> row_val p ''job_id'' = VNone"

lemma run_subject_permissions:
  fixes w :: "'x server_scheme"
  assumes "wf w"
  shows "subject_permissions s scope w = (Inr (map (record_of AuthResourcePermission) (permitted_rows (db w) s scope)), w)"
proof -
  let ?c = "operator_and [query_condition (Cmp (Bare ''auth_subject_id'') CmpEq) [attr s ''id''], scope_filter (Bare ''scope'') scope]"
  have al: "aligned ?c" by (simp add: aligned_operator_and)
  have h: "holds (row_env AuthResourcePermission p) ?c \<longleftrightarrow> of_subject s p \<and> in_scope p scope" for p
    by (auto simp: holds_operator_and remove_empty_def holds_filters of_subject_def in_scope_def)
  show ?thesis
    unfolding subject_permissions_def
    by (subst run_filter [OF assms al]) (simp_all add: h permitted_rows_def order_columns_def order_rows_def limit_rows_def)
qed

lemma set_set_add [simp]: "set (set_add x xs) = insert x (set xs)" "distinct (set_add x xs) \<longleftrightarrow> distinct xs"
  by (auto simp: set_add_def)

lemma permitted_family_ids_set:
  "permitted_family_ids (map (record_of AuthResourcePermission) ps) acc =
     (if \<exists>p \<in> set ps. wildcard p then None
      else Some (fold (\<lambda>p ids. if row_val p ''job_family_id'' \<noteq> VNone then set_add (opt_str (row_val p ''job_family_id'')) ids else ids) ps acc))"
  by (induction ps arbitrary: acc) (auto simp: wildcard_def)

lemma fold_family_ids:
  "set (fold (\<lambda>p ids. if g p \<noteq> VNone then set_add (opt_str (g p)) ids else ids) ps acc)
     = set acc \<union> {opt_str (g p) | p. p \<in> set ps \<and> g p \<noteq> VNone}"
  "distinct (fold (\<lambda>p ids. if g p \<noteq> VNone then set_add (opt_str (g p)) ids else ids) ps acc) \<longleftrightarrow> distinct acc"
  by (induction ps arbitrary: acc) auto

lemma lookup_all_ok:
  "\<forall>k \<in> set ks. k \<noteq> None \<and> map_of d (the k) \<noteq> None \<Longrightarrow> lookup_all d ks = Inr (map (\<lambda>k. the (map_of d (the k))) ks)"
  by (induction ks) auto

section \<open>Permitted families\<close>

text \<open>The list of families that the database has, with its distinct identifiers.\<close>

definition families_listed :: "JobFamilyDto list \<Rightarrow> row list \<Rightarrow> bool" where
  "families_listed fs ps \<longleftrightarrow> distinct (map jf_id fs) \<and> (\<forall>f \<in> set fs. jf_id f \<noteq> None)
     \<and> (\<forall>p \<in> set ps. row_val p ''job_family_id'' \<noteq> VNone \<longrightarrow> (\<exists>f \<in> set fs. VStr (the (jf_id f)) = row_val p ''job_family_id''))"

lemma map_of_families:
  assumes "distinct (map jf_id fs)" and "\<forall>f \<in> set fs. jf_id f \<noteq> None" and "f \<in> set fs"
  shows "map_of (dict_of (map (\<lambda>f. (the_default [] (jf_id f), f)) fs)) (the (jf_id f)) = Some f"
proof -
  have inj: "inj_on (\<lambda>f. the_default [] (jf_id f)) (set fs)"
    using assms(1,2) by (auto simp: inj_on_def distinct_map the_default_def split: option.splits)
  have "distinct (map (\<lambda>f. the_default [] (jf_id f)) fs)"
    using inj assms(1) by (simp add: distinct_map)
  moreover have "(the (jf_id f), f) \<in> set (map (\<lambda>f. (the_default [] (jf_id f), f)) fs)"
    using assms(2,3) by (force simp: the_default_def)
  moreover have "map fst (rev (map (\<lambda>f. (the_default [] (jf_id f), f)) fs)) = rev (map (\<lambda>f. the_default [] (jf_id f)) fs)"
    by (simp add: rev_map comp_def)
  ultimately show ?thesis
    unfolding map_of_dict_of by (intro map_of_is_SomeI) (simp_all only: distinct_rev set_rev)
qed

text \<open>
  The families a subject may access are listed correctly: all of them, in the given order, when one of
  its permissions in the scope is for everything; otherwise those that its permissions name, without
  duplicates and sorted by name. The database is not changed.
\<close>
lemma list_permitted_families_correct:
  fixes w :: "'x server_scheme"
  assumes "wf w" and "families_listed fs (permitted_rows (db w) s scope)"
  shows "\<exists>result. list_permitted_families s scope fs w = (Inr result, w)
    \<and> (if \<exists>p \<in> set (permitted_rows (db w) s scope). wildcard p then result = fs
       else sorted (map jf_name result) \<and> distinct result
         \<and> set result = {f \<in> set fs. \<exists>p \<in> set (permitted_rows (db w) s scope). row_val p ''job_family_id'' = VStr (the (jf_id f))})"
proof (cases "\<exists>p \<in> set (permitted_rows (db w) s scope). wildcard p")
  case True
  then show ?thesis
    by (simp add: list_permitted_families_def py_run run_subject_permissions [OF assms(1)] permitted_family_ids_set)
next
  case False
  let ?ps = "permitted_rows (db w) s scope" and ?g = "\<lambda>p. row_val p ''job_family_id''"
  define ids where "ids = fold (\<lambda>p ids. if ?g p \<noteq> VNone then set_add (opt_str (?g p)) ids else ids) ?ps []"
  define d where "d = dict_of (map (\<lambda>f. (the_default [] (jf_id f), f)) fs)"
  let ?fs = "map (\<lambda>k. the (map_of d (the k))) ids"
  have ids: "set ids = {opt_str (?g p) | p. p \<in> set ?ps \<and> ?g p \<noteq> VNone}" "distinct ids"
    using fold_family_ids [of ?g ?ps "[]"] by (simp_all add: ids_def)
  have fam: "distinct (map jf_id fs)" "\<forall>f \<in> set fs. jf_id f \<noteq> None"
    using assms(2) by (simp_all add: families_listed_def)
  note found = map_of_families [OF fam, folded d_def]
  have look: "\<exists>f \<in> set fs. jf_id f = k \<and> k \<noteq> None \<and> map_of d (the k) = Some f \<and> (\<exists>p \<in> set ?ps. ?g p = VStr (the k))"
    if k: "k \<in> set ids" for k
  proof -
    obtain p where p: "p \<in> set ?ps" "?g p \<noteq> VNone" "k = opt_str (?g p)" using k unfolding ids(1) by blast
    then obtain f where f: "f \<in> set fs" "VStr (the (jf_id f)) = ?g p"
      using assms(2) unfolding families_listed_def by blast
    obtain i where i: "jf_id f = Some i" using fam(2) f(1) by blast
    then have "?g p = VStr i" "k = Some i" using f(2) p(3) by (metis option.sel, metis opt_str.simps(1) option.sel)
    with p(1) f(1) i found [OF f(1)] show ?thesis by auto
  qed
  have "\<forall>k \<in> set ids. k \<noteq> None \<and> map_of d (the k) \<noteq> None" using look by fastforce
  then have run: "list_permitted_families s scope fs w = (Inr (sort_key jf_name ?fs), w)"
    using False
    by (simp add: list_permitted_families_def py_run run_subject_permissions [OF assms(1)] permitted_family_ids_set
        ids_def [symmetric] d_def [symmetric] lookup_all_ok)
  have "inj_on (\<lambda>k. the (map_of d (the k))) (set ids)"
    using look by (intro inj_onI) (metis option.sel)
  then have "distinct ?fs" using ids(2) by (simp add: distinct_map)
  moreover have "set ?fs \<subseteq> {f \<in> set fs. \<exists>p \<in> set ?ps. ?g p = VStr (the (jf_id f))}"
    using look by fastforce
  moreover have "f \<in> set ?fs" if "f \<in> set fs" "p \<in> set ?ps" "?g p = VStr (the (jf_id f))" for f p
  proof -
    have "jf_id f = opt_str (?g p)" using that(1,3) fam(2) by auto
    then have "jf_id f \<in> set ids" using that(2,3) unfolding ids(1) by (auto intro!: exI [of _ p])
    with found [OF that(1)] show ?thesis by force
  qed
  then have "{f \<in> set fs. \<exists>p \<in> set ?ps. ?g p = VStr (the (jf_id f))} \<subseteq> set ?fs" by blast
  ultimately show ?thesis using False run by (intro exI [of _ "sort_key jf_name ?fs"]) auto
qed

section \<open>Two consequences\<close>

text \<open>
  C37. A permission on one job does not name the job's family in the query: a subject with such a
  permission passes the check for the same version of every family.
\<close>
theorem job_permission_covers_every_family:
  assumes "p \<in> set (db w AuthResourcePermission)" and "of_subject s p" and "in_scope p scope"
    and "row_val p ''job_family_id'' = VNone" and "j \<in> set (db w Job)" and "row_val j ''id'' = row_val p ''job_id''"
    and "row_val p ''job_id'' \<noteq> VNone" and "row_val j ''version'' = VStr v"
  shows "\<forall>name. has_resource_permission s name v scope w = (Inr True, w)"
  using assms by (auto simp: run_has_resource_permission covers_def names_version_def)

theorem job_permission_covers_every_family_witness:
  "has_resource_permission (record_of AuthSubject (sample_db AuthSubject ! 1)) ''primer'' ''0.0.1'' ''call_job'' sample_server
     = (Inr True, sample_server)"
proof -
  let ?p = "sample_db AuthResourcePermission ! 1" and ?j = "sample_db Job ! 0"
  have "?p \<in> set (db sample_server AuthResourcePermission)" "of_subject (record_of AuthSubject (sample_db AuthSubject ! 1)) ?p"
    "in_scope ?p ''call_job''" "row_val ?p ''job_family_id'' = VNone" "?j \<in> set (db sample_server Job)"
    "row_val ?j ''id'' = row_val ?p ''job_id''" "row_val ?p ''job_id'' \<noteq> VNone" "row_val ?j ''version'' = VStr ''0.0.1''"
    by (simp_all add: of_subject_def in_scope_def row_val_def job_row_def)
  from job_permission_covers_every_family [OF this] show ?thesis by blast
qed

lemma family_ids_only:
  assumes "\<forall>p \<in> set ps. row_val p ''job_id'' = VNone \<and> (\<exists>i. row_val p ''job_family_id'' = VStr i \<and> (\<forall>job \<in> set jobs. job_name job \<noteq> i))"
  shows "permitted_job_ids jobs (map (record_of AuthResourcePermission) ps) acc = Some acc"
  using assms by (induction ps arbitrary: acc) (auto simp: family_to_job_ids_def filter_empty_conv)

text \<open>
  The list of permitted jobs looks a family up by its identifier among the names of the jobs: a
  subject whose permissions are all for families gets an empty list, although the permission query
  allows every job of these families, unless a job is named like an identifier.
\<close>
lemma family_permissions_list_no_jobs:
  fixes w :: "'x server_scheme"
  assumes "wf w" and "\<forall>p \<in> set (permitted_rows (db w) s scope). row_val p ''job_id'' = VNone
      \<and> (\<exists>i. row_val p ''job_family_id'' = VStr i \<and> (\<forall>job \<in> set jobs. job_name job \<noteq> i))"
  shows "list_permitted_jobs s scope jobs w = (Inr [], w)"
  using family_ids_only [OF assms(2), of "[]"]
  by (simp add: list_permitted_jobs_def py_run run_subject_permissions [OF assms(1)])

definition family_permission_db :: "table \<Rightarrow> row list" where
  "family_permission_db = sample_db(AuthResourcePermission := [permission_row (VInt 1) (VStr ''s2'') ''call_job'' (VStr ''f1'') VNone])"

lemma family_permission_db_ok: "db_ok family_permission_db"
  by code_simp

lemma family_permissions_list_no_jobs_witness:
  "list_permitted_jobs (record_of AuthSubject (sample_db AuthSubject ! 1)) ''call_job'' [sample_job]
       (sample_server\<lparr>db := family_permission_db\<rparr>) = (Inr [], sample_server\<lparr>db := family_permission_db\<rparr>)
   \<and> has_resource_permission (record_of AuthSubject (sample_db AuthSubject ! 1)) (job_name sample_job) (job_version sample_job)
       ''call_job'' (sample_server\<lparr>db := family_permission_db\<rparr>) = (Inr True, sample_server\<lparr>db := family_permission_db\<rparr>)"
proof -
  let ?s = "record_of AuthSubject (sample_db AuthSubject ! 1)" and ?w = "sample_server\<lparr>db := family_permission_db\<rparr>"
  have "wf ?w" by (simp add: family_permission_db_ok)
  moreover have "\<forall>p \<in> set (permitted_rows (db ?w) ?s ''call_job''). row_val p ''job_id'' = VNone
      \<and> (\<exists>i. row_val p ''job_family_id'' = VStr i \<and> (\<forall>job \<in> set [sample_job]. job_name job \<noteq> i))"
    by (auto simp: permitted_rows_def family_permission_db_def permission_row_def row_val_def sample_job_def)
  ultimately have "list_permitted_jobs ?s ''call_job'' [sample_job] ?w = (Inr [], ?w)"
    by (rule family_permissions_list_no_jobs)
  then show ?thesis
    by (simp add: run_has_resource_permission of_subject_def covers_def names_family_def in_scope_def family_permission_db_def
        permission_row_def row_val_def sample_job_def)
qed

lemma list_permitted_families_correct_witness:
  "\<exists>result. list_permitted_families (record_of AuthSubject (sample_db AuthSubject ! 1)) ''call_job''
       [\<lparr>jf_name = ''adder'', jf_id = Some ''f1''\<rparr>, \<lparr>jf_name = ''primer'', jf_id = Some ''f2''\<rparr>]
       (sample_server\<lparr>db := family_permission_db\<rparr>) = (Inr result, sample_server\<lparr>db := family_permission_db\<rparr>)
     \<and> set result = {\<lparr>jf_name = ''adder'', jf_id = Some ''f1''\<rparr>}"
proof -
  let ?s = "record_of AuthSubject (sample_db AuthSubject ! 1)" and ?w = "sample_server\<lparr>db := family_permission_db\<rparr>"
  let ?fs = "[\<lparr>jf_name = ''adder'', jf_id = Some ''f1''\<rparr>, \<lparr>jf_name = ''primer'', jf_id = Some ''f2''\<rparr>]"
  have ps: "permitted_rows (db ?w) ?s ''call_job'' = [permission_row (VInt 1) (VStr ''s2'') ''call_job'' (VStr ''f1'') VNone]"
    by (simp add: permitted_rows_def family_permission_db_def of_subject_def in_scope_def permission_row_def row_val_def)
  have w: "wf ?w" by (simp add: family_permission_db_ok)
  have fl: "families_listed ?fs (permitted_rows (db ?w) ?s ''call_job'')"
    unfolding ps by (simp add: families_listed_def permission_row_def row_val_def)
  have nw: "\<not> (\<exists>p \<in> set (permitted_rows (db ?w) ?s ''call_job''). wildcard p)"
    unfolding ps by (simp add: wildcard_def permission_row_def row_val_def)
  have "{f \<in> set ?fs. \<exists>p \<in> set (permitted_rows (db ?w) ?s ''call_job''). row_val p ''job_family_id'' = VStr (the (jf_id f))}
      = {\<lparr>jf_name = ''adder'', jf_id = Some ''f1''\<rparr>}"
    unfolding ps by (simp add: permission_row_def row_val_def Collect_conv_if conj_disj_distribR) auto
  with list_permitted_families_correct [OF w fl] show ?thesis
    unfolding if_not_P [OF nw] by metis
qed

end
