(* ===== verification/AuthCheck.thy ===== *)
theory AuthCheck
  imports AuthorizeLaws
begin

text \<open>
  Authentication of requests and of users (\<open>lifecycle/auth/authenticate.py\<close>, \<open>lifecycle/auth/check.py\<close>,
  \<open>lifecycle/auth/authenticate_password.py\<close>, \<open>lifecycle/auth/users.py\<close>). A request is the lookup of its
  headers.
\<close>

section \<open>Tokens of requests\<close>

record Request =
  headers :: "string \<Rightarrow> string option"

definition RT_AUTH_HEADER :: string where
  "RT_AUTH_HEADER = ''X-Racetrack-Auth''"

definition read_auth_token_header :: "Request \<Rightarrow> string option" where
  "read_auth_token_header request =
     (if given (headers request RT_AUTH_HEADER) then headers request RT_AUTH_HEADER
      else if given (headers request ''X-Racetrack-User-Auth'') then headers request ''X-Racetrack-User-Auth''
      else headers request ''X-Racetrack-Esc-Auth'')"

definition get_current_jwt_token :: "Request \<Rightarrow> ('x, string) svm" where
  "get_current_jwt_token request =
     (case read_auth_token_header request of
        None \<Rightarrow> raise (UnauthorizedError (''auth token not found in a header '' @ RT_AUTH_HEADER) [])
      | Some t \<Rightarrow> if t = [] then raise (UnauthorizedError (''auth token not found in a header '' @ RT_AUTH_HEADER) []) else ret t)"

definition find_auth_subject_by_token :: "string \<Rightarrow> ('x, robj \<times> robj) svm" where
  "find_auth_subject_by_token token =
     try_except
       (bind (find_one AuthToken [(''token'', VStr token)]) (\<lambda>auth_token.
        bind (find_one AuthSubject [(''id'', attr auth_token ''auth_subject_id'')]) (\<lambda>auth_subject.
        ret (auth_subject, auth_token))))
       is_EntityNotFound
       (\<lambda>_. raise (EntityNotFound ''given Auth Token was not found in the database''))"

definition validate_auth_token_access :: "robj \<Rightarrow> ('x, unit) svm" where
  "validate_auth_token_access auth_token =
     (if attr auth_token ''active'' \<noteq> VBool True then raise (UnauthorizedError ''given access token has been revoked'' [])
      else case opt_dt (attr auth_token ''expiry_time'') of
        None \<Rightarrow> ret ()
      | Some expiry \<Rightarrow>
          bind now (\<lambda>t.
          if datetime_to_timestamp t * usec > expiry then raise (UnauthorizedError ''given access token has expired'' []) else ret ()))"

text \<open>The date of a time, in days.\<close>

definition date_of :: "int \<Rightarrow> int" where
  "date_of t = t div (86400 * usec)"

definition touch_token :: "robj \<Rightarrow> ('x, unit) svm" where
  "touch_token auth_token =
     bind now (\<lambda>t. seq (update_record (set_attr ''last_use_time'' (VDt t) auth_token) True) (ret ()))"

definition save_token_use :: "robj \<Rightarrow> ('x, unit) svm" where
  "save_token_use auth_token =
     (case opt_dt (attr auth_token ''last_use_time'') of
        None \<Rightarrow> touch_token auth_token
      | Some last_use \<Rightarrow> bind now (\<lambda>t. if date_of last_use \<noteq> date_of t then touch_token auth_token else ret ()))"

definition authenticate_token :: "Request \<Rightarrow> ('x, AuthTokenPayload \<times> robj option) svm" where
  "authenticate_token request =
     bind (get_current_jwt_token request) (\<lambda>jwt_token.
     bind (environ_required ''AUTH_KEY'') (\<lambda>auth_secret_key.
     bind (verify_and_decode_jwt jwt_token auth_secret_key) (\<lambda>token_payload.
     if tp_subject_type token_payload = subject_type_value INTERNAL then ret (token_payload, None)
     else
       try_else (find_auth_subject_by_token jwt_token) is_EntityNotFound
         (\<lambda>_. raise (UnauthorizedError ''wrong credentials: token is unknown'' ''token was not found in the database''))
         (\<lambda>(auth_subject, auth_token).
            seq (validate_auth_token_access auth_token)
            (seq (save_token_use auth_token)
             (ret (token_payload, Some auth_subject)))))))"

definition get_username_from_token :: "Request \<Rightarrow> ('x, string) svm" where
  "get_username_from_token request =
     bind (get_current_jwt_token request) (\<lambda>auth_token.
     bind (decode_jwt auth_token) (\<lambda>token_payload. ret (tp_subject token_payload)))"

section \<open>Checks of requests\<close>

definition check_auth :: "Request \<Rightarrow> AuthSubjectType list option \<Rightarrow> string option \<Rightarrow> string option \<Rightarrow> AuthScope option
    \<Rightarrow> ('x, robj option) svm" where
  "check_auth request subject_types name version scope =
     bind (authenticate_token request) (\<lambda>(token_payload, auth_subject).
     seq (case subject_types of None \<Rightarrow> ret ()
          | Some types \<Rightarrow> if types = [] then ret () else authorize_subject_type token_payload types)
     (seq (if tp_subject_type token_payload = subject_type_value INTERNAL then
             authorize_internal_token token_payload (map_option scope_value scope)
           else case auth_subject of
               None \<Rightarrow> raise (AssertionError [])
             | Some subj \<Rightarrow>
                 if given name then
                   seq (assert_py (given version) ''job_version is required when job_name is specified'')
                   (case scope of
                      None \<Rightarrow> raise (AssertionError ''scope is required when job_name is specified'')
                    | Some sc \<Rightarrow> authorize_resource_access subj (the name) (the version) (scope_value sc) None)
                 else (case scope of None \<Rightarrow> ret () | Some sc \<Rightarrow> authorize_scope_access subj (scope_value sc)))
      (ret auth_subject)))"

text \<open>What a decorated endpoint answers: the response of the endpoint, or a response with status 401.\<close>

datatype 'a answer = Answered 'a | Unauthorized401 string

definition check_auth_decorator :: "Request \<Rightarrow> AuthSubjectType list option \<Rightarrow> AuthScope option \<Rightarrow> ('x, 'a) svm
    \<Rightarrow> ('x, 'a answer) svm" where
  "check_auth_decorator request subject_types scope f =
     bind (gets config) (\<lambda>cfg.
     if \<not> auth_required cfg then bind f (\<lambda>r. ret (Answered r))
     else
       try_else
         (bind (authenticate_token request) (\<lambda>(token_payload, auth_subject).
          seq (case subject_types of None \<Rightarrow> ret ()
               | Some types \<Rightarrow> if types = [] then ret () else authorize_subject_type token_payload types)
          (if tp_subject_type token_payload = subject_type_value INTERNAL then
             authorize_internal_token token_payload (map_option scope_value scope)
           else case scope of
               None \<Rightarrow> ret ()
             | Some sc \<Rightarrow> (case auth_subject of None \<Rightarrow> raise (AssertionError [])
                            | Some subj \<Rightarrow> authorize_scope_access subj (scope_value sc)))))
         is_UnauthorizedError
         (\<lambda>e. ret (Unauthorized401 (describe e (auth_debug cfg))))
         (\<lambda>_. bind f (\<lambda>r. ret (Answered r))))"

definition check_staff_user :: "Request \<Rightarrow> ('x, robj) svm" where
  "check_staff_user request =
     bind (authenticate_token request) (\<lambda>(token_payload, auth_subject).
     seq (authorize_subject_type token_payload [USER])
     (case auth_subject of
        None \<Rightarrow> raise (AssertionError [])
      | Some subj \<Rightarrow>
          let username = tp_subject token_payload
          in bind (try_except (find_one User [(''username'', VStr username)]) is_EntityNotFound
                (\<lambda>_. raise (UnauthorizedError (''User '' @ username @ '' was not found'') []))) (\<lambda>user.
             if attr user ''is_active'' \<noteq> VBool True then
               raise (UnauthorizedError (''User '' @ username @ '' is not active'') [])
             else if attr user ''is_staff'' \<noteq> VBool True then
               raise (UnauthorizedError (''User '' @ username @ '' is not a staff member'') [])
             else ret subj)))"

section \<open>User accounts\<close>

definition authenticate_user :: "string \<Rightarrow> string \<Rightarrow> ('x, robj option) svm" where
  "authenticate_user username password =
     try_else (find_one User [(''username'', VStr username)]) is_EntityNotFound
       (\<lambda>_. seq (make_password password) (ret None))
       (\<lambda>user. bind (check_password password (the_str (attr user ''password''))) (\<lambda>ok.
          ret (if ok \<and> attr user ''is_active'' = VBool True then Some user else None)))"

definition authenticate :: "string \<Rightarrow> string \<Rightarrow> ('x, robj option) svm" where
  "authenticate username password = authenticate_user username password"

definition find_user_record_by_id :: "val \<Rightarrow> ('x, robj) svm" where
  "find_user_record_by_id user_id = find_one User [(''id'', user_id)]"

definition authenticate_username_with_password :: "string \<Rightarrow> string \<Rightarrow> ('x, robj \<times> robj \<times> robj) svm" where
  "authenticate_username_with_password username password =
     bind (authenticate username password) (\<lambda>user.
     case user of
       None \<Rightarrow> raise (UnauthorizedError ''incorrect username or password'' [])
     | Some u \<Rightarrow>
         bind (find_user_record_by_id (attr u ''id'')) (\<lambda>user_record.
         bind (get_auth_subject_by_user user_record) (\<lambda>auth_subject.
         bind (get_auth_token_by_subject auth_subject) (\<lambda>auth_token.
         ret (u, auth_subject, auth_token)))))"

fun is_ValidationError :: "exn \<Rightarrow> bool" where
  "is_ValidationError (ValidationError m) = True"
| "is_ValidationError e = False"

definition validated_password :: "string \<Rightarrow> ('x, unit) svm" where
  "validated_password password =
     try_except (validate_password password) is_ValidationError (\<lambda>e. raise (RuntimeError (''Invalid password: '' @ exn_str e)))"

definition create_auth_subject_for_user :: "robj \<Rightarrow> ('x, robj) svm" where
  "create_auth_subject_for_user user_model =
     bind new_uuid (\<lambda>ident.
     bind (create_record (new_record AuthSubject (subject_row ident (attr user_model ''id'') VNone VNone))) (\<lambda>auth_subject.
     seq (create_auth_token auth_subject None) (ret auth_subject)))"

definition grant_all_jobs :: "robj \<Rightarrow> string \<Rightarrow> ('x, unit) svm" where
  "grant_all_jobs auth_subject scope =
     seq (create_record (new_record AuthResourcePermission (permission_row VNone (attr auth_subject ''id'') scope VNone VNone)))
         (seq (get_description_from_auth_subject auth_subject) (ret ()))"

definition default_scopes :: "AuthScope list" where
  "default_scopes = [READ_JOB, CALL_JOB, DEPLOY_NEW_FAMILY, DEPLOY_JOB]"

definition register_user_account :: "string \<Rightarrow> string \<Rightarrow> ('x, row) svm" where
  "register_user_account username password =
     seq (validated_password password)
     (seq (try_else (find_one User [(''username'', VStr username)]) is_EntityNotFound (\<lambda>_. ret ())
             (\<lambda>_. raise (RuntimeError (''Username already exists: '' @ username))))
     (bind (make_password password) (\<lambda>hashed.
      bind now (\<lambda>joined.
      bind (create_from_dict User [(''username'', VStr username), (''password'', VStr hashed), (''is_active'', VBool False),
              (''first_name'', VStr []), (''last_name'', VStr []), (''email'', VStr []), (''is_staff'', VBool False),
              (''is_superuser'', VBool False), (''date_joined'', VDt joined), (''last_login'', VNone)]) (\<lambda>user.
      bind (find_user_record_by_id (row_val user ''id'')) (\<lambda>user_record.
      bind (create_auth_subject_for_user user_record) (\<lambda>auth_subject.
      seq (for_each default_scopes (\<lambda>scope. grant_all_jobs auth_subject (scope_value scope)))
          (ret user))))))))"

definition change_user_password :: "string \<Rightarrow> string \<Rightarrow> string \<Rightarrow> ('x, unit) svm" where
  "change_user_password username old_password new_password =
     bind (authenticate username old_password) (\<lambda>user.
     case user of
       None \<Rightarrow> raise (UnauthorizedError ''Passed password is incorrect.'' [])
     | Some u \<Rightarrow>
         seq (validated_password new_password)
         (bind (make_password new_password) (\<lambda>hashed.
          seq (update_record (set_attr ''password'' (VStr hashed) u) True) (ret ()))))"

end
