(* ===== verification/AuthCheckLaws.thy ===== *)
theory AuthCheckLaws
  imports AuthCheck
begin

text \<open>
  What authentication and the checks of requests guarantee: the outcome for every known and unknown
  token, the permissions behind every accepted request, and the rejection of revoked tokens.
\<close>

section \<open>Known tokens\<close>

lemma run_find_by_token:
  assumes "wf w"
  shows "find_auth_subject_by_token token w =
    (case filter (\<lambda>r. row_val r ''token'' = VStr token) (db w AuthToken) of
       [] \<Rightarrow> (Inl (EntityNotFound ''given Auth Token was not found in the database''), w)
     | r # _ \<Rightarrow> (case find_one AuthSubject [(''id'', row_val r ''auth_subject_id'')] w of
          (Inr q, w') \<Rightarrow> (Inr (q, record_of AuthToken r), w')
        | (Inl e, w') \<Rightarrow> if is_EntityNotFound e then (Inl (EntityNotFound ''given Auth Token was not found in the database''), w')
                        else (Inl e, w')))"
proof -
  have k: "key_filter [(''token'', VStr token)] = (\<lambda>r. row_val r ''token'' = VStr token)"
    by (auto simp: key_filter_def fun_eq_iff)
  have "find_one AuthToken [(''token'', VStr token)] w = ((case filter (\<lambda>r. row_val r ''token'' = VStr token) (db w AuthToken) of
      [] \<Rightarrow> Inl (EntityNotFound (cls_name (class_of AuthToken) @ '' record not found for given '' @ join '', '' (keys [(''token'', VStr token)])))
    | r # _ \<Rightarrow> Inr (record_of AuthToken r)), w)"
    by (subst run_find_one [OF assms]) (simp_all add: meta_eval k)
  then show ?thesis
    by (auto simp: find_auth_subject_by_token_def py_run split: list.splits sum.splits prod.splits)
qed

lemma token_subject:
  assumes "wf w" and "r \<in> set (db w AuthToken)"
  shows "\<exists>q \<in> set (db w AuthSubject). row_val r ''auth_subject_id'' = row_val q ''id''
    \<and> find_one AuthSubject [(''id'', row_val r ''auth_subject_id'')] w = (Inr (record_of AuthSubject q), w)"
proof -
  have "has_type (col_type AuthToken ''auth_subject_id'') (row_val r ''auth_subject_id'')"
    by (rule row_ok_val [OF db_okD(1) [OF assms]]) (simp add: meta_eval)
  then have "row_val r ''auth_subject_id'' \<noteq> VNone"
    by (auto simp: has_type_def nullable_def col_type_def meta_eval)
  from run_find_foreign [OF assms subject_columns(4) this] obtain q where "q \<in> set (db w AuthSubject)"
    "row_val q (pk AuthSubject) = row_val r ''auth_subject_id''"
    "find_one AuthSubject [(pk AuthSubject, row_val r ''auth_subject_id'')] w = (Inr (record_of AuthSubject q), w)" by blast
  then show ?thesis by (intro bexI [of _ q]) simp_all
qed

definition expired :: "'x world_scheme \<Rightarrow> row \<Rightarrow> bool" where
  "expired w r \<longleftrightarrow> (\<exists>e. row_val r ''expiry_time'' = VDt e \<and> datetime_to_timestamp (time_of w (ticks w)) * usec > e)"

lemma run_validate:
  "\<exists>w'. validate_auth_token_access (record_of AuthToken r) w =
     (if row_val r ''active'' \<noteq> VBool True then Inl (UnauthorizedError ''given access token has been revoked'' [])
      else if expired w r then Inl (UnauthorizedError ''given access token has expired'' []) else Inr (), w') \<and> db w' = db w
      \<and> uuid_of w' = uuid_of w \<and> environ w' = environ w"
  by (cases "row_val r ''expiry_time''") (auto simp: validate_auth_token_access_def expired_def py_run now_def)

lemma run_touch:
  assumes "wf w" and "r \<in> set (db w AuthToken)"
  shows "touch_token (record_of AuthToken r) w
    = (Inr (), w\<lparr>ticks := Suc (ticks w),
         db := replace_row (db w) AuthToken r (dict_update r [(''last_use_time'', VDt (time_of w (ticks w)))])\<rparr>)"
proof -
  let ?w = "w\<lparr>ticks := Suc (ticks w)\<rparr>" and ?ch = "[(''last_use_time'', VDt (time_of w (ticks w)))]"
  have "set_attr ''last_use_time'' (VDt (time_of w (ticks w))) (record_of AuthToken r)
      = \<lparr>rtype = AuthToken, attrs = dict_update r ?ch, original_fields = Some r\<rparr>"
    by (simp add: set_attr_def record_of_def)
  moreover have "update_record \<lparr>rtype = AuthToken, attrs = dict_update r ?ch, original_fields = Some r\<rparr> True ?w
      = (Inr (record_of AuthToken (dict_update r ?ch)), ?w\<lparr>db := replace_row (db w) AuthToken r (dict_update r ?ch)\<rparr>)"
    by (subst run_update_plain) (use assms in \<open>simp_all add: token_plain\<close>)
  ultimately show ?thesis by (simp add: touch_token_def py_run now_def)
qed

text \<open>After a token was used: nothing changed, or the time of its last use.\<close>

definition token_used :: "(table \<Rightarrow> row list) \<Rightarrow> row \<Rightarrow> (table \<Rightarrow> row list) \<Rightarrow> bool" where
  "token_used d r d' \<longleftrightarrow> d' = d \<or> (\<exists>t. d' = replace_row d AuthToken r (dict_update r [(''last_use_time'', VDt t)]))"

lemma keeps_touch [keeps_intro]: "keeps wf (touch_token o' :: ('x, unit) svm)"
  unfolding touch_token_def by (intro keeps_intro)

lemma run_save_token_use:
  assumes "wf w" and "r \<in> set (db w AuthToken)"
  shows "\<exists>w'. save_token_use (record_of AuthToken r) w = (Inr (), w') \<and> wf w' \<and> token_used (db w) r (db w')"
proof -
  have touch: "\<exists>w'. touch_token (record_of AuthToken r) v = (Inr (), w') \<and> wf w' \<and> token_used (db w) r (db w')"
    if "db v = db w" for v :: "'a server_scheme"
  proof -
    have v: "wf v" "r \<in> set (db v AuthToken)" using assms that by simp_all
    have "wf (snd (touch_token (record_of AuthToken r) v))" by (rule keeps_wf_snd [OF keeps_touch v(1)])
    with run_touch [OF v] that show ?thesis by (auto simp: token_used_def)
  qed
  show ?thesis
    using touch [of w] touch [of "w\<lparr>ticks := Suc (ticks w)\<rparr>"] assms(1)
    by (cases "row_val r ''last_use_time''") (auto simp: save_token_use_def py_run now_def token_used_def)
qed

text \<open>
  C14. Authentication of a request with a signed token of a user, an external caller or a job family has
  exactly these outcomes: a token that the database does not have is refused; a stored token that is
  inactive or expired is refused; otherwise the request is accepted as the subject the stored token
  belongs to, and at most the time of last use of that token is changed. A refusal changes nothing in
  the database.
\<close>
theorem authenticate_token_decides:
  fixes w :: "'x server_scheme"
  assumes "wf w" and "read_auth_token_header request = Some token" and "token \<noteq> []" and "environ w ''AUTH_KEY'' = Some key"
    and "verify_and_decode_jwt token key w = (Inr p, w)" and "tp_subject_type p \<noteq> ''internal''"
  shows "case filter (\<lambda>r. row_val r ''token'' = VStr token) (db w AuthToken) of
      [] \<Rightarrow> \<exists>c d. authenticate_token request w = (Inl (UnauthorizedError c d), w)
    | r # _ \<Rightarrow>
        if row_val r ''active'' \<noteq> VBool True \<or> expired w r
        then \<exists>c d w'. authenticate_token request w = (Inl (UnauthorizedError c d), w') \<and> db w' = db w
        else \<exists>q w'. authenticate_token request w = (Inr (p, Some (record_of AuthSubject q)), w')
          \<and> q \<in> set (db w AuthSubject) \<and> row_val r ''auth_subject_id'' = row_val q ''id'' \<and> wf w' \<and> token_used (db w) r (db w')"
proof -
  let ?k = "\<lambda>(auth_subject, auth_token). seq (validate_auth_token_access auth_token)
      (seq (save_token_use auth_token) (ret (p, Some auth_subject)))"
  have run: "authenticate_token request w = try_else (find_auth_subject_by_token token) is_EntityNotFound
      (\<lambda>_. raise (UnauthorizedError ''wrong credentials: token is unknown'' ''token was not found in the database'')) ?k w"
    using assms by (simp add: authenticate_token_def get_current_jwt_token_def environ_required_def run_bind run_gets run_ret)
  show ?thesis
  proof (cases "filter (\<lambda>r. row_val r ''token'' = VStr token) (db w AuthToken)")
    case Nil
    then show ?thesis
      unfolding run by (simp add: run_try_else run_find_by_token [OF assms(1)] run_raise)
  next
    case (Cons r rs)
    then have "r \<in> set (filter (\<lambda>r. row_val r ''token'' = VStr token) (db w AuthToken))" by simp
    then have r: "r \<in> set (db w AuthToken)" by simp
    obtain q where q: "q \<in> set (db w AuthSubject)" "row_val r ''auth_subject_id'' = row_val q ''id''"
      "find_one AuthSubject [(''id'', row_val r ''auth_subject_id'')] w = (Inr (record_of AuthSubject q), w)"
      using token_subject [OF assms(1) r] by blast
    obtain v where v: "validate_auth_token_access (record_of AuthToken r) w =
       (if row_val r ''active'' \<noteq> VBool True then Inl (UnauthorizedError ''given access token has been revoked'' [])
        else if expired w r then Inl (UnauthorizedError ''given access token has expired'' []) else Inr (), v)" "db v = db w"
      using run_validate [of r w] by blast
    obtain u where u: "save_token_use (record_of AuthToken r) v = (Inr (), u)" "wf u" "token_used (db w) r (db u)"
      using run_save_token_use [of v r] assms(1) r v(2) by auto
    have "authenticate_token request w = (if row_val r ''active'' \<noteq> VBool True
          then (Inl (UnauthorizedError ''given access token has been revoked'' []), v)
        else if expired w r then (Inl (UnauthorizedError ''given access token has expired'' []), v)
        else (Inr (p, Some (record_of AuthSubject q)), u))"
      unfolding run using Cons q(3) v(1) u(1)
      by (simp add: run_try_else run_find_by_token [OF assms(1)] run_seq run_ret)
    with Cons q(1,2) u(2,3) v(2) show ?thesis by auto
  qed
qed

section \<open>Accepted requests\<close>

text \<open>The version a request asks for: that of the job it resolves to, or the empty one.\<close>

definition requested_version :: "string \<Rightarrow> string \<Rightarrow> 'x server_scheme \<Rightarrow> string \<Rightarrow> bool" where
  "requested_version name version w v \<longleftrightarrow>
     (case fst (resolve_job_model name version w) of Inr job \<Rightarrow> v = the_str (attr job ''version'')
      | Inl e \<Rightarrow> is_EntityNotFound e \<and> v = [])"

lemma resolved_versionD:
  fixes w :: "'x server_scheme"
  assumes "try_except (bind (resolve_job_model name version) (\<lambda>job_model. ret (the_str (attr job_model ''version''))))
    is_EntityNotFound (\<lambda>_. ret []) w = (Inr v, w')"
  shows "w' = w \<and> requested_version name version w v"
proof -
  have "snd (resolve_job_model name version w) = w" by (intro pureI keeps_intro)
  then obtain r where "resolve_job_model name version w = (r, w)" by (metis prod.collapse)
  with assms show ?thesis
    by (auto simp: run_try run_bind run_ret requested_version_def split: sum.splits if_splits)
qed

lemma authorize_resource_accessD:
  fixes w :: "'x server_scheme"
  assumes "authorize_resource_access subj name version scope None w = (Inr (), w')"
  shows "w' = w \<and> (\<exists>v. requested_version name version w v \<and>
    (\<exists>p \<in> set (db w AuthResourcePermission). of_subject subj p \<and> covers (db w) p name v \<and> in_scope p scope))"
proof -
  from assms obtain v w1 where v: "try_except (bind (resolve_job_model name version) (\<lambda>job_model. ret (the_str (attr job_model ''version''))))
      is_EntityNotFound (\<lambda>_. ret []) w = (Inr v, w1)"
    unfolding authorize_resource_access_def by (elim bind_okE)
  with resolved_versionD [OF v] assms show ?thesis
    by (auto simp: authorize_resource_access_def run_bind run_has_resource_permission run_ret run_raise split: if_splits sum.splits prod.splits)
qed

text \<open>Internal tokens: without scopes everything is allowed, with scopes the scope or the full one.\<close>

definition internal_allows :: "AuthTokenPayload \<Rightarrow> string \<Rightarrow> bool" where
  "internal_allows p scope \<longleftrightarrow> tp_scopes p = None \<or> tp_scopes p = Some [] \<or> ''full_access'' \<in> set (the (tp_scopes p))
     \<or> scope \<in> set (the (tp_scopes p))"

lemma authorize_internal_tokenD:
  "authorize_internal_token p (Some scope) w = (Inr (), w') \<Longrightarrow> internal_allows p scope \<and> w' = w"
  by (auto simp: authorize_internal_token_def internal_allows_def run_ret run_raise split: option.splits if_splits)

text \<open>
  C4. No request for a job passes the check without a right to it: when the check of a request for a
  job in a scope accepts, the request was authenticated; a token type that is not among the required
  ones is never accepted; an internal token carries no scopes, the full scope or the requested one; and
  every other caller has a permission row that covers the requested job in that scope.
\<close>
theorem check_auth_requires_permission:
  fixes w :: "'x server_scheme"
  assumes "check_auth request types (Some name) (Some version) (Some scope) w = (Inr so, w')" and "name \<noteq> []"
  shows "\<exists>p w1. authenticate_token request w = (Inr (p, so), w1)
    \<and> (\<forall>ts. types = Some ts \<longrightarrow> ts \<noteq> [] \<longrightarrow> tp_subject_type p \<in> set (map subject_type_value ts))
    \<and> (if tp_subject_type p = ''internal'' then internal_allows p (scope_value scope)
       else \<exists>subj v perm. so = Some subj \<and> requested_version name version w1 v \<and> perm \<in> set (db w1 AuthResourcePermission)
         \<and> of_subject subj perm \<and> covers (db w1) perm name v \<and> in_scope perm (scope_value scope))"
proof -
  from assms(1) obtain p s w1 where auth: "authenticate_token request w = (Inr (p, s), w1)"
    unfolding check_auth_def by (elim bind_okE) auto
  let ?t = "case types of None \<Rightarrow> ret () | Some ts \<Rightarrow> if ts = [] then ret () else authorize_subject_type p ts"
  let ?a = "if tp_subject_type p = subject_type_value INTERNAL then authorize_internal_token p (map_option scope_value (Some scope))
      else case s of None \<Rightarrow> raise (AssertionError [])
        | Some subj \<Rightarrow> if given (Some name) then
            seq (assert_py (given (Some version)) ''job_version is required when job_name is specified'')
              (case Some scope of None \<Rightarrow> raise (AssertionError ''scope is required when job_name is specified'')
               | Some sc \<Rightarrow> authorize_resource_access subj (the (Some name)) (the (Some version)) (scope_value sc) None)
          else (case Some scope of None \<Rightarrow> ret () | Some sc \<Rightarrow> authorize_scope_access subj (scope_value sc))"
  have "seq ?t (seq ?a (ret s)) w1 = (Inr so, w')"
    using assms(1) auth by (simp add: check_auth_def run_bind)
  then obtain w2 where t: "?t w1 = (Inr (), w2)" and a: "?a w2 = (Inr (), w')" and so: "so = s"
    by (auto simp: run_seq run_ret split: sum.splits prod.splits)
  have w2: "w2 = w1" "\<forall>ts. types = Some ts \<longrightarrow> ts \<noteq> [] \<longrightarrow> tp_subject_type p \<in> set (map subject_type_value ts)"
    using t by (auto simp: authorize_subject_type_def run_ret run_raise Let_def split: option.splits if_splits)
  show ?thesis
  proof (cases "tp_subject_type p = ''internal''")
    case True
    with a authorize_internal_tokenD [of p "scope_value scope"] auth so w2 show ?thesis by auto
  next
    case False
    then obtain subj where "s = Some subj" "authorize_resource_access subj name version (scope_value scope) None w1 = (Inr (), w')"
      using a w2(1) assms(2) by (auto simp: run_seq run_assert run_raise given_def split: option.splits if_splits)
    with authorize_resource_accessD [of subj name version "scope_value scope" w1 w'] auth so w2(2) False show ?thesis by auto
  qed
qed

section \<open>Revoked tokens\<close>

lemma dependants_token: "dependants d (AuthToken, r) = {(AuthToken, r)}"
proof -
  have "\<not> child d (AuthToken, r) y" for y
  proof
    assume "child d (AuthToken, r) y"
    from child_rank [OF this] have "cascade_rank (fst y) < 1" by simp
    moreover have "cascade_rank t \<ge> 1" for t by (cases t) simp_all
    ultimately show False using linorder_not_less by blast
  qed
  then show ?thesis by (subst dependants_children) blast
qed

lemma run_revoke:
  fixes w :: "'x server_scheme"
  assumes "wf w" and "r \<in> set (db w AuthToken)" and "row_val r ''id'' = VStr ident"
    and "\<And>q. q \<in> set (db w AuthSubject) \<Longrightarrow> owned q"
  shows "revoke_token ident w = (Inr (), w\<lparr>db := without (db w) {(AuthToken, r)}\<rparr>)"
proof -
  obtain q where q: "q \<in> set (db w AuthSubject)"
    "find_one AuthSubject [(''id'', row_val r ''auth_subject_id'')] w = (Inr (record_of AuthSubject q), w)"
    using token_subject [OF assms(1,2)] by blast
  obtain d where "get_description_from_auth_subject (record_of AuthSubject q) w = (Inr d, w)"
    using run_subject_names(3) [OF assms(1) q(1) assms(4) [OF q(1)], of "record_of AuthSubject q"] by auto
  moreover have "find_one AuthToken [(''id'', VStr ident)] w = (Inr (record_of AuthToken r), w)"
    using run_find_by_pk [OF assms(1,2)] assms(3) by simp
  moreover have "delete_record (record_of AuthToken r) True w = (Inr (), w\<lparr>db := without (db w) {(AuthToken, r)}\<rparr>)"
    using delete_record_of_deletes [OF assms(1,2)] by (simp add: delete_record_def deletes_def dependants_token)
  ultimately show ?thesis using q(2) by (simp add: revoke_token_def run_bind run_seq)
qed

text \<open>
  C35. Revoking a token removes its row and nothing else, and from then on a request with that token is
  refused, however the token is signed, unless it is an internal one.
\<close>
theorem revoked_token_rejected:
  fixes w :: "'x server_scheme"
  assumes "wf w" and "r \<in> set (db w AuthToken)" and "row_val r ''id'' = VStr ident" and "row_val r ''token'' = VStr token"
    and "\<forall>q \<in> set (db w AuthSubject). owned q" and "\<forall>r' \<in> set (db w AuthToken). row_val r' ''token'' = VStr token \<longrightarrow> r' = r"
    and "read_auth_token_header request = Some token" and "token \<noteq> []" and "environ w ''AUTH_KEY'' = Some key"
  shows "\<exists>w'. revoke_token ident w = (Inr (), w') \<and> wf w' \<and> db w' = without (db w) {(AuthToken, r)}
    \<and> (\<forall>p. verify_and_decode_jwt token key w' = (Inr p, w') \<longrightarrow> tp_subject_type p \<noteq> ''internal'' \<longrightarrow>
         (\<exists>c d. authenticate_token request w' = (Inl (UnauthorizedError c d), w')))"
proof -
  let ?w = "w\<lparr>db := without (db w) {(AuthToken, r)}\<rparr>"
  have run: "revoke_token ident w = (Inr (), ?w)" using run_revoke [OF assms(1-3)] assms(5) by blast
  have w': "wf ?w"
    using keeps_wf_snd [OF keeps_delete, of w AuthToken "record_of AuthToken r" True] assms(1)
      delete_record_of_deletes [OF assms(1,2)] by (simp add: deletes_def dependants_token)
  have none: "filter (\<lambda>q. row_val q ''token'' = VStr token) (db ?w AuthToken) = []"
    using assms(6) by (auto simp: without_def filter_empty_conv)
  have "\<exists>c d. authenticate_token request ?w = (Inl (UnauthorizedError c d), ?w)"
    if "verify_and_decode_jwt token key ?w = (Inr p, ?w)" "tp_subject_type p \<noteq> ''internal''" for p
    using that assms(7-9) run_find_by_token [OF w', of token] none
    by (simp add: authenticate_token_def get_current_jwt_token_def environ_required_def run_bind run_gets run_ret run_try_else
        run_raise)
  with run w' show ?thesis by (intro exI [of _ ?w]) simp
qed

section \<open>On the sample database\<close>

text \<open>A server whose token library accepts the stored token of the external caller, and a request with it.\<close>

definition esc_payload :: AuthTokenPayload where
  "esc_payload = \<lparr>tp_seed = ''a'', tp_subject = ''e1'', tp_subject_type = ''esc'', tp_scopes = None\<rparr>"

definition signed_server :: server where
  "signed_server = sample_server\<lparr>jwt_decode := \<lambda>_ _. Inr (payload_to_dict esc_payload)\<rparr>"

definition signed_request :: Request where
  "signed_request = \<lparr>headers = [RT_AUTH_HEADER \<mapsto> ''secret'']\<rparr>"

lemma signed_server_db [simp]: "db signed_server = sample_db"
  by (simp add: signed_server_def)

lemma signed_server_ok: "wf signed_server" "read_auth_token_header signed_request = Some ''secret''" "''secret'' \<noteq> []"
  "environ signed_server ''AUTH_KEY'' = Some ''key''" "verify_and_decode_jwt ''secret'' ''key'' signed_server = (Inr esc_payload, signed_server)"
  "tp_subject_type esc_payload \<noteq> ''internal''"
  by (simp_all add: sample_db_ok signed_server_def signed_request_def read_auth_token_header_def given_def RT_AUTH_HEADER_def
      verify_and_decode_jwt_def decode_payload_def py_run sample_payload_ok esc_payload_def [symmetric]) (simp add: esc_payload_def)

theorem authenticate_token_decides_witness:
  "\<exists>q w'. authenticate_token signed_request signed_server = (Inr (esc_payload, Some (record_of AuthSubject q)), w')
     \<and> row_val q ''esc_id'' = VStr ''e1''"
proof -
  have "filter (\<lambda>r. row_val r ''token'' = VStr ''secret'') (db signed_server AuthToken) = sample_db AuthToken"
    "row_val (hd (sample_db AuthToken)) ''active'' = VBool True" "\<not> expired signed_server (hd (sample_db AuthToken))"
    "row_val (hd (sample_db AuthToken)) ''auth_subject_id'' = VStr ''s2''"
    by (simp_all add: row_val_def expired_def)
  with authenticate_token_decides [OF signed_server_ok] show ?thesis
    by (auto simp: row_val_def)
qed

theorem revoked_token_rejected_witness:
  "\<exists>w'. revoke_token ''t1'' signed_server = (Inr (), w') \<and> db w' AuthToken = []"
proof -
  have r: "hd (sample_db AuthToken) \<in> set (db signed_server AuthToken)" "row_val (hd (sample_db AuthToken)) ''id'' = VStr ''t1''"
    "row_val (hd (sample_db AuthToken)) ''token'' = VStr ''secret''" "\<forall>q \<in> set (db signed_server AuthSubject). owned q"
    "\<forall>r' \<in> set (db signed_server AuthToken). row_val r' ''token'' = VStr ''secret'' \<longrightarrow> r' = hd (sample_db AuthToken)"
    by (simp_all add: row_val_def owned_def)
  from revoked_token_rejected [OF signed_server_ok(1) r signed_server_ok(2-4)] show ?thesis
    by (auto simp: without_def)
qed

lemma sample_check_accepts:
  "case fst (check_auth signed_request (Some [ESC]) (Some ''adder'') (Some ''0.0.1'') (Some CALL_JOB) signed_server) of
     Inl _ \<Rightarrow> False | Inr so \<Rightarrow> so \<noteq> None"
  by code_simp

theorem check_auth_requires_permission_witness:
  "\<exists>so p w1. authenticate_token signed_request signed_server = (Inr (p, so), w1) \<and> so \<noteq> None
     \<and> tp_subject_type p \<in> {''esc''}
     \<and> (\<exists>subj v perm. so = Some subj \<and> requested_version ''adder'' ''0.0.1'' w1 v \<and> of_subject subj perm \<and> in_scope perm ''call_job'')"
proof -
  obtain so w' where "check_auth signed_request (Some [ESC]) (Some ''adder'') (Some ''0.0.1'') (Some CALL_JOB) signed_server = (Inr so, w')"
    "so \<noteq> None"
    using sample_check_accepts
    by (cases "check_auth signed_request (Some [ESC]) (Some ''adder'') (Some ''0.0.1'') (Some CALL_JOB) signed_server")
      (auto split: sum.splits)
  with check_auth_requires_permission [of signed_request "Some [ESC]" "''adder''" "''0.0.1''" CALL_JOB signed_server so w']
  show ?thesis by fastforce
qed

end
