(* ===== verification/Portfolio.thy ===== *)
theory Portfolio
  imports Deployments "HOL-Library.Multiset"
begin

text \<open>
  The portfolio of jobs (\<open>lifecycle/job/portfolio.py\<close>): penalty points that rank jobs as candidates for
  removal. Floating-point numbers are exact rationals here.
\<close>

section \<open>Scores\<close>

definition interpolate :: "rat \<Rightarrow> rat \<Rightarrow> rat \<Rightarrow> rat" where
  "interpolate value min_value max_value =
     (if value < min_value then 0 else if value > max_value then 1 else (value - min_value) / (max_value - min_value))"

fun count_newer :: "semantic_version \<Rightarrow> JobDto list \<Rightarrow> exn + nat" where
  "count_newer v [] = Inr 0"
| "count_newer v (f # fs) =
     (case SemanticVersion (job_version f) of Inl e \<Rightarrow> Inl e
      | Inr u \<Rightarrow> (case count_newer v fs of Inl e \<Rightarrow> Inl e | Inr n \<Rightarrow> Inr (if ver_gt u v then Suc n else n)))"

definition count_job_newer_versions :: "JobDto \<Rightarrow> JobDto list \<Rightarrow> exn + nat" where
  "count_job_newer_versions job all_jobs =
     (case SemanticVersion (job_version job) of Inl e \<Rightarrow> Inl e
      | Inr v \<Rightarrow> count_newer v (filter (\<lambda>f. job_name f = job_name job) all_jobs))"

text \<open>\<open>format(x, '.1f')\<close>: one decimal, a tie goes to the even digit.\<close>

definition round_half_even :: "rat \<Rightarrow> int" where
  "round_half_even x =
     (let f = \<lfloor>x\<rfloor>; d = x - of_int f
      in if d < 1 / 2 then f else if d > 1 / 2 then f + 1 else if even f then f else f + 1)"

definition format_1f :: "rat \<Rightarrow> string" where
  "format_1f x = (let n = round_half_even (\<bar>x\<bar> * 10)
     in (if x < 0 then ''-'' else []) @ int_to_str (n div 10) @ ''.'' @ int_to_str (n mod 10))"

definition days_since :: "int option \<Rightarrow> ('x, rat option) lcm" where
  "days_since timestamp =
     (case timestamp of None \<Rightarrow> ret None
      | Some t \<Rightarrow> if t = 0 then ret None else bind now (\<lambda>n. ret (days_ago n timestamp)))"

text \<open>The three groups of penalties, each with its points and its reasons.\<close>

definition status_penalty :: "JobDto \<Rightarrow> rat \<times> string list" where
  "status_penalty job =
     (if job_status job = job_status_value LOST then
        (50, [''Job is lost - can't be found in a cluster. It should be redeployed or removed.''])
      else if job_status job = job_status_value ERROR then (20, [''Job is failing. It should be fixed or removed.''])
      else (0, []))"

definition call_penalty :: "JobDto \<Rightarrow> ('x, rat \<times> string list) lcm" where
  "call_penalty job =
     bind (days_since (Some (update_time job))) (\<lambda>d.
     let deployed_days_ago = (case d of None \<Rightarrow> 0 | Some x \<Rightarrow> x)
     in if deployed_days_ago \<ge> 1 then
          if last_call_time job = None \<or> last_call_time job = Some 0 then
            ret (10, [''Job seems to be unused as it was never called.''])
          else
            bind (days_since (last_call_time job)) (\<lambda>l.
            let last_call_days_ago = (case l of None \<Rightarrow> 0 | Some x \<Rightarrow> x)
            in if last_call_days_ago > 1 then
                 ret (10 * interpolate last_call_days_ago 0 30,
                   [''Job hasn't been called for '' @ format_1f last_call_days_ago @ '' days.''])
               else ret (0, []))
        else ret (0, []))"

definition version_penalty :: "JobDto \<Rightarrow> JobDto list \<Rightarrow> ('x, rat \<times> string list) lcm" where
  "version_penalty job all_jobs =
     bind (lift (count_job_newer_versions job all_jobs)) (\<lambda>newer_versions.
     if newer_versions > 0 then
       ret (5 * interpolate (of_nat newer_versions) 0 5, [''Job has '' @ nat_to_str newer_versions @ '' newer versions.''])
     else ret (0, []))"

definition assess_job_usability :: "JobDto \<Rightarrow> JobDto list \<Rightarrow> ('x, rat \<times> string list) lcm" where
  "assess_job_usability job all_jobs =
     (let (p1, r1) = status_penalty job
      in bind (call_penalty job) (\<lambda>(p2, r2).
         bind (version_penalty job all_jobs) (\<lambda>(p3, r3).
         ret (0 - p1 - p2 - p3, r1 @ r2 @ r3))))"

text \<open>The dictionary of a job with the entries that the function adds to it.\<close>

record purge_info =
  purge_job :: JobDto
  purge_score :: rat
  purge_reasons :: string
  purge_newer_versions :: nat

definition purge_entry :: "JobDto list \<Rightarrow> JobDto \<Rightarrow> ('x, purge_info) lcm" where
  "purge_entry jobs job =
     bind (assess_job_usability job jobs) (\<lambda>(score, reasons).
     bind (lift (count_job_newer_versions job jobs)) (\<lambda>newer.
     ret \<lparr>purge_job = job, purge_score = - score, purge_reasons = join [CHR 0x0A] reasons, purge_newer_versions = newer\<rparr>))"

definition enrich_jobs_purge_info :: "JobDto list \<Rightarrow> ('x, purge_info list) lcm" where
  "enrich_jobs_purge_info jobs =
     bind (map_py (purge_entry jobs) jobs) (\<lambda>job_dicts. ret (sort_key (\<lambda>f. - purge_score f) job_dicts))"

section \<open>Bounds of the scores\<close>

text \<open>A penalty has at most \<open>bound\<close> points, and points exactly when it has a reason; reasons are not empty.\<close>

definition penalty_ok :: "rat \<Rightarrow> rat \<times> string list \<Rightarrow> bool" where
  "penalty_ok bound p \<longleftrightarrow> 0 \<le> fst p \<and> fst p \<le> bound \<and> (fst p = 0 \<longleftrightarrow> snd p = []) \<and> [] \<notin> set (snd p)"

lemma interpolate_bounds:
  assumes "min_value < max_value"
  shows "0 \<le> interpolate x min_value max_value" and "interpolate x min_value max_value \<le> 1"
    and "min_value < x \<Longrightarrow> 0 < interpolate x min_value max_value"
  using assms by (auto simp: interpolate_def field_simps)

lemma penalty_add:
  "penalty_ok a (p, r) \<Longrightarrow> penalty_ok b (q, s) \<Longrightarrow> penalty_ok (a + b) (p + q, r @ s)"
  by (auto simp: penalty_ok_def)

lemma status_penalty_ok: "penalty_ok 50 (status_penalty job)"
  by (simp add: status_penalty_def penalty_ok_def)

lemma run_days_since: "\<exists>d w'. days_since t w = (Inr d, w') \<and> db w' = db w"
  by (auto simp: days_since_def py_run now_def split: option.splits)

lemma run_call_penalty: "\<exists>p w'. call_penalty job w = (Inr p, w') \<and> db w' = db w \<and> penalty_ok 10 p"
proof -
  obtain d w1 where d: "days_since (Some (update_time job)) w = (Inr d, w1)" "db w1 = db w"
    using run_days_since by blast
  obtain l w2 where l: "days_since (last_call_time job) w1 = (Inr l, w2)" "db w2 = db w1"
    using run_days_since by blast
  let ?x = "case l of None \<Rightarrow> 0 | Some x \<Rightarrow> x"
  have "penalty_ok 10 (10 * interpolate ?x 0 30, [''Job hasn't been called for '' @ format_1f ?x @ '' days.''])"
    if "1 < ?x"
    using interpolate_bounds [of 0 30 ?x] that by (auto simp: penalty_ok_def)
  moreover have "penalty_ok 10 (0, [])" "penalty_ok 10 (10, [''Job seems to be unused as it was never called.''])"
    by (simp_all add: penalty_ok_def)
  ultimately show ?thesis
    using d l by (simp add: call_penalty_def run_bind run_ret Let_def)
qed

lemma run_version_penalty:
  assumes "count_job_newer_versions job all_jobs = Inr n"
  shows "\<exists>p. version_penalty job all_jobs w = (Inr p, w) \<and> penalty_ok 5 p"
  using interpolate_bounds [of 0 5 "of_nat n"] assms
  by (auto simp: version_penalty_def py_run penalty_ok_def)

lemma run_assess:
  assumes "count_job_newer_versions job all_jobs = Inr n"
  shows "\<exists>s r w'. assess_job_usability job all_jobs w = (Inr (s, r), w') \<and> db w' = db w \<and> penalty_ok 65 (- s, r)"
proof -
  obtain p1 r1 where 1: "status_penalty job = (p1, r1)" by force
  obtain p2 r2 w' where 2: "call_penalty job w = (Inr (p2, r2), w')" "db w' = db w" "penalty_ok 10 (p2, r2)"
    using run_call_penalty [of job w] by auto
  obtain p3 r3 where 3: "version_penalty job all_jobs w' = (Inr (p3, r3), w')" "penalty_ok 5 (p3, r3)"
    using run_version_penalty [OF assms, of w'] by auto
  have "penalty_ok (50 + (10 + 5)) (p1 + (p2 + p3), r1 @ (r2 @ r3))"
    using status_penalty_ok [of job] 1 2(3) 3(2) by (intro penalty_add) simp_all
  moreover have "p1 + (p2 + p3) = p3 - (- p1 - p2)" by linarith
  ultimately have "penalty_ok 65 (p3 - (- p1 - p2), r1 @ r2 @ r3)" by (simp only:) simp
  then show ?thesis
    using 1 2 3 by (simp add: assess_job_usability_def run_bind run_ret)
qed

section \<open>Newer versions\<close>

definition parses :: "JobDto \<Rightarrow> bool" where
  "parses job \<longleftrightarrow> (\<exists>v. SemanticVersion (job_version job) = Inr v)"

definition newer_job :: "JobDto \<Rightarrow> JobDto \<Rightarrow> bool" where
  "newer_job job f \<longleftrightarrow> job_name f = job_name job
     \<and> projr (SemanticVersion (job_version job)) < projr (SemanticVersion (job_version f))"

lemma count_newer_correct:
  assumes "\<forall>f \<in> set fs. parses f"
  shows "count_newer v fs = Inr (length (filter (\<lambda>f. v < projr (SemanticVersion (job_version f))) fs))"
  using assms by (induction fs) (auto simp: parses_def ver_gt_less)

lemma count_job_newer_correct:
  assumes "\<forall>f \<in> set all_jobs. parses f" and "parses job"
  shows "count_job_newer_versions job all_jobs = Inr (length (filter (newer_job job) all_jobs))"
proof -
  obtain v where v: "SemanticVersion (job_version job) = Inr v" using assms(2) by (auto simp: parses_def)
  have "filter (\<lambda>f. v < projr (SemanticVersion (job_version f))) (filter (\<lambda>f. job_name f = job_name job) all_jobs)
      = filter (newer_job job) all_jobs"
    by (auto simp: newer_job_def v intro!: filter_cong)
  then show ?thesis
    using count_newer_correct [of "filter (\<lambda>f. job_name f = job_name job) all_jobs" v] assms(1)
    by (simp add: count_job_newer_versions_def v)
qed

section \<open>Properties\<close>

definition purge_ok :: "JobDto list \<Rightarrow> purge_info \<Rightarrow> bool" where
  "purge_ok jobs f \<longleftrightarrow> 0 \<le> purge_score f \<and> purge_score f \<le> 65 \<and> (purge_score f = 0 \<longleftrightarrow> purge_reasons f = [])
     \<and> purge_newer_versions f = length (filter (newer_job (purge_job f)) jobs)"

lemma join_empty: "[] \<notin> set rs \<Longrightarrow> join sep rs = [] \<longleftrightarrow> rs = []"
  by (induction sep rs rule: join.induct) auto

lemma run_purge_entry:
  assumes "\<forall>f \<in> set jobs. parses f" and "parses job"
  shows "\<exists>f w'. purge_entry jobs job w = (Inr f, w') \<and> db w' = db w \<and> purge_job f = job \<and> purge_ok jobs f"
proof -
  note n = count_job_newer_correct [OF assms]
  obtain s r w' where a: "assess_job_usability job jobs w = (Inr (s, r), w')" "db w' = db w" "penalty_ok 65 (- s, r)"
    using run_assess [OF n, of w] by blast
  then show ?thesis
    using join_empty [of r "[CHR 0x0A]"] by (auto simp: purge_entry_def run_bind run_ret run_lift n purge_ok_def penalty_ok_def)
qed

lemma run_purge_entries:
  assumes "\<forall>f \<in> set jobs. parses f" and "set js \<subseteq> set jobs"
  shows "\<exists>fs w'. map_py (purge_entry jobs) js w = (Inr fs, w') \<and> db w' = db w \<and> map purge_job fs = js
    \<and> list_all (purge_ok jobs) fs"
  using assms(2)
proof (induction js arbitrary: w)
  case (Cons j js)
  obtain f w1 where f: "purge_entry jobs j w = (Inr f, w1)" "db w1 = db w" "purge_job f = j" "purge_ok jobs f"
    using run_purge_entry [OF assms(1), of j w] assms(1) Cons.prems by auto
  obtain fs w2 where "map_py (purge_entry jobs) js w1 = (Inr fs, w2)" "db w2 = db w1" "map purge_job fs = js"
      "list_all (purge_ok jobs) fs"
    using Cons.IH [of w1] Cons.prems by auto
  with f show ?case by (simp add: run_bind run_ret)
qed (simp add: py_run)

text \<open>
  C39. The portfolio ranks every job: when the versions of all jobs are valid, it returns one entry per
  job without changing the database, in descending order of the purge score. A purge score lies between
  0 and 65 points and is 0 exactly when no reason is given, and the number of newer versions counts the
  jobs of the same family with a greater semantic version.
\<close>
theorem portfolio_ranked:
  fixes w :: "'x lifecycle_scheme"
  assumes "\<forall>job \<in> set jobs. \<exists>v. SemanticVersion (job_version job) = Inr v"
  shows "\<exists>fs w'. enrich_jobs_purge_info jobs w = (Inr fs, w') \<and> db w' = db w
    \<and> mset (map purge_job fs) = mset jobs \<and> sorted (map (\<lambda>f. - purge_score f) fs)
    \<and> (\<forall>f \<in> set fs. 0 \<le> purge_score f \<and> purge_score f \<le> 65 \<and> (purge_score f = 0 \<longleftrightarrow> purge_reasons f = [])
         \<and> purge_newer_versions f = length (filter (newer_job (purge_job f)) jobs))"
proof -
  have "\<forall>f \<in> set jobs. parses f" using assms by (simp add: parses_def)
  from run_purge_entries [OF this order_refl, of w] obtain fs w' where
    "map_py (purge_entry jobs) jobs w = (Inr fs, w')" "db w' = db w" "map purge_job fs = jobs" "list_all (purge_ok jobs) fs"
    by blast
  then show ?thesis
    by (auto simp: enrich_jobs_purge_info_def run_bind run_ret purge_ok_def list_all_iff)
qed

theorem portfolio_ranked_witness:
  "\<exists>fs w'. enrich_jobs_purge_info [sample_job, sample_job\<lparr>job_version := ''0.0.4'', job_status := ''lost''\<rparr>] sample_lifecycle = (Inr fs, w')
     \<and> length fs = 2"
proof -
  have "\<forall>job \<in> set [sample_job, sample_job\<lparr>job_version := ''0.0.4'', job_status := ''lost''\<rparr>].
      \<not> isl (SemanticVersion (job_version job))"
    by code_simp
  then have "\<forall>job \<in> set [sample_job, sample_job\<lparr>job_version := ''0.0.4'', job_status := ''lost''\<rparr>].
      \<exists>v. SemanticVersion (job_version job) = Inr v"
    by (metis sum.collapse(2))
  from portfolio_ranked [OF this, of sample_lifecycle] show ?thesis
    by (auto dest: arg_cong [of _ _ size])
qed

end
