(* ===== verification/AsyncCalls.thy ===== *)
theory AsyncCalls
  imports Deployments Bytes
begin

text \<open>
  Asynchronous job calls (\<open>lifecycle/job/async_call.py\<close>, \<open>lifecycle/supervisor/cleanup.py\<close>) and the
  settings kept in the database (\<open>lifecycle/config/runtime_settings.py\<close>, \<open>lifecycle/config/maintenance.py\<close>).
\<close>

section \<open>Settings\<close>

definition read_setting :: "string \<Rightarrow> ('x, json) lcm" where
  "read_setting name =
     try_except
       (bind (find_one Setting [(''name'', VStr name)]) (\<lambda>setting.
        if \<not> truthy (attr setting ''value'') then ret JNull else lift (loads (the_str (attr setting ''value'')))))
       is_EntityNotFound (\<lambda>_. ret JNull)"

definition save_setting :: "string \<Rightarrow> json \<Rightarrow> ('x, unit) lcm" where
  "save_setting name value =
     (let text = (if json_truthy value then Some (dumps value) else None)
      in seq (create_or_update (new_record Setting [(''name'', VStr name), (''value'', str_val text)])) (ret ()))"

definition MAINTENANCE_MODE :: string where
  "MAINTENANCE_MODE = ''maintenance_mode''"

definition is_maintenance_mode :: "('x, bool) lcm" where
  "is_maintenance_mode = bind (read_setting MAINTENANCE_MODE) (\<lambda>setting_value. ret (setting_value = JBool True))"

definition ensure_no_maintenance :: "('x, unit) lcm" where
  "ensure_no_maintenance = bind is_maintenance_mode (\<lambda>m.
     if m then raise (RuntimeError ''Racetrack is currently in maintenance mode. Please try again later.'') else ret ())"

section \<open>Asynchronous calls\<close>

datatype AsyncJobCallStatus = CALL_ONGOING | CALL_COMPLETED | CALL_FAILED

record AsyncJobCallDto =
  ac_id :: string
  ac_status :: string
  ac_started_at :: int
  ac_ended_at :: "int option"
  ac_error :: "string option"
  ac_job_name :: string
  ac_job_version :: string
  ac_job_path :: string
  ac_request_method :: string
  ac_request_url :: string
  ac_request_headers :: "(string, string) dict"
  ac_request_body :: string
  ac_response_status_code :: "int option"
  ac_response_headers :: "(string, string) dict option"
  ac_response_body :: string
  ac_attempts :: int
  ac_pub_instance_addr :: string
  ac_retriable_error :: bool

definition headers_json :: "(string, string) dict \<Rightarrow> json" where
  "headers_json h = JObj (map (\<lambda>(k, v). (k, JStr v)) h)"

definition int_val :: "int option \<Rightarrow> val" where
  "int_val i = (case i of None \<Rightarrow> VNone | Some n \<Rightarrow> VInt n)"

text \<open>The columns the function assigns, in the order of the assignments.\<close>

definition async_columns :: "AsyncJobCallDto \<Rightarrow> row" where
  "async_columns dto = [
     (''status'', VStr (ac_status dto)), (''started_at'', VDt (timestamp_to_datetime (ac_started_at dto))),
     (''ended_at'', dt_val (map_option timestamp_to_datetime (ac_ended_at dto))), (''error'', str_val (ac_error dto)),
     (''job_name'', VStr (ac_job_name dto)), (''job_version'', VStr (ac_job_version dto)), (''job_path'', VStr (ac_job_path dto)),
     (''request_method'', VStr (ac_request_method dto)), (''request_url'', VStr (ac_request_url dto)),
     (''request_headers'', VStr (dumps (headers_json (ac_request_headers dto)))),
     (''request_body'', VBytes (utf8_encode (ac_request_body dto))),
     (''response_status_code'', int_val (ac_response_status_code dto)),
     (''response_headers'', str_val (case ac_response_headers dto of None \<Rightarrow> None
        | Some h \<Rightarrow> if h = [] then None else Some (dumps (headers_json h)))),
     (''response_body'', VBytes (utf8_encode (ac_response_body dto))), (''attempts'', VInt (ac_attempts dto)),
     (''pub_instance_addr'', VStr (ac_pub_instance_addr dto)), (''retriable_error'', VBool (ac_retriable_error dto))]"

definition get_async_job_call :: "string \<Rightarrow> ('x, robj) lcm" where
  "get_async_job_call call_id =
     try_except (find_one AsyncJobCall [(''id'', VStr call_id)]) is_EntityNotFound
       (\<lambda>_. raise (EntityNotFound (''Async job call with id \"'' @ call_id @ ''\" was not found'')))"

definition save_async_job_call :: "AsyncJobCallDto \<Rightarrow> ('x, robj) lcm" where
  "save_async_job_call dto =
     bind (try_else (get_async_job_call (ac_id dto)) is_EntityNotFound
             (\<lambda>_. ret (new_record AsyncJobCall ((''id'', VStr (ac_id dto)) # async_columns dto), False))
             (\<lambda>model. ret (model, True))) (\<lambda>(model, existed).
     let changed = (\<not> existed \<or> list_ex (\<lambda>(c, v). attr model c \<noteq> v) (async_columns dto));
         model = model\<lparr>attrs := dict_update (attrs model) (async_columns dto)\<rparr>
     in if \<not> changed then ret model
        else if \<not> existed then create_record model
        else try_except (update_record model True) is_NoRowsAffected
               (\<lambda>_. raise (EntityNotFound ''Async job call model has gone before updating'')))"

definition delete_async_job_call :: "string \<Rightarrow> ('x, unit) lcm" where
  "delete_async_job_call call_id =
     bind (find_one AsyncJobCall [(''id'', VStr call_id)]) (\<lambda>record. delete_record record True)"

text \<open>A JSON value as a dictionary of strings, the type of the headers of a call.\<close>

fun string_members :: "(string, json) dict \<Rightarrow> exn + (string, string) dict" where
  "string_members [] = Inr []"
| "string_members ((k, j) # kvs) =
     (case j of JStr s \<Rightarrow> (case string_members kvs of Inl e \<Rightarrow> Inl e | Inr d \<Rightarrow> Inr ((k, s) # d))
      | _ \<Rightarrow> Inl (ValidationError ''string_type''))"

definition string_dict :: "json \<Rightarrow> exn + (string, string) dict" where
  "string_dict j = (case j of JObj kvs \<Rightarrow> string_members kvs | _ \<Rightarrow> Inl (ValidationError ''dict_type''))"

definition decode_body :: "val \<Rightarrow> exn + string" where
  "decode_body v = (case v of VBytes b \<Rightarrow> (case utf8_decode b of None \<Rightarrow> Inl (ValueError ''invalid start byte'') | Some s \<Rightarrow> Inr s)
     | _ \<Rightarrow> Inl (AttributeError ''decode''))"

fun opt_int :: "val \<Rightarrow> int option" where
  "opt_int (VInt i) = Some i"
| "opt_int v = None"

definition async_job_call_record_to_dto :: "robj \<Rightarrow> ('x, AsyncJobCallDto) lcm" where
  "async_job_call_record_to_dto model =
     bind (lift (decode_body (attr model ''request_body''))) (\<lambda>request_body.
     bind (lift (decode_body (attr model ''response_body''))) (\<lambda>response_body.
     bind (lift (parse_json_column (opt_str (attr model ''request_headers'')))) (\<lambda>j1.
     bind (lift (parse_json_column (opt_str (attr model ''response_headers'')))) (\<lambda>j2.
     bind (lift (string_dict (if json_truthy j1 then j1 else JObj []))) (\<lambda>request_headers.
     bind (if j2 = JNull then ret None else bind (lift (string_dict j2)) (\<lambda>h. ret (Some h))) (\<lambda>response_headers.
     ret \<lparr>ac_id = the_str (attr model ''id''), ac_status = the_str (attr model ''status''),
       ac_started_at = datetime_to_timestamp (the_int (attr model ''started_at'')),
       ac_ended_at = optional_datetime_to_timestamp (opt_dt (attr model ''ended_at'')),
       ac_error = opt_str (attr model ''error''), ac_job_name = the_str (attr model ''job_name''),
       ac_job_version = the_str (attr model ''job_version''), ac_job_path = the_str (attr model ''job_path''),
       ac_request_method = the_str (attr model ''request_method''), ac_request_url = the_str (attr model ''request_url''),
       ac_request_headers = request_headers, ac_request_body = request_body,
       ac_response_status_code = opt_int (attr model ''response_status_code''),
       ac_response_headers = response_headers, ac_response_body = response_body,
       ac_attempts = the_int (attr model ''attempts''), ac_pub_instance_addr = the_str (attr model ''pub_instance_addr''),
       ac_retriable_error = the_bool (attr model ''retriable_error'')\<rparr>))))))"

section \<open>Removal of old calls\<close>

definition clean_up_async_job_calls :: "('x, unit) lcm" where
  "clean_up_async_job_calls =
     bind now (\<lambda>t.
     bind (gets config) (\<lambda>cfg.
     let older_than = t - async_job_call_lifetime cfg * usec
     in bind (filter_records AsyncJobCall (query_condition (Cmp (Bare ''started_at'') CmpLt) [VDt older_than]) [] None None) (\<lambda>records.
        if records \<noteq> [] then for_each records (\<lambda>record. delete_record record True) else ret ())))"

section \<open>The invariant\<close>

lemma keeps_clean_up [keeps_intro]: "keeps wf clean_up_async_job_calls"
  unfolding clean_up_async_job_calls_def Let_def by (intro keeps_intro keeps_delete_record)

lemma keeps_async [keeps_intro]:
  "keeps wf (save_async_job_call dto)" "keeps wf (delete_async_job_call call_id)" "keeps wf (save_setting name value)"
  "keeps P (get_async_job_call call_id)" "keeps P (read_setting name)" "keeps P is_maintenance_mode" "keeps P ensure_no_maintenance"
  unfolding save_async_job_call_def delete_async_job_call_def save_setting_def get_async_job_call_def Let_def split_def
    read_setting_def is_maintenance_mode_def ensure_no_maintenance_def
  by (intro keeps_intro keeps_delete_record)+

section \<open>Reading what was written\<close>

lemma async_plain_columns:
  "c \<in> set (table_fields AsyncJobCall) \<Longrightarrow> c \<noteq> ''id'' \<Longrightarrow> plain_column AsyncJobCall c"
  by (simp add: plain_column_def meta_eval unique_keys_def)

lemma async_col_types:
  "map (col_type AsyncJobCall) [''status'', ''started_at'', ''ended_at'', ''error'', ''job_name'', ''job_version'', ''job_path'',
     ''request_method'', ''request_url'', ''request_headers'', ''request_body'', ''response_status_code'', ''response_headers'',
     ''response_body'', ''attempts'', ''pub_instance_addr'', ''retriable_error'']
   = [STRING, DATETIME, OPTIONAL_DATETIME, OPTIONAL_STRING, STRING, STRING, STRING, STRING, STRING, OPTIONAL_STRING, BYTES,
     OPTIONAL_INT, OPTIONAL_STRING, BYTES, INT_COL, STRING, BOOLEAN]"
  by code_simp

lemma optional_types:
  "has_type OPTIONAL_DATETIME (dt_val d)" "has_type OPTIONAL_STRING (str_val s)" "has_type OPTIONAL_INT (int_val i)"
  "has_type STRING (VStr t)" "has_type OPTIONAL_STRING (VStr t)" "has_type DATETIME (VDt u)" "has_type INT_COL (VInt n)"
  "has_type BYTES (VBytes t)" "has_type BOOLEAN (VBool b)"
  by (simp_all add: has_type_def nullable_def dt_val_def str_val_def int_val_def split: option.splits)

lemma async_columns_plain: "plain_changes AsyncJobCall (async_columns dto)"
proof -
  have "set (keys (async_columns dto)) \<subseteq> set (table_fields AsyncJobCall)" "''id'' \<notin> set (keys (async_columns dto))"
    by (simp_all add: async_columns_def meta_eval)
  then have "plain_column AsyncJobCall c" if "(c, v) \<in> set (async_columns dto)" for c v
    using that by (force intro: async_plain_columns)
  moreover have "list_all (\<lambda>(c, v). has_type (col_type AsyncJobCall c) v) (async_columns dto)"
    using async_col_types by (simp add: async_columns_def optional_types)
  ultimately show ?thesis by (auto simp: plain_changes_def list_all_iff)
qed

lemma string_members_headers: "string_members (map (\<lambda>(k, v). (k, JStr v)) h) = Inr h"
  by (induction h) auto

lemma string_dict_headers: "string_dict (headers_json h) = Inr h"
  by (simp add: string_dict_def headers_json_def string_members_headers)

lemma optional_values [simp]: "opt_str (str_val s) = s" "opt_dt (dt_val d) = d" "opt_int (int_val i) = i"
  by (simp_all add: str_val_def dt_val_def int_val_def split: option.splits)

lemma parse_json_dumps: "keys_distinct j \<Longrightarrow> parse_json_column (Some (dumps j)) = Inr j"
  by (simp add: parse_json_column_def loads_dumps dumps_nonempty)

lemma headers_distinct: "distinct (keys h) \<Longrightarrow> keys_distinct (headers_json h)"
  by (auto simp: headers_json_def comp_def case_prod_unfold list_all_iff)

text \<open>Empty response headers are stored as none.\<close>

definition stored_call :: "AsyncJobCallDto \<Rightarrow> AsyncJobCallDto" where
  "stored_call dto = dto\<lparr>ac_response_headers := (if ac_response_headers dto = Some [] then None else ac_response_headers dto)\<rparr>"

lemma run_async_dto:
  assumes "has_columns r (async_columns dto)" and "row_val r ''id'' = VStr (ac_id dto)"
    and "distinct (keys (ac_request_headers dto))" and "\<forall>h. ac_response_headers dto = Some h \<longrightarrow> distinct (keys h)"
  shows "async_job_call_record_to_dto (record_of AsyncJobCall r) w = (Inr (stored_call dto), w)"
proof -
  have j: "parse_json_column (Some (dumps (headers_json (ac_request_headers dto)))) = Inr (headers_json (ac_request_headers dto))"
    by (rule parse_json_dumps [OF headers_distinct [OF assms(3)]])
  have req: "string_dict (if json_truthy (headers_json h) then headers_json h else JObj []) = Inr h" for h
    by (cases "h = []") (simp_all add: headers_json_def string_dict_def string_members_headers)
  have vals: "row_val r c = v" if "(c, v) \<in> set (async_columns dto)" for c v
    using assms(1) that by (auto simp: has_columns_def list_all_iff)
  note v = vals [unfolded async_columns_def]
  show ?thesis
  proof (cases "ac_response_headers dto = None \<or> ac_response_headers dto = Some []")
    case True
    then have rv: "row_val r ''response_headers'' = VNone"
      using v [of "''response_headers''"] by (auto simp: str_val_def)
    have "parse_json_column None = Inr JNull" by (simp add: parse_json_column_def)
    then show ?thesis
      using True by (auto simp: async_job_call_record_to_dto_def py_run v rv record_of_def assms(2) decode_body_def utf8_roundtrip
          j req stored_call_def optional_datetime_to_timestamp_def option.map_comp comp_def option.map_ident)
  next
    case False
    then obtain h where h: "ac_response_headers dto = Some h" "h \<noteq> []" by auto
    then have rv: "row_val r ''response_headers'' = VStr (dumps (headers_json h))"
      using v [of "''response_headers''"] by (auto simp: str_val_def)
    have j2: "parse_json_column (Some (dumps (headers_json h))) = Inr (headers_json h)"
      using assms(4) h by (intro parse_json_dumps headers_distinct) simp
    have nn: "headers_json h \<noteq> JNull" by (simp add: headers_json_def)
    show ?thesis
      using h by (simp add: async_job_call_record_to_dto_def py_run v rv record_of_def assms(2) decode_body_def utf8_roundtrip
          j j2 nn req string_dict_headers stored_call_def optional_datetime_to_timestamp_def option.map_comp comp_def option.map_ident)
  qed
qed

lemma run_get_async:
  assumes "wf w"
  shows "r \<in> set (db w AsyncJobCall) \<Longrightarrow> row_val r ''id'' = VStr call_id \<Longrightarrow>
      get_async_job_call call_id w = (Inr (record_of AsyncJobCall r), w)"
    and "\<forall>r \<in> set (db w AsyncJobCall). row_val r ''id'' \<noteq> VStr call_id \<Longrightarrow>
      \<exists>msg. get_async_job_call call_id w = (Inl (EntityNotFound msg), w)"
  using run_find_by_pk [OF assms, of _ AsyncJobCall "VStr call_id"] run_find_missing [OF assms, of AsyncJobCall "VStr call_id"]
  by (auto simp: get_async_job_call_def py_run)

lemma async_row_ok: "row_ok AsyncJobCall ((''id'', VStr u) # async_columns dto)"
proof (rule row_okI)
  show "keys ((''id'', VStr u) # async_columns dto) = table_fields AsyncJobCall"
    by (simp add: async_columns_def meta_eval)
  have "has_type (col_type AsyncJobCall ''id'') (VStr u)" by (rule pk_string [of AsyncJobCall, simplified])
  then show "list_all (\<lambda>(c, v). has_type (col_type AsyncJobCall c) v \<and> (c = pk AsyncJobCall \<longrightarrow> v \<noteq> VNone))
      ((''id'', VStr u) # async_columns dto)"
    using async_columns_plain [of dto] plain_column_not_pk [of AsyncJobCall] by (auto simp: plain_changes_def list_all_iff)
qed

lemma save_async_effect:
  fixes w :: "'x lifecycle_scheme"
  assumes "wf w" and "ac_id dto \<noteq> []"
  obtains model w' r where "save_async_job_call dto w = (Inr model, w')" and "r \<in> set (db w' AsyncJobCall)"
    and "row_val r ''id'' = VStr (ac_id dto)" and "has_columns r (async_columns dto)"
    and "\<forall>t. t \<noteq> AsyncJobCall \<longrightarrow> db w' t = db w t"
    and "db w' AsyncJobCall = (if \<exists>q \<in> set (db w AsyncJobCall). row_val q ''id'' = VStr (ac_id dto)
         then map (\<lambda>q. if row_val q ''id'' = VStr (ac_id dto) then r else q) (db w AsyncJobCall)
         else db w AsyncJobCall @ [r])"
proof (cases "\<exists>q \<in> set (db w AsyncJobCall). row_val q ''id'' = VStr (ac_id dto)")
  case True
  then obtain q where q: "q \<in> set (db w AsyncJobCall)" "row_val q ''id'' = VStr (ac_id dto)" by blast
  let ?r = "dict_update q (async_columns dto)"
  have cols: "set (keys (async_columns dto)) \<subseteq> set (keys q)"
    using db_okD(1) [OF assms(1) q(1)] async_columns_plain [of dto]
    by (force simp: row_ok_def plain_changes_def plain_column_def)
  have "\<exists>model. save_async_job_call dto w = (Inr model, w\<lparr>db := replace_row (db w) AsyncJobCall q ?r\<rparr>)"
  proof (cases "has_columns q (async_columns dto)")
    case True
    then have "\<not> list_ex (\<lambda>(c, v). row_val q c \<noteq> v) (async_columns dto)"
      by (auto simp: has_columns_def list_all_iff list_ex_iff)
    then show ?thesis
      using dict_update_self [OF True cols] run_get_async(1) [OF assms(1) q]
      by (simp add: save_async_job_call_def py_run replace_row_same Let_def record_of_def)
  next
    case False
    then have "list_ex (\<lambda>(c, v). row_val q c \<noteq> v) (async_columns dto)"
      by (auto simp: has_columns_def list_all_iff list_ex_iff)
    then show ?thesis
      using run_update_plain [OF assms(1) q(1) async_columns_plain, of dto] run_get_async(1) [OF assms(1) q]
      by (simp add: save_async_job_call_def py_run Let_def record_of_def)
  qed
  then obtain model where run: "save_async_job_call dto w = (Inr model, w\<lparr>db := replace_row (db w) AsyncJobCall q ?r\<rparr>)" by blast
  have "p = q \<longleftrightarrow> row_val p ''id'' = VStr (ac_id dto)" if "p \<in> set (db w AsyncJobCall)" for p
    using pk_unique_row [OF assms(1) q(1) that] q(2) by auto
  then have "replace_row (db w) AsyncJobCall q ?r AsyncJobCall
      = map (\<lambda>p. if row_val p ''id'' = VStr (ac_id dto) then ?r else p) (db w AsyncJobCall)"
    by (simp add: replace_row_def cong: map_cong)
  moreover have "row_val ?r ''id'' = VStr (ac_id dto)"
    using plain_changes_keep(3) [OF async_columns_plain, of q dto] q(2) by simp
  moreover have "has_columns ?r (async_columns dto)"
    by (rule has_columns_update) (simp add: async_columns_def)
  ultimately show thesis
    using True q by (intro that [OF run, of ?r]) (auto simp: replace_row_def)
next
  case False
  let ?new = "(''id'', VStr (ac_id dto)) # async_columns dto"
  obtain msg where get: "get_async_job_call (ac_id dto) w = (Inl (EntityNotFound msg), w)"
    using run_get_async(2) [OF assms(1)] False by blast
  have cols: "has_columns ?new (async_columns dto)"
    by (simp add: has_columns_def async_columns_def row_val_def)
  have same: "dict_update ?new (async_columns dto) = ?new"
    by (rule dict_update_self [OF cols]) auto
  have "create_record (new_record AsyncJobCall ?new) w
      = (Inr (new_record AsyncJobCall ?new), w\<lparr>db := add_row (db w) AsyncJobCall ?new\<rparr>)"
    using False assms async_row_ok
    by (intro run_create_keyed) (auto simp: unique_keys_def targets_ok_def meta_eval row_val_def)
  then have "save_async_job_call dto w = (Inr (new_record AsyncJobCall ?new), w\<lparr>db := add_row (db w) AsyncJobCall ?new\<rparr>)"
    using same by (simp add: save_async_job_call_def py_run get Let_def new_record_def)
  then show thesis
    using False cols by (intro that [of _ _ ?new]) (auto simp: add_row_other row_val_def)
qed


definition sample_call :: AsyncJobCallDto where
  "sample_call = \<lparr>ac_id = ''call-1'', ac_status = ''ongoing'', ac_started_at = 1700000000, ac_ended_at = None, ac_error = None,
     ac_job_name = ''adder'', ac_job_version = ''0.0.1'', ac_job_path = ''/api/v1/perform'', ac_request_method = ''POST'',
     ac_request_url = ''http://127.0.0.1'', ac_request_headers = [(''Accept'', ''*/*'')], ac_request_body = ''{}'',
     ac_response_status_code = None, ac_response_headers = Some [], ac_response_body = [], ac_attempts = 0,
     ac_pub_instance_addr = ''10.0.0.1'', ac_retriable_error = False\<rparr>"


text \<open>The calls that are older than the lifetime of calls at a time.\<close>

definition outdated :: "'x lifecycle_scheme \<Rightarrow> row \<Rightarrow> bool" where
  "outdated w r \<longleftrightarrow> the_int (row_val r ''started_at'') < time_of w (ticks w) - async_job_call_lifetime (config w) * usec"

lemma started_at_time:
  assumes "wf w" and "r \<in> set (db w AsyncJobCall)"
  obtains t where "row_val r ''started_at'' = VDt t"
proof -
  have "has_type (col_type AsyncJobCall ''started_at'') (row_val r ''started_at'')"
    by (rule row_ok_val [OF db_okD(1) [OF assms]]) (simp add: meta_eval)
  then show thesis
    using that async_col_types by (cases "row_val r ''started_at''") (auto simp: has_type_def nullable_def)
qed

lemma no_call_references: "(c, AsyncJobCall) \<notin> set (on_delete_cascade (meta t))"
  by (cases t) (simp_all add: meta_eval)

lemma no_call_dependants: "dependants d (AsyncJobCall, r) = {(AsyncJobCall, r)}"
proof -
  have "\<not> child d (AsyncJobCall, r) y" for y
    by (auto simp: child_def no_call_references)
  then show ?thesis by (subst dependants_children) auto
qed

text \<open>
  The periodic clean-up removes exactly the outdated asynchronous calls: it always succeeds on a
  well-formed database, every call that started before the configured lifetime is gone, the other calls
  keep their rows in their order, and no other table changes.
\<close>
lemma clean_up_exact:
  fixes w :: "'x lifecycle_scheme"
  assumes "wf w"
  shows "\<exists>w'. clean_up_async_job_calls w = (Inr (), w') \<and> wf w'
    \<and> db w' AsyncJobCall = filter (\<lambda>r. \<not> outdated w r) (db w AsyncJobCall)
    \<and> (\<forall>t. t \<noteq> AsyncJobCall \<longrightarrow> db w' t = db w t)"
proof -
  let ?w = "w\<lparr>ticks := Suc (ticks w)\<rparr>" and ?rs = "filter (outdated w) (db w AsyncJobCall)"
  let ?t = "time_of w (ticks w) - async_job_call_lifetime (config w) * usec"
  let ?c = "query_condition (Cmp (Bare ''started_at'') CmpLt) [VDt ?t]"
  have wf: "wf ?w" using assms by simp
  have "holds (row_env AsyncJobCall r) ?c \<longleftrightarrow> outdated w r" if r: "r \<in> set (db w AsyncJobCall)" for r
    by (rule started_at_time [OF assms r]) (simp add: outdated_def cmp3_def)
  then have sel: "filter (\<lambda>r. holds (row_env AsyncJobCall r) ?c) (db w AsyncJobCall) = ?rs"
    by (rule filter_cong [OF refl])
  have flt: "filter_records AsyncJobCall ?c [] None None ?w = (Inr (map (record_of AsyncJobCall) ?rs), ?w)"
    using run_filter [OF wf, of ?c None AsyncJobCall None] sel by (simp add: order_columns_def order_rows_def limit_rows_def)
  have "deletes (for_each (map (record_of AsyncJobCall) ?rs) (\<lambda>o'. delete_record_of AsyncJobCall o' True)) ?w
      (\<Union>r \<in> set ?rs. dependants (db ?w) (AsyncJobCall, r))"
    using distinct_rows [OF wf, of AsyncJobCall] by (intro delete_loop delete_record_of_deletes wf) auto
  moreover have "(\<Union>r \<in> set ?rs. dependants (db ?w) (AsyncJobCall, r)) = {(AsyncJobCall, r) |r. r \<in> set ?rs}"
    by (auto simp: no_call_dependants)
  moreover have "for_each (map (record_of AsyncJobCall) ?rs) (\<lambda>o'. delete_record_of AsyncJobCall o' True) ?w
      = for_each (map (record_of AsyncJobCall) ?rs) (\<lambda>record. delete_record record True) ?w"
    by (rule fun_cong [OF for_each_cong]) (auto simp: delete_record_def record_of_def)
  ultimately have del: "for_each (map (record_of AsyncJobCall) ?rs) (\<lambda>record. delete_record record True) ?w
      = (Inr (), ?w\<lparr>db := without (db w) {(AsyncJobCall, r) |r. r \<in> set ?rs}\<rparr>)"
    by (simp only: deletes_def) simp
  have run: "clean_up_async_job_calls w = (Inr (), ?w\<lparr>db := without (db w) {(AsyncJobCall, r) |r. r \<in> set ?rs}\<rparr>)"
    using del by (cases "?rs = []") (simp_all add: clean_up_async_job_calls_def py_run now_def flt Let_def)
  have "wf (?w\<lparr>db := without (db w) {(AsyncJobCall, r) |r. r \<in> set ?rs}\<rparr>)"
    by (rule keeps_wf_run [OF keeps_clean_up assms run])
  with run show ?thesis
    by (intro exI conjI) (auto simp: without_def intro!: filter_cong)
qed

definition called_lifecycle :: lifecycle where
  "called_lifecycle = snd (save_async_job_call sample_call sample_lifecycle)"

lemma clean_up_exact_witness:
  "\<exists>w'. clean_up_async_job_calls called_lifecycle = (Inr (), w') \<and> wf w'"
proof -
  have "wf called_lifecycle"
    unfolding called_lifecycle_def by (rule keeps_wf_snd [OF keeps_async(1) sample_lifecycle_ok])
  from clean_up_exact [OF this] show ?thesis by blast
qed

end
