(* ===== verification/Http.thy ===== *)
theory Http
  imports Json Bytes
begin

text \<open>
  HTTP between the parts of the system: requests and responses
  (\<open>racetrack_client/utils/request.py\<close>), and the server-sent events with which the image builder answers
  a long build (\<open>racetrack_commons/api/server_sent_events.py\<close>). The network itself, \<open>urllib\<close>'s
  \<open>urlopen\<close>, is a parameter that acts on a state of its own.
\<close>

section \<open>Text\<close>

text \<open>\<open>s.find(p)\<close>: the index of the first occurrence.\<close>

fun find_str :: "string \<Rightarrow> string \<Rightarrow> nat option" where
  "find_str p s =
     (if startswith s p then Some 0
      else case s of [] \<Rightarrow> None | c # r \<Rightarrow> map_option Suc (find_str p r))"

declare find_str.simps [simp del]

definition contains :: "string \<Rightarrow> string \<Rightarrow> bool" where
  "contains s p \<longleftrightarrow> find_str p s \<noteq> None"

text \<open>\<open>str.splitlines\<close> on characters up to U+00FF.\<close>

definition line_break :: "char \<Rightarrow> bool" where
  "line_break c \<longleftrightarrow> (let n = of_char c :: nat in (10 \<le> n \<and> n \<le> 13) \<or> (28 \<le> n \<and> n \<le> 30) \<or> n = 133)"

fun splitlines_acc :: "string \<Rightarrow> string \<Rightarrow> string list" where
  "splitlines_acc acc [] = (if acc = [] then [] else [rev acc])"
| "splitlines_acc acc (c # s) =
     (if c = CHR 0x0D \<and> startswith s [CHR 0x0A] then rev acc # splitlines_acc [] (tl s)
      else if line_break c then rev acc # splitlines_acc [] s
      else splitlines_acc (c # acc) s)"

definition splitlines :: "string \<Rightarrow> string list" where
  "splitlines s = splitlines_acc [] s"

text \<open>\<open>str(x)\<close> of a JSON-like value.\<close>

fun json_repr :: "json \<Rightarrow> string" where
  "json_repr JNull = ''None''"
| "json_repr (JBool b) = (if b then ''True'' else ''False'')"
| "json_repr (JInt i) = int_to_str i"
| "json_repr (JStr s) = py_repr s"
| "json_repr (JList xs) = ''['' @ join '', '' (map json_repr xs) @ '']''"
| "json_repr (JObj kvs) = ''{'' @ join '', '' (map (\<lambda>(k, v). py_repr k @ '': '' @ json_repr v) kvs) @ ''}''"

definition json_str :: "json \<Rightarrow> string" where
  "json_str j = (case j of JStr s \<Rightarrow> s | _ \<Rightarrow> json_repr j)"

section \<open>Responses\<close>

type_synonym headers = "(string \<times> string) list"

text \<open>The reasons of \<open>http.client.responses\<close>.\<close>

definition responses :: "(int \<times> string) list" where
  "responses = [
     (100, ''Continue''), (101, ''Switching Protocols''), (102, ''Processing''), (103, ''Early Hints''),
     (200, ''OK''), (201, ''Created''), (202, ''Accepted''), (203, ''Non-Authoritative Information''), (204, ''No Content''),
     (205, ''Reset Content''), (206, ''Partial Content''), (207, ''Multi-Status''), (208, ''Already Reported''), (226, ''IM Used''),
     (300, ''Multiple Choices''), (301, ''Moved Permanently''), (302, ''Found''), (303, ''See Other''), (304, ''Not Modified''),
     (305, ''Use Proxy''), (307, ''Temporary Redirect''), (308, ''Permanent Redirect''),
     (400, ''Bad Request''), (401, ''Unauthorized''), (402, ''Payment Required''), (403, ''Forbidden''), (404, ''Not Found''),
     (405, ''Method Not Allowed''), (406, ''Not Acceptable''), (407, ''Proxy Authentication Required''), (408, ''Request Timeout''),
     (409, ''Conflict''), (410, ''Gone''), (411, ''Length Required''), (412, ''Precondition Failed''),
     (413, ''Request Entity Too Large''), (414, ''Request-URI Too Long''), (415, ''Unsupported Media Type''),
     (416, ''Requested Range Not Satisfiable''), (417, ''Expectation Failed''), (418, ''I'm a Teapot''),
     (421, ''Misdirected Request''), (422, ''Unprocessable Entity''), (423, ''Locked''), (424, ''Failed Dependency''),
     (425, ''Too Early''), (426, ''Upgrade Required''), (428, ''Precondition Required''), (429, ''Too Many Requests''),
     (431, ''Request Header Fields Too Large''), (451, ''Unavailable For Legal Reasons''),
     (500, ''Internal Server Error''), (501, ''Not Implemented''), (502, ''Bad Gateway''), (503, ''Service Unavailable''),
     (504, ''Gateway Timeout''), (505, ''HTTP Version Not Supported''), (506, ''Variant Also Negotiates''),
     (507, ''Insufficient Storage''), (508, ''Loop Detected''), (510, ''Not Extended''), (511, ''Network Authentication Required'')]"

record Response =
  rs_url :: string
  rs_method :: string
  status_code :: int
  content :: string
  rs_headers :: headers

text \<open>The lookup of a header ignores the case of its name.\<close>

definition header_of :: "headers \<Rightarrow> string \<Rightarrow> string option" where
  "header_of hs name = map_option snd (List.find (\<lambda>(k, _). lower k = lower name) hs)"

definition response_ok :: "Response \<Rightarrow> bool" where
  "response_ok r \<longleftrightarrow> status_code r < 400"

definition status_reason :: "Response \<Rightarrow> exn + string" where
  "status_reason r =
     (case map_of responses (status_code r) of None \<Rightarrow> Inl (KeyError (int_to_str (status_code r))) | Some s \<Rightarrow> Inr s)"

definition raise_for_status :: "Response \<Rightarrow> exn + unit" where
  "raise_for_status r =
     (if 400 \<le> status_code r \<and> status_code r < 600 then
        case status_reason r of Inl e \<Rightarrow> Inl e
        | Inr s \<Rightarrow> Inl (ResponseError (int_to_str (status_code r) @ '' '' @ s @ '' for url: '' @ rs_url r) (status_code r) None)
      else Inr ())"

definition response_json :: "Response \<Rightarrow> exn + json" where
  "response_json r =
     (case utf8_decode (content r) of
        None \<Rightarrow> Inl (ValueError ''UnicodeDecodeError'')
      | Some s \<Rightarrow> if s = [] then Inl (RuntimeError ''no content in response to decode as JSON'') else loads s)"

definition error_details :: "Response \<Rightarrow> exn + string" where
  "error_details r =
     (case status_reason r of Inl e \<Rightarrow> Inl e
      | Inr s \<Rightarrow> Inr (int_to_str (status_code r) @ '' '' @ s @ '' for url: '' @ rs_method r @ '' '' @ rs_url r))"

text \<open>\<open>'application/json' in response.headers['content-type']\<close>: a missing header is None, which is not
  a container.\<close>

definition is_json :: "Response \<Rightarrow> exn + bool" where
  "is_json r =
     (case header_of (rs_headers r) ''content-type'' of
        None \<Rightarrow> Inl (TypeError ''argument of type 'NoneType' is not iterable'')
      | Some v \<Rightarrow> Inr (contains v ''application/json''))"

text \<open>The error of a response that is not successful: the text another component reported, or the
  status.\<close>

definition response_error :: "Response \<Rightarrow> json \<Rightarrow> exn + 'a" where
  "response_error r result =
     (case (case result of JObj d \<Rightarrow> map_of d ''error'' | _ \<Rightarrow> None) of
        Some v \<Rightarrow> (case status_reason r of Inl e \<Rightarrow> Inl e | Inr s \<Rightarrow> Inl (ContextError s (Some (RuntimeError (json_str v)))))
      | None \<Rightarrow> (case error_details r of Inl e \<Rightarrow> Inl e | Inr s \<Rightarrow> Inl (ResponseError s (status_code r) None)))"

definition in_error_context :: "string \<Rightarrow> Response \<Rightarrow> exn + 'a \<Rightarrow> exn + 'a" where
  "in_error_context error_context r x =
     (case x of Inl e \<Rightarrow> Inl (ResponseError error_context (status_code r) (Some e)) | Inr y \<Rightarrow> Inr y)"

text \<open>The result is None, here \<open>JNull\<close>, when the response is not JSON.\<close>

definition parse_response :: "Response \<Rightarrow> string \<Rightarrow> exn + json" where
  "parse_response r error_context = in_error_context error_context r
     (case is_json r of Inl e \<Rightarrow> Inl e
      | Inr b \<Rightarrow>
          (case (if b then response_json r else Inr JNull) of Inl e \<Rightarrow> Inl e
           | Inr result \<Rightarrow> if response_ok r then Inr result else response_error r result))"

definition json_result :: "Response \<Rightarrow> exn + json" where
  "json_result r =
     (case is_json r of Inl e \<Rightarrow> Inl e
      | Inr b \<Rightarrow>
          if b then response_json r
          else (case error_details r of Inl e \<Rightarrow> Inl e
                | Inr s \<Rightarrow> Inl (RuntimeError (''expected JSON response, got '' @ [dquote]
                    @ the (header_of (rs_headers r) ''content-type'') @ [dquote] @ '', '' @ s))))"

fun json_type :: "json \<Rightarrow> string" where
  "json_type JNull = ''<class 'NoneType'>''"
| "json_type (JBool b) = ''<class 'bool'>''"
| "json_type (JInt i) = ''<class 'int'>''"
| "json_type (JStr s) = ''<class 'str'>''"
| "json_type (JList xs) = ''<class 'list'>''"
| "json_type (JObj kvs) = ''<class 'dict'>''"

definition parse_response_object :: "Response \<Rightarrow> string \<Rightarrow> exn + (string, json) dict" where
  "parse_response_object r error_context = in_error_context error_context r
     (case json_result r of Inl e \<Rightarrow> Inl e
      | Inr result \<Rightarrow>
          if response_ok r then
            (case result of JObj d \<Rightarrow> Inr d
             | _ \<Rightarrow> Inl (AssertionError (''response JSON expected to be a dictionary, got '' @ json_type result)))
          else response_error r result)"

definition parse_response_list :: "Response \<Rightarrow> string \<Rightarrow> exn + json list" where
  "parse_response_list r error_context = in_error_context error_context r
     (case json_result r of Inl e \<Rightarrow> Inl e
      | Inr result \<Rightarrow>
          if response_ok r then
            (case result of JList xs \<Rightarrow> Inr xs
             | _ \<Rightarrow> Inl (AssertionError (''response JSON expected to be a list, got '' @ json_type result)))
          else response_error r result)"

section \<open>Requests\<close>

record http_request =
  rq_url :: string
  rq_method :: string
  rq_headers :: "(string, string) dict"
  rq_data :: "string option"
  rq_timeout :: "rat option"

text \<open>What \<open>urlopen\<close> does: it answers, raises an \<open>HTTPError\<close>, which carries a response, a \<open>URLError\<close> or
  another exception.\<close>

datatype url_result =
    Opened int string headers
  | HTTPError int string headers
  | URLError exn
  | OpenError exn

type_synonym 'i opener = "http_request \<Rightarrow> 'i \<Rightarrow> url_result \<times> 'i"

text \<open>\<open>urllib\<close> stores a header under its capitalized name, and asks for a name as it is given.\<close>

definition capitalize :: "string \<Rightarrow> string" where
  "capitalize s =
     (case s of [] \<Rightarrow> []
      | c # r \<Rightarrow> (let n = of_char c :: nat in if 97 \<le> n \<and> n \<le> 122 then char_of (n - 32) else c) # lower r)"

definition add_header :: "string \<Rightarrow> string \<Rightarrow> http_request \<Rightarrow> http_request" where
  "add_header name value rq = rq\<lparr>rq_headers := dict_set (capitalize name) value (rq_headers rq)\<rparr>"

definition has_header :: "http_request \<Rightarrow> string \<Rightarrow> bool" where
  "has_header rq name \<longleftrightarrow> name \<in> set (keys (rq_headers rq))"

definition with_body :: "json option \<Rightarrow> string option \<Rightarrow> http_request \<Rightarrow> http_request" where
  "with_body jsondata data rq =
     (case jsondata of
        Some j \<Rightarrow> (let body = utf8_encode (dumps j)
                  in (add_header ''Content-Length'' (nat_to_str (length body))
                       (add_header ''Content-Type'' ''application/json; charset=utf-8'' rq))\<lparr>rq_data := Some body\<rparr>)
      | None \<Rightarrow>
          (case data of
             Some body \<Rightarrow> (add_header ''Content-Length'' (nat_to_str (length body)) rq)\<lparr>rq_data := Some body\<rparr>
           | None \<Rightarrow> rq))"

definition with_default_header :: "string \<Rightarrow> string \<Rightarrow> http_request \<Rightarrow> http_request" where
  "with_default_header name value rq = (if has_header rq name then rq else add_header name value rq)"

definition build_request :: "string \<Rightarrow> string \<Rightarrow> json option \<Rightarrow> string option \<Rightarrow> (string \<times> string option) list \<Rightarrow> rat option
    \<Rightarrow> http_request" where
  "build_request verb url jsondata data hdrs timeout =
     (let rq = \<lparr>rq_url = url, rq_method = verb, rq_headers = [], rq_data = None, rq_timeout = timeout\<rparr>;
          rq = fold (\<lambda>(name, value) rq. case value of None \<Rightarrow> rq | Some v \<Rightarrow> add_header name v rq) hdrs rq;
          rq = with_body jsondata data rq;
          rq = with_default_header ''Accept'' ''application/json, */*'' rq
      in with_default_header ''User-Agent'' ''request'' rq)"

text \<open>A request without query parameters.\<close>

definition make_request :: "'i opener \<Rightarrow> string \<Rightarrow> string \<Rightarrow> json option \<Rightarrow> string option \<Rightarrow> (string \<times> string option) list
    \<Rightarrow> rat option \<Rightarrow> ('i, Response) py" where
  "make_request urlopen verb url jsondata data hdrs timeout = (\<lambda>i.
     case urlopen (build_request verb url jsondata data hdrs timeout) i of
       (Opened code body hs, i') \<Rightarrow>
         (Inr \<lparr>rs_url = url, rs_method = verb, status_code = code, content = body, rs_headers = hs\<rparr>, i')
     | (HTTPError code body hs, i') \<Rightarrow>
         (Inr \<lparr>rs_url = url, rs_method = verb, status_code = code, content = body, rs_headers = hs\<rparr>, i')
     | (URLError e, i') \<Rightarrow> (Inl (RequestError (''Request '' @ verb @ '' '' @ url @ '' failed'') (Some e)), i')
     | (OpenError e, i') \<Rightarrow> (Inl (RequestError (''Request to '' @ url @ '' failed'') (Some e)), i'))"

definition requests_get :: "'i opener \<Rightarrow> string \<Rightarrow> (string \<times> string option) list \<Rightarrow> rat option \<Rightarrow> ('i, Response) py" where
  "requests_get urlopen url hdrs timeout = make_request urlopen ''GET'' url None None hdrs timeout"

definition requests_post :: "'i opener \<Rightarrow> string \<Rightarrow> json option \<Rightarrow> string option \<Rightarrow> (string \<times> string option) list
    \<Rightarrow> rat option \<Rightarrow> ('i, Response) py" where
  "requests_post urlopen url jsondata data hdrs timeout = make_request urlopen ''POST'' url jsondata data hdrs timeout"

definition requests_put :: "'i opener \<Rightarrow> string \<Rightarrow> json option \<Rightarrow> string option \<Rightarrow> (string \<times> string option) list
    \<Rightarrow> rat option \<Rightarrow> ('i, Response) py" where
  "requests_put urlopen url jsondata data hdrs timeout = make_request urlopen ''PUT'' url jsondata data hdrs timeout"

definition requests_delete :: "'i opener \<Rightarrow> string \<Rightarrow> json option \<Rightarrow> string option \<Rightarrow> (string \<times> string option) list
    \<Rightarrow> rat option \<Rightarrow> ('i, Response) py" where
  "requests_delete urlopen url jsondata data hdrs timeout = make_request urlopen ''DELETE'' url jsondata data hdrs timeout"

section \<open>Server-sent events\<close>

definition newline :: char where
  "newline = CHR 0x0A"

definition EVENT_RESULT :: string where
  "EVENT_RESULT = ''event: result'' @ [newline]"

definition EVENT_HEARTBEAT :: string where
  "EVENT_HEARTBEAT = ''event: keepalive_heartbeat''"

definition DATA_MESSAGE :: string where
  "DATA_MESSAGE = ''data: ''"

text \<open>The text the runner puts in the channel.\<close>

definition event_data :: "exn + json \<Rightarrow> string" where
  "event_data outcome =
     (case outcome of
        Inr result \<Rightarrow> dumps (JObj [(''result'', result)])
      | Inl e \<Rightarrow> dumps (JObj [(''error'', JStr (exn_str e))]))"

text \<open>The events of the generator when the channel is empty at \<open>n\<close> timeouts in a row.\<close>

fun sse_generator :: "nat \<Rightarrow> string \<Rightarrow> string list" where
  "sse_generator 0 data = [EVENT_RESULT @ ''data: '' @ data @ [newline, newline]]"
| "sse_generator (Suc n) data = (EVENT_HEARTBEAT @ [newline, newline]) # sse_generator n data"

definition stream_result_with_heartbeat :: "nat \<Rightarrow> exn + json \<Rightarrow> string" where
  "stream_result_with_heartbeat timeouts outcome = concat (sse_generator timeouts (event_data outcome))"

text \<open>A streamed response, as the client of \<open>httpx\<close> gives it: its status and the lines of its text.\<close>

record stream_response =
  st_status_code :: int
  st_reason :: string
  st_method :: string
  st_url :: string
  st_lines :: "string list"

definition is_success :: "stream_response \<Rightarrow> bool" where
  "is_success r \<longleftrightarrow> 200 \<le> st_status_code r \<and> st_status_code r \<le> 299"

fun response_buffer :: "string list \<Rightarrow> string" where
  "response_buffer [] = []"
| "response_buffer (line # ls) =
     (if strip line = ''event: keepalive_heartbeat'' then response_buffer ls else line @ [newline] @ response_buffer ls)"

definition validate_streaming_response :: "stream_response \<Rightarrow> exn + unit" where
  "validate_streaming_response r =
     (if is_success r then Inr ()
      else Inl (RuntimeError (''HTTP error '' @ [dquote] @ int_to_str (st_status_code r) @ '' '' @ st_reason r @ [dquote]
             @ '' for url '' @ st_method r @ '' '' @ st_url r)))"

definition extract_response_dict :: "string \<Rightarrow> exn + json" where
  "extract_response_dict response_text =
     (let prefix = EVENT_RESULT @ DATA_MESSAGE
      in case find_str prefix response_text of
           None \<Rightarrow> Inl (ValueError ''could not find result event in the SSE response'')
         | Some i \<Rightarrow> loads (drop (i + length prefix) response_text))"

text \<open>\<open>response.get('error')\<close> and \<open>response['result']\<close> of the decoded event.\<close>

definition event_result :: "json \<Rightarrow> exn + json" where
  "event_result response =
     (case response of
        JObj d \<Rightarrow>
          (let error = (case map_of d ''error'' of None \<Rightarrow> JNull | Some e \<Rightarrow> e)
           in if json_truthy error then Inl (RuntimeError (''Streaming Response error: '' @ json_str error))
              else case map_of d ''result'' of None \<Rightarrow> Inl (KeyError (py_repr ''result'')) | Some r \<Rightarrow> Inr r)
      | _ \<Rightarrow> Inl (AttributeError ''get''))"

definition sse_result :: "stream_response \<Rightarrow> exn + json" where
  "sse_result r =
     (case validate_streaming_response r of Inl e \<Rightarrow> Inl e
      | Inr _ \<Rightarrow>
          (case extract_response_dict (response_buffer (st_lines r)) of Inl e \<Rightarrow> Inl e
           | Inr response \<Rightarrow> event_result response))"

type_synonym 'i streamer = "string \<Rightarrow> string \<Rightarrow> json \<Rightarrow> ('i, stream_response) py"

definition make_sse_request :: "'i streamer \<Rightarrow> string \<Rightarrow> string \<Rightarrow> json \<Rightarrow> ('i, json) py" where
  "make_sse_request stream verb url payload =
     bind (stream verb url payload) (\<lambda>stream_response. lift (sse_result stream_response))"

end
