(* ===== verification/Cluster.thy ===== *)
theory Cluster
  imports Authorize AsyncCalls Http
begin

text \<open>
  Plugins, job types and infrastructure targets (\<open>racetrack_commons/plugin/engine.py\<close>,
  \<open>racetrack_commons/deploy/job_type.py\<close>, \<open>lifecycle/infrastructure\<close>, \<open>lifecycle/deployer/base.py\<close>,
  \<open>lifecycle/monitor\<close>, \<open>lifecycle/server/cache.py\<close>). Plugins are code that is uploaded to the server: their
  hooks, the deployers and the monitors they bring are operations on a state of the infrastructure, whose
  type is a parameter. They do not touch the database.
\<close>

section \<open>Job types\<close>

datatype ImageSourceLocation = Src_jobtype | Src_job

record JobTypeImageDef =
  img_source :: ImageSourceLocation
  dockerfile_path :: string
  template :: json
  base_image_path :: "string option"

record JobType =
  lang_name :: string
  jt_version :: string
  images :: "JobTypeImageDef list"
  jobtype_dir :: string

definition full_name :: "JobType \<Rightarrow> string" where
  "full_name jt = lang_name jt @ '':'' @ jt_version jt"

definition images_num :: "JobType \<Rightarrow> nat" where
  "images_num jt = length (images jt)"

text \<open>What a plugin gives for a job type: a JSON-like value or the obsolete pair of paths.\<close>

datatype job_type_value = JtJson json | JtTuple string string

text \<open>\<open>base / path\<close> of pathlib: an absolute path replaces the base.\<close>

definition path_join :: "string \<Rightarrow> string \<Rightarrow> string" where
  "path_join base path = (if startswith path ''/'' then path else base @ ''/'' @ path)"

definition bool_json :: "json option \<Rightarrow> json" where
  "bool_json j = (case j of None \<Rightarrow> JBool True | Some b \<Rightarrow> b)"

definition image_source :: "json option \<Rightarrow> exn + ImageSourceLocation" where
  "image_source j =
     (case j of None \<Rightarrow> Inr Src_jobtype
      | Some s \<Rightarrow>
          if s = JStr ''jobtype'' then Inr Src_jobtype else if s = JStr ''job'' then Inr Src_job
          else (case s of JList l \<Rightarrow> Inl (TypeError ''unhashable type'') | JObj d \<Rightarrow> Inl (TypeError ''unhashable type'')
                | _ \<Rightarrow> Inl (AssertionError ''source can be either jobtype or job'')))"

definition image_def :: "string \<Rightarrow> json \<Rightarrow> exn + JobTypeImageDef" where
  "image_def plugin_dir j =
     (case j of
        JObj d \<Rightarrow>
          (case image_source (map_of d ''source'') of Inl e \<Rightarrow> Inl e
           | Inr src \<Rightarrow>
               (case map_of d ''dockerfile_path'' of
                  None \<Rightarrow> Inl (AssertionError ''dockerfile_path is not specified in job type data'')
                | Some p \<Rightarrow>
                    if \<not> json_truthy p then Inl (AssertionError ''dockerfile_path is not specified in job type data'')
                    else (case p of
                       JStr path \<Rightarrow> Inr \<lparr>img_source = src,
                         dockerfile_path = (if src = Src_jobtype then path_join plugin_dir path else path),
                         template = bool_json (map_of d ''template''), base_image_path = None\<rparr>
                     | _ \<Rightarrow> Inl (TypeError ''expected str, bytes or os.PathLike object''))))
      | _ \<Rightarrow> Inl (AttributeError ''get''))"

definition path_image :: "string \<Rightarrow> json \<Rightarrow> exn + JobTypeImageDef" where
  "path_image plugin_dir j =
     (case j of JStr path \<Rightarrow> Inr \<lparr>img_source = Src_jobtype, dockerfile_path = path_join plugin_dir path,
                  template = JBool True, base_image_path = None\<rparr>
      | _ \<Rightarrow> Inl (AssertionError ''Invalid dockerfile template path of a job type''))"

fun map_err :: "('a \<Rightarrow> exn + 'b) \<Rightarrow> 'a list \<Rightarrow> exn + 'b list" where
  "map_err f [] = Inr []"
| "map_err f (x # xs) =
     (case f x of Inl e \<Rightarrow> Inl e | Inr y \<Rightarrow> (case map_err f xs of Inl e \<Rightarrow> Inl e | Inr ys \<Rightarrow> Inr (y # ys)))"

text \<open>Iterating over the value of the key \<open>images\<close>: a list gives its elements, the items of another
  non-empty iterable have no attribute \<open>get\<close>, and a number is not iterable.\<close>

definition image_dicts :: "json option \<Rightarrow> exn + json list" where
  "image_dicts j =
     (case j of None \<Rightarrow> Inr [] | Some (JList xs) \<Rightarrow> Inr xs
      | Some (JStr s) \<Rightarrow> if s = [] then Inr [] else Inl (AttributeError ''get'')
      | Some (JObj d) \<Rightarrow> if d = [] then Inr [] else Inl (AttributeError ''get'')
      | Some _ \<Rightarrow> Inl (TypeError ''object is not iterable''))"

definition job_type_images :: "string \<Rightarrow> job_type_value \<Rightarrow> exn + JobTypeImageDef list" where
  "job_type_images plugin_dir v =
     (case v of
        JtJson (JObj d) \<Rightarrow> (case image_dicts (map_of d ''images'') of Inl e \<Rightarrow> Inl e | Inr xs \<Rightarrow> map_err (image_def plugin_dir) xs)
      | JtJson (JList xs) \<Rightarrow>
          if xs = [] then Inl (AssertionError ''job type data list shouldn't be empty'') else map_err (path_image plugin_dir) xs
      | JtJson (JStr path) \<Rightarrow> map_err (path_image plugin_dir) [JStr path]
      | JtTuple base path \<Rightarrow> Inr [\<lparr>img_source = Src_jobtype, dockerfile_path = path, template = JBool True,
          base_image_path = Some base\<rparr>]
      | _ \<Rightarrow> Inl (RuntimeError ''Invalid job type data. Expected dict''))"

definition parse_job_type_definition :: "string \<Rightarrow> job_type_value \<Rightarrow> string \<Rightarrow> exn + JobType" where
  "parse_job_type_definition job_type_key job_type_value plugin_dir =
     (case split_on (CHR '':'') job_type_key of
        [name, version] \<Rightarrow>
          (case job_type_images plugin_dir job_type_value of
             Inl e \<Rightarrow> Inl e
           | Inr imgs \<Rightarrow>
               if imgs = [] then Inl (AssertionError ''list of job type images can not be empty'')
               else Inr \<lparr>lang_name = name, jt_version = version, images = imgs, jobtype_dir = plugin_dir\<rparr>)
      | _ \<Rightarrow> Inl (AssertionError (''job type '' @ job_type_key @ '' should have the version defined in a format name:version'')))"

text \<open>The versions of the languages with a name, as the comprehension collects them.\<close>

definition lang_versions :: "string \<Rightarrow> string list \<Rightarrow> exn + string list" where
  "lang_versions name all_languages =
     map_err (\<lambda>v. case split_on (CHR '':'') v of _ # p # _ \<Rightarrow> Inr p | _ \<Rightarrow> Inl (ValueError ''list index out of range''))
       (filter (\<lambda>v. startswith v (name @ '':'')) all_languages)"

text \<open>\<open>list.sort\<close> with parsed versions as keys: the keys are computed first, and the sort is stable.\<close>

definition sort_versions :: "string list \<Rightarrow> exn + string list" where
  "sort_versions vs = (case parse_versions (\<lambda>v. v) vs of Inl e \<Rightarrow> Inl e | Inr ps \<Rightarrow> Inr (map snd (sort_key fst ps)))"

definition match_job_type_version :: "string \<Rightarrow> string list \<Rightarrow> exn + string" where
  "match_job_type_version language all_languages =
     (case split_on (CHR '':'') language of
        [name, version] \<Rightarrow>
          if version = ''latest'' then
            (case lang_versions name all_languages of Inl e \<Rightarrow> Inl e
             | Inr vs \<Rightarrow>
                 (case sort_versions vs of Inl e \<Rightarrow> Inl e
                  | Inr sorted_vs \<Rightarrow>
                      if sorted_vs = [] then Inl (AssertionError (''there is no version matching '' @ language))
                      else Inr (name @ '':'' @ last sorted_vs)))
          else if is_asterisk_pattern version then
            (case lang_versions name all_languages of Inl e \<Rightarrow> Inl e
             | Inr vs \<Rightarrow>
                 (case from_asterisk_pattern version of Inl e \<Rightarrow> Inl e
                  | Inr version_pattern \<Rightarrow>
                      (case find_latest_wildcard version_pattern vs (\<lambda>v. v) False of Inl e \<Rightarrow> Inl e
                       | Inr None \<Rightarrow> Inl (AssertionError (''language pattern '' @ language @ '' doesn't match any of the supported versions''))
                       | Inr (Some m) \<Rightarrow> Inr (name @ '':'' @ m))))
          else if language \<in> set all_languages then Inr language
          else Inl (AssertionError (''language '' @ language @ '' is not supported''))
      | _ \<Rightarrow> Inl (AssertionError (''job type should be specified as name:version, got '' @ language)))"

section \<open>Infrastructure targets\<close>

record Credentials =
  cred_username :: string
  cred_password :: string

record SecretVars =
  sv_build_env :: "(string, string) dict"
  sv_runtime_env :: "(string, string) dict"

record JobSecrets =
  git_credentials :: "Credentials option"
  secret_build_env :: "(string, string) dict"
  secret_runtime_env :: "(string, string) dict"

text \<open>The arguments of a deployer's \<open>deploy_job\<close>.\<close>

record deploy_request =
  dr_manifest :: Manifest
  dr_tag :: string
  dr_runtime_env_vars :: "(string, string) dict"
  dr_family :: JobFamilyDto
  dr_containers_num :: nat
  dr_runtime_secret_vars :: "(string, string) dict"

record 'i JobDeployer =
  op_deploy_job :: "deploy_request \<Rightarrow> ('i, JobDto) py"
  op_delete_job :: "string \<Rightarrow> string \<Rightarrow> ('i, unit) py"
  op_job_exists :: "string \<Rightarrow> string \<Rightarrow> ('i, bool) py"
  op_save_job_secrets :: "string \<Rightarrow> string \<Rightarrow> JobSecrets \<Rightarrow> ('i, unit) py"
  op_get_job_secrets :: "string \<Rightarrow> string \<Rightarrow> ('i, JobSecrets) py"

text \<open>A monitor yields the jobs it finds until it is done or raises. It checks a job by calling the
  handler for a live job a number of times before it returns or raises.\<close>

record 'i JobMonitor =
  op_list_jobs :: "'i \<Rightarrow> JobDto list \<times> exn option"
  op_check_job_condition :: "JobDto \<Rightarrow> int \<Rightarrow> bool \<Rightarrow> 'i \<Rightarrow> (nat \<times> exn option) \<times> 'i"
  op_read_recent_logs :: "JobDto \<Rightarrow> int \<Rightarrow> ('i, string) py"

record 'i InfrastructureTarget =
  it_name :: "string option"
  job_deployer :: "'i JobDeployer option"
  job_monitor :: "'i JobMonitor option"
  logs_streamer :: "nat option"
  remote_gateway_url :: "string option"
  remote_gateway_token :: "string option"

record PluginManifest =
  pm_name :: string
  pm_version :: string
  build_date :: "string option"
  pm_url :: "string option"
  priority :: int
  category :: "string option"
  pm_components :: "string list"

text \<open>A loaded plugin: its data and the hooks its instance has.\<close>

record 'i PluginData =
  plugin_manifest :: PluginManifest
  plugin_dir :: string
  zip_path :: string
  config_path :: string
  hook_infrastructure_targets :: "('i, (string, 'i InfrastructureTarget) dict option) py option"
  hook_job_types :: "('i, (string, job_type_value) dict option) py option"
  hook_post_job_deploy :: "(Manifest \<Rightarrow> JobDto \<Rightarrow> string \<Rightarrow> string option \<Rightarrow> ('i, unit) py) option"
  hook_post_job_delete :: "(JobDto \<Rightarrow> string option \<Rightarrow> ('i, unit) py) option"

section \<open>The state of the server with its infrastructure\<close>

record 'i cluster = server +
  infra :: 'i
  plugins_data :: "'i PluginData list"
  cached_targets :: "(string, 'i InfrastructureTarget) dict"
  cached_job_types :: "(string, JobType) dict"
  is_file :: "string \<Rightarrow> bool"
  urlopen :: "'i opener"
  httpx_stream :: "'i streamer"
  backoff_tries :: "string \<Rightarrow> nat"

type_synonym ('i, 'x, 'a) clm = "(('i, 'x) cluster_scheme, 'a) py"

definition on_infra :: "('i, 'a) py \<Rightarrow> ('i, 'x, 'a) clm" where
  "on_infra m = (\<lambda>w. case m (infra w) of (r, i) \<Rightarrow> (r, w\<lparr>infra := i\<rparr>))"

subsection \<open>Plugins\<close>

fun invoke_in :: "string \<Rightarrow> ('i PluginData \<Rightarrow> ('i, 'a) py option) \<Rightarrow> 'i PluginData list
    \<Rightarrow> ('i, 'x, ('i PluginData \<times> 'a) list) clm" where
  "invoke_in function_name hook [] = ret []"
| "invoke_in function_name hook (p # ps) =
     (case hook p of
        None \<Rightarrow> invoke_in function_name hook ps
      | Some f \<Rightarrow>
          bind (wrap_context (''Invoking hook '' @ function_name @ '' of plugin '' @ pm_name (plugin_manifest p)
                  @ '' '' @ pm_version (plugin_manifest p)) (on_infra f)) (\<lambda>result.
          bind (invoke_in function_name hook ps) (\<lambda>results. ret ((p, result) # results))))"

definition invoke_hook_with_origin :: "string \<Rightarrow> ('i PluginData \<Rightarrow> ('i, 'a) py option)
    \<Rightarrow> ('i, 'x, ('i PluginData \<times> 'a) list) clm" where
  "invoke_hook_with_origin function_name hook = bind (gets plugins_data) (invoke_in function_name hook)"

definition invoke_plugin_hook :: "string \<Rightarrow> ('i PluginData \<Rightarrow> ('i, 'a) py option) \<Rightarrow> ('i, 'x, 'a list) clm" where
  "invoke_plugin_hook function_name hook =
     bind (invoke_hook_with_origin function_name hook) (\<lambda>results. ret (map snd results))"

definition find_plugin :: "string \<Rightarrow> string option \<Rightarrow> ('i, 'x, 'i PluginData) clm" where
  "find_plugin name version =
     bind (gets plugins_data) (\<lambda>ps.
     if version \<noteq> None \<and> version \<noteq> Some [] then
       (case filter (\<lambda>p. pm_name (plugin_manifest p) = name \<and> pm_version (plugin_manifest p) = the version) ps of
          [] \<Rightarrow> raise (EntityNotFound (''plugin named '' @ name @ '' '' @ the version @ '' was not found''))
        | p # _ \<Rightarrow> ret p)
     else
       (let plugin_versions = filter (\<lambda>p. pm_name (plugin_manifest p) = name) ps
        in if plugin_versions = [] then raise (EntityNotFound (''plugin named '' @ name @ '' was not found''))
           else ret (last plugin_versions)))"

definition find_plugins :: "string \<Rightarrow> string option \<Rightarrow> ('i, 'x, 'i PluginData list) clm" where
  "find_plugins name version =
     gets (\<lambda>w. filter (\<lambda>p. pm_name (plugin_manifest p) = name
       \<and> (version = None \<or> version = Some [] \<or> pm_version (plugin_manifest p) = the version)) (plugins_data w))"

definition invoke_one_plugin_hook :: "string \<Rightarrow> string \<Rightarrow> ('i PluginData \<Rightarrow> ('i, 'a) py option) \<Rightarrow> ('i, 'x, 'a option) clm" where
  "invoke_one_plugin_hook plugin_name function_name hook =
     bind (find_plugin plugin_name None) (\<lambda>p.
     case hook p of
       None \<Rightarrow> ret None
     | Some f \<Rightarrow>
         wrap_context (''Invoking hook '' @ function_name @ '' of plugin '' @ pm_name (plugin_manifest p)
           @ '' '' @ pm_version (plugin_manifest p)) (bind (on_infra f) (\<lambda>r. ret (Some r))))"

definition plugin_manifests :: "('i, 'x, PluginManifest list) clm" where
  "plugin_manifests = gets (\<lambda>w. map plugin_manifest (plugins_data w))"

subsection \<open>Gathering job types and targets\<close>

fun add_job_types :: "'i PluginData \<Rightarrow> (string, job_type_value) dict \<Rightarrow> (string, JobType) dict \<Rightarrow> exn + (string, JobType) dict" where
  "add_job_types p [] job_types = Inr job_types"
| "add_job_types p ((key, value) # rest) job_types =
     (case parse_job_type_definition key value (plugin_dir p) of
        Inl e \<Rightarrow> Inl e
      | Inr jt \<Rightarrow> add_job_types p rest (dict_set key jt job_types))"

fun collect_job_types :: "('i PluginData \<times> (string, job_type_value) dict option) list \<Rightarrow> (string, JobType) dict
    \<Rightarrow> exn + (string, JobType) dict" where
  "collect_job_types [] job_types = Inr job_types"
| "collect_job_types ((p, plugin_job_types) # rest) job_types =
     (if plugin_job_types = None \<or> plugin_job_types = Some [] then collect_job_types rest job_types
      else case add_job_types p (the plugin_job_types) job_types of
             Inl e \<Rightarrow> Inl e
           | Inr job_types' \<Rightarrow> collect_job_types rest job_types')"

definition gather_job_types :: "('i, 'x, (string, JobType) dict) clm" where
  "gather_job_types =
     bind (invoke_hook_with_origin ''job_types'' hook_job_types) (\<lambda>results. lift (collect_job_types results []))"

definition validate_job_type :: "JobType \<Rightarrow> ('i, 'x, unit) clm" where
  "validate_job_type job_type =
     seq (assert_py (images job_type \<noteq> []) ''Job type should have non-empty list of template images'')
     (for_each (images job_type) (\<lambda>image.
        if img_source image = Src_jobtype then
          bind (gets is_file) (\<lambda>f. assert_py (f (dockerfile_path image))
            (''cannot find Dockerfile for '' @ full_name job_type @ '' job type: '' @ dockerfile_path image))
        else ret ()))"

text \<open>The decorator \<open>backoff\<close> repeats a call while its time limit lasts; how often that is, by the name of
  the function, is a parameter.\<close>

definition on_backoff :: "string \<Rightarrow> (exn \<Rightarrow> bool) \<Rightarrow> ('i, 'x, 'a) clm \<Rightarrow> ('i, 'x, 'a) clm" where
  "on_backoff name p m = bind (gets (\<lambda>w. backoff_tries w name)) (\<lambda>n. retry n p m)"

definition load_job_type :: "string option \<Rightarrow> ('i, 'x, JobType) clm" where
  "load_job_type selected = on_backoff ''load_job_type'' is_AssertionError (
     bind (wrap_context ''gathering available job types'' gather_job_types) (\<lambda>job_types.
     seq (assert_py (job_types \<noteq> []) (''language '' @ the_default ''None'' selected
            @ '' is not supported here. No job type plugins are currently installed to Racetrack.''))
     (case selected of
        None \<Rightarrow> raise (AttributeError ''split'')
      | Some jt \<Rightarrow>
          bind (lift (match_job_type_version jt (sort (keys job_types)))) (\<lambda>selected_version.
          bind (case map_of job_types selected_version of None \<Rightarrow> raise (KeyError (py_repr selected_version)) | Some job_type \<Rightarrow> ret job_type)
            (\<lambda>job_type. seq (validate_job_type job_type) (ret job_type))))))"

definition list_jobtype_names_of_plugins :: "('i, 'x, (PluginManifest \<times> string) list) clm" where
  "list_jobtype_names_of_plugins =
     bind (invoke_hook_with_origin ''job_types'' hook_job_types) (\<lambda>results.
     ret (concat (map (\<lambda>(p, r). case r of None \<Rightarrow> [] | Some d \<Rightarrow> map (\<lambda>name. (plugin_manifest p, name)) (keys d)) results)))"

definition gather_infrastructure_targets :: "('i, 'x, (string, 'i InfrastructureTarget) dict) clm" where
  "gather_infrastructure_targets =
     bind (invoke_plugin_hook ''infrastructure_targets'' hook_infrastructure_targets) (\<lambda>results.
     ret (fold (\<lambda>r d. case r of None \<Rightarrow> d | Some targets \<Rightarrow> dict_update d targets) results []))"

definition list_infrastructure_names :: "('i, 'x, string list) clm" where
  "list_infrastructure_names = bind gather_infrastructure_targets (\<lambda>d. ret (sort (keys d)))"

definition list_infrastructure_targets :: "('i, 'x, 'i InfrastructureTarget list) clm" where
  "list_infrastructure_targets = bind gather_infrastructure_targets (\<lambda>d. ret (map snd d))"

definition determine_infrastructure_name :: "Manifest \<Rightarrow> ('i, 'x, string) clm" where
  "determine_infrastructure_name manifest =
     bind (gets config) (\<lambda>cfg.
     bind list_infrastructure_names (\<lambda>available_targets.
     seq (assert_py (available_targets \<noteq> []) ''No infrastructure targets available. Install appropriate plugin.'')
     (if given (mf_infrastructure_target manifest) then
        seq (assert_py (the (mf_infrastructure_target manifest) \<in> set available_targets)
               (''Selected infrastructure target '' @ the (mf_infrastructure_target manifest) @ '' is unavailable. Available are ''
                  @ join '', '' available_targets @ ''.''))
            (ret (the (mf_infrastructure_target manifest)))
      else if length available_targets = 1 then ret (hd available_targets)
      else if given (cfg_infrastructure_target cfg) then
        seq (assert_py (the (cfg_infrastructure_target cfg) \<in> set available_targets)
               (''Selected infrastructure target '' @ the (cfg_infrastructure_target cfg) @ '' is unavailable. Available are ''
                  @ join '', '' available_targets @ ''.''))
            (ret (the (cfg_infrastructure_target cfg)))
      else raise (RuntimeError ''Multiple infrastructure targets available. Please pick one.''))))"

definition get_infrastructure_target :: "string option \<Rightarrow> ('i, 'x, 'i InfrastructureTarget) clm" where
  "get_infrastructure_target infrastructure_name =
     bind (gets cached_targets) (\<lambda>infrastructures.
     if given infrastructure_name then
       (case map_of infrastructures (the infrastructure_name) of
          None \<Rightarrow> raise (AssertionError (''Selected infrastructure target '' @ the infrastructure_name @ '' is unavailable''))
        | Some target \<Rightarrow> ret target)
     else if length infrastructures = 1 then ret (snd (hd infrastructures))
     else raise (RuntimeError ''Infrastructure Target is not specified''))"

definition list_infrastructure_names_with_origins :: "('i, 'x, (string, PluginManifest) dict) clm" where
  "list_infrastructure_names_with_origins =
     bind (invoke_hook_with_origin ''infrastructure_targets'' hook_infrastructure_targets) (\<lambda>results.
     ret (dict_of (concat (map (\<lambda>(p, r). case r of None \<Rightarrow> [] | Some d \<Rightarrow> map (\<lambda>name. (name, plugin_manifest p)) (keys d)) results))))"

definition list_infrastructure_names_of_plugins :: "('i, 'x, (PluginManifest \<times> string) list) clm" where
  "list_infrastructure_names_of_plugins =
     bind (invoke_hook_with_origin ''infrastructure_targets'' hook_infrastructure_targets) (\<lambda>results.
     ret (concat (map (\<lambda>(p, r). case r of None \<Rightarrow> [] | Some d \<Rightarrow> map (\<lambda>name. (plugin_manifest p, name)) (keys d)) results)))"

text \<open>The cache of targets and job types that is filled when plugins are loaded.\<close>

definition on_plugins_reload :: "('i, 'x, unit) clm" where
  "on_plugins_reload =
     seq (wrap_context ''gathering infrastructure targets'' (
            seq (modify (\<lambda>w. w\<lparr>cached_targets := []\<rparr>))
            (bind gather_infrastructure_targets (\<lambda>targets. modify (\<lambda>w. w\<lparr>cached_targets := targets\<rparr>)))))
     (wrap_context ''gathering available job types'' (
        bind gather_job_types (\<lambda>job_types. modify (\<lambda>w. w\<lparr>cached_job_types := job_types\<rparr>))))"

subsection \<open>Deployers and monitors\<close>

definition get_job_deployer :: "string option \<Rightarrow> ('i, 'x, 'i JobDeployer option) clm" where
  "get_job_deployer infrastructure_name = bind (get_infrastructure_target infrastructure_name) (\<lambda>t. ret (job_deployer t))"

text \<open>Calling a method of an object that may be None.\<close>

definition call_method :: "'o option \<Rightarrow> string \<Rightarrow> ('o \<Rightarrow> ('w, 'a) py) \<Rightarrow> ('w, 'a) py" where
  "call_method obj name f = (case obj of None \<Rightarrow> raise (AttributeError name) | Some o' \<Rightarrow> f o')"

text \<open>The generator over the jobs of all targets: the jobs a monitor yields before it fails are kept.\<close>

fun jobs_of_targets :: "'i InfrastructureTarget list \<Rightarrow> 'i \<Rightarrow> JobDto list" where
  "jobs_of_targets [] i = []"
| "jobs_of_targets (t # ts) i =
     (case job_monitor t of None \<Rightarrow> [] | Some m \<Rightarrow> fst (op_list_jobs m i)) @ jobs_of_targets ts i"

definition list_infrastructure_jobs :: "('i, 'x, JobDto list) clm" where
  "list_infrastructure_jobs =
     bind list_infrastructure_targets (\<lambda>infrastructures. gets (\<lambda>w. jobs_of_targets infrastructures (infra w)))"

definition check_job_condition :: "JobDto \<Rightarrow> ('i, 'x, unit) clm \<Rightarrow> ('i, 'x, unit) clm" where
  "check_job_condition job on_job_alive =
     bind (get_infrastructure_target (infrastructure_target job)) (\<lambda>infrastructure.
     call_method (job_monitor infrastructure) ''check_job_condition'' (\<lambda>monitor.
       bind (on_infra (\<lambda>i. case op_check_job_condition monitor job (update_time job) True i of (r, i') \<Rightarrow> (Inr r, i'))) (\<lambda>(calls, error).
       seq (for_each (replicate calls ()) (\<lambda>_. on_job_alive))
       (case error of None \<Rightarrow> ret () | Some e \<Rightarrow> raise e))))"

definition read_recent_logs :: "JobDto \<Rightarrow> int \<Rightarrow> ('i, 'x, string) clm" where
  "read_recent_logs job tail =
     wrap_context ''reading Job logs'' (
       bind (get_infrastructure_target (infrastructure_target job)) (\<lambda>infrastructure.
       call_method (job_monitor infrastructure) ''read_recent_logs'' (\<lambda>monitor. on_infra (op_read_recent_logs monitor job tail))))"

definition list_log_streamers :: "('i, 'x, nat option list) clm" where
  "list_log_streamers = bind list_infrastructure_targets (\<lambda>infrastructures. ret (map logs_streamer infrastructures))"

section \<open>The selected job type\<close>

text \<open>Languages as the pairs of their name and version.\<close>

definition lang_key :: "string \<times> string \<Rightarrow> string" where
  "lang_key l = fst l @ '':'' @ snd l"

definition lang_ok :: "string \<times> string \<Rightarrow> bool" where
  "lang_ok l \<longleftrightarrow> CHR '':'' \<notin> set (fst l) \<and> CHR '':'' \<notin> set (snd l) \<and> (\<exists>v. SemanticVersion (snd l) = Inr v)"

lemma split_lang_key: "CHR '':'' \<notin> set n \<Longrightarrow> CHR '':'' \<notin> set v \<Longrightarrow> split_on (CHR '':'') (n @ '':'' @ v) = [n, v]"
  by (simp add: split_on_append split_on_free)

lemma lang_key_prefix:
  assumes "lang_ok l" and "CHR '':'' \<notin> set name"
  shows "startswith (lang_key l) (name @ '':'') \<longleftrightarrow> fst l = name"
proof
  assume "startswith (lang_key l) (name @ '':'')"
  then obtain t where t: "fst l @ '':'' @ snd l = name @ '':'' @ t"
    by (auto simp: startswith_iff lang_key_def)
  have "takeWhile (\<lambda>c. c \<noteq> CHR '':'') (n @ '':'' @ r) = n" if "CHR '':'' \<notin> set n" for n r
    using that by (induction n) auto
  from this [of "fst l" "snd l"] this [of name t] show "fst l = name"
    using assms t by (simp add: lang_ok_def)
qed (simp add: lang_key_def startswith_iff)

lemma map_err_map: "(\<And>x. x \<in> set xs \<Longrightarrow> f x = Inr (g x)) \<Longrightarrow> map_err f xs = Inr (map g xs)"
  by (induction xs) auto

lemma lang_versions_correct:
  assumes "\<forall>l \<in> set langs. lang_ok l" and "CHR '':'' \<notin> set name"
  shows "lang_versions name (map lang_key langs) = Inr (map snd (filter (\<lambda>l. fst l = name) langs))"
proof -
  have "filter (\<lambda>v. startswith v (name @ '':'')) (map lang_key langs) = map lang_key (filter (\<lambda>l. fst l = name) langs)"
    using assms by (auto simp: filter_map comp_def lang_key_prefix intro!: arg_cong [of _ _ "map lang_key"] filter_cong)
  moreover have "split_on (CHR '':'') (lang_key l) = [fst l, snd l]" if "l \<in> set langs" for l
    using assms(1) that split_lang_key [of "fst l" "snd l"] by (auto simp: lang_key_def lang_ok_def)
  then have "map_err (\<lambda>v. case split_on (CHR '':'') v of _ # p # _ \<Rightarrow> Inr p | _ \<Rightarrow> Inl (ValueError ''list index out of range''))
      (map lang_key (filter (\<lambda>l. fst l = name) langs)) = Inr (map (\<lambda>v. last (split_on (CHR '':'') v)) (map lang_key (filter (\<lambda>l. fst l = name) langs)))"
    by (intro map_err_map) auto
  ultimately show ?thesis
    using \<open>\<And>l. l \<in> set langs \<Longrightarrow> split_on (CHR '':'') (lang_key l) = [fst l, snd l]\<close>
    by (simp add: lang_versions_def comp_def cong: map_cong)
qed

text \<open>The languages a selector stands for.\<close>

definition selectable :: "string \<Rightarrow> string \<Rightarrow> string \<times> string \<Rightarrow> bool" where
  "selectable name version l \<longleftrightarrow> fst l = name
     \<and> (version = ''latest'' \<or> matches (projr (from_asterisk_pattern version)) (projr (SemanticVersion (snd l))))"

abbreviation ver_of :: "string \<times> string \<Rightarrow> semantic_version" where
  "ver_of l \<equiv> projr (SemanticVersion (snd l))"

lemma sort_key_empty [simp]: "sort_key f xs = [] \<longleftrightarrow> xs = []"
  by (metis length_0_conv length_sort)

lemma last_sorted_max:
  assumes "xs \<noteq> []"
  shows "last (sort_key f xs) \<in> set xs" and "x \<in> set xs \<Longrightarrow> f x \<le> f (last (sort_key f xs))"
proof -
  have ne: "sort_key f xs \<noteq> []" using assms by simp
  then show "last (sort_key f xs) \<in> set xs" using last_in_set [OF ne] by simp
  assume "x \<in> set xs"
  then obtain i where i: "i < length (sort_key f xs)" "sort_key f xs ! i = x" by (metis in_set_conv_nth set_sort)
  have "map f (sort_key f xs) ! i \<le> map f (sort_key f xs) ! (length (sort_key f xs) - 1)"
    using i by (intro sorted_nth_mono) auto
  then show "f x \<le> f (last (sort_key f xs))"
    using i ne by (simp add: last_conv_nth)
qed

lemma match_latest:
  assumes "\<forall>l \<in> set langs. lang_ok l" and "CHR '':'' \<notin> set name" and "l \<in> set langs" and "fst l = name"
  shows "\<exists>m \<in> set langs. match_job_type_version (name @ '':latest'') (map lang_key langs) = Inr (lang_key m)
    \<and> fst m = name \<and> (\<forall>q \<in> set langs. fst q = name \<longrightarrow> ver_of q \<le> ver_of m)"
proof -
  let ?ls = "filter (\<lambda>l. fst l = name) langs"
  have sp: "split_on (CHR '':'') (name @ '':latest'') = [name, ''latest'']"
    using split_lang_key [OF assms(2), of "''latest''"] by simp
  have pv: "parse_versions (\<lambda>v. v) (map snd ?ls) = Inr (map (\<lambda>v. (projr (SemanticVersion v), v)) (map snd ?ls))"
    using assms(1) by (intro parse_versions_ok) (auto simp: lang_ok_def)
  let ?ps = "map (\<lambda>v. (projr (SemanticVersion v), v)) (map snd ?ls)"
  have ne: "?ps \<noteq> []" using assms(3,4) by (auto simp: filter_empty_conv)
  obtain v where v: "last (sort_key fst ?ps) = v" by blast
  with last_sorted_max(1) [OF ne, of fst] obtain m where m: "m \<in> set langs" "fst m = name" "v = (ver_of m, snd m)"
    by auto
  have "last (map snd (sort_key fst ?ps)) = snd (last (sort_key fst ?ps))"
    using ne by (intro last_map) (simp only: sort_key_empty not_False_eq_True)
  then have "last (map snd (sort_key fst ?ps)) = snd m"
    by (simp only: v m(3) snd_conv)
  then have "match_job_type_version (name @ '':latest'') (map lang_key langs) = Inr (lang_key m)"
    using ne m(2)
    by (simp add: match_job_type_version_def sp lang_versions_correct [OF assms(1,2)] sort_versions_def pv lang_key_def)
  moreover have "ver_of q \<le> ver_of m" if "q \<in> set langs" "fst q = name" for q
    using last_sorted_max(2) [OF ne, of "(ver_of q, snd q)" fst] that m(3) v by auto
  ultimately show ?thesis using m by blast
qed

lemma match_pattern:
  assumes "\<forall>l \<in> set langs. lang_ok l" and "CHR '':'' \<notin> set name" and "is_asterisk_pattern version" and "version \<noteq> ''latest''"
    and "CHR '':'' \<notin> set version"
  shows "case match_job_type_version (name @ '':'' @ version) (map lang_key langs) of
      Inl e \<Rightarrow> \<forall>l \<in> set langs. \<not> selectable name version l
    | Inr k \<Rightarrow> \<exists>m \<in> set langs. k = lang_key m \<and> selectable name version m
        \<and> (\<forall>q \<in> set langs. selectable name version q \<longrightarrow> ver_of q \<le> ver_of m)"
proof -
  let ?vs = "map snd (filter (\<lambda>l. fst l = name) langs)" and ?ver = "\<lambda>v. projr (SemanticVersion v)"
  obtain pattern where p: "from_asterisk_pattern version = Inr pattern"
    using assms(3) by (auto simp: from_asterisk_pattern_def is_asterisk_pattern_def)
  have sp: "split_on (CHR '':'') (name @ '':'' @ version) = [name, version]"
    by (rule split_lang_key [OF assms(2,5)])
  have "parse_versions (\<lambda>v. v) ?vs = Inr (map (\<lambda>v. (?ver v, v)) ?vs)"
    using assms(1) by (intro parse_versions_ok) (auto simp: lang_ok_def)
  then have f: "find_latest_wildcard pattern ?vs (\<lambda>v. v) False
      = Inr (latest_object (filter (\<lambda>(v, _). matches pattern v) (dict_of (map (\<lambda>v. (?ver v, v)) ?vs))))"
    by (simp add: find_latest_wildcard_def)
  have run: "match_job_type_version (name @ '':'' @ version) (map lang_key langs) =
      (case latest_object (filter (\<lambda>(v, _). matches pattern v) (dict_of (map (\<lambda>v. (?ver v, v)) ?vs))) of
         None \<Rightarrow> Inl (AssertionError (''language pattern '' @ (name @ '':'' @ version) @ '' doesn't match any of the supported versions''))
       | Some m \<Rightarrow> Inr (name @ '':'' @ m))"
    using assms(3,4) sp
    by (simp add: match_job_type_version_def lang_versions_correct [OF assms(1,2)] p f split: option.splits)
  have sel: "selectable name version l \<longleftrightarrow> fst l = name \<and> matches pattern (ver_of l)" for l
    using assms(4) p by (simp add: selectable_def)
  show ?thesis
    using latest_filtered [of "matches pattern" ?ver ?vs] unfolding run sel
    by (auto simp: lang_key_def Bex_def split: option.splits)
qed

text \<open>
  C40. The job type of a manifest is resolved as its selector says: with valid installed job types,
  \<open>name:latest\<close> selects the greatest installed version of that language, a pattern with an asterisk the
  greatest version the pattern matches, and the resolution fails exactly when no installed job type
  qualifies.
\<close>
theorem job_type_selection:
  assumes "\<forall>l \<in> set langs. lang_ok l" and "CHR '':'' \<notin> set name" and "CHR '':'' \<notin> set version"
    and "version = ''latest'' \<or> is_asterisk_pattern version"
  shows "case match_job_type_version (name @ '':'' @ version) (map lang_key langs) of
      Inl e \<Rightarrow> \<forall>l \<in> set langs. \<not> selectable name version l
    | Inr k \<Rightarrow> \<exists>m \<in> set langs. k = lang_key m \<and> selectable name version m
        \<and> (\<forall>q \<in> set langs. selectable name version q \<longrightarrow> ver_of q \<le> ver_of m)"
proof (cases "version = ''latest''")
  case True
  show ?thesis
  proof (cases "\<exists>l \<in> set langs. fst l = name")
    case l: True
    then obtain m where "m \<in> set langs" "fst m = name" "\<forall>q \<in> set langs. fst q = name \<longrightarrow> ver_of q \<le> ver_of m"
        "match_job_type_version (name @ '':latest'') (map lang_key langs) = Inr (lang_key m)"
      using match_latest [OF assms(1,2)] by blast
    then show ?thesis
      using True by (auto simp: selectable_def intro!: bexI [of _ m])
  next
    case False
    have "split_on (CHR '':'') (name @ '':latest'') = [name, ''latest'']"
      using split_lang_key [OF assms(2), of "''latest''"] by simp
    moreover have "filter (\<lambda>l. fst l = name) langs = []" using False by (auto simp: filter_empty_conv)
    ultimately show ?thesis
      using True False
      by (simp add: match_job_type_version_def lang_versions_correct [OF assms(1,2)] sort_versions_def selectable_def)
  qed
next
  case False
  with match_pattern [OF assms(1,2) _ False assms(3)] assms(4) show ?thesis by blast
qed

theorem job_type_selection_witness:
  "let ls = [(''python3'', ''2.4.0''), (''golang'', ''3.0.0''), (''python3'', ''2.10.1'')]
   in case match_job_type_version ''python3:latest'' (map lang_key ls) of
      Inl e \<Rightarrow> False
    | Inr k \<Rightarrow> \<exists>m \<in> set ls. k = lang_key m \<and> fst m = ''python3'' \<and> (\<forall>q \<in> set ls. fst q = ''python3'' \<longrightarrow> ver_of q \<le> ver_of m)"
proof -
  let ?ls = "[(''python3'', ''2.4.0''), (''golang'', ''3.0.0''), (''python3'', ''2.10.1'')]"
  have ok: "\<forall>l \<in> set ?ls. lang_ok l" by (simp add: lang_ok_def parse_eval)
  have sel: "selectable ''python3'' ''latest'' l \<longleftrightarrow> fst l = ''python3''" for l by (simp add: selectable_def)
  have "case match_job_type_version (''python3'' @ '':'' @ ''latest'') (map lang_key ?ls) of
      Inl e \<Rightarrow> \<forall>l \<in> set ?ls. \<not> selectable ''python3'' ''latest'' l
    | Inr k \<Rightarrow> \<exists>m \<in> set ?ls. k = lang_key m \<and> selectable ''python3'' ''latest'' m
        \<and> (\<forall>q \<in> set ?ls. selectable ''python3'' ''latest'' q \<longrightarrow> ver_of q \<le> ver_of m)"
    by (rule job_type_selection [OF ok]) simp_all
  moreover have "\<not> (\<forall>l \<in> set ?ls. fst l \<noteq> ''python3'')" by simp
  ultimately show ?thesis
    unfolding Let_def sel append.simps by (simp only: split: sum.splits)
qed

section \<open>Targets of a deployment\<close>

text \<open>
  A deployment is sent to a target that exists: when the target of a manifest is determined, the
  name is the manifest's own choice if it makes one, else the only available target or the configured
  one; it is always the name of an available target, and with the targets cached as the plugins report
  them, looking that name up returns the target.
\<close>

lemma determined_target_usable:
  fixes w :: "('i, 'x) cluster_scheme"
  assumes "gather_infrastructure_targets w = (Inr d, w1)" and "cached_targets w1 = d" and "[] \<notin> set (keys d)"
    and "determine_infrastructure_name manifest w = (Inr name, w')"
  shows "w' = w1 \<and> (\<exists>target. map_of d name = Some target \<and> get_infrastructure_target (Some name) w' = (Inr target, w'))
    \<and> (if given (mf_infrastructure_target manifest) then name = the (mf_infrastructure_target manifest)
       else if length d = 1 then True
       else given (cfg_infrastructure_target (config w)) \<and> name = the (cfg_infrastructure_target (config w)))"
proof -
  have names: "list_infrastructure_names w = (Inr (sort (keys d)), w1)"
    by (simp add: list_infrastructure_names_def run_bind run_ret assms(1))
  have "w' = w1 \<and> name \<in> set (keys d)
    \<and> (if given (mf_infrastructure_target manifest) then name = the (mf_infrastructure_target manifest)
       else if length d = 1 then True
       else given (cfg_infrastructure_target (config w)) \<and> name = the (cfg_infrastructure_target (config w)))"
    using assms(4) names
    by (auto simp: determine_infrastructure_name_def py_run length_Suc_conv split: if_splits)
  moreover from this obtain target where "map_of d name = Some target"
    by (metis domD dom_map_of_conv_image_fst list.set_map)
  moreover have "given (Some name)" using calculation(1) assms(3) by (metis given_def option.discI option.inject)
  ultimately show ?thesis
    using assms(2) by (auto simp: get_infrastructure_target_def py_run)
qed

definition plain_manifest :: PluginManifest where
  "plain_manifest = \<lparr>pm_name = ''docker-infrastructure'', pm_version = ''1.0.0'', build_date = None, pm_url = None, priority = 0,
     category = Some ''infrastructure'', pm_components = []\<rparr>"

text \<open>A small infrastructure: the deployed jobs as pairs of name and version. A target whose deployer adds
  and removes them and whose monitor lists them.\<close>

definition sample_deployer :: "(string \<times> string) list JobDeployer" where
  "sample_deployer = \<lparr>
     op_deploy_job = (\<lambda>r i. (Inr (sample_job\<lparr>job_name := mf_name (dr_manifest r), job_version := mf_version (dr_manifest r),
       infrastructure_target := Some ''docker''\<rparr>), (mf_name (dr_manifest r), mf_version (dr_manifest r)) # i)),
     op_delete_job = (\<lambda>n v i. (Inr (), removeAll (n, v) i)),
     op_job_exists = (\<lambda>n v i. (Inr ((n, v) \<in> set i), i)),
     op_save_job_secrets = (\<lambda>n v s i. (Inr (), i)),
     op_get_job_secrets = (\<lambda>n v i. (Inr \<lparr>git_credentials = None, secret_build_env = [], secret_runtime_env = []\<rparr>, i))\<rparr>"

definition sample_monitor :: "(string \<times> string) list JobMonitor" where
  "sample_monitor = \<lparr>
     op_list_jobs = (\<lambda>i. (map (\<lambda>(n, v). sample_job\<lparr>job_name := n, job_version := v, infrastructure_target := Some ''docker''\<rparr>) i, None)),
     op_check_job_condition = (\<lambda>job t logs i. ((1, None), i)), op_read_recent_logs = (\<lambda>job n i. (Inr [], i))\<rparr>"

definition sample_target :: "(string \<times> string) list InfrastructureTarget" where
  "sample_target = \<lparr>it_name = Some ''docker'', job_deployer = Some sample_deployer, job_monitor = Some sample_monitor,
     logs_streamer = None, remote_gateway_url = None, remote_gateway_token = None\<rparr>"

definition sample_plugin :: "(string \<times> string) list PluginData" where
  "sample_plugin = \<lparr>plugin_manifest = plain_manifest, plugin_dir = ''/plugins'', zip_path = ''/plugins/docker.zip'',
     config_path = ''/plugins/config.yaml'',
     hook_infrastructure_targets = Some (\<lambda>i. (Inr (Some [(''docker'', sample_target)]), i)),
     hook_job_types = Some (\<lambda>i. (Inr (Some [(''python3:2.4.0'', JtJson (JStr ''Dockerfile''))]), i)),
     hook_post_job_deploy = None, hook_post_job_delete = None\<rparr>"

text \<open>An image builder that answers every request after one heartbeat.\<close>

definition sample_stream :: "(string \<times> string) list streamer" where
  "sample_stream verb url payload i =
     (Inr \<lparr>st_status_code = 200, st_reason = ''OK'', st_method = verb, st_url = url,
        st_lines = splitlines (stream_result_with_heartbeat 1
          (Inr (JObj [(''image_names'', JList []), (''logs'', JStr ''built''), (''error'', JNull)])))\<rparr>, i)"

definition sample_cluster :: "(string \<times> string) list cluster" where
  "sample_cluster = server.extend sample_server
     (cluster.fields [] [sample_plugin] [(''docker'', sample_target)] [] (\<lambda>_. True) (\<lambda>rq i. (Opened 200 [] [], i)) sample_stream (\<lambda>_. 0))"

theorem determined_target_usable_witness:
  "\<exists>w'. determine_infrastructure_name sample_manifest sample_cluster = (Inr ''docker'', w')
     \<and> get_infrastructure_target (Some ''docker'') w' = (Inr sample_target, w')"
proof -
  have g: "gather_infrastructure_targets sample_cluster = (Inr [(''docker'', sample_target)], sample_cluster)"
    by (simp add: gather_infrastructure_targets_def invoke_plugin_hook_def invoke_hook_with_origin_def py_run on_infra_def
        sample_cluster_def server.defs cluster.defs sample_plugin_def)
  have c: "cached_targets sample_cluster = [(''docker'', sample_target)]" by (simp add: sample_cluster_def server.defs cluster.defs)
  have "list_infrastructure_names sample_cluster = (Inr [''docker''], sample_cluster)"
    by (simp add: list_infrastructure_names_def run_bind run_ret g)
  then have d: "determine_infrastructure_name sample_manifest sample_cluster = (Inr ''docker'', sample_cluster)"
    by (simp add: determine_infrastructure_name_def py_run sample_manifest_def given_def)
  from determined_target_usable [OF g c _ d] d show ?thesis by auto
qed

end
