(* ===== verification/Registry.thy ===== *)
theory Registry
  imports Cluster "HOL-Library.Multiset"
begin

text \<open>
  The registry of jobs (\<open>lifecycle/job/registry.py\<close>): listing and reading jobs, deleting them from the
  infrastructure and from the database, and the synchronization of the database with the jobs that the
  infrastructure reports.
\<close>

section \<open>Audit events\<close>

datatype AuditLogEventType =
  JOB_DEPLOYED | JOB_REDEPLOYED | JOB_DELETED | JOB_MOVED | DEPLOYMENT_FAILED | PLUGIN_INSTALLED | PLUGIN_UNINSTALLED

fun event_type_value :: "AuditLogEventType \<Rightarrow> string" where
  "event_type_value JOB_DEPLOYED = ''job_deployed''"
| "event_type_value JOB_REDEPLOYED = ''job_redeployed''"
| "event_type_value JOB_DELETED = ''job_deleted''"
| "event_type_value JOB_MOVED = ''job_moved''"
| "event_type_value DEPLOYMENT_FAILED = ''deployment_failed''"
| "event_type_value PLUGIN_INSTALLED = ''plugin_installed''"
| "event_type_value PLUGIN_UNINSTALLED = ''plugin_uninstalled''"

section \<open>Listing and reading\<close>

definition job_registry_dtos :: "('x, JobDto list) lcm" where
  "job_registry_dtos = bind list_job_models (map_py job_record_to_dto)"

definition list_job_registry :: "robj option \<Rightarrow> ('x, JobDto list) svm" where
  "list_job_registry auth_subject =
     bind job_registry_dtos (\<lambda>jobs.
     case auth_subject of None \<Rightarrow> ret jobs | Some subj \<Rightarrow> list_permitted_jobs subj (scope_value READ_JOB) jobs)"

definition list_job_families :: "robj option \<Rightarrow> ('x, JobFamilyDto list) svm" where
  "list_job_families auth_subject =
     bind list_job_family_models (\<lambda>models.
     let families = map job_family_record_to_dto models
     in case auth_subject of None \<Rightarrow> ret families | Some subj \<Rightarrow> list_permitted_families subj (scope_value READ_JOB) families)"

definition read_job_family :: "string \<Rightarrow> ('x, JobFamilyDto) lcm" where
  "read_job_family job_family = bind (read_job_family_model job_family) (\<lambda>model. ret (job_family_record_to_dto model))"

definition read_job :: "string \<Rightarrow> string \<Rightarrow> ('x, JobDto) lcm" where
  "read_job name version = bind (read_job_model name version) job_record_to_dto"

definition read_versioned_job :: "string \<Rightarrow> string \<Rightarrow> ('x, JobDto) lcm" where
  "read_versioned_job name version = bind (resolve_job_model name version) job_record_to_dto"

section \<open>Deleting\<close>

definition delete_from_infrastructure :: "JobDto \<Rightarrow> string option \<Rightarrow> string \<Rightarrow> string \<Rightarrow> ('i, 'x, unit) clm" where
  "delete_from_infrastructure job infrastructure name version =
     (if job_status job \<noteq> job_status_value LOST then
        bind (get_job_deployer infrastructure) (\<lambda>deployer.
        call_method deployer ''delete_job'' (\<lambda>d. on_infra (op_delete_job d name version)))
      else ret ())"

definition post_job_delete_hooks :: "JobDto \<Rightarrow> string \<Rightarrow> ('i, 'x, unit) clm" where
  "post_job_delete_hooks job username =
     seq (invoke_plugin_hook ''post_job_delete'' (\<lambda>p. map_option (\<lambda>f. f job (Some username)) (hook_post_job_delete p))) (ret ())"

definition log_job_deleted :: "JobDto \<Rightarrow> string \<Rightarrow> string \<Rightarrow> string \<Rightarrow> ('x, unit) lcm" where
  "log_job_deleted job name version username =
     log_event (event_type_value JOB_DELETED) None (Some username) (deployed_by job) (Some name) (Some version)"

definition delete_job :: "string \<Rightarrow> string \<Rightarrow> string \<Rightarrow> ('i, 'x, unit) clm" where
  "delete_job name version username =
     bind (read_job name version) (\<lambda>job.
     seq (delete_from_infrastructure job (infrastructure_target job) name version)
     (seq (log_job_deleted job name version username)
     (seq (create_trashed_job job)
     (seq (delete_job_model name version)
          (post_job_delete_hooks job username)))))"

definition decommission_job_infrastructure :: "string \<Rightarrow> string \<Rightarrow> string option \<Rightarrow> string \<Rightarrow> ('i, 'x, unit) clm" where
  "decommission_job_infrastructure name version infrastructure username =
     bind (read_job name version) (\<lambda>job.
     seq (delete_from_infrastructure job infrastructure name version)
     (seq (log_job_deleted job name version username)
          (post_job_delete_hooks job username)))"

section \<open>Synchronization\<close>

text \<open>Python's equality of JSON-like values: dictionaries regardless of their order, True as 1.\<close>

fun json_number :: "json \<Rightarrow> int option" where
  "json_number (JBool b) = Some (if b then 1 else 0)"
| "json_number (JInt i) = Some i"
| "json_number j = None"

lemma json_obj_size [termination_simp]: "(k, v) \<in> set kvs \<Longrightarrow> size v < Suc (size_list (size_prod (\<lambda>_. 0) size) kvs)"
  by (induction kvs) auto

function json_eq :: "json \<Rightarrow> json \<Rightarrow> bool" where
  "json_eq a b =
     (case (a, b) of
        (JObj kvs, JObj kvs') \<Rightarrow> length kvs = length kvs'
          \<and> list_all (\<lambda>(k, v). case map_of kvs' k of None \<Rightarrow> False | Some v' \<Rightarrow> json_eq v v') kvs
      | (JList xs, JList ys) \<Rightarrow> length xs = length ys \<and> list_all (\<lambda>(x, y). json_eq x y) (zip xs ys)
      | _ \<Rightarrow> a = b \<or> (json_number a \<noteq> None \<and> json_number a = json_number b))"
  by pat_completeness auto
termination
  by (relation "measure (\<lambda>(a, b). size a)")
    (auto simp: json_obj_size less_Suc_eq_le size_list_estimation' dest!: set_zip_leftD)

declare json_eq.simps [simp del]

definition stats_differ :: "(string, json) dict \<Rightarrow> (string, json) dict \<Rightarrow> bool" where
  "stats_differ a b \<longleftrightarrow> \<not> json_eq (JObj a) (JObj b)"

definition job_resource_name :: "string \<Rightarrow> string \<Rightarrow> string" where
  "job_resource_name name version =
     map (\<lambda>c. if c = CHR ''.'' then CHR ''-'' else c) (''job-'' @ name @ ''-v-'' @ version)"

definition job_key_of :: "JobDto \<Rightarrow> string" where
  "job_key_of job = job_resource_name (job_name job) (job_version job)"

definition generate_job_map :: "JobDto list \<Rightarrow> (string, JobDto) dict" where
  "generate_job_map jobs = dict_of (map (\<lambda>job. (job_key_of job, job)) jobs)"

definition obsolete_notice :: string where
  "obsolete_notice = ''This version of the job type is obsolete and no longer available.''"

definition apply_job_notice :: "JobDto \<Rightarrow> JobDto \<Rightarrow> string list \<Rightarrow> string" where
  "apply_job_notice registry_job infrastructure_job available_job_types =
     (let notices = (if given (notice infrastructure_job) then split_on (CHR '';'') (the (notice infrastructure_job)) else []);
          notices = (if job_type_version registry_job \<notin> set available_job_types \<and> obsolete_notice \<notin> set notices
                     then notices @ [obsolete_notice] else notices)
      in join '';'' notices)"

text \<open>One comparison of \<open>_sync_registry_job\<close>: on a difference the value is taken over and the job is changed.\<close>

definition take_over :: "bool \<Rightarrow> (JobDto \<Rightarrow> JobDto) \<Rightarrow> JobDto \<times> bool \<Rightarrow> JobDto \<times> bool" where
  "take_over differs f s = (if differs then (f (fst s), True) else s)"

definition newer_call :: "int option \<Rightarrow> int option \<Rightarrow> bool" where
  "newer_call registry_time infrastructure_time =
     (case infrastructure_time of None \<Rightarrow> False
      | Some t \<Rightarrow> (case registry_time of None \<Rightarrow> True | Some u \<Rightarrow> u < t))"

definition sync_fields :: "JobDto \<Rightarrow> JobDto \<Rightarrow> JobDto \<times> bool" where
  "sync_fields r i =
     take_over (newer_call (last_call_time r) (last_call_time i)) (\<lambda>j. j\<lparr>last_call_time := last_call_time i\<rparr>)
    (take_over (stats_differ (infrastructure_stats r) (infrastructure_stats i)) (\<lambda>j. j\<lparr>infrastructure_stats := infrastructure_stats i\<rparr>)
    (take_over (replica_internal_names r \<noteq> replica_internal_names i) (\<lambda>j. j\<lparr>replica_internal_names := replica_internal_names i\<rparr>)
    (take_over (internal_name r \<noteq> internal_name i) (\<lambda>j. j\<lparr>internal_name := internal_name i\<rparr>)
    (take_over (infrastructure_target r \<noteq> infrastructure_target i) (\<lambda>j. j\<lparr>infrastructure_target := infrastructure_target i\<rparr>)
    (take_over (notice r \<noteq> notice i) (\<lambda>j. j\<lparr>notice := notice i\<rparr>)
    (take_over (job_error r \<noteq> job_error i) (\<lambda>j. j\<lparr>job_error := job_error i\<rparr>)
    (take_over (job_status r \<noteq> job_status i) (\<lambda>j. j\<lparr>job_status := job_status i\<rparr>) (r, False))))))))"

definition sync_registry_job :: "JobDto \<Rightarrow> JobDto \<Rightarrow> ('x, JobDto) lcm" where
  "sync_registry_job registry_job infrastructure_job =
     (case sync_fields registry_job infrastructure_job of
        (job, changed) \<Rightarrow> if changed then seq (update_job job) (ret job) else ret job)"

text \<open>The body of the loop over the registered jobs; the result is the job as the loop leaves it.\<close>

definition sync_one :: "(string, JobDto) dict \<Rightarrow> string list \<Rightarrow> string \<times> JobDto \<Rightarrow> ('x, JobDto) lcm" where
  "sync_one infrastructure_jobs_map available_job_types = (\<lambda>(ident, registry_job).
     if job_status registry_job \<noteq> job_status_value STARTING then
       (case map_of infrastructure_jobs_map ident of
          Some infrastructure_job \<Rightarrow>
            sync_registry_job registry_job (infrastructure_job\<lparr>notice :=
              Some (apply_job_notice registry_job infrastructure_job available_job_types)\<rparr>)
        | None \<Rightarrow>
            if job_status registry_job \<noteq> job_status_value LOST then
              (let job = registry_job\<lparr>job_status := job_status_value LOST\<rparr> in seq (update_job job) (ret job))
            else ret registry_job)
     else ret registry_job)"

definition all_statuses :: "JobStatus list" where
  "all_statuses = [STARTING, RUNNING, ERROR, ORPHANED, LOST]"

text \<open>The result is the number of jobs by status that the metric is set to.\<close>

definition sync_registry_jobs :: "('i, 'x, (string \<times> nat) list) clm" where
  "sync_registry_jobs =
     bind (wrap_context ''synchronizing job'' (
       bind (gets (\<lambda>w. keys (cached_job_types w))) (\<lambda>available_job_types.
       bind list_infrastructure_jobs (\<lambda>infrastructure_jobs.
       bind (list_job_registry None) (\<lambda>registry_jobs.
       let infrastructure_jobs_map = generate_job_map infrastructure_jobs;
           registry_jobs_map = generate_job_map registry_jobs
       in bind (map_py (sync_one infrastructure_jobs_map available_job_types) registry_jobs_map) (\<lambda>jobs.
          let orphans = filter (\<lambda>(ident, _). ident \<notin> set (keys registry_jobs_map)) infrastructure_jobs_map
          in ret (map job_status jobs @ map (\<lambda>_. job_status_value ORPHANED) orphans))))))) (\<lambda>statuses.
     ret (map (\<lambda>s. (job_status_value s, length (filter (\<lambda>x. x = job_status_value s) statuses))) all_statuses))"

section \<open>The registry as the abstract view of the database\<close>

text \<open>The view: name, version and status of every job, in the order of the rows. The specification of the
  synchronization changes the statuses alone: a starting job is left alone, a job the infrastructure
  reports takes the reported status, any other job is lost.\<close>

definition job_view :: "row \<Rightarrow> string \<times> string \<times> string" where
  "job_view r = (the_str (row_val r ''name''), the_str (row_val r ''version''), the_str (row_val r ''status''))"

definition registry_view :: "(table \<Rightarrow> row list) \<Rightarrow> (string \<times> string \<times> string) list" where
  "registry_view d = map job_view (d Job)"

definition synced_status :: "(string, JobDto) dict \<Rightarrow> string \<times> string \<times> string \<Rightarrow> string" where
  "synced_status reported = (\<lambda>(name, version, status).
     if status = ''starting'' then status
     else case map_of reported (job_resource_name name version) of None \<Rightarrow> ''lost'' | Some job \<Rightarrow> job_status job)"

definition sync_view :: "(string, JobDto) dict \<Rightarrow> string \<times> string \<times> string \<Rightarrow> string \<times> string \<times> string" where
  "sync_view reported v = (fst v, fst (snd v), synced_status reported v)"

lemma take_over_simps [simp]:
  "fst (take_over b f s) = (if b then f (fst s) else fst s)" "snd (take_over b f s) \<longleftrightarrow> b \<or> snd s"
  by (simp_all add: take_over_def)

lemma sync_fields_effect:
  "job_name (fst (sync_fields r i)) = job_name r" "job_version (fst (sync_fields r i)) = job_version r"
  "job_status (fst (sync_fields r i)) = job_status i"
  "\<not> snd (sync_fields r i) \<Longrightarrow> fst (sync_fields r i) = r"
  by (simp_all add: sync_fields_def)

lemma job_string_columns:
  fixes w :: "'x lifecycle_scheme"
  assumes "wf w" and "r \<in> set (db w Job)"
  obtains n v s where "row_val r ''name'' = VStr n" and "row_val r ''version'' = VStr v" and "row_val r ''status'' = VStr s"
proof -
  have "\<exists>x. row_val r c = VStr x" if "c \<in> {''name'', ''version'', ''status''}" for c
  proof -
    have "list_all (\<lambda>c. c \<in> set (table_fields Job) \<and> col_type Job c = STRING) [''name'', ''version'', ''status'']" by code_simp
    with that have c: "c \<in> set (table_fields Job)" "col_type Job c = STRING" by auto
    have "has_type (col_type Job c) (row_val r c)" by (rule row_ok_val [OF db_okD(1) [OF assms] c(1)])
    then show ?thesis unfolding c(2) by (cases "row_val r c") (auto simp: has_type_def nullable_def)
  qed
  from this [of "''name''"] this [of "''version''"] this [of "''status''"] show thesis by (auto intro: that)
qed

lemma same_job_row:
  fixes w :: "'x lifecycle_scheme"
  assumes "wf w" and "r \<in> set (db w Job)" and "q \<in> set (db w Job)"
    and "fst (job_view q) = fst (job_view r)" and "fst (snd (job_view q)) = fst (snd (job_view r))"
  shows "q = r"
proof -
  obtain n v s where r: "row_val r ''name'' = VStr n" "row_val r ''version'' = VStr v" "row_val r ''status'' = VStr s"
    by (rule job_string_columns [OF assms(1,2)])
  obtain n' v' s' where q: "row_val q ''name'' = VStr n'" "row_val q ''version'' = VStr v'" "row_val q ''status'' = VStr s'"
    by (rule job_string_columns [OF assms(1,3)])
  have "named n v r" "named n v q" using assms(4,5) r q by (simp_all add: named_def job_view_def)
  then show ?thesis
    using run_read_job(1) [OF assms(1,2)] run_read_job(1) [OF assms(1,3)] by (fastforce simp: record_of_def)
qed

text \<open>Updating a job from a transfer object with the name and version of a row changes the status of that
  row in the view.\<close>

lemma run_update_job:
  fixes w :: "'x lifecycle_scheme"
  assumes "wf w" and "r \<in> set (db w Job)" and "job_view r = (job_name dto, job_version dto, s)"
  shows "\<exists>job w' r'. update_job dto w = (Inr job, w') \<and> wf w' \<and> db w' = replace_row (db w) Job r r'
    \<and> job_view r' = (job_name dto, job_version dto, job_status dto)"
proof -
  let ?r = "attrs (set_job_attrs dto (record_of Job r))"
  obtain n v s' where c: "row_val r ''name'' = VStr n" "row_val r ''version'' = VStr v" "row_val r ''status'' = VStr s'"
    by (rule job_string_columns [OF assms(1,2)])
  have "named (job_name dto) (job_version dto) r" using assms(3) c by (simp add: named_def job_view_def)
  then have read: "read_job_model (job_name dto) (job_version dto) w = (Inr (record_of Job r), w)"
    by (rule run_read_job(1) [OF assms(1,2)])
  obtain w' where u: "update_job_model (record_of Job r) dto w = (Inr (record_of Job ?r), w')"
    and d: "db w' = replace_row (db w) Job r ?r"
    using run_update_job_model [OF assms(1,2) refl, of dto] by blast
  have "wf w'" by (rule keeps_wf_run [OF keeps_registry_writes(3) assms(1) u])
  moreover have "job_view ?r = (job_name dto, job_version dto, job_status dto)"
    using set_job_attrs_row [OF db_okD(1) [OF assms(1,2)] refl, of dto] assms(3)
    by (simp add: job_view_def stores_def job_columns_def)
  moreover have "update_job dto w = (Inr (record_of Job ?r), w')"
    by (simp add: update_job_def run_bind read u)
  ultimately show ?thesis using d by blast
qed

lemma view_replace:
  fixes w :: "'x lifecycle_scheme"
  assumes "wf w" and "r \<in> set (db w Job)" and "fst (job_view r') = fst (job_view r)" and "fst (snd (job_view r')) = fst (snd (job_view r))"
  shows "registry_view (replace_row (db w) Job r r') = map (\<lambda>v. if v = job_view r then job_view r' else v) (registry_view (db w))"
proof -
  have "q = r \<longleftrightarrow> job_view q = job_view r" if "q \<in> set (db w Job)" for q
    using same_job_row [OF assms(1,2) that] by auto
  then show ?thesis by (auto simp: registry_view_def replace_row_def)
qed

text \<open>What the loop knows about the transfer object of a row.\<close>

definition dto_of_row :: "JobDto \<Rightarrow> row \<Rightarrow> bool" where
  "dto_of_row dto r \<longleftrightarrow> job_view r = (job_name dto, job_version dto, job_status dto)"

text \<open>The effect of the loop's body on the view.\<close>

lemma run_sync_one:
  fixes w :: "'x lifecycle_scheme"
  assumes "wf w" and "r \<in> set (db w Job)" and "dto_of_row dto r"
  shows "\<exists>job w' r'. sync_one reported types (job_key_of dto, dto) w = (Inr job, w') \<and> wf w' \<and> db w' = replace_row (db w) Job r r'
    \<and> job_view r' = sync_view reported (job_view r) \<and> job_status job = synced_status reported (job_view r)"
proof -
  have view: "job_view r = (job_name dto, job_version dto, job_status dto)" using assms(3) by (simp add: dto_of_row_def)
  have upd: "\<exists>w' r'. seq (update_job job) (ret job) w = (Inr job, w') \<and> wf w' \<and> db w' = replace_row (db w) Job r r'
      \<and> job_view r' = (job_name dto, job_version dto, job_status job)"
    if "job_name job = job_name dto" "job_version job = job_version dto" for job
    using run_update_job [OF assms(1,2), of job "job_status dto"] view that by (auto simp: run_seq run_ret)
  have same: "db w = replace_row (db w) Job r r" by (simp add: replace_row_same)
  show ?thesis
  proof (cases "job_status dto = ''starting''")
    case True
    then show ?thesis
      using same assms(1) view by (auto simp: sync_one_def run_ret sync_view_def synced_status_def)
  next
    case started: False
    show ?thesis
    proof (cases "map_of reported (job_key_of dto)")
      case None
      then show ?thesis
        using upd [of "dto\<lparr>job_status := ''lost''\<rparr>"] started same assms(1) view
        by (cases "job_status dto = ''lost''")
          (auto simp: sync_one_def run_ret sync_view_def synced_status_def job_key_of_def Let_def)
    next
      case (Some i)
      let ?i = "i\<lparr>notice := Some (apply_job_notice dto i types)\<rparr>"
      obtain job changed where s: "sync_fields dto ?i = (job, changed)" by force
      note eff = sync_fields_effect [of dto ?i, unfolded s, simplified]
      show ?thesis
        using upd [of job] started Some same assms(1) view eff s
        by (cases changed)
          (auto simp: sync_one_def sync_registry_job_def run_ret sync_view_def synced_status_def job_key_of_def)
    qed
  qed
qed

lemma replace_row_in: "q \<in> set (d t) \<Longrightarrow> q \<noteq> r \<Longrightarrow> q \<in> set (replace_row d t r r' t)"
  by (auto simp: replace_row_def image_iff)

lemma replace_row_tables: "t' \<noteq> t \<Longrightarrow> replace_row d t r r' t' = d t'"
  by (simp add: replace_row_def)

lemma run_sync_loop:
  fixes w :: "'x lifecycle_scheme"
  assumes "wf w" and "distinct rs" and "set rs \<subseteq> set (db w Job)" and "list_all2 dto_of_row dtos rs"
  shows "\<exists>jobs w'. map_py (sync_one reported types) (map (\<lambda>dto. (job_key_of dto, dto)) dtos) w = (Inr jobs, w') \<and> wf w'
    \<and> (\<forall>t. t \<noteq> Job \<longrightarrow> db w' t = db w t)
    \<and> registry_view (db w') = map (\<lambda>v. if v \<in> job_view ` set rs then sync_view reported v else v) (registry_view (db w))
    \<and> map job_status jobs = map (synced_status reported \<circ> job_view) rs"
  using assms
proof (induction rs arbitrary: w dtos)
  case Nil
  then show ?case by (auto simp: py_run)
next
  case (Cons r rs)
  then obtain dto dtos' where dtos: "dtos = dto # dtos'" "dto_of_row dto r" "list_all2 dto_of_row dtos' rs"
    by (auto simp: list_all2_Cons2)
  have r: "r \<in> set (db w Job)" using Cons.prems(3) by simp
  obtain job w1 r' where one: "sync_one reported types (job_key_of dto, dto) w = (Inr job, w1)" "wf w1"
      "db w1 = replace_row (db w) Job r r'" "job_view r' = sync_view reported (job_view r)"
      "job_status job = synced_status reported (job_view r)"
    using run_sync_one [OF Cons.prems(1) r dtos(2)] by blast
  have "set rs \<subseteq> set (db w1 Job)"
    using Cons.prems(2,3) one(3) by (auto intro!: replace_row_in)
  from Cons.IH [OF one(2) _ this dtos(3)] Cons.prems(2)
  obtain jobs w2 where rest: "map_py (sync_one reported types) (map (\<lambda>dto. (job_key_of dto, dto)) dtos') w1 = (Inr jobs, w2)"
      "wf w2" "\<forall>t. t \<noteq> Job \<longrightarrow> db w2 t = db w1 t"
      "registry_view (db w2) = map (\<lambda>v. if v \<in> job_view ` set rs then sync_view reported v else v) (registry_view (db w1))"
      "map job_status jobs = map (synced_status reported \<circ> job_view) rs"
    by auto
  have view1: "registry_view (db w1) = map (\<lambda>v. if v = job_view r then sync_view reported v else v) (registry_view (db w))"
    using view_replace [OF Cons.prems(1) r, of r'] one(3,4) by (auto simp: sync_view_def)
  have nkey: "(fst (job_view q), fst (snd (job_view q))) \<noteq> (fst (job_view r), fst (snd (job_view r)))" if "q \<in> set rs" for q
    using same_job_row [OF Cons.prems(1) r, of q] that Cons.prems(2,3) by auto
  have "registry_view (db w2) = map (\<lambda>v. if v \<in> job_view ` set (r # rs) then sync_view reported v else v) (registry_view (db w))"
    unfolding rest(4) view1 map_map
  proof (rule map_cong [OF refl], goal_cases)
    case (1 v)
    have "sync_view reported (job_view r) \<noteq> job_view q" "job_view r \<noteq> job_view q" if "q \<in> set rs" for q
      using nkey [OF that] by (metis fst_conv snd_conv sync_view_def)+
    then have "sync_view reported (job_view r) \<notin> job_view ` set rs" "job_view r \<notin> job_view ` set rs" by blast+
    then show ?case by auto
  qed
  then show ?case
    using one rest dtos(1) by (auto simp: run_bind run_ret replace_row_tables)
qed

section \<open>Plugins leave the database alone\<close>

lemma keeps_on_infra [keeps_intro]: "(\<And>w i. P w \<Longrightarrow> P (w\<lparr>infra := i\<rparr>)) \<Longrightarrow> keeps P (on_infra m)"
  by (auto simp: keeps_def on_infra_def split: prod.splits)

lemma keeps_invoke [keeps_intro]: "(\<And>w i. P w \<Longrightarrow> P (w\<lparr>infra := i\<rparr>)) \<Longrightarrow> keeps P (invoke_in name hook ps)"
  by (induction ps) (auto intro!: keeps_intro)

lemma keeps_hooks [keeps_intro]:
  assumes "\<And>w i. P w \<Longrightarrow> P (w\<lparr>infra := i\<rparr>)"
  shows "keeps P (invoke_hook_with_origin name hook)" "keeps P (invoke_plugin_hook name hook)"
    "keeps P gather_infrastructure_targets" "keeps P list_infrastructure_targets" "keeps P list_infrastructure_jobs"
    "keeps P (get_infrastructure_target target)" "keeps P (get_job_deployer target)"
  unfolding get_job_deployer_def get_infrastructure_target_def list_infrastructure_jobs_def list_infrastructure_targets_def
    gather_infrastructure_targets_def invoke_plugin_hook_def invoke_hook_with_origin_def
  by (intro keeps_intro assms; assumption)+

section \<open>Properties\<close>

lemma job_record_dto_view:
  fixes w :: "'x lifecycle_scheme"
  assumes "job_record_to_dto (record_of Job r) w = (Inr dto, w')"
  shows "dto_of_row dto r"
  using assms
  by (auto simp: job_record_to_dto_def dto_of_row_def job_view_def record_of_def run_lift run_ret elim!: bind_okE)

lemma run_map_dtos:
  fixes w :: "'x lifecycle_scheme"
  assumes "\<forall>r \<in> set rs. \<exists>dto. job_record_to_dto (record_of Job r) w = (Inr dto, w)"
  shows "\<exists>dtos. map_py job_record_to_dto (map (record_of Job) rs) w = (Inr dtos, w) \<and> list_all2 dto_of_row dtos rs"
  using assms
proof (induction rs)
  case (Cons r rs)
  then obtain dto dtos where "job_record_to_dto (record_of Job r) w = (Inr dto, w)"
      "map_py job_record_to_dto (map (record_of Job) rs) w = (Inr dtos, w)" "list_all2 dto_of_row dtos rs" by auto
  with job_record_dto_view [OF this(1)] show ?case by (simp add: run_bind run_ret)
qed (simp add: run_ret)

lemma mset_count_filter: "mset xs = mset ys \<Longrightarrow> length (filter P xs) = length (filter P ys)"
  by (metis mset_filter size_mset)

lemma status_counts:
  "map_of (map (\<lambda>s. (job_status_value s, f s)) all_statuses) (job_status_value s) = Some (f s)"
  "''orphaned'' = job_status_value s \<longleftrightarrow> s = ORPHANED"
  by (cases s; simp add: all_statuses_def)+

lemma mset_order_rows: "mset (order_rows order_by rows) = mset rows"
proof -
  have "mset (insert_row ks r rs) = add_mset r (mset rs)" for ks r rs
    by (induction rs) auto
  then show ?thesis
    by (induction rows) (auto simp: order_rows_def split: option.splits)
qed

abbreviation job_order :: "row list \<Rightarrow> row list" where
  "job_order \<equiv> order_rows (Some [''-update_time'', ''name''])"

lemma run_list_job_models:
  assumes "wf w"
  shows "list_job_models w = (Inr (map (record_of Job) (job_order (db w Job))), w)"
  using run_list_all [OF assms, of "Some [''-update_time'', ''name'']" Job None]
  by (simp add: list_job_models_def order_columns_def limit_rows_def meta_eval startswith_def)

abbreviation view_key :: "string \<times> string \<times> string \<Rightarrow> string" where
  "view_key v \<equiv> job_resource_name (fst v) (fst (snd v))"

lemma dtos_keys:
  assumes "list_all2 dto_of_row dtos rs"
  shows "map job_key_of dtos = map (view_key \<circ> job_view) rs"
  using assms by (induction rule: list_all2_induct) (auto simp: dto_of_row_def job_key_of_def)

lemma run_job_registry:
  fixes w :: "'x lifecycle_scheme"
  assumes "wf w" and "\<forall>r \<in> set (db w Job). \<exists>dto. job_record_to_dto (record_of Job r) w = (Inr dto, w)"
    and "distinct (map view_key (registry_view (db w)))"
  obtains dtos where "job_registry_dtos w = (Inr dtos, w)" and "list_all2 dto_of_row dtos (job_order (db w Job))"
    and "generate_job_map dtos = map (\<lambda>dto. (job_key_of dto, dto)) dtos"
    and "set (map job_key_of dtos) = set (map view_key (registry_view (db w)))"
proof -
  obtain dtos where d: "map_py job_record_to_dto (map (record_of Job) (job_order (db w Job))) w = (Inr dtos, w)"
      "list_all2 dto_of_row dtos (job_order (db w Job))"
    using run_map_dtos [of "job_order (db w Job)" w] assms(2) by auto
  have "mset (map job_key_of dtos) = mset (map view_key (registry_view (db w)))"
    unfolding dtos_keys [OF d(2)] mset_map mset_order_rows registry_view_def by (simp add: multiset.map_comp)
  then have "distinct (map job_key_of dtos)" "set (map job_key_of dtos) = set (map view_key (registry_view (db w)))"
    using assms(3) by (metis mset_eq_imp_distinct_iff, metis set_mset_mset)
  then show thesis
    using d by (intro that) (simp_all add: job_registry_dtos_def run_bind run_list_job_models [OF assms(1)] generate_job_map_def
        dict_of_distinct comp_def)
qed

text \<open>
  C17. The synchronization refines its specification on the view of the registry: with the jobs that the
  infrastructure reports, every job in the database keeps its name and version, a starting job keeps its
  status, a reported job takes the reported status and any other job is lost; no job is added or removed
  and no other table changes. It always completes when the records can be converted and no two jobs share
  a resource name, and the metric counts the jobs by their new status, with the reported jobs that are not
  registered as orphans.
\<close>
theorem sync_refines_view:
  fixes w :: "('i, 'x) cluster_scheme"
  assumes "wf w" and "list_infrastructure_jobs w = (Inr reported, w1)"
    and "\<forall>r \<in> set (db w Job). \<exists>dto. job_record_to_dto (record_of Job r) w1 = (Inr dto, w1)"
    and "distinct (map view_key (registry_view (db w)))"
  shows "\<exists>counts w'. sync_registry_jobs w = (Inr counts, w') \<and> wf w'
    \<and> registry_view (db w') = map (sync_view (generate_job_map reported)) (registry_view (db w))
    \<and> (\<forall>t. t \<noteq> Job \<longrightarrow> db w' t = db w t)
    \<and> (\<forall>s. map_of counts (job_status_value s) = Some (
         length (filter (\<lambda>v. snd (snd v) = job_status_value s) (registry_view (db w')))
         + (if s = ORPHANED then length (filter (\<lambda>k. k \<notin> set (map view_key (registry_view (db w)))) (keys (generate_job_map reported)))
            else 0)))"
proof -
  let ?m = "generate_job_map reported" and ?rs = "job_order (db w Job)" and ?types = "keys (cached_job_types w)"
  have d1: "db w1 = db w"
    using keepsD [OF keeps_hooks(5) [of "\<lambda>v. db v = db w"] _ assms(2)] by simp
  then have wf1: "wf w1" using assms(1) by simp
  obtain dtos where dtos: "job_registry_dtos w1 = (Inr dtos, w1)" "list_all2 dto_of_row dtos ?rs"
      "generate_job_map dtos = map (\<lambda>dto. (job_key_of dto, dto)) dtos"
      "set (map job_key_of dtos) = set (map view_key (registry_view (db w)))"
    by (rule run_job_registry [OF wf1]) (use assms(3,4) d1 in auto)
  have rs: "distinct ?rs" "set ?rs = set (db w1 Job)"
    using distinct_rows [OF assms(1), of Job] mset_order_rows [of _ "db w Job"] d1 by (metis mset_eq_imp_distinct_iff, simp)
  from run_sync_loop [OF wf1 rs(1) _ dtos(2), of ?m ?types] rs(2) obtain jobs w2 where
    loop: "map_py (sync_one ?m ?types) (map (\<lambda>dto. (job_key_of dto, dto)) dtos) w1 = (Inr jobs, w2)" "wf w2"
      "\<forall>t. t \<noteq> Job \<longrightarrow> db w2 t = db w1 t" "map job_status jobs = map (synced_status ?m \<circ> job_view) ?rs"
      "registry_view (db w2) = map (\<lambda>v. if v \<in> job_view ` set ?rs then sync_view ?m v else v) (registry_view (db w1))"
    by auto
  have view: "registry_view (db w2) = map (sync_view ?m) (registry_view (db w))"
    unfolding loop(5) d1 by (auto simp: registry_view_def)
  let ?orphans = "filter (\<lambda>(ident, _). ident \<notin> set (map job_key_of dtos)) ?m"
  let ?statuses = "map job_status jobs @ map (\<lambda>_. ''orphaned'') ?orphans"
  let ?counts = "map (\<lambda>s. (job_status_value s, length (filter (\<lambda>x. x = job_status_value s) ?statuses))) all_statuses"
  have run: "sync_registry_jobs w = (Inr ?counts, w2)"
    using loop(1) dtos(1,3)
    by (simp add: sync_registry_jobs_def list_job_registry_def py_run assms(2) Let_def comp_def image_image)
  have st: "mset (map job_status jobs) = mset (map (\<lambda>v. snd (snd v)) (registry_view (db w2)))"
    unfolding loop(4) view mset_map mset_order_rows by (simp add: registry_view_def multiset.map_comp comp_def sync_view_def)
  have "length (filter (\<lambda>x. x = y) (map job_status jobs)) = length (filter (\<lambda>v. snd (snd v) = y) (registry_view (db w2)))" for y
    using mset_count_filter [OF st, of "\<lambda>x. x = y"] by (simp add: filter_map comp_def)
  moreover have "length ?orphans = length (filter (\<lambda>k. k \<notin> set (map view_key (registry_view (db w)))) (keys ?m))"
    unfolding dtos(4) by (simp add: filter_map comp_def case_prod_unfold)
  ultimately show ?thesis
    using run loop(2,3) view d1 by (intro exI [of _ ?counts] exI [of _ w2]) (simp add: filter_map comp_def status_counts)
qed

lemma keeps_dto [keeps_intro]: "keeps P (parse_manifest_or_empty y)" "keeps P (get_job_pub_url n v)" "keeps P (job_record_to_dto model)"
  unfolding job_record_to_dto_def parse_manifest_or_empty_def get_job_pub_url_def Let_def
  by (intro keeps_intro)+

lemma run_dto:
  assumes "\<not> isl (fst (job_record_to_dto model w))"
  shows "\<exists>dto. job_record_to_dto model w = (Inr dto, w)"
  using assms keepsD [OF keeps_dto(3), of "\<lambda>v. v = w" w model] by (cases "job_record_to_dto model w"; cases "fst (job_record_to_dto model w)") auto

lemma sample_cluster_sel [simp]:
  "db sample_cluster = sample_db" "infra sample_cluster = []" "plugins_data sample_cluster = [sample_plugin]"
  "cached_targets sample_cluster = [(''docker'', sample_target)]" "config sample_cluster = sample_config"
  by (simp_all add: sample_cluster_def server.defs cluster.defs sample_server_def lifecycle.defs sample_lifecycle_def
      world.defs sample_world_def)

lemma sample_cluster_ok: "wf sample_cluster"
  by (simp add: sample_db_ok)

text \<open>The sample infrastructure with one registered job and an unknown one.\<close>

definition running_cluster :: "(string \<times> string) list cluster" where
  "running_cluster = sample_cluster\<lparr>infra := [(''adder'', ''0.0.1''), (''ghost'', ''1.0.0'')]\<rparr>"

theorem sync_refines_view_witness:
  "\<exists>counts w'. sync_registry_jobs running_cluster = (Inr counts, w')
     \<and> registry_view (db w') = [(''adder'', ''0.0.1'', ''running''), (''adder'', ''0.0.2'', ''lost''), (''primer'', ''0.0.1'', ''lost'')]
     \<and> map_of counts ''orphaned'' = Some 1"
proof -
  let ?reported = "map (\<lambda>(n, v). sample_job\<lparr>job_name := n, job_version := v, infrastructure_target := Some ''docker''\<rparr>)
    [(''adder'', ''0.0.1''), (''ghost'', ''1.0.0'')]"
  have jobs: "list_infrastructure_jobs running_cluster = (Inr ?reported, running_cluster)"
    by (simp add: list_infrastructure_jobs_def list_infrastructure_targets_def gather_infrastructure_targets_def invoke_plugin_hook_def
        invoke_hook_with_origin_def py_run on_infra_def running_cluster_def sample_plugin_def sample_target_def sample_monitor_def)
  have ok: "wf running_cluster" by (simp add: running_cluster_def sample_db_ok)
  have "\<forall>r \<in> set (sample_db Job). \<not> isl (fst (job_record_to_dto (record_of Job r) running_cluster))"
    by code_simp
  then have dto: "\<forall>r \<in> set (db running_cluster Job). \<exists>dto. job_record_to_dto (record_of Job r) running_cluster = (Inr dto, running_cluster)"
    by (intro ballI run_dto) (auto simp: running_cluster_def)
  have view: "registry_view (db running_cluster) = [(''adder'', ''0.0.1'', ''running''), (''adder'', ''0.0.2'', ''running''), (''primer'', ''0.0.1'', ''running'')]"
    unfolding running_cluster_def by code_simp
  have "distinct (map view_key (registry_view (db running_cluster)))"
    unfolding view by code_simp
  from sync_refines_view [OF ok jobs dto this] obtain counts w' where
    run: "sync_registry_jobs running_cluster = (Inr counts, w')"
    and new: "registry_view (db w') = map (sync_view (generate_job_map ?reported)) (registry_view (db running_cluster))"
    and count: "\<forall>s. map_of counts (job_status_value s) = Some (
      length (filter (\<lambda>v. snd (snd v) = job_status_value s) (registry_view (db w')))
      + (if s = ORPHANED then length (filter (\<lambda>k. k \<notin> set (map view_key (registry_view (db running_cluster))))
           (keys (generate_job_map ?reported))) else 0))"
    by blast
  let ?old = "[(''adder'', ''0.0.1'', ''running''), (''adder'', ''0.0.2'', ''running''), (''primer'', ''0.0.1'', ''running'')]"
  have vals: "map (sync_view (generate_job_map ?reported)) ?old
      = [(''adder'', ''0.0.1'', ''running''), (''adder'', ''0.0.2'', ''lost''), (''primer'', ''0.0.1'', ''lost'')]"
    "length (filter (\<lambda>k. k \<notin> set (map view_key ?old)) (keys (generate_job_map ?reported))) = 1"
    by code_simp+
  from count [rule_format, of ORPHANED] have "map_of counts ''orphaned'' = Some 1"
    unfolding new view vals by simp
  with run new show ?thesis unfolding view vals by blast
qed

end
