(* ===== verification/HttpLaws.thy ===== *)
theory HttpLaws
  imports Http
begin

text \<open>
  What the parts of the system rely on when they talk over HTTP: the result of a build arrives through
  the stream of events as it was sent, and the error another component reports is part of the error text.
\<close>

section \<open>JSON text is printable\<close>

definition printable :: "char \<Rightarrow> bool" where
  "printable c \<longleftrightarrow> (32 :: nat) \<le> of_char c \<and> of_char c < (127 :: nat)"

lemma printable_no_break: "printable c \<Longrightarrow> \<not> line_break c"
  by (auto simp: printable_def line_break_def Let_def)

lemma printable_hex: "n < 16 \<Longrightarrow> printable (hex_digit n)"
  by (simp add: printable_def hex_digit_def)

lemma printable_chars:
  "printable dquote" "printable bslash" "list_all printable ''nrtbfu0,: []{}-''" "list_all printable ''nulltruefalse''"
  by (simp_all add: printable_def dquote_def bslash_def)

lemma printable_escape: "list_all printable (escape_char c)"
proof (cases "32 \<le> (of_char c :: nat) \<and> of_char c < (127 :: nat)")
  case True
  then show ?thesis using printable_chars by (auto simp: escape_char_def Let_def printable_def)
next
  case False
  have "(of_char c :: nat) div 16 < 16" using char_code_less [of c] by (simp add: div_less_iff_less_mult)
  then show ?thesis
    using False printable_chars by (auto simp: escape_char_def Let_def intro: printable_hex)
qed

lemma printable_dump_str: "list_all printable (dump_str s)"
  using printable_escape printable_chars by (induction s) (auto simp: dump_str_def)

lemma printable_digits: "list_all printable (nat_to_str n)"
proof -
  have "list_all printable ''0123456789''" by (simp add: printable_def)
  then have "is_digit c \<Longrightarrow> printable c" for c unfolding is_digit_def list_all_iff by blast
  then show ?thesis using all_digits_to_str [of n] unfolding all_digits_def list_all_iff by blast
qed

lemma printable_join:
  "list_all printable sep \<Longrightarrow> list_all (list_all printable) xs \<Longrightarrow> list_all printable (join sep xs)"
proof (induction xs)
  case (Cons x xs)
  then show ?case by (cases xs) (auto simp: join_Cons)
qed simp

lemma printable_dumps: "list_all printable (dumps j)"
proof (induction j)
  case (JInt i)
  then show ?case using printable_digits printable_chars by (auto simp: int_to_str_def)
next
  case (JList xs)
  then have "list_all (list_all printable) (map dumps xs)" by (auto simp: list_all_iff)
  then show ?case using printable_join [of "'', ''" "map dumps xs"] printable_chars by simp
next
  case (JObj kvs)
  have "list_all printable (dump_str k @ '': '' @ dumps v)" if "(k, v) \<in> set kvs" for k v
  proof -
    from that have "v \<in> Basic_BNFs.snds (k, v)" by (simp add: snds.simps)
    with JObj [OF that] show ?thesis using printable_dump_str [of k] printable_chars by simp
  qed
  then have "list_all (list_all printable) (map (\<lambda>(k, v). dump_str k @ '': '' @ dumps v) kvs)"
    by (auto simp: list_all_iff)
  then show ?case using printable_join [of "'', ''" "map (\<lambda>(k, v). dump_str k @ '': '' @ dumps v) kvs"] printable_chars by simp
qed (use printable_chars printable_dump_str in simp_all)

section \<open>The stream of events\<close>

lemma splitlines_line:
  assumes "list_all (\<lambda>c. \<not> line_break c) p"
  shows "splitlines_acc acc (p @ newline # s) = (rev acc @ p) # splitlines_acc [] s"
  using assms
proof (induction p arbitrary: acc)
  case (Cons c p)
  have "c \<noteq> CHR 0x0D" using Cons.prems by (auto simp: line_break_def)
  then show ?case using Cons by simp
qed (simp add: newline_def line_break_def)

lemma event_lines_free: "list_all (\<lambda>c. \<not> line_break c) EVENT_HEARTBEAT" "list_all (\<lambda>c. \<not> line_break c) ''event: result''"
  "list_all (\<lambda>c. \<not> line_break c) ''data: ''" "list_all (\<lambda>c. \<not> line_break c) []"
  by (simp_all add: EVENT_HEARTBEAT_def line_break_def)

lemma splitlines_free_lines:
  assumes "list_all (\<lambda>c. \<not> line_break c) p" and "list_all (\<lambda>c. \<not> line_break c) q"
  shows "splitlines_acc [] (p @ newline # newline # s) = p # [] # splitlines_acc [] s"
    and "splitlines_acc [] (p @ newline # q @ newline # newline # s) = p # q # [] # splitlines_acc [] s"
  using assms splitlines_line [of "[]" "[]" s] by (simp_all add: splitlines_line)

lemma splitlines_events:
  assumes "list_all (\<lambda>c. \<not> line_break c) data"
  shows "splitlines (concat (sse_generator n data))
    = concat (replicate n [EVENT_HEARTBEAT, []]) @ [''event: result'', ''data: '' @ data, []]"
proof (induction n)
  case 0
  have "list_all (\<lambda>c. \<not> line_break c) (''data: '' @ data)"
    unfolding list_all_append using event_lines_free(3) assms ..
  from splitlines_free_lines(2) [OF event_lines_free(2) this, of "[]"] show ?case
    unfolding splitlines_def sse_generator.simps concat.simps EVENT_RESULT_def append_assoc by simp
next
  case (Suc n)
  from splitlines_free_lines(1) [OF event_lines_free(1,4), of "concat (sse_generator n data)"] Suc
  show ?case by (simp add: splitlines_def)
qed

lemma strip_hd:
  assumes "\<not> py_space c"
  shows "\<exists>t. strip (c # s) = c # t"
proof -
  have "dropWhile py_space (xs @ [c]) \<noteq> [] \<and> last (dropWhile py_space (xs @ [c])) = c" for xs
    using assms by (induction xs) auto
  then have "rev (dropWhile py_space (rev s @ [c])) \<noteq> [] \<and> hd (rev (dropWhile py_space (rev s @ [c]))) = c"
    by (auto simp: hd_rev)
  then show ?thesis using assms by (cases "rev (dropWhile py_space (rev s @ [c]))") (auto simp: strip_def)
qed

lemma buffer_events:
  "response_buffer (concat (replicate n [EVENT_HEARTBEAT, []]) @ [''event: result'', ''data: '' @ data, []])
     = replicate n newline @ EVENT_RESULT @ DATA_MESSAGE @ data @ [newline, newline]"
proof (induction n)
  case 0
  have "strip ''event: result'' \<noteq> ''event: keepalive_heartbeat''" "strip [] \<noteq> ''event: keepalive_heartbeat''" by code_simp+
  moreover have "strip (''data: '' @ data) \<noteq> ''event: keepalive_heartbeat''"
    using strip_hd [of "CHR ''d''" "''ata: '' @ data"] by (auto simp: py_space_def)
  ultimately show ?case by (simp add: EVENT_RESULT_def DATA_MESSAGE_def)
next
  case (Suc n)
  have "strip EVENT_HEARTBEAT = ''event: keepalive_heartbeat''" "strip [] \<noteq> ''event: keepalive_heartbeat''" by code_simp+
  with Suc show ?case by simp
qed

lemma find_event:
  "find_str (EVENT_RESULT @ DATA_MESSAGE) (replicate n newline @ EVENT_RESULT @ DATA_MESSAGE @ r) = Some n"
proof (induction n)
  case 0
  have "startswith ((EVENT_RESULT @ DATA_MESSAGE) @ r) (EVENT_RESULT @ DATA_MESSAGE)" by (rule startswith_append)
  then show ?case by (subst find_str.simps) simp
next
  case (Suc n)
  then show ?case by (subst find_str.simps) (simp add: startswith_iff EVENT_RESULT_def newline_def)
qed

lemma loads_dumps_padded:
  assumes "keys_distinct j" and "list_all is_space r"
  shows "loads (dumps j @ r) = Inr j"
proof -
  have "stops r" using assms(2) by (cases r) (auto simp: stops_def is_space_def is_digit_def)
  then have "read_value (2 * length (dumps j @ r) + 2) (dumps j @ r) = Some (j, r)"
    using cost_length [of j] by (intro reads_backD reads_back_all) auto
  moreover have "skip_ws r = []" using assms(2) by (auto simp: skip_ws_def list_all_iff)
  ultimately show ?thesis using dedup_distinct [OF assms(1)] by (simp add: loads_def)
qed

lemma run_event_stream:
  assumes "keys_distinct j"
  shows "extract_response_dict (response_buffer (splitlines (concat (sse_generator n (dumps j))))) = Inr j"
proof -
  have free: "list_all (\<lambda>c. \<not> line_break c) (dumps j)"
    using printable_dumps [of j] printable_no_break by (auto simp: list_all_iff)
  have "list_all is_space [newline, newline]" by code_simp
  from loads_dumps_padded [OF assms this] show ?thesis
    unfolding splitlines_events [OF free] buffer_events
    by (simp add: extract_response_dict_def Let_def find_event)
qed

text \<open>
  C21. The result of a build reaches the server as the image builder sent it: whatever the number of
  heartbeats before it, a streamed result is decoded to the same value, and the text of an exception is
  raised again as the error of the stream. An exception whose text is empty is not recognised as an
  error and ends in a \<open>KeyError\<close> for the missing result.
\<close>
theorem sse_roundtrip:
  assumes "is_success r" and "st_lines r = splitlines (stream_result_with_heartbeat n outcome)"
    and "\<And>j. outcome = Inr j \<Longrightarrow> keys_distinct j"
  shows "sse_result r = (case outcome of
      Inr j \<Rightarrow> Inr j
    | Inl e \<Rightarrow> if exn_str e = [] then Inl (KeyError (py_repr ''result''))
               else Inl (RuntimeError (''Streaming Response error: '' @ exn_str e)))"
proof (cases outcome)
  case (Inl e)
  have "keys_distinct (JObj [(''error'', JStr (exn_str e))])" by simp
  from run_event_stream [OF this] show ?thesis
    using assms(1,2) Inl
    by (simp add: sse_result_def validate_streaming_response_def stream_result_with_heartbeat_def event_data_def event_result_def json_str_def)
next
  case (Inr j)
  have "keys_distinct (JObj [(''result'', j)])" using assms(3) [OF Inr] by simp
  from run_event_stream [OF this] show ?thesis
    using assms(1,2) Inr
    by (simp add: sse_result_def validate_streaming_response_def stream_result_with_heartbeat_def event_data_def event_result_def)
qed

theorem sse_roundtrip_witness:
  "let r = \<lparr>st_status_code = 200, st_reason = ''OK'', st_method = ''POST'', st_url = ''http://image-builder'',
      st_lines = splitlines (stream_result_with_heartbeat 2 (Inr (JObj [(''logs'', JStr ''built''), (''error'', JNull)])))\<rparr>
   in sse_result r = Inr (JObj [(''logs'', JStr ''built''), (''error'', JNull)])"
proof -
  let ?j = "JObj [(''logs'', JStr ''built''), (''error'', JNull)]"
  let ?r = "\<lparr>st_status_code = 200, st_reason = ''OK'', st_method = ''POST'', st_url = ''http://image-builder'',
      st_lines = splitlines (stream_result_with_heartbeat 2 (Inr ?j))\<rparr>"
  have "sse_result ?r = (case Inr ?j of
      Inr j \<Rightarrow> Inr j
    | Inl e \<Rightarrow> if exn_str e = [] then Inl (KeyError (py_repr ''result''))
               else Inl (RuntimeError (''Streaming Response error: '' @ exn_str e)))"
    by (rule sse_roundtrip [where n = 2]) (auto simp: is_success_def)
  then show ?thesis by simp
qed

section \<open>Reported errors\<close>



end
