(* ===== verification/Deployer.thy ===== *)
theory Deployer
  imports Registry Portfolio
begin

text \<open>
  Deploying jobs (\<open>lifecycle/deployer\<close>, \<open>lifecycle/job/reconcile.py\<close>, \<open>lifecycle/supervisor/startup.py\<close>):
  building an image with the image builder, provisioning a job on its infrastructure target, rolling back
  a job that does not come up, deploying a job again or moving it, and the repair of lost jobs and of
  interrupted deployments. A function that starts a thread returns the work of the thread beside its
  result. The counters of the metrics are not modelled.
\<close>

section \<open>Images and environment variables\<close>

definition join_paths :: "string list \<Rightarrow> string" where
  "join_paths paths =
     (let strip_end = rstrip_char (CHR ''/'');
          parts = (case paths of [] \<Rightarrow> [] | p # ps \<Rightarrow> strip_end p # map (\<lambda>q. strip_end (lstrip_char (CHR ''/'') q)) ps)
      in join ''/'' (filter (\<lambda>p. p \<noteq> []) parts))"

definition get_job_image :: "string \<Rightarrow> string \<Rightarrow> string \<Rightarrow> string \<Rightarrow> nat \<Rightarrow> string" where
  "get_job_image registry namespace name tag image_index =
     join_paths [registry, namespace, if image_index = 0 then ''job-entrypoint'' else ''job-'' @ nat_to_str image_index,
       name @ '':'' @ tag]"

definition merge_env_vars :: "(string, string) dict option \<Rightarrow> (string, string) dict option \<Rightarrow> (string, string) dict" where
  "merge_env_vars env1 env2 = dict_update (the_default [] env1) (the_default [] env2)"

definition hide_env_vars :: "(string, string) dict \<Rightarrow> (string, string) dict \<Rightarrow> (string, string) dict" where
  "hide_env_vars runtime build = dict_update (map (\<lambda>(k, v). (k, [])) build) runtime"

text \<open>The build variables that are no runtime variables are set to empty values.\<close>

definition clear_build_vars :: "(string, string) dict \<Rightarrow> (string, string) dict \<Rightarrow> (string, string) dict \<Rightarrow> (string, string) dict" where
  "clear_build_vars all_build_vars all_runtime_vars runtime_env_vars =
     fold (\<lambda>build_var env. if build_var \<notin> set (keys all_runtime_vars) then dict_set build_var [] env else env)
       (keys all_build_vars) runtime_env_vars"

section \<open>Permissions\<close>

definition check_deploy_permissions :: "robj \<Rightarrow> Manifest \<Rightarrow> ('x, unit) svm" where
  "check_deploy_permissions auth_subject manifest =
     bind (job_family_exists (mf_name manifest)) (\<lambda>found.
     if found then
       authorize_resource_access auth_subject (mf_name manifest) (mf_version manifest) (scope_value DEPLOY_JOB) None
     else authorize_scope_access auth_subject (scope_value DEPLOY_NEW_FAMILY))"

definition protect_job_overwriting :: "Manifest \<Rightarrow> bool \<Rightarrow> ('x, unit) lcm" where
  "protect_job_overwriting manifest force =
     bind (job_exists (mf_name manifest) (mf_version manifest)) (\<lambda>found.
     if found then
       if force then ret ()
       else raise (RuntimeError (''job '' @ mf_name manifest @ '' v'' @ mf_version manifest
              @ '' is already deployed. Try deploying next version or use --force flag''))
     else
       bind (find_deleted_job (mf_name manifest) (mf_version manifest)) (\<lambda>trash_job.
       case trash_job of
         None \<Rightarrow> ret ()
       | Some _ \<Rightarrow>
           if force then ret ()
           else raise (RuntimeError (''Job '' @ mf_name manifest @ '' v'' @ mf_version manifest
                  @ '' has already been deployed and deleted. Can't claim it again to prevent accidental/hostile reusing.''))))"

section \<open>Building an image\<close>

definition string_dict :: "(string, string) dict \<Rightarrow> json" where
  "string_dict d = JObj (map (\<lambda>(k, v). (k, JStr v)) d)"

definition build_image_request_payload :: "Manifest \<Rightarrow> Credentials option \<Rightarrow> (string, string) dict \<Rightarrow> string \<Rightarrow> string option
    \<Rightarrow> DeploymentDto \<Rightarrow> string list \<Rightarrow> json" where
  "build_image_request_payload manifest credentials secret_env tag build_context deployment build_flags = JObj [
     (''manifest'', the_default JNull (origin_dict manifest)),
     (''git_credentials'', case credentials of None \<Rightarrow> JNull
        | Some c \<Rightarrow> JObj [(''username'', JStr (cred_username c)), (''password'', JStr (cred_password c))]),
     (''secret_build_env'', string_dict secret_env),
     (''tag'', JStr tag),
     (''build_context'', case build_context of None \<Rightarrow> JNull | Some s \<Rightarrow> JStr s),
     (''deployment_id'', JStr (dep_id deployment)),
     (''build_flags'', JList (map JStr build_flags))]"

text \<open>\<open>result[key]\<close> of a decoded JSON value.\<close>

definition json_item :: "json \<Rightarrow> string \<Rightarrow> exn + json" where
  "json_item j key =
     (case j of
        JObj d \<Rightarrow> (case map_of d key of None \<Rightarrow> Inl (KeyError (py_repr key)) | Some v \<Rightarrow> Inr v)
      | JStr s \<Rightarrow> Inl (TypeError ''string indices must be integers'')
      | JList xs \<Rightarrow> Inl (TypeError ''list indices must be integers or slices, not str'')
      | _ \<Rightarrow> Inl (TypeError ''object is not subscriptable''))"

text \<open>The logs are text; the database refuses other values.\<close>

definition json_text :: "json \<Rightarrow> exn + string" where
  "json_text j = (case j of JStr s \<Rightarrow> Inr s | _ \<Rightarrow> Inl (database_error ''DatatypeMismatch''))"

definition job_image :: "Manifest \<Rightarrow> string \<Rightarrow> ('x, string) lcm" where
  "job_image manifest tag = gets (\<lambda>w. get_job_image (docker_registry (config w)) (docker_registry_namespace (config w))
     (mf_name manifest) tag 0)"

definition send_image_build_request :: "Manifest \<Rightarrow> Credentials option \<Rightarrow> (string, string) dict \<Rightarrow> string \<Rightarrow> DeploymentDto
    \<Rightarrow> string option \<Rightarrow> string list \<Rightarrow> ('i, 'x, unit) clm" where
  "send_image_build_request manifest credentials secret_env tag deployment build_context build_flags =
     bind (gets (\<lambda>w. (httpx_stream w, image_builder_url (config w) @ ''/api/v1/build/sse''))) (\<lambda>(stream, url).
     bind (on_infra (make_sse_request stream ''POST'' url
             (build_image_request_payload manifest credentials secret_env tag build_context deployment build_flags))) (\<lambda>result.
     bind (lift (json_item result ''logs'')) (\<lambda>logs.
     bind (job_image manifest tag) (\<lambda>image_name.
     bind (lift (json_text logs)) (\<lambda>build_logs.
     seq (save_deployment_build_logs (dep_id deployment) build_logs)
     (seq (save_deployment_image_name (Some (dep_id deployment)) image_name)
     (bind (lift (json_item result ''error'')) (\<lambda>error.
      if json_truthy error then raise (RuntimeError (json_str error)) else ret ()))))))))"

definition build_job :: "Manifest \<Rightarrow> JobSecrets \<Rightarrow> DeploymentDto \<Rightarrow> string option \<Rightarrow> string \<Rightarrow> string list \<Rightarrow> ('i, 'x, unit) clm" where
  "build_job manifest job_secrets deployment build_context tag build_flags =
     wrap_context ''building an image'' (
       seq (save_deployment_phase (dep_id deployment) ''building image'')
           (send_image_build_request manifest (git_credentials job_secrets) (secret_build_env job_secrets) tag deployment
              build_context build_flags))"

definition wait_for_image_builder_ready :: "('i, 'x, unit) clm" where
  "wait_for_image_builder_ready = on_backoff ''wait_for_image_builder_ready'' is_RequestError (
     bind (gets (\<lambda>w. (urlopen w, image_builder_url (config w) @ ''/health''))) (\<lambda>(opener, url).
     bind (on_infra (requests_get opener url [] None)) (\<lambda>response. lift (raise_for_status response))))"

section \<open>Provisioning\<close>

definition retrieve_job_secrets :: "Manifest \<Rightarrow> JobDto \<Rightarrow> ('i, 'x, JobSecrets) clm" where
  "retrieve_job_secrets manifest job =
     wrap_context ''retrieving job secrets'' (
       bind (get_job_deployer (infrastructure_target job)) (\<lambda>deployer.
       call_method deployer ''get_job_secrets'' (\<lambda>d. on_infra (op_get_job_secrets d (mf_name manifest) (mf_version manifest)))))"

definition roll_back_unsuccessful_deployment :: "JobDto \<Rightarrow> ('i, 'x, unit) clm" where
  "roll_back_unsuccessful_deployment job =
     seq (try_except
            (bind (get_job_deployer (infrastructure_target job)) (\<lambda>deployer.
             call_method deployer ''delete_job'' (\<lambda>d. on_infra (op_delete_job d (job_name job) (job_version job)))))
            (\<lambda>_. True) (\<lambda>_. ret ()))
         (delete_job_model (job_name job) (job_version job))"

definition post_job_deploy :: "Manifest \<Rightarrow> JobDto \<Rightarrow> string \<Rightarrow> DeploymentDto \<Rightarrow> robj option \<Rightarrow> JobDto option \<Rightarrow> ('i, 'x, unit) clm" where
  "post_job_deploy manifest job image_name deployment auth_subject previous_job =
     seq (invoke_plugin_hook ''post_job_deploy''
            (\<lambda>p. map_option (\<lambda>f. f manifest job image_name (dep_deployed_by deployment)) (hook_post_job_deploy p)))
     (seq (case auth_subject of
             Some subj \<Rightarrow>
               if previous_job = None then
                 wrap_context ''granting permissions'' (
                   for_each [READ_JOB, CALL_JOB, DEPLOY_JOB, DELETE_JOB] (\<lambda>scope.
                     grant_permission subj (Some (job_name job)) (Some (job_version job)) (scope_value scope)))
               else ret ()
           | None \<Rightarrow> ret ())
     (seq (wrap_context ''registering public endpoint requests'' (
             for_each (the_default [] (public_endpoints manifest)) (\<lambda>endpoint.
               seq (create_job_public_endpoint_if_not_exist (job_name job) (job_version job) endpoint) (ret ()))))
     (case previous_job of
        None \<Rightarrow> log_event (event_type_value JOB_DEPLOYED) None (dep_deployed_by deployment) None
                  (Some (job_name job)) (Some (job_version job))
      | Some previous \<Rightarrow> log_event (event_type_value JOB_REDEPLOYED) None (dep_deployed_by deployment) (deployed_by previous)
                  (Some (job_name job)) (Some (job_version job)))))"

text \<open>The block \<open>creating job resource\<close>. A non-empty dictionary of runtime variables of the manifest is
  changed in place, so that the manifest is part of the result.\<close>

definition create_job_resource :: "Manifest \<Rightarrow> string \<Rightarrow> (string, string) dict \<Rightarrow> (string, string) dict \<Rightarrow> DeploymentDto
    \<Rightarrow> ('i, 'x, Manifest \<times> string \<times> JobType \<times> JobDto) clm" where
  "create_job_resource manifest tag build_secrets runtime_secrets deployment =
     wrap_context ''creating job resource'' (
       seq (save_deployment_phase (dep_id deployment) ''creating cluster resources'')
       (bind (job_image manifest tag) (\<lambda>image_name.
        bind (get_job_deployer (dep_infrastructure_target deployment)) (\<lambda>deployer.
        bind (create_job_family_if_not_exist (mf_name manifest)) (\<lambda>family.
        let all_build_vars = merge_env_vars (build_env manifest) (Some build_secrets);
            all_runtime_vars = merge_env_vars (runtime_env manifest) (Some runtime_secrets);
            runtime_env_vars = clear_build_vars all_build_vars all_runtime_vars (the_default [] (runtime_env manifest));
            manifest' = (if the_default [] (runtime_env manifest) = [] then manifest
                         else manifest\<lparr>runtime_env := Some runtime_env_vars\<rparr>)
        in bind (load_job_type (get_jobtype manifest)) (\<lambda>job_type.
           bind (call_method deployer ''deploy_job'' (\<lambda>d. on_infra (op_deploy_job d
                   \<lparr>dr_manifest = manifest', dr_tag = tag, dr_runtime_env_vars = runtime_env_vars,
                    dr_family = job_family_record_to_dto family, dr_containers_num = images_num job_type,
                    dr_runtime_secret_vars = runtime_secrets\<rparr>))) (\<lambda>job.
           ret (manifest', image_name, job_type, job))))))))"

definition deployed_job :: "Manifest \<Rightarrow> DeploymentDto \<Rightarrow> JobType \<Rightarrow> JobDto \<Rightarrow> JobDto" where
  "deployed_job manifest deployment job_type job = job\<lparr>job_status := job_status_value STARTING,
     deployed_by := dep_deployed_by deployment, job_manifest := Some manifest,
     manifest_yaml := Some (dep_manifest_yaml deployment), job_type_version := full_name job_type\<rparr>"

definition verify_deployed_job :: "JobDto \<Rightarrow> DeploymentDto \<Rightarrow> JobDto option \<Rightarrow> ('i, 'x, unit) clm" where
  "verify_deployed_job job deployment previous_job =
     wrap_context ''verifying deployed job'' (
       seq (save_deployment_phase (dep_id deployment) ''starting Job server'')
       (try_except
          (check_job_condition job (save_deployment_phase (dep_id deployment) ''initializing Job entrypoint''))
          (\<lambda>_. True)
          (\<lambda>e. seq (if previous_job = None then roll_back_unsuccessful_deployment job else ret ()) (raise e))))"

definition provision_job :: "Manifest \<Rightarrow> string \<Rightarrow> (string, string) dict \<Rightarrow> (string, string) dict \<Rightarrow> DeploymentDto
    \<Rightarrow> robj option \<Rightarrow> JobDto option \<Rightarrow> ('i, 'x, JobDto) clm" where
  "provision_job manifest tag build_secrets runtime_secrets deployment auth_subject previous_job =
     seq ensure_no_maintenance
     (seq (case auth_subject of None \<Rightarrow> ret () | Some subj \<Rightarrow> check_deploy_permissions subj manifest)
     (bind (create_job_resource manifest tag build_secrets runtime_secrets deployment) (\<lambda>(manifest', image_name, job_type, created).
      let job = deployed_job manifest' deployment job_type created
      in seq (wrap_context ''saving job in database'' (save_job_model job))
         (seq (verify_deployed_job job deployment previous_job)
         (seq (wrap_context ''invoking post-deploy actions'' (
                 seq (save_deployment_phase (dep_id deployment) ''post-deploy hooks'')
                     (post_job_deploy manifest' job image_name deployment auth_subject previous_job)))
         (let job = job\<lparr>job_status := job_status_value RUNNING\<rparr>
          in seq (update_job job) (ret job)))))))"

section \<open>Deploying\<close>

definition build_and_provision :: "Manifest \<Rightarrow> JobSecrets \<Rightarrow> DeploymentDto \<Rightarrow> string option \<Rightarrow> robj option \<Rightarrow> JobDto option
    \<Rightarrow> string list \<Rightarrow> ('i, 'x, unit) clm" where
  "build_and_provision manifest job_secrets deployment build_context auth_subject previous_job build_flags =
     bind now (\<lambda>t.
     let tag = strftime_tag t
     in seq (build_job manifest job_secrets deployment build_context tag build_flags)
        (seq (provision_job manifest tag (secret_build_env job_secrets) (secret_runtime_env job_secrets) deployment
                auth_subject previous_job) (ret ())))"

definition save_job_secrets :: "Manifest \<Rightarrow> JobSecrets \<Rightarrow> DeploymentDto \<Rightarrow> ('i, 'x, unit) clm" where
  "save_job_secrets manifest job_secrets deployment =
     wrap_context ''saving job secrets'' (
       bind (get_job_deployer (dep_infrastructure_target deployment)) (\<lambda>deployer.
       try_except
         (call_method deployer ''save_job_secrets'' (\<lambda>d.
            on_infra (op_save_job_secrets d (mf_name manifest) (mf_version manifest) job_secrets)))
         is_NotImplementedError (\<lambda>_. ret ())))"

definition job_secrets_of :: "Credentials option \<Rightarrow> SecretVars \<Rightarrow> JobSecrets" where
  "job_secrets_of credentials secret_vars = \<lparr>git_credentials = credentials, secret_build_env = sv_build_env secret_vars,
     secret_runtime_env = sv_runtime_env secret_vars\<rparr>"

definition deploy_new_job :: "Manifest \<Rightarrow> Credentials option \<Rightarrow> SecretVars \<Rightarrow> DeploymentDto \<Rightarrow> string option \<Rightarrow> bool \<Rightarrow> robj
    \<Rightarrow> string list \<Rightarrow> ('i, 'x, unit) clm" where
  "deploy_new_job manifest credentials secret_vars deployment build_context force auth_subject build_flags =
     bind (gets config) (\<lambda>cfg.
     seq (if \<not> allow_job_overwrite cfg then protect_job_overwriting manifest force else ret ())
     (seq (check_deploy_permissions auth_subject manifest)
     (let job_secrets = job_secrets_of credentials secret_vars
      in seq (save_job_secrets manifest job_secrets deployment)
         (build_and_provision manifest job_secrets deployment build_context (Some auth_subject) None build_flags))))"

definition deploy_job_saving_result :: "Manifest \<Rightarrow> Credentials option \<Rightarrow> SecretVars \<Rightarrow> DeploymentDto \<Rightarrow> string option \<Rightarrow> bool
    \<Rightarrow> robj \<Rightarrow> string list \<Rightarrow> ('i, 'x, unit) clm" where
  "deploy_job_saving_result manifest credentials secret_vars deployment build_context force auth_subject build_flags =
     try_except
       (seq wait_for_image_builder_ready
       (seq (deploy_new_job manifest credentials secret_vars deployment build_context force auth_subject build_flags)
            (save_deployment_result (dep_id deployment) DONE None)))
       (\<lambda>_. True)
       (\<lambda>e. seq (save_deployment_result (dep_id deployment) FAILED (Some (exn_str e)))
            (log_event (event_type_value DEPLOYMENT_FAILED) None (dep_deployed_by deployment) None
               (Some (dep_job_name deployment)) (Some (dep_job_version deployment))))"

definition deploy_job_in_background :: "Manifest \<Rightarrow> Credentials option \<Rightarrow> SecretVars \<Rightarrow> string option \<Rightarrow> bool \<Rightarrow> string \<Rightarrow> robj
    \<Rightarrow> string list \<Rightarrow> ('i, 'x, string \<times> ('i, 'x, unit) clm) clm" where
  "deploy_job_in_background manifest credentials secret_vars build_context force username auth_subject build_flags =
     bind (determine_infrastructure_name manifest) (\<lambda>infra_target.
     bind (create_deployment manifest username infra_target) (\<lambda>deployment.
     ret (dep_id deployment,
          deploy_job_saving_result manifest credentials secret_vars deployment build_context force auth_subject build_flags)))"

definition build_job_saving_result :: "Manifest \<Rightarrow> Credentials option \<Rightarrow> SecretVars \<Rightarrow> DeploymentDto \<Rightarrow> string option
    \<Rightarrow> string list \<Rightarrow> ('i, 'x, unit) clm" where
  "build_job_saving_result manifest credentials secret_vars deployment build_context build_flags =
     try_except
       (seq wait_for_image_builder_ready
       (bind now (\<lambda>t.
        seq (build_job manifest (job_secrets_of credentials secret_vars) deployment build_context (strftime_tag t) build_flags)
            (save_deployment_result (dep_id deployment) DONE None))))
       (\<lambda>_. True)
       (\<lambda>e. save_deployment_result (dep_id deployment) FAILED (Some (exn_str e)))"

text \<open>The thread calls \<open>_build_job_saving_result\<close> without its last argument, which raises a \<open>TypeError\<close>
  before the body of the function runs.\<close>

definition build_job_in_background :: "Manifest \<Rightarrow> string \<Rightarrow> ('i, 'x, string \<times> ('i, 'x, unit) clm) clm" where
  "build_job_in_background manifest username =
     bind (determine_infrastructure_name manifest) (\<lambda>infra_target.
     bind (create_deployment manifest username infra_target) (\<lambda>deployment.
     ret (dep_id deployment,
          raise (TypeError ''_build_job_saving_result() missing 1 required positional argument: 'build_flags' ''))))"

section \<open>Deploying again\<close>

text \<open>The frame of the three functions: the deployment is done, or it has failed and the error is
  raised again.\<close>

definition saving_outcome :: "DeploymentDto \<Rightarrow> ('i, 'x, unit) clm \<Rightarrow> ('i, 'x, unit) clm" where
  "saving_outcome deployment m =
     try_except (seq m (save_deployment_result (dep_id deployment) DONE None)) (\<lambda>_. True)
       (\<lambda>e. seq (save_deployment_result (dep_id deployment) FAILED (Some (exn_str e))) (raise e))"

definition job_manifest_or_fail :: "JobDto \<Rightarrow> ('w, Manifest) py" where
  "job_manifest_or_fail job =
     (case job_manifest job of None \<Rightarrow> raise (AssertionError ''job doesn't have Manifest data specified'') | Some m \<Rightarrow> ret m)"

definition known_infra_target :: "JobDto \<Rightarrow> ('w, string) py" where
  "known_infra_target job =
     (if given (infrastructure_target job) then ret (the (infrastructure_target job)) else raise (AssertionError []))"

definition redeploy_job :: "string \<Rightarrow> string \<Rightarrow> string \<Rightarrow> robj option \<Rightarrow> string list \<Rightarrow> ('i, 'x, unit) clm" where
  "redeploy_job name version deployer_username auth_subject build_flags =
     bind (read_job name version) (\<lambda>job.
     bind (job_manifest_or_fail job) (\<lambda>manifest.
     bind (known_infra_target job) (\<lambda>infra_target.
     bind (create_deployment manifest deployer_username infra_target) (\<lambda>deployment.
     saving_outcome deployment (
       bind (retrieve_job_secrets manifest job) (\<lambda>job_secrets.
       wrap_context ''redeploying job'' (
         build_and_provision manifest job_secrets deployment None auth_subject (Some job) build_flags)))))))"

definition no_secrets :: JobSecrets where
  "no_secrets = \<lparr>git_credentials = None, secret_build_env = [], secret_runtime_env = []\<rparr>"

definition runtime_job_secrets :: "Manifest \<Rightarrow> JobDto \<Rightarrow> ('i, 'x, JobSecrets) clm" where
  "runtime_job_secrets manifest job =
     (if given (secret_runtime_env_file manifest) then retrieve_job_secrets manifest job else ret no_secrets)"

definition known_image_tag :: "JobDto \<Rightarrow> string \<Rightarrow> ('w, string) py" where
  "known_image_tag job message = (case image_tag job of None \<Rightarrow> raise (AssertionError message) | Some tag \<Rightarrow> ret tag)"

definition reprovision_job :: "string \<Rightarrow> string \<Rightarrow> string \<Rightarrow> robj option \<Rightarrow> ('i, 'x, unit) clm" where
  "reprovision_job name version deployer_username auth_subject =
     bind (read_job name version) (\<lambda>job.
     bind (job_manifest_or_fail job) (\<lambda>manifest.
     bind (known_image_tag job ''latest image tag is unknown'') (\<lambda>tag.
     bind (known_infra_target job) (\<lambda>infra_target.
     bind (create_deployment manifest deployer_username infra_target) (\<lambda>deployment.
     saving_outcome deployment (
       bind (runtime_job_secrets manifest job) (\<lambda>job_secrets.
       wrap_context ''reprovisioning job'' (
         seq (provision_job manifest tag (secret_build_env job_secrets) (secret_runtime_env job_secrets) deployment
                auth_subject (Some job)) (ret ())))))))))"

definition move_job :: "string \<Rightarrow> string \<Rightarrow> string \<Rightarrow> string \<Rightarrow> robj option \<Rightarrow> ('i, 'x, unit) clm" where
  "move_job name version new_infra_target deployer_username auth_subject =
     bind (read_job name version) (\<lambda>job.
     bind (job_manifest_or_fail job) (\<lambda>manifest.
     bind (known_image_tag job ''job's image tag is unknown'') (\<lambda>tag.
     seq (assert_py (new_infra_target \<noteq> []) ''infrastructure target has to be specified'')
     (seq (assert_py (Some new_infra_target \<noteq> infrastructure_target job)
             ''new infrastructure target has to be different from the current one'')
     (bind (create_deployment manifest deployer_username new_infra_target) (\<lambda>deployment.
      saving_outcome deployment (
        bind (runtime_job_secrets manifest job) (\<lambda>job_secrets.
        seq (wrap_context ''deploying job to a new infrastructure'' (
               provision_job manifest tag (secret_build_env job_secrets) (secret_runtime_env job_secrets) deployment
                 auth_subject None))
        (seq (wrap_context ''deleting job from a former infrastructure'' (
                seq (save_deployment_phase (dep_id deployment) ''deleting job from a former infrastructure'')
                    (decommission_job_infrastructure name version (infrastructure_target job) deployer_username)))
             (log_event (event_type_value JOB_MOVED) None (Some deployer_username) (deployed_by job) (Some name) (Some version)))))))))))"

section \<open>Repairs\<close>

definition is_job_reconcile_eligible :: "JobDto \<Rightarrow> bool" where
  "is_job_reconcile_eligible job \<longleftrightarrow> job_status job = job_status_value LOST"

definition reconcile_jobs :: "('i, 'x, unit) clm" where
  "reconcile_jobs =
     wrap_context ''reconciling jobs'' (
       bind (list_job_registry None) (\<lambda>jobs.
       for_each jobs (\<lambda>job.
         try_except
           (if is_job_reconcile_eligible job then reprovision_job (job_name job) (job_version job) ''racetrack'' None else ret ())
           (\<lambda>_. True) (\<lambda>_. ret ()))))"

text \<open>The comprehension that keeps the deployments without an update for an hour.\<close>

fun stale_deployments :: "robj list \<Rightarrow> ('x, robj list) lcm" where
  "stale_deployments [] = ret []"
| "stale_deployments (d # ds) =
     bind (days_since (Some (datetime_to_timestamp (the_int (attr d ''update_time''))))) (\<lambda>days.
     case days of
       None \<Rightarrow> raise (TypeError ''unsupported operand'')
     | Some n \<Rightarrow> bind (stale_deployments ds) (\<lambda>rest. ret (if n * 24 \<ge> 1 then d # rest else rest)))"

definition halt_deployment :: "robj \<Rightarrow> ('x, unit) lcm" where
  "halt_deployment d =
     bind now (\<lambda>t.
     seq (update_record (set_attr ''update_time'' (VDt t)
           (set_attr ''error'' (VStr ''halted due to server restart'')
           (set_attr ''status'' (VStr (deployment_status_value FAILED)) d))) True) (ret ()))"

definition startup_check :: "('x, unit) lcm" where
  "startup_check =
     bind (list_deployments_by_status (deployment_status_value IN_PROGRESS)) (\<lambda>in_progress.
     bind (stale_deployments in_progress) (\<lambda>ds. for_each ds halt_deployment))"

end
