(* ===== verification/Frames.thy ===== *)
theory Frames
  imports Registry
begin

text \<open>
  What the operations on the database leave alone. A property of the rows of one table that survives
  inserts is kept by every operation that does not update or delete rows of that table; if it only
  speaks of the primary keys, it also survives updates of loaded records. The locales state this for
  an arbitrary property, and the services above are checked against them once.
\<close>

section \<open>Values a computation returns\<close>

definition returns :: "('a \<Rightarrow> bool) \<Rightarrow> ('w, 'a) py \<Rightarrow> bool" where
  "returns R m \<longleftrightarrow> (\<forall>w x w'. m w = (Inr x, w') \<longrightarrow> R x)"

lemma returnsD: "returns R m \<Longrightarrow> m w = (Inr x, w') \<Longrightarrow> R x"
  by (auto simp: returns_def)

lemma returns_bind: "(\<And>x. returns R (f x)) \<Longrightarrow> returns R (bind m f)"
  by (fastforce simp: returns_def elim: bind_okE)

lemma returns_seq: "returns R k \<Longrightarrow> returns R (seq m k)"
  by (simp add: seq_def returns_bind)

lemma returns_raise: "returns R (raise e)"
  by (simp add: returns_def raise_def)

lemma returns_ret: "R x \<Longrightarrow> returns R (ret x)"
  by (simp add: returns_def ret_def)

lemma returns_try: "returns R m \<Longrightarrow> (\<And>e. returns R (h e)) \<Longrightarrow> returns R (try_except m p h)"
  by (auto simp: returns_def run_try split: sum.splits prod.splits if_splits)

lemma returns_option: "returns R m \<Longrightarrow> (\<And>y. returns R (f y)) \<Longrightarrow> returns R (case x of None \<Rightarrow> m | Some y \<Rightarrow> f y)"
  by (simp split: option.splits)

lemmas returns_intro = returns_bind returns_seq returns_raise returns_ret returns_try returns_option

lemma keeps_bind_returns:
  assumes "keeps P m" and "returns R m" and "\<And>x. R x \<Longrightarrow> keeps P (f x)"
  shows "keeps P (bind m f)"
  using assms by (fastforce simp: keeps_def returns_def bind_def split: sum.splits prod.splits)

lemma keeps_try_else_returns:
  assumes "keeps P m" and "returns R m" and "\<And>x. R x \<Longrightarrow> keeps P (k x)" and "\<And>e. keeps P (h e)"
  shows "keeps P (try_else m p h k)"
  using assms by (fastforce simp: keeps_def returns_def try_else_def split: sum.splits prod.splits)

text \<open>A loaded record remembers the primary key it was read with.\<close>

definition loaded :: "table \<Rightarrow> robj \<Rightarrow> bool" where
  "loaded t o' \<longleftrightarrow> rtype o' = t \<and> (\<exists>r. original_fields o' = Some r \<and> map_of r (pk t) = map_of (attrs o') (pk t))"

lemma loaded_rtype: "loaded t o' \<Longrightarrow> rtype o' = t"
  by (simp add: loaded_def)

lemma loaded_set_attr [simp]: "c \<noteq> pk t \<Longrightarrow> loaded t (set_attr c v o') \<longleftrightarrow> loaded t o'"
  by (auto simp: loaded_def set_attr_def)

lemma returns_find_one: "returns (loaded t) (find_one t kw)"
proof -
  have "returns (loaded t) (convert_row_to_record_model r t)" for r
    unfolding convert_row_to_record_model_def by (intro returns_intro) (simp add: loaded_def)
  then show ?thesis
    unfolding find_one_def by (intro returns_intro) (auto intro: returns_intro split: prod.splits)
qed

lemma returns_deployment: "returns (loaded Deployment) (find_deployment ident)"
  unfolding find_deployment_def by (intro returns_intro returns_find_one)

lemma returns_job_model: "returns (loaded Job) (read_job_model name version)"
  unfolding read_job_model_def by (rule returns_find_one)

lemma keeps_find_deployment [keeps_intro]: "keeps P (find_deployment ident)"
  unfolding find_deployment_def by (intro keeps_intro)

lemma changed_without_key:
  assumes "loaded t o'" and "extract_changed_data o' = Inr data"
  shows "pk t \<notin> set (keys data)"
proof -
  obtain r where r: "rtype o' = t" "original_fields o' = Some r" "map_of r (pk t) = map_of (attrs o') (pk t)"
    using assms(1) by (auto simp: loaded_def)
  have ex: "extract_fields o' fs = Inr d \<Longrightarrow> (c, v) \<in> set d \<Longrightarrow> map_of (attrs o') c = Some v" for fs d c v
    by (induction fs arbitrary: d) (auto split: option.splits sum.splits)
  have keys: "extract_fields o' fs = Inr d \<Longrightarrow> keys d = fs" for fs d
    by (induction fs arbitrary: d) (auto split: option.splits sum.splits)
  obtain d where d: "extract_fields o' (table_fields t) = Inr d"
    using assms(2) r(1) by (cases "extract_fields o' (table_fields t)") (auto simp: extract_changed_data_def extract_record_data_def)
  have data: "data = (if r = [] then d else filter (\<lambda>(field, v). map_of r field \<noteq> Some v) d)"
    using assms(2) r(1,2) d by (auto simp: extract_changed_data_def extract_record_data_def Let_def split: if_splits)
  have "pk t \<in> set (keys d)" using keys [OF d] pk_in_fields [of t] by simp
  then obtain v where "map_of (attrs o') (pk t) = Some v" using ex [OF d] by force
  then have "r \<noteq> []" and "map_of r (pk t) = Some v" using r(3) by auto
  then show ?thesis using ex [OF d] r(3) by (auto simp: data)
qed

section \<open>Properties of the rows of a table\<close>

abbreviation rows_sat :: "table \<Rightarrow> (row list \<Rightarrow> bool) \<Rightarrow> 'x world_scheme \<Rightarrow> bool" where
  "rows_sat t P \<equiv> (\<lambda>w. P (db w t))"

lemma keeps_connection_rows: "keeps (rows_sat t P) m \<Longrightarrow> keeps (rows_sat t P) (with_connection m)"
  by (auto simp: keeps_def with_connection_def split: sum.splits prod.splits)

lemma keeps_clock_rows [keeps_intro]: "keeps (rows_sat t P) now" "keeps (rows_sat t P) new_uuid"
  by (simp_all add: keeps_def now_def new_uuid_def)

lemma keeps_other_stmt:
  assumes "t \<noteq> t'"
  shows "keeps (rows_sat t' P) (run_stmt (UpdateS t conds prms data))" "keeps (rows_sat t' P) (run_stmt (DeleteS t conds prms))"
  using assms by (auto simp: keeps_def Let_def split: sum.splits)

lemma keeps_update_other: "rtype o' \<noteq> t' \<Longrightarrow> keeps (rows_sat t' P) (update_record o' only_changed)"
  unfolding update_record_def update_one_def execute_sql_def
  by (intro keeps_intro keeps_connection_rows keeps_other_stmt)

text \<open>The updates of a deployment, over any property that updates of loaded deployments keep.\<close>

lemma keeps_deployment_updates:
  assumes "\<And>o'. loaded Deployment o' \<Longrightarrow> keeps (rows_sat t P) (update_record o' True :: ('x, robj) lcm)"
  shows "keeps (rows_sat t P) (save_deployment_phase ident phase :: ('x, unit) lcm)"
    "keeps (rows_sat t P) (save_deployment_build_logs ident logs :: ('x, unit) lcm)"
    "keeps (rows_sat t P) (save_deployment_image_name oident img :: ('x, unit) lcm)"
    "keeps (rows_sat t P) (save_deployment_result ident status error :: ('x, unit) lcm)"
proof -
  note find = keeps_bind_returns [OF _ returns_find_one] keeps_bind_returns [OF _ returns_deployment]
  have up: "keeps (rows_sat t P) (update_record (set_attr ''update_time'' v o') True :: ('x, robj) lcm)" if "loaded Deployment o'" for v o'
    using that by (intro assms) simp
  show "keeps (rows_sat t P) (save_deployment_phase ident phase :: ('x, unit) lcm)"
    unfolding save_deployment_phase_def by (rule find(2)) (intro keeps_intro up; simp)+
  show "keeps (rows_sat t P) (save_deployment_build_logs ident logs :: ('x, unit) lcm)"
    unfolding save_deployment_build_logs_def by (rule find(1)) (intro keeps_intro up; simp)+
  show "keeps (rows_sat t P) (save_deployment_image_name oident img :: ('x, unit) lcm)"
    unfolding save_deployment_image_name_def
    by (intro keeps_option keeps_if keeps_ret find(1)) (intro keeps_intro up; simp)+
  show "keeps (rows_sat t P) (save_deployment_result ident status error :: ('x, unit) lcm)"
    unfolding save_deployment_result_def Let_def by (rule find(1)) (intro keeps_intro up; simp)+
qed

lemma keeps_deployment_other:
  assumes "t \<noteq> Deployment"
  shows "keeps (rows_sat t P) (save_deployment_phase ident phase)"
    "keeps (rows_sat t P) (save_deployment_build_logs ident logs)"
    "keeps (rows_sat t P) (save_deployment_image_name oident img)"
    "keeps (rows_sat t P) (save_deployment_result ident status error)"
  using assms by (intro keeps_deployment_updates keeps_update_other; simp add: loaded_def)+

locale growing_rows =
  fixes t0 :: table and P :: "row list \<Rightarrow> bool"
  assumes no_references: "on_delete_cascade (meta t0) = []"
    and appended: "P rows \<Longrightarrow> P (rows @ [r])"
begin

lemma keeps_insert_stmt: "keeps (rows_sat t0 P) (run_stmt (InsertS t data pks))"
  by (auto simp: keeps_def Let_def appended split: sum.splits)

lemma keeps_insert_one [keeps_intro]: "keeps (rows_sat t0 P) (insert_one t data pks)"
  unfolding insert_one_def execute_sql_fetch_one_def by (intro keeps_intro keeps_connection_rows keeps_insert_stmt)

lemma keeps_supplement_rows [keeps_intro]: "keeps (rows_sat t0 P) (supplement_primary_key data t)"
  unfolding supplement_primary_key_def by (auto intro!: keeps_intro split: option.splits pk_generator.splits)

lemma keeps_create [keeps_intro]: "keeps (rows_sat t0 P) (create_record o')"
  unfolding create_record_def by (intro keeps_intro)

lemma keeps_delete_other: "t \<noteq> t0 \<Longrightarrow> keeps (rows_sat t0 P) (delete_record_of t o' cascade :: ('x, unit) dbm)"
proof (induction t arbitrary: o' cascade rule: measure_induct_rule [where f = cascade_rank])
  case (less t)
  have other: "(t0, c) \<notin> set (delete_cascade_dependants t)" for c
    using no_references by (simp add: dependants_iff)
  have deps: "keeps (rows_sat t0 P) (delete_cascade_dependencies t q :: ('x, unit) dbm)" for q
    unfolding delete_cascade_dependencies.simps
    by (rule keeps_bind, rule keeps_lift, rule keeps_for_each)
      (auto intro!: keeps_intro less.IH intro: dependants_rank simp: other)
  show ?case
    unfolding delete_record_of.simps delete_one_def execute_sql_def
    by (intro keeps_intro deps keeps_connection_rows keeps_other_stmt less.prems)
qed

lemma keeps_delete_loaded: "loaded t o' \<Longrightarrow> t \<noteq> t0 \<Longrightarrow> keeps (rows_sat t0 P) (delete_record o' cascade)"
  by (auto simp: delete_record_def loaded_def intro: keeps_delete_other)

lemma keeps_update_or_gone: "rtype o' \<noteq> t0 \<Longrightarrow> keeps (rows_sat t0 P) (update_or_gone o')"
  unfolding update_or_gone_def by (intro keeps_intro keeps_update_other)

lemma rtype_job_attrs: "rtype (set_job_attrs dto o') = rtype o'"
  by (simp add: set_job_attrs_def set_attr_def)

lemma keeps_family_rows [keeps_intro]:
  "keeps (rows_sat t0 P) (create_job_family_if_not_exist name)" "keeps (rows_sat t0 P) (create_job_model dto)"
  unfolding create_job_model_def create_job_family_if_not_exist_def create_job_family_model_def by (intro keeps_intro)+

lemma keeps_jobs_rows:
  assumes "t0 \<noteq> Job"
  shows "keeps (rows_sat t0 P) (save_job_model dto)" "keeps (rows_sat t0 P) (update_job dto)"
    "keeps (rows_sat t0 P) (delete_job_model name version)"
proof -
  have update: "keeps (rows_sat t0 P) (update_job_model o' dto)" if "loaded Job o'" for o'
    unfolding update_job_model_def using assms loaded_rtype [OF that]
    by (intro keeps_update_or_gone) (auto simp: rtype_job_attrs)
  show "keeps (rows_sat t0 P) (save_job_model dto)"
    unfolding save_job_model_def
    by (rule keeps_try_else_returns [OF _ returns_job_model]) (intro keeps_intro update; assumption)+
  show "keeps (rows_sat t0 P) (update_job dto)"
    unfolding update_job_def by (rule keeps_bind_returns [OF _ returns_job_model]) (intro keeps_intro update; assumption)+
  show "keeps (rows_sat t0 P) (delete_job_model name version)"
    unfolding delete_job_model_def
    by (rule keeps_bind_returns [OF _ returns_find_one], intro keeps_intro, erule keeps_delete_loaded) (use assms in simp)
qed

lemma keeps_description_rows [keeps_intro]: "keeps Q (get_description_from_auth_subject subject)"
  unfolding get_description_from_auth_subject_def by (intro keeps_intro)

lemma keeps_created_rows [keeps_intro]:
  "keeps (rows_sat t0 P) (grant_permission subject name version scope)"
  "keeps (rows_sat t0 P) (log_event event_type properties executor subj jname jversion)"
  "keeps (rows_sat t0 P) (create_job_public_endpoint_if_not_exist jn jv endpoint)"
  "keeps (rows_sat t0 P) (create_trashed_job dto)"
  "keeps (rows_sat t0 P) (create_deployment manifest username target)"
  unfolding grant_permission_def grant_row_def permission_exists_def log_event_def create_job_public_endpoint_if_not_exist_def
    create_trashed_job_def create_deployment_def check_for_concurrent_deployments_def Let_def
  by (intro keeps_intro)+

end

text \<open>Updates of a loaded record keep its primary key.\<close>

lemma row_val_set_cols_other: "c \<notin> set (keys new) \<Longrightarrow> row_val (set_cols new r) c = row_val r c"
proof -
  assume "c \<notin> set (keys new)"
  then have "map_of new c = None" by (simp add: map_of_eq_None_iff)
  then have "map_of (set_cols new r) c = map_of r c" by (induction r) (auto simp: set_cols_def)
  then show ?thesis by (simp add: row_val_def)
qed

locale kept_keys = growing_rows +
  assumes same_keys: "P rows \<Longrightarrow> (\<And>r. row_val (f r) (pk t0) = row_val r (pk t0)) \<Longrightarrow> P (map f rows)"
begin

lemma keeps_update_keys: "pk t0 \<notin> set (keys data) \<Longrightarrow> keeps (rows_sat t0 P) (update_one t0 conds prms data)"
proof -
  assume pk: "pk t0 \<notin> set (keys data)"
  have "keeps (rows_sat t0 P) (run_stmt (UpdateS t0 cs ps data))" for cs ps
  proof (rule keepsI)
    fix w :: "'x world_scheme" assume w: "P (db w t0)"
    show "P (db (snd (run_stmt (UpdateS t0 cs ps data) w)) t0)"
    proof (cases "store_vals t0 data")
      case (Inr new)
      then have "pk t0 \<notin> set (keys new)" using store_vals_ok [OF Inr] pk by simp
      then have "P (map (\<lambda>r. if where_holds cs ps (row_env t0 r) then set_cols new r else r) (db w t0))"
        using w by (intro same_keys) (auto simp: row_val_set_cols_other)
      then show ?thesis using w Inr by (auto simp: Let_def)
    qed (use w in auto)
  qed
  then show ?thesis
    unfolding update_one_def execute_sql_def by (intro keeps_intro keeps_connection_rows)
qed

lemma keeps_update_loaded:
  assumes "loaded t o'"
  shows "keeps (rows_sat t0 P) (update_record o' True :: ('x, robj) dbm)"
proof (cases "t = t0")
  case True
  have key: "keeps (rows_sat t0 P) (bind (lift (extract_changed_data o')) f)"
    if "\<And>data. pk t0 \<notin> set (keys data) \<Longrightarrow> keeps (rows_sat t0 P) (f data)" for f :: "row \<Rightarrow> ('x, robj) dbm"
    using changed_without_key [OF assms] that True
    by (cases "extract_changed_data o'") (auto simp: keeps_def bind_def lift_def)
  show ?thesis
    unfolding update_record_def loaded_rtype [OF assms] True if_True
    by (rule keeps_bind, rule keeps_lift, rule keeps_bind, rule keeps_conditions, rule keeps_case_prod, rule key)
      (intro keeps_intro keeps_update_keys; assumption)
next
  case False
  then show ?thesis using loaded_rtype [OF assms] by (intro keeps_update_other) simp
qed

lemma keeps_deployment_rows:
  "keeps (rows_sat t0 P) (save_deployment_phase ident phase)"
  "keeps (rows_sat t0 P) (save_deployment_build_logs ident logs)"
  "keeps (rows_sat t0 P) (save_deployment_image_name oident img)"
  "keeps (rows_sat t0 P) (save_deployment_result ident status error)"
  by (intro keeps_deployment_updates keeps_update_loaded; assumption)+

end

end
