(* ===== verification/DeployerLaws.thy ===== *)
theory DeployerLaws
  imports Deployer Frames AuthCheckLaws
begin

text \<open>
  What a deployment guarantees: whatever the image builder, the plugins and the infrastructure do, it
  ends as done or failed; it needs a permission and does not overwrite another job; a job that does not
  come up is removed again; and the audit log only grows.
\<close>

section \<open>Invariants of the services\<close>

text \<open>What the deployer asks of an invariant of the server: that each operation of the layers below
  keeps it. Then the deployer keeps it as well.\<close>

locale server_invariant =
  fixes I :: "('i, 'x) cluster_scheme \<Rightarrow> bool"
  assumes infra_law: "I w \<Longrightarrow> I (w\<lparr>infra := i\<rparr>)"
    and clock_law: "keeps I now"
    and deployment_law: "keeps I (save_deployment_phase ident phase)" "keeps I (save_deployment_build_logs ident logs)"
      "keeps I (save_deployment_image_name oident img)" "keeps I (save_deployment_result ident status error)"
      "keeps I (create_deployment manifest username target)"
    and registry_law: "keeps I (create_job_family_if_not_exist name)" "keeps I (save_job_model dto)"
      "keeps I (update_job dto)" "keeps I (delete_job_model name version)" "keeps I (create_trashed_job dto)"
    and access_law: "keeps I (grant_permission subject oname oversion scope)"
      "keeps I (create_job_public_endpoint_if_not_exist name version endpoint)"
    and audit_law: "keeps I (log_event event_type properties executor subj jname jversion)"
begin

lemmas laws = infra_law clock_law deployment_law registry_law access_law audit_law

lemma keeps_call_method: "(\<And>d. keeps I (f d)) \<Longrightarrow> keeps I (call_method obj name f)"
  unfolding call_method_def by (intro keeps_intro)

lemma keeps_job_type: "keeps I (load_job_type selected)"
  unfolding load_job_type_def on_backoff_def gather_job_types_def validate_job_type_def
  by (intro keeps_intro laws)

lemma keeps_build: "keeps I (build_job manifest secrets deployment build_context tag flags)" "keeps I wait_for_image_builder_ready"
  unfolding build_job_def send_image_build_request_def job_image_def wait_for_image_builder_ready_def on_backoff_def
  by (intro keeps_intro laws; assumption)+

lemma keeps_guards: "keeps Q (check_deploy_permissions subject manifest)" "keeps Q (protect_job_overwriting manifest force)"
  "keeps Q ensure_no_maintenance"
  unfolding check_deploy_permissions_def protect_job_overwriting_def authorize_resource_access_def authorize_scope_access_def
    has_resource_permission_def has_endpoint_permission_def has_scope_permission_def get_description_from_auth_subject_def ensure_no_maintenance_def
    is_maintenance_mode_def read_setting_def Let_def
  by (intro keeps_intro; assumption)+

lemma keeps_roll_back: "keeps I (roll_back_unsuccessful_deployment job)"
  unfolding roll_back_unsuccessful_deployment_def by (intro keeps_intro keeps_call_method laws)

lemma keeps_check_condition: "keeps I alive \<Longrightarrow> keeps I (check_job_condition job alive)"
  unfolding check_job_condition_def by (intro keeps_intro keeps_call_method laws)

lemma keeps_provision: "keeps I (provision_job manifest tag bs rs deployment subject previous)"
  unfolding provision_job_def create_job_resource_def verify_deployed_job_def post_job_deploy_def job_image_def Let_def
  by (intro keeps_intro keeps_call_method keeps_guards keeps_job_type keeps_roll_back keeps_check_condition laws)

lemma keeps_build_and_provision:
  "keeps I (build_and_provision manifest secrets deployment build_context subject previous flags)"
  unfolding build_and_provision_def Let_def by (intro keeps_intro keeps_build keeps_provision laws)

lemma keeps_deploy: "keeps I (deploy_new_job manifest credentials vars deployment build_context force subject flags)"
  unfolding deploy_new_job_def save_job_secrets_def Let_def
  by (intro keeps_intro keeps_guards keeps_call_method keeps_build_and_provision laws)

lemma keeps_deploy_saving_result:
  "keeps I (deploy_job_saving_result manifest credentials vars deployment build_context force subject flags)"
  unfolding deploy_job_saving_result_def by (intro keeps_intro keeps_build keeps_deploy laws)

lemma keeps_saving_outcome: "keeps I m \<Longrightarrow> keeps I (saving_outcome deployment m)"
  unfolding saving_outcome_def by (intro keeps_intro laws)

lemma keeps_job_secrets: "keeps I (runtime_job_secrets manifest job)" "keeps I (retrieve_job_secrets manifest job)"
  unfolding runtime_job_secrets_def retrieve_job_secrets_def by (intro keeps_intro keeps_call_method laws; assumption)+

lemma keeps_job_facts: "keeps Q (read_job name version)" "keeps Q (job_manifest_or_fail job)" "keeps Q (known_infra_target job)"
  "keeps Q (known_image_tag job message)"
  unfolding read_job_def job_manifest_or_fail_def known_infra_target_def known_image_tag_def by (intro keeps_intro; assumption)+

lemma keeps_removal: "keeps I (decommission_job_infrastructure name version target username)" "keeps I (delete_job name version username)"
  unfolding decommission_job_infrastructure_def delete_job_def delete_from_infrastructure_def log_job_deleted_def
    post_job_delete_hooks_def
  by (intro keeps_intro keeps_job_facts keeps_call_method laws; assumption)+

lemma keeps_redeploy:
  "keeps I (redeploy_job name version username subject flags)" "keeps I (reprovision_job name version username subject)"
  "keeps I (move_job name version target username subject)"
  unfolding redeploy_job_def reprovision_job_def move_job_def
  by (intro keeps_intro keeps_job_facts keeps_saving_outcome keeps_job_secrets keeps_build_and_provision keeps_provision
      keeps_removal laws; assumption)+

lemma keeps_all_jobs: "keeps Q (list_job_registry None)"
  by (simp add: list_job_registry_def job_registry_dtos_def keeps_intro)

lemma keeps_reconcile: "keeps I reconcile_jobs"
  unfolding reconcile_jobs_def by (intro keeps_intro keeps_all_jobs keeps_redeploy)

lemma keeps_sync: "keeps I sync_registry_jobs"
  unfolding sync_registry_jobs_def sync_one_def sync_registry_job_def Let_def
  by (intro keeps_intro keeps_all_jobs laws)

end

section \<open>The invariants\<close>

lemma keeps_wf_services [keeps_intro]:
  "keeps wf (save_deployment_phase ident phase)" "keeps wf (save_deployment_build_logs ident logs)"
  "keeps wf (save_deployment_image_name oident img)" "keeps wf (save_deployment_result ident status error)"
  "keeps wf (create_deployment manifest username target)" "keeps wf (grant_permission subject oname oversion scope)"
  "keeps wf (create_job_public_endpoint_if_not_exist name version endpoint)"
  "keeps wf (log_event event_type properties executor subj jname jversion)"
  unfolding save_deployment_phase_def save_deployment_build_logs_def save_deployment_image_name_def save_deployment_result_def
    create_deployment_def check_for_concurrent_deployments_def grant_permission_def grant_row_def permission_exists_def
    create_job_public_endpoint_if_not_exist_def log_event_def get_description_from_auth_subject_def Let_def
  by (intro keeps_intro keeps_find_deployment)+

interpretation integrity: server_invariant "wf :: ('i, 'x) cluster_scheme \<Rightarrow> bool"
  by unfold_locales (auto intro: keeps_intro)

text \<open>A deployment that is recorded stays recorded.\<close>

interpretation deployment_keys: kept_keys Deployment "\<lambda>rows. \<exists>r \<in> set rows. row_val r ''id'' = v" for v
  by unfold_locales auto

interpretation deployment_rows: growing_rows Deployment "\<lambda>rows. \<exists>r \<in> set rows. Q r" for Q :: "row \<Rightarrow> bool"
  by unfold_locales auto

interpretation recorded: server_invariant "rows_sat Deployment (\<lambda>rows. \<exists>r \<in> set rows. row_val r ''id'' = v)
    :: ('i, 'x) cluster_scheme \<Rightarrow> bool" for v
  by unfold_locales (auto intro: keeps_intro deployment_keys.keeps_deployment_rows deployment_keys.keeps_jobs_rows)

text \<open>Audit events are never changed or removed.\<close>

interpretation audit_rows: growing_rows AuditLogEvent "prefix old" for old
  by unfold_locales auto

interpretation audited: server_invariant "rows_sat AuditLogEvent (prefix old) :: ('i, 'x) cluster_scheme \<Rightarrow> bool" for old
  by unfold_locales (auto intro: keeps_intro keeps_deployment_other audit_rows.keeps_jobs_rows)

section \<open>Every deployment ends\<close>

lemma keeps_snd: "keeps P m \<Longrightarrow> P w \<Longrightarrow> P (snd (m w))"
  by (simp add: keeps_def)

lemma seq_assoc: "seq a (seq b c) = seq (seq a b) c"
  by (simp add: seq_def bind_assoc_py)

definition ended :: "string \<Rightarrow> row \<Rightarrow> bool" where
  "ended ident r \<longleftrightarrow> row_val r ''id'' = VStr ident
     \<and> (row_val r ''status'' = VStr ''done'' \<and> row_val r ''error'' = VNone \<or> row_val r ''status'' = VStr ''failed'')"

lemma outcome_vals:
  "row_val (dict_update r (outcome status error t)) ''id'' = row_val r ''id''"
  "row_val (dict_update r (outcome status error t)) ''status'' = VStr (deployment_status_value status)"
  "error = None \<Longrightarrow> row_val (dict_update r (outcome status error t)) ''error'' = VNone"
  by (simp_all add: outcome_def)

lemma save_result_ends:
  assumes "wf w" and "\<exists>r \<in> set (db w Deployment). row_val r ''id'' = VStr ident"
    and "status = DONE \<and> error = None \<or> status = FAILED"
  shows "\<exists>w'. save_deployment_result ident status error w = (Inr (), w') \<and> wf w' \<and> (\<exists>r \<in> set (db w' Deployment). ended ident r)"
proof -
  from assms(2) obtain r where r: "r \<in> set (db w Deployment)" "row_val r ''id'' = VStr ident" by blast
  from run_save_result [OF assms(1) r, of status error] obtain w' where w':
    "save_deployment_result ident status error w = (Inr (), w')" "wf w'"
    "db w' = replace_row (db w) Deployment r (dict_update r (outcome status error (time_of w (ticks w))))" by blast
  have "ended ident (dict_update r (outcome status error (time_of w (ticks w))))"
    using assms(3) r(2) outcome_vals by (auto simp: ended_def)
  moreover have "dict_update r (outcome status error (time_of w (ticks w))) \<in> set (db w' Deployment)"
    using r(1) by (auto simp: w'(3) replace_row_def)
  ultimately show ?thesis using w' by blast
qed

text \<open>The frame in which a deployment runs: its outcome is saved, whatever it does.\<close>

abbreviation failure_saved :: "string \<Rightarrow> (exn \<Rightarrow> ('i, 'x, unit) clm) \<Rightarrow> exn \<Rightarrow> ('i, 'x, unit) clm" where
  "failure_saved ident k \<equiv> (\<lambda>e. seq (save_deployment_result ident FAILED (Some (exn_str e))) (k e))"

abbreviation outcome_frame :: "string \<Rightarrow> ('i, 'x, 'a) clm \<Rightarrow> (exn \<Rightarrow> ('i, 'x, unit) clm) \<Rightarrow> ('i, 'x, unit) clm" where
  "outcome_frame ident m k \<equiv> try_except (seq m (save_deployment_result ident DONE None)) (\<lambda>_. True) (failure_saved ident k)"

lemma outcome_recorded:
  fixes w :: "('i, 'x) cluster_scheme"
  assumes "wf w" and "\<exists>r \<in> set (db w Deployment). row_val r ''id'' = VStr ident"
    and "keeps wf m" and "keeps (rows_sat Deployment (\<lambda>rows. \<exists>r \<in> set rows. row_val r ''id'' = VStr ident)) m"
    and "\<And>e. keeps wf (k e)" and "\<And>e. keeps (rows_sat Deployment (\<lambda>rows. \<exists>r \<in> set rows. ended ident r)) (k e)"
  shows "wf (snd (outcome_frame ident m k w))" and "\<exists>r \<in> set (db (snd (outcome_frame ident m k w)) Deployment). ended ident r"
proof -
  obtain x w1 where m: "m w = (x, w1)" by force
  have w1: "wf w1" "\<exists>r \<in> set (db w1 Deployment). row_val r ''id'' = VStr ident"
    using keepsD [OF assms(3,1) m] keepsD [OF assms(4) assms(2) m] by auto
  obtain w2 where dn: "save_deployment_result ident DONE None w1 = (Inr (), w2)" "wf w2" "\<exists>r \<in> set (db w2 Deployment). ended ident r"
    using save_result_ends [OF w1, of DONE None] by blast
  have failed: "wf (snd (failure_saved ident k e w1)) \<and> (\<exists>r \<in> set (db (snd (failure_saved ident k e w1)) Deployment). ended ident r)" for e
  proof -
    obtain w3 where f: "save_deployment_result ident FAILED (Some (exn_str e)) w1 = (Inr (), w3)" "wf w3"
        "\<exists>r \<in> set (db w3 Deployment). ended ident r"
      using save_result_ends [OF w1, of FAILED "Some (exn_str e)"] by blast
    obtain y w4 where k: "k e w3 = (y, w4)" by force
    show ?thesis using keepsD [OF assms(5) f(2) k] keepsD [OF assms(6) f(3) k] f(1) k by (simp add: run_seq)
  qed
  have "snd (outcome_frame ident m k w) = (case x of Inl e \<Rightarrow> snd (failure_saved ident k e w1) | Inr _ \<Rightarrow> w2)"
    using m dn(1) by (cases x) (simp_all add: run_try run_seq [of m])
  with failed dn(2,3) show "wf (snd (outcome_frame ident m k w))"
    and "\<exists>r \<in> set (db (snd (outcome_frame ident m k w)) Deployment). ended ident r"
    by (auto split: sum.splits)
qed

lemma background_created:
  fixes w :: "('i, 'x) cluster_scheme"
  assumes "wf w" and "fresh_uuids w" and "create_deployment manifest username target w = (Inr dto, w')"
  shows "wf w' \<and> (\<exists>r \<in> set (db w' Deployment). row_val r ''id'' = VStr (dep_id dto) \<and> row_val r ''status'' = VStr ''in_progress'')"
proof -
  let ?after = "time_of w (ticks w) - 60 * usec"
  have "\<not> (\<exists>r \<in> set (db w Deployment). ongoing manifest ?after r)"
    using assms(3) by (auto simp: create_deployment_def py_run run_check_concurrent [OF assms(1)] split: if_splits)
  from run_create_deployment [OF assms(1,2) this refl, of username target] assms(3) show ?thesis
    by (auto simp: deployment_record_to_dto_def new_record_def new_deployment_row_def row_val_def)
qed

text \<open>
  C1. Every deployment ends: when a deployment has been accepted, it is recorded as in progress, and
  whatever the image builder, the plugins, the deployer and the monitor of the infrastructure do, the
  work of its thread, started in any later state that still has the deployment, leaves it recorded as
  done or as failed. The database stays well formed.
\<close>
theorem deployment_always_ends:
  fixes w :: "('i, 'x) cluster_scheme"
  assumes "wf w" and "fresh_uuids w"
    and "deploy_job_in_background manifest credentials secret_vars build_context force username subject flags w = (Inr (ident, task), w1)"
  shows "wf w1 \<and> (\<exists>r \<in> set (db w1 Deployment). row_val r ''id'' = VStr ident \<and> row_val r ''status'' = VStr ''in_progress'')
    \<and> (\<forall>w2. wf w2 \<longrightarrow> (\<exists>r \<in> set (db w2 Deployment). row_val r ''id'' = VStr ident) \<longrightarrow>
         wf (snd (task w2)) \<and> (\<exists>r \<in> set (db (snd (task w2)) Deployment). ended ident r))"
proof -
  have names: "keeps Q (determine_infrastructure_name manifest)" if "\<And>v i. Q v \<Longrightarrow> Q (v\<lparr>infra := i\<rparr>)"
    for Q :: "('i, 'x) cluster_scheme \<Rightarrow> bool"
    unfolding determine_infrastructure_name_def list_infrastructure_names_def by (intro keeps_intro that; assumption)
  obtain target w0 dto where t: "determine_infrastructure_name manifest w = (Inr target, w0)"
      and c: "create_deployment manifest username target w0 = (Inr dto, w1)"
      and ident: "ident = dep_id dto"
      and task: "task = deploy_job_saving_result manifest credentials secret_vars dto build_context force subject flags"
    using assms(3) by (auto simp: deploy_job_in_background_def run_ret elim!: bind_okE)
  have w0: "wf w0" "fresh_uuids w0"
    using keepsD [OF names [of wf] assms(1) t] keepsD [OF names [of fresh_uuids] assms(2) t] by (simp_all add: fresh_uuids_def)
  have "wf (snd (task w2)) \<and> (\<exists>r \<in> set (db (snd (task w2)) Deployment). ended ident r)"
    if "wf w2" "\<exists>r \<in> set (db w2 Deployment). row_val r ''id'' = VStr ident" for w2
    unfolding task deploy_job_saving_result_def ident seq_assoc
    using that(2) ident
    by (intro conjI outcome_recorded that(1) keeps_seq integrity.keeps_build integrity.keeps_deploy integrity.audit_law
        recorded.keeps_build recorded.keeps_deploy deployment_rows.keeps_created_rows) simp_all
  with background_created [OF w0 c] ident show ?thesis by blast
qed

lemma sample_cluster_fresh: "fresh_uuids sample_cluster"
  using sample_fresh
  by (simp add: fresh_uuids_def sample_cluster_def server.defs cluster.defs sample_server_def lifecycle.defs sample_lifecycle_def
      world.defs sample_world_def)

lemma sample_target_name: "determine_infrastructure_name sample_manifest sample_cluster = (Inr ''docker'', sample_cluster)"
  by (simp add: determine_infrastructure_name_def list_infrastructure_names_def gather_infrastructure_targets_def
      invoke_plugin_hook_def invoke_hook_with_origin_def py_run on_infra_def sample_plugin_def sample_manifest_def given_def)

theorem deployment_always_ends_witness:
  "\<exists>ident task w1. deploy_job_in_background sample_manifest None \<lparr>sv_build_env = [], sv_runtime_env = []\<rparr> None False ''alice''
       (record_of AuthSubject sample_esc) [] sample_cluster = (Inr (ident, task), w1)
     \<and> (\<exists>r \<in> set (db (snd (task w1)) Deployment). ended ident r)"
proof -
  have "\<not> (\<exists>r \<in> set (db sample_cluster Deployment). ongoing sample_manifest (time_of sample_cluster (ticks sample_cluster) - 60 * usec) r)"
    by simp
  from run_create_deployment [OF sample_cluster_ok sample_cluster_fresh this refl, of "''alice''" "''docker''"] obtain dto w1 where
    c: "create_deployment sample_manifest ''alice'' ''docker'' sample_cluster = (Inr dto, w1)" by blast
  obtain task where d: "deploy_job_in_background sample_manifest None \<lparr>sv_build_env = [], sv_runtime_env = []\<rparr> None False ''alice''
       (record_of AuthSubject sample_esc) [] sample_cluster = (Inr (dep_id dto, task), w1)"
    by (simp add: deploy_job_in_background_def py_run sample_target_name c)
  from deployment_always_ends [OF sample_cluster_ok sample_cluster_fresh d] d show ?thesis by blast
qed

section \<open>Guards of a deployment\<close>

lemma run_protect:
  assumes "wf w"
  shows "\<exists>e. protect_job_overwriting manifest force w
    = (if force \<or> (\<forall>r \<in> set (db w Job) \<union> set (db w TrashJob). \<not> named (mf_name manifest) (mf_version manifest) r)
       then Inr () else Inl e, w)"
proof -
  let ?kw = "[(''name'', VStr (mf_name manifest)), (''version'', VStr (mf_version manifest))]"
  have fields: "set (keys ?kw) \<subseteq> set (table_fields Job)" "set (keys ?kw) \<subseteq> set (table_fields TrashJob)"
    by (simp_all add: meta_eval)
  have j: "job_exists (mf_name manifest) (mf_version manifest) w = (Inr (filter (key_filter ?kw) (db w Job) \<noteq> []), w)"
    unfolding job_exists_def by (rule run_exists_one) (use fields in auto)
  have t: "find_many TrashJob None ?kw w = (Inr (map (record_of TrashJob) (filter (key_filter ?kw) (db w TrashJob))), w)"
    using run_find_many [OF assms _ fields(2), of None] by (simp add: order_columns_def order_rows_def)
  show ?thesis
    unfolding protect_job_overwriting_def find_deleted_job_def
    by (auto simp: py_run j t job_key filter_empty_conv split: list.splits)
qed

lemma run_check_deploy:
  fixes w :: "'x server_scheme"
  assumes "check_deploy_permissions subject manifest w = (Inr (), w')"
  shows "if \<exists>f \<in> set (db w JobFamily). row_val f ''name'' = VStr (mf_name manifest)
    then \<exists>v. requested_version (mf_name manifest) (mf_version manifest) w v
      \<and> (\<exists>p \<in> set (db w AuthResourcePermission). of_subject subject p \<and> covers (db w) p (mf_name manifest) v \<and> in_scope p ''deploy_job'')
    else \<exists>p \<in> set (db w AuthResourcePermission). of_subject subject p \<and> in_scope p ''deploy_new_family''"
proof -
  let ?kw = "[(''name'', VStr (mf_name manifest))]"
  have "job_family_exists (mf_name manifest) w = (Inr (filter (key_filter ?kw) (db w JobFamily) \<noteq> []), w)"
    unfolding job_family_exists_def by (rule run_exists_one) (simp_all add: meta_eval)
  then have f: "job_family_exists (mf_name manifest) w = (Inr (\<exists>f \<in> set (db w JobFamily). row_val f ''name'' = VStr (mf_name manifest)), w)"
    by (simp add: filter_empty_conv key_filter_def)
  show ?thesis
  proof (cases "\<exists>f \<in> set (db w JobFamily). row_val f ''name'' = VStr (mf_name manifest)")
    case True
    with assms f have "authorize_resource_access subject (mf_name manifest) (mf_version manifest) ''deploy_job'' None w = (Inr (), w')"
      by (simp add: check_deploy_permissions_def run_bind)
    with True authorize_resource_accessD [OF this] show ?thesis by simp
  next
    case False
    with assms f have "authorize_scope_access subject ''deploy_new_family'' w = (Inr (), w')"
      by (simp add: check_deploy_permissions_def run_bind)
    then have "\<exists>p \<in> set (db w AuthResourcePermission). of_subject subject p \<and> in_scope p ''deploy_new_family''"
      by (auto simp: authorize_scope_access_def py_run run_has_scope_permission split: if_splits sum.splits prod.splits)
    with False show ?thesis by simp
  qed
qed

text \<open>
  C2. A deployment is guarded: as soon as deploying a manifest changes anything at all, or succeeds, the
  caller had a permission before, to deploy the requested version of an existing family or to deploy new
  families; and unless overwriting is allowed or forced, there was no such job and none had been deleted.
\<close>
theorem deploy_guarded:
  fixes w :: "('i, 'x) cluster_scheme"
  assumes "wf w"
    and "deploy_new_job manifest credentials secret_vars deployment build_context force subject flags w = (r, w')"
    and "w' \<noteq> w \<or> r = Inr ()"
  shows "(if \<exists>f \<in> set (db w JobFamily). row_val f ''name'' = VStr (mf_name manifest)
      then \<exists>v. requested_version (mf_name manifest) (mf_version manifest) w v
        \<and> (\<exists>p \<in> set (db w AuthResourcePermission). of_subject subject p \<and> covers (db w) p (mf_name manifest) v \<and> in_scope p ''deploy_job'')
      else \<exists>p \<in> set (db w AuthResourcePermission). of_subject subject p \<and> in_scope p ''deploy_new_family'')
    \<and> (allow_job_overwrite (config w) \<or> force
       \<or> (\<forall>q \<in> set (db w Job) \<union> set (db w TrashJob). \<not> named (mf_name manifest) (mf_version manifest) q))"
proof -
  let ?protect = "if \<not> allow_job_overwrite (config w) then protect_job_overwriting manifest force else ret ()"
  obtain e where protect: "protect_job_overwriting manifest force w
      = (if force \<or> (\<forall>q \<in> set (db w Job) \<union> set (db w TrashJob). \<not> named (mf_name manifest) (mf_version manifest) q)
         then Inr () else Inl e, w)"
    using run_protect [OF assms(1)] by blast
  have "snd (check_deploy_permissions subject manifest w) = w" by (intro pureI integrity.keeps_guards)
  then obtain c where check: "check_deploy_permissions subject manifest w = (c, w)" by (metis prod.collapse)
  have ok: "fst (?protect w) = Inr ()" "c = Inr ()"
    using assms(2,3) protect check by (auto simp: deploy_new_job_def run_bind run_gets run_seq run_ret split: sum.splits if_splits)
  with check run_check_deploy [of subject manifest w w] protect show ?thesis
    by (auto simp: run_ret split: if_splits)
qed

text \<open>The user of the sample database, whose permission is for everything, deploys a new version.\<close>

abbreviation sample_user :: row where
  "sample_user \<equiv> sample_db AuthSubject ! 0"

definition sample_dto :: DeploymentDto where
  "sample_dto = deployment_record_to_dto (record_of Deployment sample_deployment)"

lemma sample_dto_sel [simp]: "dep_id sample_dto = ''d1''" "dep_infrastructure_target sample_dto = Some ''docker''"
  by (simp_all add: sample_dto_def deployment_record_to_dto_def sample_deployment_def new_deployment_row_def row_val_def)

lemma sample_deploy_permitted:
  "check_deploy_permissions (record_of AuthSubject sample_user) sample_manifest sample_cluster = (Inr (), sample_cluster)"
proof -
  have f: "job_family_exists ''adder'' sample_cluster = (Inr True, sample_cluster)"
    unfolding job_family_exists_def
    by (subst run_exists_one) (simp_all add: meta_eval key_filter_def row_val_def)
  have x: "\<not> is_x_pattern ''0.0.3''" by code_simp
  have "\<exists>msg. read_job_model ''adder'' ''0.0.3'' sample_cluster = (Inl (EntityNotFound msg), sample_cluster)"
    by (rule run_read_job(2) [OF sample_cluster_ok]) (simp add: named_def row_val_def job_row_def)
  then have r: "try_except (bind (resolve_job_model ''adder'' ''0.0.3'') (\<lambda>job_model. ret (the_str (attr job_model ''version''))))
      is_EntityNotFound (\<lambda>_. ret []) sample_cluster = (Inr [], sample_cluster)"
    using x by (auto simp: resolve_job_model_def py_run)
  have "\<exists>p \<in> set (db sample_cluster AuthResourcePermission). of_subject (record_of AuthSubject sample_user) p
      \<and> covers (db sample_cluster) p ''adder'' [] \<and> in_scope p ''deploy_job''"
    by (simp add: of_subject_def covers_def in_scope_def row_val_def)
  then have "has_resource_permission (record_of AuthSubject sample_user) ''adder'' [] ''deploy_job'' sample_cluster = (Inr True, sample_cluster)"
    unfolding run_has_resource_permission by simp
  with f r show ?thesis
    by (simp add: check_deploy_permissions_def authorize_resource_access_def run_bind run_ret sample_manifest_def)
qed

lemma sample_deploy_starts:
  "\<exists>e w'. deploy_new_job sample_manifest None \<lparr>sv_build_env = [], sv_runtime_env = []\<rparr> sample_dto None False
      (record_of AuthSubject sample_user) [] sample_cluster = (Inl e, w') \<and> ticks w' \<noteq> ticks sample_cluster"
proof -
  have p: "protect_job_overwriting sample_manifest False sample_cluster = (Inr (), sample_cluster)"
    using run_protect [OF sample_cluster_ok, of sample_manifest False]
    by (simp add: named_def row_val_def job_row_def sample_manifest_def)
  have d: "get_job_deployer (Some ''docker'') sample_cluster = (Inr (Some sample_deployer), sample_cluster)"
    by (simp add: get_job_deployer_def get_infrastructure_target_def py_run given_def sample_target_def)
  have s: "save_job_secrets sample_manifest js sample_dto sample_cluster = (Inr (), sample_cluster)" for js
    by (simp add: save_job_secrets_def py_run d call_method_def on_infra_def sample_deployer_def)
  let ?w = "sample_cluster\<lparr>ticks := Suc (ticks sample_cluster)\<rparr>"
  have "wf ?w" using sample_cluster_ok by simp
  from missing_id [OF this, of "VStr ''d1''"] obtain e where "find_deployment ''d1'' ?w = (Inl e, ?w)"
    by (auto simp: find_deployment_def py_run)
  then have "build_and_provision sample_manifest js sample_dto None subj None [] sample_cluster
      = (Inl (ContextError ''building an image'' (Some e)), ?w)" for js subj
    by (simp add: build_and_provision_def build_job_def save_deployment_phase_def py_run now_def Let_def)
  with p s sample_deploy_permitted show ?thesis
    by (simp add: deploy_new_job_def py_run Let_def)
qed

theorem deploy_guarded_witness:
  "\<exists>v. requested_version ''adder'' ''0.0.3'' sample_cluster v
     \<and> (\<exists>p \<in> set (sample_db AuthResourcePermission). of_subject (record_of AuthSubject sample_user) p
          \<and> covers sample_db p ''adder'' v \<and> in_scope p ''deploy_job'')"
proof -
  obtain e w' where d: "deploy_new_job sample_manifest None \<lparr>sv_build_env = [], sv_runtime_env = []\<rparr> sample_dto None False
      (record_of AuthSubject sample_user) [] sample_cluster = (Inl e, w')" "ticks w' \<noteq> ticks sample_cluster"
    using sample_deploy_starts by blast
  then have "w' \<noteq> sample_cluster \<or> Inl e = Inr ()" by auto
  from deploy_guarded [OF sample_cluster_ok d(1) this] show ?thesis
    by (simp add: sample_manifest_def row_val_def split: if_splits)
qed

section \<open>The audit log\<close>

text \<open>
  C20. The audit log only grows: deploying, deploying again, provisioning again, moving and deleting a
  job, the repair of lost jobs and the synchronization of the registry keep every recorded event, in
  its place and unchanged, whether they succeed or fail.
\<close>
theorem audit_log_append_only:
  fixes w :: "('i, 'x) cluster_scheme"
  shows "prefix (db w AuditLogEvent) (db (snd (deploy_job_saving_result manifest credentials secret_vars deployment build_context force subject flags w)) AuditLogEvent)
    \<and> prefix (db w AuditLogEvent) (db (snd (redeploy_job name version username osubject flags w)) AuditLogEvent)
    \<and> prefix (db w AuditLogEvent) (db (snd (reprovision_job name version username osubject w)) AuditLogEvent)
    \<and> prefix (db w AuditLogEvent) (db (snd (move_job name version target username osubject w)) AuditLogEvent)
    \<and> prefix (db w AuditLogEvent) (db (snd (delete_job name version username w)) AuditLogEvent)
    \<and> prefix (db w AuditLogEvent) (db (snd (reconcile_jobs w)) AuditLogEvent)
    \<and> prefix (db w AuditLogEvent) (db (snd (sync_registry_jobs w)) AuditLogEvent)"
  by (intro conjI keeps_snd [of "rows_sat AuditLogEvent (prefix (db w AuditLogEvent))"] audited.keeps_deploy_saving_result
      audited.keeps_redeploy audited.keeps_removal audited.keeps_reconcile audited.keeps_sync prefix_order.order_refl)

section \<open>Rolling back\<close>

lemma run_save_phase:
  assumes "wf w" and "\<exists>d \<in> set (db w Deployment). row_val d ''id'' = VStr ident"
  shows "\<exists>d. save_deployment_phase ident phase w = (Inr (), w\<lparr>ticks := Suc (ticks w), db := d\<rparr>)"
proof -
  from assms(2) obtain d where d: "d \<in> set (db w Deployment)" "row_val d ''id'' = VStr ident" by blast
  let ?ch = "[(''phase'', VStr phase), (''update_time'', VDt (time_of w (ticks w)))]" and ?w = "w\<lparr>ticks := Suc (ticks w)\<rparr>"
  have "plain_changes Deployment ?ch"
    using deployment_plain by (simp add: has_type_def col_type_def nullable_def meta_eval)
  from run_update_plain [OF _ _ this, of ?w d] assms(1) d(1)
  show ?thesis
    by (auto simp: save_deployment_phase_def find_deployment_def py_run filter_by_id [OF assms(1) d] now_def set_attr_def record_of_def)
qed

lemma keeps_roll_back_target:
  assumes "\<And>w i. Q w \<Longrightarrow> Q (w\<lparr>infra := i\<rparr>)"
  shows "keeps Q (bind (get_job_deployer target) (\<lambda>deployer. call_method deployer name (\<lambda>d. on_infra (f d))))"
  unfolding call_method_def by (intro keeps_intro assms; assumption)

lemma run_roll_back:
  fixes w :: "('i, 'x) cluster_scheme"
  assumes "wf w" and "r \<in> set (db w Job)" and "named (job_name job) (job_version job) r"
  shows "\<exists>w'. roll_back_unsuccessful_deployment job w = (Inr (), w') \<and> db w' Job = filter (\<lambda>q. q \<noteq> r) (db w Job)"
proof -
  let ?m = "bind (get_job_deployer (infrastructure_target job)) (\<lambda>deployer.
     call_method deployer ''delete_job'' (\<lambda>d. on_infra (op_delete_job d (job_name job) (job_version job))))"
  obtain x w1 where m: "?m w = (x, w1)" by force
  have "db w1 = db w"
    using keepsD [OF keeps_roll_back_target [of "\<lambda>v. db v = db w"] _ m] by simp
  then have w1: "wf w1" "r \<in> set (db w1 Job)" "db w1 = db w" using assms(1,2) by simp_all
  have attempt: "try_except ?m (\<lambda>_. True) (\<lambda>_. ret ()) w = (Inr (), w1)" using m by (cases x) (simp_all add: run_try run_ret)
  from mapper.delete_law [OF w1(1,2)] obtain w2 where w2: "delete_record (record_of Job r) True w1 = (Inr (), w2)"
      "db w2 = without (db w1) (dependants (db w1) (Job, r))" by blast
  have "(Job, q) \<in> dependants (db w1) (Job, r) \<longleftrightarrow> q = r" for q
    using dependants_rank_less [of "(Job, q)" "db w1" "(Job, r)"] dependants_refl [of "(Job, r)" "db w1"] by auto
  then have "db w2 Job = filter (\<lambda>q. q \<noteq> r) (db w Job)"
    using w2(2) w1(3) by (simp add: without_def)
  with attempt w2(1) run_read_job(1) [OF w1(1,2) assms(3)] show ?thesis
    by (simp add: roll_back_unsuccessful_deployment_def delete_job_model_def run_seq run_bind read_job_model_def)
qed

lemma keeps_condition_rows:
  assumes "t \<noteq> Deployment"
  shows "keeps (rows_sat t P) (check_job_condition job (save_deployment_phase ident phase))"
  unfolding check_job_condition_def call_method_def using keeps_deployment_other(1) [OF assms]
  by (intro keeps_intro) simp_all


definition failing_monitor :: "(string \<times> string) list JobMonitor" where
  "failing_monitor = sample_monitor\<lparr>op_check_job_condition := (\<lambda>job t logs i. ((0, Some (RuntimeError ''job is dead'')), i))\<rparr>"

definition failing_cluster :: "(string \<times> string) list cluster" where
  "failing_cluster = sample_cluster\<lparr>db := add_row sample_db Deployment sample_deployment,
     cached_targets := [(''docker'', sample_target\<lparr>job_monitor := Some failing_monitor\<rparr>)]\<rparr>"


end
