(* ===== verification/JobInfo.thy ===== *)
theory JobInfo
  imports Registry
begin

text \<open>
  Information about jobs and callers: logs (\<open>lifecycle/job/logs.py\<close>, \<open>lifecycle/job/ansi.py\<close>), external
  service consumers (\<open>lifecycle/job/esc.py\<close>), the graph of dependencies (\<open>lifecycle/job/graph.py\<close>) and the
  explanation of audit events (\<open>racetrack_commons/entities/audit.py\<close>).
\<close>

section \<open>Logs\<close>

text \<open>The regular expression \<open>\x1b\[\d+(;\d+)?m\<close> at the start of a text: the rest after the match. Digits
  differ from the characters after them, so that the greedy match is the only one.\<close>

definition color_code :: "string \<Rightarrow> string option" where
  "color_code s =
     (if startswith s [CHR 0x1B, CHR ''[''] then
        let ds = takeWhile is_digit (drop 2 s);
            r = dropWhile is_digit (drop 2 s);
            es = takeWhile is_digit (drop 1 r);
            q = dropWhile is_digit (drop 1 r)
        in if ds = [] then None
           else if startswith r ''m'' then Some (drop 1 r)
           else if startswith r '';'' \<and> es \<noteq> [] \<and> startswith q ''m'' then Some (drop 1 q)
           else None
      else None)"

lemma color_code_shorter: "color_code s = Some r \<Longrightarrow> length r < length s"
proof -
  assume code: "color_code s = Some r"
  let ?r = "dropWhile is_digit (drop 2 s)"
  from code have "s \<noteq> []" by (auto simp: color_code_def startswith_iff)
  moreover from code have "r = drop 1 ?r \<or> r = drop 1 (dropWhile is_digit (drop 1 ?r))"
    by (auto simp: color_code_def Let_def split: if_splits)
  moreover have "length ?r \<le> length s - 2" using length_dropWhile_le [of is_digit "drop 2 s"] by simp
  moreover have "length (dropWhile is_digit (drop 1 ?r)) \<le> length ?r - 1"
    using length_dropWhile_le [of is_digit "drop 1 ?r"] by simp
  moreover from \<open>s \<noteq> []\<close> have "0 < length s" by simp
  ultimately show "length r < length s" by (elim disjE) (simp_all only: length_drop)
qed

function strip_ansi_colors :: "string \<Rightarrow> string" where
  "strip_ansi_colors s =
     (case color_code s of
        Some r \<Rightarrow> strip_ansi_colors r
      | None \<Rightarrow> (case s of [] \<Rightarrow> [] | c # t \<Rightarrow> c # strip_ansi_colors t))"
  by pat_completeness auto
termination
  by (relation "measure length") (auto dest: color_code_shorter)

declare strip_ansi_colors.simps [simp del]

definition read_runtime_logs :: "string \<Rightarrow> string \<Rightarrow> int \<Rightarrow> ('i, 'x, string) clm" where
  "read_runtime_logs name version tail = bind (read_versioned_job name version) (\<lambda>job. read_recent_logs job tail)"

text \<open>\<open>xs[-n:]\<close> for a positive \<open>n\<close>.\<close>

definition last_items :: "int \<Rightarrow> 'a list \<Rightarrow> 'a list" where
  "last_items n xs = drop (length xs - nat n) xs"

definition read_build_logs :: "string \<Rightarrow> string \<Rightarrow> int \<Rightarrow> ('x, string) lcm" where
  "read_build_logs name version tail =
     bind (resolve_job_model name version) (\<lambda>job_model.
     bind (find_many Deployment (Some [''-update_time''])
             [(''job_name'', attr job_model ''name''), (''job_version'', attr job_model ''version'')]) (\<lambda>deployments.
     case deployments of
       [] \<Rightarrow> raise (EntityNotFound (''No deployment matching to a job '' @ name))
     | latest_deployment # _ \<Rightarrow>
         let logs = the_str (attr latest_deployment ''build_logs'')
         in ret (if tail > 0 then join [newline] (last_items tail (splitlines logs)) else logs)))"

section \<open>External service consumers\<close>

definition read_esc_model :: "string \<Rightarrow> ('x, robj) svm" where
  "read_esc_model ident =
     try_except (find_one Esc [(''id'', VStr ident)]) is_EntityNotFound
       (\<lambda>_. raise (EntityNotFound (''ESC with ID '' @ ident @ '' was not found'')))"

definition read_esc :: "string \<Rightarrow> ('x, EscDto) svm" where
  "read_esc ident = bind (read_esc_model ident) (\<lambda>esc. ret (esc_record_to_dto esc))"

definition create_esc :: "EscDto \<Rightarrow> ('x, EscDto) svm" where
  "create_esc dto =
     seq (assert_py (esc_name dto \<noteq> []) ''ESC name can not be empty'')
     (bind new_uuid (\<lambda>u.
      let model = (\<lambda>ident. new_record Esc [(''id'', VStr ident), (''name'', VStr (esc_name dto))])
      in bind (case esc_id dto of
                 None \<Rightarrow> ret (model u)
               | Some ident \<Rightarrow>
                   bind (exists_one Esc [(''id'', VStr ident)]) (\<lambda>found.
                   if found then raise (AlreadyExists ''ESC with given ID already exists'') else ret (model ident))) (\<lambda>esc_model.
         bind (create_record esc_model) (\<lambda>esc_model.
         bind (get_auth_subject_by_esc esc_model) (\<lambda>auth_subject.
         seq (create_auth_token auth_subject None)
             (ret (esc_record_to_dto esc_model)))))))"

definition list_escs :: "('x, EscDto list) svm" where
  "list_escs = bind (list_all_records Esc None None) (\<lambda>all_esc. ret (map esc_record_to_dto all_esc))"

section \<open>The graph of dependencies\<close>

record JobGraphNode =
  node_id :: string
  node_type :: string
  node_title :: string
  node_subtitle :: "string option"

record JobGraphEdge =
  from_id :: string
  to_id :: string

record JobGraph =
  graph_nodes :: "JobGraphNode list"
  graph_edges :: "JobGraphEdge list"

text \<open>The names of the families are listed in the order of a set, which is a parameter.\<close>

definition group_job_families :: "(string list \<Rightarrow> string list) \<Rightarrow> JobDto list \<Rightarrow> string list" where
  "group_job_families set_order jobs = set_order (remdups (map job_name jobs))"

definition get_job_details :: "JobDto \<Rightarrow> ('x, string) lcm" where
  "get_job_details job =
     bind (gets (\<lambda>w. get_external_pub_url w (external_pub_url (config w)))) (\<lambda>url.
     ret (job_name job @ '' v'' @ job_version job @ '' - '' @ url @ ''/job/'' @ job_name job @ ''/'' @ job_version job))"

definition list_job_family_details :: "JobDto list \<Rightarrow> string \<Rightarrow> ('x, string) lcm" where
  "list_job_family_details jobs family_name =
     bind (map_py get_job_details (filter (\<lambda>f. job_name f = family_name) jobs)) (\<lambda>details.
     ret (join [newline] (map (\<lambda>d. ''- '' @ d) details)))"

definition opt_text :: "string option \<Rightarrow> string" where
  "opt_text s = (case s of None \<Rightarrow> ''None'' | Some t \<Rightarrow> t)"

definition esc_node :: "EscDto \<Rightarrow> JobGraphNode" where
  "esc_node esc = \<lparr>node_id = ''esc-'' @ opt_text (esc_id esc), node_type = ''esc'', node_title = esc_name esc,
     node_subtitle = Some (''ESC:'' @ [newline] @ opt_text (esc_id esc))\<rparr>"

text \<open>The identifier of the node of a family.\<close>

definition family_node_id :: "string \<Rightarrow> string" where
  "family_node_id family_name = ''job-family-'' @ family_name"

definition family_node :: "JobDto list \<Rightarrow> string \<Rightarrow> ('x, JobGraphNode) lcm" where
  "family_node jobs family_name =
     bind (list_job_family_details jobs family_name) (\<lambda>details.
     ret \<lparr>node_id = family_node_id family_name, node_type = ''job-family'', node_title = family_name,
       node_subtitle = Some (''Job Family: '' @ family_name @ [newline] @ ''Jobs:'' @ [newline] @ details)\<rparr>)"

text \<open>The edges of one caller; a caller without a subject has none.\<close>

definition caller_edges :: "(string list \<Rightarrow> string list) \<Rightarrow> JobDto list \<Rightarrow> string \<Rightarrow> ('x, robj) svm \<Rightarrow> ('x, JobGraphEdge list) svm" where
  "caller_edges set_order jobs node find_subject =
     try_else find_subject is_EntityNotFound (\<lambda>_. ret [])
       (\<lambda>auth_subject.
          bind (list_permitted_jobs auth_subject (scope_value CALL_JOB) jobs) (\<lambda>dest_jobs.
          ret (map (\<lambda>dest_family. \<lparr>from_id = node, to_id = family_node_id dest_family\<rparr>) (group_job_families set_order dest_jobs))))"

definition build_job_dependencies_graph :: "(string list \<Rightarrow> string list) \<Rightarrow> robj option \<Rightarrow> ('x, JobGraph) svm" where
  "build_job_dependencies_graph set_order auth_subject =
     bind (list_job_registry auth_subject) (\<lambda>jobs.
     let family_names = group_job_families set_order jobs
     in bind list_escs (\<lambda>escs.
        bind (map_py (family_node jobs) family_names) (\<lambda>family_nodes.
        bind (map_py (\<lambda>family_name. caller_edges set_order jobs (family_node_id family_name)
                (find_auth_subject_by_job_family_name family_name)) family_names) (\<lambda>family_edges.
        bind (map_py (\<lambda>esc. caller_edges set_order jobs (''esc-'' @ opt_text (esc_id esc))
                (find_auth_subject_by_esc_id (the_default [] (esc_id esc)))) escs) (\<lambda>esc_edges.
        ret \<lparr>graph_nodes = map esc_node escs @ family_nodes, graph_edges = concat family_edges @ concat esc_edges\<rparr>)))))"

section \<open>Explanations of audit events\<close>

definition owner_info :: "AuditLogEventDto \<Rightarrow> string" where
  "owner_info ale = (if given (ev_username_subject ale) then ''(owned by '' @ the (ev_username_subject ale) @ '')'' else [])"

definition plugin_info :: "AuditLogEventDto \<Rightarrow> string" where
  "plugin_info ale =
     (let property = (\<lambda>k. case map_of (ev_properties ale) k of None \<Rightarrow> [] | Some v \<Rightarrow> json_str v)
      in property ''plugin_name'' @ '' '' @ property ''plugin_version'')"

definition explain_audit_log_event :: "AuditLogEventDto \<Rightarrow> exn + string" where
  "explain_audit_log_event ale =
     (let job = ''Job '' @ opt_text (ev_job_name ale) @ '' '' @ opt_text (ev_job_version ale);
          executor = opt_text (ev_username_executor ale)
      in if ev_type ale = event_type_value JOB_DEPLOYED then Inr (job @ '' deployed by '' @ executor)
         else if ev_type ale = event_type_value JOB_REDEPLOYED then Inr (job @ '' '' @ owner_info ale @ '' redeployed by '' @ executor)
         else if ev_type ale = event_type_value JOB_DELETED then Inr (job @ '' '' @ owner_info ale @ '' deleted by '' @ executor)
         else if ev_type ale = event_type_value JOB_MOVED then Inr (job @ '' '' @ owner_info ale @ '' moved by '' @ executor)
         else if ev_type ale = event_type_value DEPLOYMENT_FAILED then
           Inr (''Failed deployment of a job '' @ opt_text (ev_job_name ale) @ '' '' @ opt_text (ev_job_version ale)
             @ '', attempted by '' @ executor)
         else if ev_type ale = event_type_value PLUGIN_INSTALLED then Inr (''Plugin '' @ plugin_info ale @ '' installed by '' @ executor)
         else if ev_type ale = event_type_value PLUGIN_UNINSTALLED then Inr (''Plugin '' @ plugin_info ale @ '' uninstalled by '' @ executor)
         else Inl (RuntimeError (''Unknown audit log event type: '' @ ev_type ale)))"

section \<open>Edges of the graph\<close>

lemma lookup_all_range:
  "lookup_all d ks = Inr xs \<Longrightarrow> set xs \<subseteq> snd ` set d"
proof (induction ks arbitrary: xs)
  case (Cons k ks)
  then obtain x ys where "Option.bind k (map_of d) = Some x" "lookup_all d ks = Inr ys" "xs = x # ys"
    by (auto split: option.splits sum.splits)
  moreover from this have "x \<in> snd ` set d"
    by (cases k) (auto dest!: map_of_SomeD intro: rev_image_eqI)
  ultimately show ?case using Cons.IH by auto
qed simp

lemma permitted_jobs_listed:
  assumes "list_permitted_jobs subject scope jobs w = (Inr permitted, w')"
  shows "set permitted \<subseteq> set jobs"
proof -
  let ?d = "dict_of (map (\<lambda>job. (the_default [] (job_id job), job)) jobs)"
  have "snd ` set ?d \<subseteq> set jobs"
    by (auto simp: set_dict_of_iff dest!: map_of_SomeD)
  then show ?thesis
    using assms lookup_all_range [of ?d]
    by (fastforce simp: list_permitted_jobs_def run_ret run_lift Let_def elim!: bind_okE split: option.splits)
qed

lemma caller_edges_listed:
  assumes "caller_edges set_order jobs node subj w = (Inr es, w')" and "\<And>xs. set (set_order xs) = set xs"
  shows "\<forall>e \<in> set es. from_id e = node \<and> to_id e \<in> (\<lambda>job. family_node_id (job_name job)) ` set jobs"
  using assms
  by (auto simp: caller_edges_def group_job_families_def run_try_else run_ret elim!: bind_okE dest!: permitted_jobs_listed
      split: sum.splits prod.splits if_splits) blast+

lemma map_py_results:
  assumes "map_py f xs w = (Inr ys, w')"
  shows "list_all2 (\<lambda>x y. \<exists>v v'. f x v = (Inr y, v')) xs ys"
  using assms by (induction xs arbitrary: ys w) (auto simp: run_ret elim!: bind_okE, blast)

lemma map_py_concat:
  assumes "map_py f xs w = (Inr yss, w')"
    and "\<And>x ys v v'. x \<in> set xs \<Longrightarrow> f x v = (Inr ys, v') \<Longrightarrow> \<forall>y \<in> set ys. P y"
  shows "\<forall>y \<in> set (concat yss). P y"
  using assms by (induction xs arbitrary: yss w) (auto simp: run_ret elim!: bind_okE, blast+)

text \<open>The graph is closed: every edge leads from the node of an external consumer or of a family to the node
  of a family that the caller may see, and the nodes are the consumers and the families of the visible jobs.\<close>

lemma graph_edges_closed:
  assumes "build_job_dependencies_graph set_order subject w = (Inr g, w')" and "\<And>xs. set (set_order xs) = set xs"
  shows "\<exists>jobs v escs. list_job_registry subject w = (Inr jobs, v) \<and> list_escs v = (Inr escs, v)
    \<and> set (map node_id (graph_nodes g)) = set (map (\<lambda>esc. node_id (esc_node esc)) escs) \<union> (\<lambda>job. family_node_id (job_name job)) ` set jobs
    \<and> (\<forall>e \<in> set (graph_edges g). from_id e \<in> set (map node_id (graph_nodes g))
        \<and> to_id e \<in> (\<lambda>job. family_node_id (job_name job)) ` set jobs)"
proof -
  from assms(1) obtain jobs v escs v2 fnodes v3 fedges v4 eedges v5 where
    jobs: "list_job_registry subject w = (Inr jobs, v)" and escs: "list_escs v = (Inr escs, v2)"
    and nodes: "map_py (family_node jobs) (group_job_families set_order jobs) v2 = (Inr fnodes, v3)"
    and fe: "map_py (\<lambda>f. caller_edges set_order jobs (family_node_id f) (find_auth_subject_by_job_family_name f))
          (group_job_families set_order jobs) v3 = (Inr fedges, v4)"
    and ee: "map_py (\<lambda>esc. caller_edges set_order jobs (''esc-'' @ opt_text (esc_id esc))
          (find_auth_subject_by_esc_id (the_default [] (esc_id esc)))) escs v4 = (Inr eedges, v5)"
    and g: "g = \<lparr>graph_nodes = map esc_node escs @ fnodes, graph_edges = concat fedges @ concat eedges\<rparr>"
    unfolding build_job_dependencies_graph_def Let_def by (auto simp: run_ret elim!: bind_okE)
  have "snd (list_escs v) = v" by (intro pureI) (auto simp: list_escs_def intro!: keeps_intro)
  with escs have v2: "v2 = v" by simp
  let ?fam = "\<lambda>job. family_node_id (job_name job)"
  have names: "set (group_job_families set_order jobs) = job_name ` set jobs" by (simp add: group_job_families_def assms(2))
  have "list_all2 (\<lambda>f n. node_id n = family_node_id f) (group_job_families set_order jobs) fnodes"
    using map_py_results [OF nodes] by (rule list_all2_mono) (auto simp: family_node_def run_ret elim!: bind_okE)
  then have "map node_id fnodes = map family_node_id (group_job_families set_order jobs)"
    by (induction rule: list_all2_induct) auto
  then have ids: "set (map node_id (graph_nodes g)) = set (map (\<lambda>esc. node_id (esc_node esc)) escs) \<union> ?fam ` set jobs"
    unfolding g by (simp only: JobGraph.simps map_append set_append list.set_map list.map_comp) (simp add: names image_image comp_def)
  have "\<forall>e \<in> set (concat fedges). from_id e \<in> ?fam ` set jobs \<and> to_id e \<in> ?fam ` set jobs"
  proof (rule map_py_concat [OF fe])
    fix f es u u'
    assume "f \<in> set (group_job_families set_order jobs)"
      and "caller_edges set_order jobs (family_node_id f) (find_auth_subject_by_job_family_name f) u = (Inr es, u')"
    then show "\<forall>e \<in> set es. from_id e \<in> ?fam ` set jobs \<and> to_id e \<in> ?fam ` set jobs"
      using caller_edges_listed [OF _ assms(2)] names by force
  qed
  moreover have "\<forall>e \<in> set (concat eedges). from_id e \<in> (\<lambda>esc. node_id (esc_node esc)) ` set escs \<and> to_id e \<in> ?fam ` set jobs"
  proof (rule map_py_concat [OF ee])
    fix esc es u u'
    assume "esc \<in> set escs" and "caller_edges set_order jobs (''esc-'' @ opt_text (esc_id esc))
      (find_auth_subject_by_esc_id (the_default [] (esc_id esc))) u = (Inr es, u')"
    from this(1) caller_edges_listed [OF this(2) assms(2)]
    show "\<forall>e \<in> set es. from_id e \<in> (\<lambda>esc. node_id (esc_node esc)) ` set escs \<and> to_id e \<in> ?fam ` set jobs"
      by (auto simp: esc_node_def)
  qed
  ultimately have "\<forall>e \<in> set (graph_edges g). from_id e \<in> set (map node_id (graph_nodes g)) \<and> to_id e \<in> ?fam ` set jobs"
    unfolding ids by (simp add: g ball_Un)
  with jobs escs v2 ids show ?thesis by blast
qed

end
