(* ===== verification/Urls.thy ===== *)
theory Urls
  imports Bytes
begin

text \<open>
  The parts of \<open>urllib.parse\<close> the code uses: quoting, \<open>urlsplit\<close> and the host name of its result.
\<close>

text \<open>\<open>urllib.parse.quote\<close> with no safe characters: every byte of the UTF-8 text except letters, digits
  and \<open>_.-~\<close> is written as a percent sign and two hexadecimal digits.\<close>

definition unreserved :: "char \<Rightarrow> bool" where
  "unreserved c \<longleftrightarrow> (let n = of_char c :: nat in (48 \<le> n \<and> n \<le> 57) \<or> (65 \<le> n \<and> n \<le> 90) \<or> (97 \<le> n \<and> n \<le> 122))
     \<or> c \<in> set ''_.-~''"

definition upper_hex_digit :: "nat \<Rightarrow> char" where
  "upper_hex_digit n = (if n < 10 then char_of (48 + n) else char_of (55 + n))"

definition quote :: "string \<Rightarrow> string" where
  "quote s = concat (map (\<lambda>c. if unreserved c then [c]
     else [CHR ''%'', upper_hex_digit (of_char c div 16), upper_hex_digit (of_char c mod 16)]) (utf8_encode s))"

text \<open>The default of \<open>quote\<close> leaves slashes as they are.\<close>

definition url_quote :: "string \<Rightarrow> string" where
  "url_quote s = join ''/'' (map quote (split_on CHR ''/'' s))"

section \<open>Splitting\<close>

record SplitResult =
  us_scheme :: string
  us_netloc :: string
  us_path :: string
  us_query :: string
  us_fragment :: string

definition cut_before :: "string \<Rightarrow> string \<Rightarrow> string" where
  "cut_before cs s = takeWhile (\<lambda>c. c \<notin> set cs) s"

definition cut_from :: "string \<Rightarrow> string \<Rightarrow> string" where
  "cut_from cs s = dropWhile (\<lambda>c. c \<notin> set cs) s"

text \<open>Leading spaces and control characters, tabs and line breaks are dropped.\<close>

definition clean_url :: "string \<Rightarrow> string" where
  "clean_url url = filter (\<lambda>c. of_char c \<notin> {9::nat, 10, 13}) (dropWhile (\<lambda>c. of_char c \<le> (32::nat)) url)"

definition is_letter :: "char \<Rightarrow> bool" where
  "is_letter c \<longleftrightarrow> (let n = of_char c :: nat in (65 \<le> n \<and> n \<le> 90) \<or> (97 \<le> n \<and> n \<le> 122))"

definition scheme_char :: "char \<Rightarrow> bool" where
  "scheme_char c \<longleftrightarrow> is_letter c \<or> is_digit c \<or> c \<in> set ''+-.''"

definition split_scheme :: "string \<Rightarrow> string \<times> string" where
  "split_scheme url =
     (let s = cut_before '':'' url
      in if CHR '':'' \<in> set url \<and> s \<noteq> [] \<and> is_letter (hd s) \<and> list_all scheme_char s
         then (lower s, tl (cut_from '':'' url)) else ([], url))"

definition urlsplit :: "string \<Rightarrow> exn + SplitResult" where
  "urlsplit u =
     (let (sch, url) = split_scheme (clean_url u);
          has_netloc = startswith url ''//'';
          loc = (if has_netloc then cut_before ''/?#'' (drop 2 url) else []);
          url = (if has_netloc then cut_from ''/?#'' (drop 2 url) else url)
      in if (CHR ''['' \<in> set loc) \<noteq> (CHR '']'' \<in> set loc) then Inl (ValueError ''Invalid IPv6 URL'')
         else Inr \<lparr>us_scheme = sch, us_netloc = loc, us_path = cut_before ''?'' (cut_before ''#'' url),
           us_query = drop 1 (cut_from ''?'' (cut_before ''#'' url)), us_fragment = drop 1 (cut_from ''#'' url)\<rparr>)"

text \<open>\<open>split.hostname\<close>: without user information and port, in lower case.\<close>

definition after_last :: "char \<Rightarrow> string \<Rightarrow> string" where
  "after_last c s = rev (takeWhile (\<lambda>d. d \<noteq> c) (rev s))"

definition url_hostname :: "SplitResult \<Rightarrow> string option" where
  "url_hostname r =
     (let hostinfo = after_last CHR ''@'' (us_netloc r);
          host = (if CHR ''['' \<in> set hostinfo then cut_before '']'' (tl (cut_from ''['' hostinfo)) else cut_before '':'' hostinfo)
      in if host = [] then None else Some (lower host))"

end
