(* ===== verification/Endpoints.thy ===== *)
theory Endpoints
  imports Deployer JobInfo AuthCheck Urls
begin

text \<open>
  The endpoints of the server for callers, jobs, deployments, external consumers, users and the audit log
  (\<open>lifecycle/endpoints/auth.py\<close>, \<open>job.py\<close>, \<open>deploy.py\<close>, \<open>esc.py\<close>, \<open>user.py\<close>, \<open>audit.py\<close>, \<open>info.py\<close>) and the
  cookie of the login (\<open>lifecycle/auth/cookie.py\<close>). Payloads arrive as typed values; routing and the
  serialization of responses belong to the web framework.
\<close>

section \<open>Calls of jobs\<close>

text \<open>What an endpoint returns: a value, a JSON response with an error text, or an empty response.\<close>

datatype 'a reply = Result 'a | ErrorReply string int | EmptyReply int

definition reply_unauthorized :: "('x, 'a reply) lcm \<Rightarrow> ('x, 'a reply) lcm" where
  "reply_unauthorized m = try_except m is_UnauthorizedError (\<lambda>e.
     bind (gets config) (\<lambda>cfg. ret (ErrorReply (describe e (auth_debug cfg)) 401)))"

definition unprotected_job_endpoints :: "string list" where
  "unprotected_job_endpoints = [''/health'', ''/live'', ''/ready'']"

definition normalize_endpoint_path :: "string \<Rightarrow> string" where
  "normalize_endpoint_path endpoint =
     (let e = (if endswith endpoint ''/'' then butlast endpoint else endpoint)
      in if startswith e ''/'' then e else ''/'' @ e)"

definition authorize_request :: "Request \<Rightarrow> string \<Rightarrow> string \<Rightarrow> string \<Rightarrow> string option \<Rightarrow> ('x, robj option) svm" where
  "authorize_request request name version scope endpoint =
     bind (authenticate_token request) (\<lambda>(token_payload, auth_subject).
     seq (if tp_subject_type token_payload = subject_type_value INTERNAL then
            authorize_internal_token token_payload (Some scope)
          else case auth_subject of
              None \<Rightarrow> raise (AssertionError [])
            | Some subj \<Rightarrow> authorize_resource_access subj name version scope endpoint)
     (ret auth_subject))"

definition authorize_job_caller :: "robj \<Rightarrow> string \<Rightarrow> Request \<Rightarrow> ('x, robj option) svm" where
  "authorize_job_caller job_model endpoint request =
     (if endpoint \<in> set unprotected_job_endpoints then ret None
      else
        bind (read_job_model_public_endpoints job_model) (\<lambda>public_endpoints.
        if list_ex (startswith endpoint) public_endpoints then ret None
        else authorize_request request (the_str (attr job_model ''name'')) (the_str (attr job_model ''version''))
               (scope_value CALL_JOB) (Some endpoint)))"

definition auth_allowed_job :: "string \<Rightarrow> string \<Rightarrow> string \<Rightarrow> Request \<Rightarrow> ('x, unit reply) svm" where
  "auth_allowed_job name version scope request =
     reply_unauthorized (seq (authorize_request request name version scope None) (ret (EmptyReply 202)))"

definition auth_allowed_job_endpoint :: "string \<Rightarrow> string \<Rightarrow> string \<Rightarrow> string \<Rightarrow> Request \<Rightarrow> ('x, unit reply) svm" where
  "auth_allowed_job_endpoint name version scope endpoint request =
     reply_unauthorized (seq (authorize_request request name version scope (Some (normalize_endpoint_path endpoint)))
       (ret (EmptyReply 202)))"

record JobCallAuthData =
  call_job :: JobDto
  call_caller :: "string option"
  call_gateway_url :: "string option"
  call_gateway_token :: "string option"

definition auth_can_call_job_endpoint :: "string \<Rightarrow> string \<Rightarrow> string \<Rightarrow> Request \<Rightarrow> ('i, 'x, JobCallAuthData reply) clm" where
  "auth_can_call_job_endpoint name version endpoint request =
     bind is_maintenance_mode (\<lambda>maintenance.
     if maintenance then ret (ErrorReply ''Racetrack is currently in maintenance mode. Please try again later.'' 503)
     else
       bind (resolve_job_model name version) (\<lambda>job_model.
       reply_unauthorized (
         bind (authorize_job_caller job_model (normalize_endpoint_path endpoint) request) (\<lambda>auth_subject.
         bind (case auth_subject of None \<Rightarrow> ret None
               | Some subj \<Rightarrow> bind (get_description_from_auth_subject subj) (\<lambda>d. ret (Some d))) (\<lambda>caller.
         bind (job_record_to_dto job_model) (\<lambda>job.
         bind (gets cached_targets) (\<lambda>targets.
         let infrastructure = Option.bind (infrastructure_target job) (map_of targets)
         in ret (Result \<lparr>call_job = job, call_caller = caller,
              call_gateway_url = Option.bind infrastructure remote_gateway_url,
              call_gateway_token = Option.bind infrastructure remote_gateway_token\<rparr>))))))))"

section \<open>Permissions and tokens\<close>

definition check_admin :: "Request \<Rightarrow> ('x, robj option) svm" where
  "check_admin request = check_auth request None None None (Some CALL_ADMIN_API)"

definition auth_allow_esc_job_family :: "string \<Rightarrow> string \<Rightarrow> string \<Rightarrow> Request \<Rightarrow> ('x, unit) svm" where
  "auth_allow_esc_job_family ident name scope request =
     seq (check_admin request)
     (bind (read_esc_model ident) (\<lambda>esc_model.
      bind (get_auth_subject_by_esc esc_model) (\<lambda>auth_subject.
      grant_permission auth_subject (Some name) None scope)))"

definition auth_allow_family :: "string \<Rightarrow> string \<Rightarrow> string \<Rightarrow> Request \<Rightarrow> ('x, unit) svm" where
  "auth_allow_family source_family_name target_family_name scope request =
     seq (check_admin request)
     (bind (read_job_family_model source_family_name) (\<lambda>src_family_model.
      bind (get_auth_subject_by_job_family src_family_model) (\<lambda>auth_subject.
      grant_permission auth_subject (Some target_family_name) None scope)))"

definition get_esc_token :: "string \<Rightarrow> Request \<Rightarrow> ('x, string) svm" where
  "get_esc_token ident request =
     seq (check_admin request)
     (bind (read_esc_model ident) (\<lambda>esc_model.
      bind (get_auth_subject_by_esc esc_model) (\<lambda>auth_subject.
      bind (get_auth_token_by_subject auth_subject) (\<lambda>auth_token.
      ret (the_str (attr auth_token ''token''))))))"

record Cookie =
  cookie_value :: string
  cookie_domain :: "string option"
  cookie_max_age :: int
  cookie_secure :: bool

definition get_cookie_domain :: "('x, string option) lcm" where
  "get_cookie_domain = gets (\<lambda>w.
     if \<not> given (environ w ''CLUSTER_FQDN'') then environ w ''CLUSTER_FQDN''
     else Some (the_default ''racetrack'' (environ w ''RACETRACK_SUBDOMAIN'') @ ''.'' @ the (environ w ''CLUSTER_FQDN'')))"

definition set_auth_token_cookie :: "string \<Rightarrow> ('x, Cookie) lcm" where
  "set_auth_token_cookie auth_token =
     bind (gets (\<lambda>w. environ w ''ENFORCE_SECURE_COOKIE'' = Some ''true'')) (\<lambda>secure_cookie.
     bind get_cookie_domain (\<lambda>domain.
     ret \<lparr>cookie_value = quote auth_token, cookie_domain = domain, cookie_max_age = 60 * 60 * 24 * 31,
       cookie_secure = secure_cookie\<rparr>))"

definition generate_tokens_for_user :: "Request \<Rightarrow> ('x, string \<times> Cookie) svm" where
  "generate_tokens_for_user request =
     bind (check_auth request (Some [USER]) None None None) (\<lambda>auth_subject.
     case auth_subject of
       None \<Rightarrow> raise (AssertionError [])
     | Some subj \<Rightarrow>
         bind (regenerate_specific_user_token subj) (\<lambda>new_token.
         bind (set_auth_token_cookie new_token) (\<lambda>cookie. ret (new_token, cookie))))"

definition generate_tokens_for_all_users :: "Request \<Rightarrow> ('x, unit) svm" where
  "generate_tokens_for_all_users request = seq (check_admin request) regenerate_all_user_tokens"

definition generate_tokens_for_all_job_families :: "Request \<Rightarrow> ('x, unit) svm" where
  "generate_tokens_for_all_job_families request = seq (check_admin request) regenerate_all_job_family_tokens"

definition generate_tokens_for_all_escs :: "Request \<Rightarrow> ('x, unit) svm" where
  "generate_tokens_for_all_escs request = seq (check_admin request) regenerate_all_esc_tokens"

section \<open>Jobs\<close>

definition check_job_access :: "Request \<Rightarrow> string \<Rightarrow> string \<Rightarrow> AuthScope \<Rightarrow> ('x, robj option) svm" where
  "check_job_access request name version scope = check_auth request None (Some name) (Some version) (Some scope)"

definition list_all_jobs :: "Request \<Rightarrow> ('x, JobDto list) svm" where
  "list_all_jobs request = bind (check_auth request None None None (Some READ_JOB)) list_job_registry"

definition get_job_family :: "Request \<Rightarrow> ('x, JobFamilyDto list) svm" where
  "get_job_family request = bind (check_auth request None None None (Some READ_JOB)) list_job_families"

definition get_job_graph :: "(string list \<Rightarrow> string list) \<Rightarrow> Request \<Rightarrow> ('x, JobGraph) svm" where
  "get_job_graph set_order request =
     bind (check_auth request None None None (Some READ_JOB)) (build_job_dependencies_graph set_order)"

definition get_job_portfolio :: "Request \<Rightarrow> ('x, (purge_info \<times> rat option \<times> rat option) list) svm" where
  "get_job_portfolio request =
     bind (check_auth request None None None (Some READ_JOB)) (\<lambda>auth_subject.
     bind (list_job_registry auth_subject) (\<lambda>jobs.
     bind (enrich_jobs_purge_info jobs) (map_py (\<lambda>entry.
       bind (days_since (Some (update_time (purge_job entry)))) (\<lambda>updated.
       bind (days_since (last_call_time (purge_job entry))) (\<lambda>called.
       ret (entry, updated, called)))))))"

definition get_job :: "string \<Rightarrow> string \<Rightarrow> Request \<Rightarrow> ('x, JobDto) svm" where
  "get_job name version request = seq (check_job_access request name version READ_JOB) (read_versioned_job name version)"

definition delete_job_endpoint :: "string \<Rightarrow> string \<Rightarrow> Request \<Rightarrow> ('i, 'x, unit) clm" where
  "delete_job_endpoint name version request =
     seq ensure_no_maintenance
     (seq (check_job_access request name version DELETE_JOB)
     (bind (get_username_from_token request) (\<lambda>username. delete_job name version username)))"

definition redeploy_job_endpoint :: "string \<Rightarrow> string \<Rightarrow> Request \<Rightarrow> ('i, 'x, unit) clm" where
  "redeploy_job_endpoint name version request =
     seq ensure_no_maintenance
     (bind (check_job_access request name version DEPLOY_JOB) (\<lambda>auth_subject.
      bind (get_username_from_token request) (\<lambda>username. redeploy_job name version username auth_subject [])))"

definition reprovision_job_endpoint :: "string \<Rightarrow> string \<Rightarrow> Request \<Rightarrow> ('i, 'x, unit) clm" where
  "reprovision_job_endpoint name version request =
     seq ensure_no_maintenance
     (bind (check_job_access request name version DEPLOY_JOB) (\<lambda>auth_subject.
      bind (get_username_from_token request) (\<lambda>username. reprovision_job name version username auth_subject)))"

definition move_job_endpoint :: "string \<Rightarrow> string \<Rightarrow> string \<Rightarrow> Request \<Rightarrow> ('i, 'x, unit) clm" where
  "move_job_endpoint name version target request =
     seq ensure_no_maintenance
     (bind (check_job_access request name version DEPLOY_JOB) (\<lambda>auth_subject.
      bind (get_username_from_token request) (\<lambda>username. move_job name version target username auth_subject)))"

definition get_job_logs :: "string \<Rightarrow> string \<Rightarrow> int \<Rightarrow> Request \<Rightarrow> ('i, 'x, string) clm" where
  "get_job_logs name version tail request =
     seq (check_job_access request name version READ_JOB) (read_runtime_logs name version tail)"

definition get_plain_job_logs :: "string \<Rightarrow> string \<Rightarrow> int \<Rightarrow> Request \<Rightarrow> ('i, 'x, string) clm" where
  "get_plain_job_logs name version tail request =
     seq (check_job_access request name version READ_JOB)
     (bind (read_runtime_logs name version tail) (\<lambda>content. ret (strip_ansi_colors content)))"

definition get_job_build_logs :: "string \<Rightarrow> string \<Rightarrow> int \<Rightarrow> Request \<Rightarrow> ('x, string) svm" where
  "get_job_build_logs name version tail request =
     seq (check_job_access request name version READ_JOB) (read_build_logs name version tail)"

definition get_plain_job_build_logs :: "string \<Rightarrow> string \<Rightarrow> int \<Rightarrow> Request \<Rightarrow> ('x, string) svm" where
  "get_plain_job_build_logs name version tail request =
     seq (check_job_access request name version READ_JOB)
     (bind (read_build_logs name version tail) (\<lambda>content. ret (strip_ansi_colors content)))"

definition get_job_public_endpoints :: "string \<Rightarrow> string \<Rightarrow> Request \<Rightarrow> ('x, PublicEndpointRequestDto list) svm" where
  "get_job_public_endpoints name version request =
     seq (check_job_access request name version READ_JOB) (read_active_job_public_endpoints name version)"

definition update_job_manifest_endpoint :: "string \<Rightarrow> string \<Rightarrow> string \<Rightarrow> Request \<Rightarrow> ('x, unit) svm" where
  "update_job_manifest_endpoint name version yaml request =
     seq ensure_no_maintenance
     (seq (check_job_access request name version DEPLOY_JOB) (update_job_manifest name version yaml))"

definition create_async_job_call :: "AsyncJobCallDto \<Rightarrow> Request \<Rightarrow> ('x, unit) svm" where
  "create_async_job_call payload request =
     seq ensure_no_maintenance (seq (check_admin request) (seq (save_async_job_call payload) (ret ())))"

definition get_async_job_call_endpoint :: "string \<Rightarrow> Request \<Rightarrow> ('x, AsyncJobCallDto) svm" where
  "get_async_job_call_endpoint call_id request =
     seq ensure_no_maintenance (seq (check_admin request)
     (bind (get_async_job_call call_id) async_job_call_record_to_dto))"

definition update_async_job_call :: "string \<Rightarrow> AsyncJobCallDto \<Rightarrow> Request \<Rightarrow> ('x, unit) svm" where
  "update_async_job_call call_id payload request =
     seq (assert_py (call_id = ac_id payload) ''invalid Call ID'')
     (seq ensure_no_maintenance (seq (check_admin request) (seq (save_async_job_call payload) (ret ()))))"

definition delete_async_job_call_endpoint :: "string \<Rightarrow> Request \<Rightarrow> ('x, unit) svm" where
  "delete_async_job_call_endpoint call_id request =
     seq ensure_no_maintenance (seq (check_admin request) (delete_async_job_call call_id))"

definition reconcile_all_jobs :: "Request \<Rightarrow> ('i, 'x, unit) clm" where
  "reconcile_all_jobs request = seq ensure_no_maintenance (seq (check_admin request) reconcile_jobs)"

section \<open>Deployments\<close>

text \<open>The payload of a deployment. The model of the secret variables is validated by a parameter.\<close>

record DeployPayload =
  dp_manifest :: json
  dp_git_credentials :: "Credentials option"
  dp_secret_vars :: "json option"
  dp_build_context :: "string option"
  dp_force :: "bool option"
  dp_build_flags :: "string list option"

definition load_secret_vars_from_dict :: "(json \<Rightarrow> exn + SecretVars) \<Rightarrow> json option \<Rightarrow> ('w, SecretVars) py" where
  "load_secret_vars_from_dict secret_vars_validate secrets_dict =
     (case secrets_dict of
        None \<Rightarrow> ret \<lparr>sv_build_env = [], sv_runtime_env = []\<rparr>
      | Some d \<Rightarrow> wrap_context ''parsing secret_vars'' (lift (secret_vars_validate d)))"

definition deploy_endpoint :: "(json \<Rightarrow> exn + SecretVars) \<Rightarrow> DeployPayload \<Rightarrow> Request
    \<Rightarrow> ('i, 'x, string \<times> ('i, 'x, unit) clm) clm" where
  "deploy_endpoint secret_vars_validate payload request =
     seq ensure_no_maintenance
     (bind (check_auth request None None None None) (\<lambda>auth_subject.
      case auth_subject of
        None \<Rightarrow> raise (AssertionError [])
      | Some subj \<Rightarrow>
          bind (load_manifest_from_dict (dp_manifest payload)) (\<lambda>manifest.
          bind (load_secret_vars_from_dict secret_vars_validate (dp_secret_vars payload)) (\<lambda>secret_vars.
          bind (get_username_from_token request) (\<lambda>username.
          deploy_job_in_background manifest (dp_git_credentials payload) secret_vars (dp_build_context payload)
            (the_default False (dp_force payload)) username subj (the_default [] (dp_build_flags payload)))))))"

definition get_deployments :: "int \<Rightarrow> Request \<Rightarrow> ('x, DeploymentDto list) svm" where
  "get_deployments limit request = seq (check_auth request None None None None) (list_recent_deployments limit)"

definition build_endpoint :: "(json \<Rightarrow> exn + SecretVars) \<Rightarrow> DeployPayload \<Rightarrow> Request
    \<Rightarrow> ('i, 'x, string \<times> ('i, 'x, unit) clm) clm" where
  "build_endpoint secret_vars_validate payload request =
     seq (check_auth request None None None None)
     (bind (load_manifest_from_dict (dp_manifest payload)) (\<lambda>manifest.
      bind (load_secret_vars_from_dict secret_vars_validate (dp_secret_vars payload)) (\<lambda>secret_vars.
      bind (get_username_from_token request) (\<lambda>username. build_job_in_background manifest username))))"

definition get_deployment :: "string \<Rightarrow> Request \<Rightarrow> ('x, DeploymentDto) svm" where
  "get_deployment deploy_id request = seq (check_auth request None None None None) (check_deployment_result deploy_id)"

definition update_deployment_phase :: "string \<Rightarrow> string \<Rightarrow> Request \<Rightarrow> ('x, unit) svm" where
  "update_deployment_phase deploy_id phase request =
     seq (check_auth request None None None None) (save_deployment_phase deploy_id phase)"

definition update_deployment_warnings :: "string \<Rightarrow> string \<Rightarrow> Request \<Rightarrow> ('x, unit) svm" where
  "update_deployment_warnings deploy_id warnings request =
     seq (check_auth request None None None None) (save_deployment_warnings deploy_id warnings)"

section \<open>External service consumers\<close>

record AuthTokenData =
  td_id :: string
  td_token :: string
  td_expiry_time :: "int option"
  td_active :: bool
  td_last_use_time :: "int option"

record EscAuthData =
  ed_id :: string
  ed_name :: string
  ed_tokens :: "AuthTokenData list"

definition auth_token_data :: "robj \<Rightarrow> AuthTokenData" where
  "auth_token_data model = \<lparr>td_id = the_str (attr model ''id''), td_token = the_str (attr model ''token''),
     td_expiry_time = map_option datetime_to_timestamp (opt_dt (attr model ''expiry_time'')),
     td_active = the_bool (attr model ''active''),
     td_last_use_time = map_option datetime_to_timestamp (opt_dt (attr model ''last_use_time''))\<rparr>"

definition get_all_escs :: "Request \<Rightarrow> ('x, EscDto list) svm" where
  "get_all_escs request = seq (check_staff_user request) list_escs"

definition create_esc_endpoint :: "EscDto \<Rightarrow> Request \<Rightarrow> ('x, EscDto) svm" where
  "create_esc_endpoint payload request = seq (check_staff_user request) (create_esc payload)"

definition get_esc_auth_data :: "string \<Rightarrow> Request \<Rightarrow> ('x, EscAuthData) svm" where
  "get_esc_auth_data ident request =
     seq (check_staff_user request)
     (bind (read_esc_model ident) (\<lambda>esc_model.
      bind (get_auth_subject_by_esc esc_model) (\<lambda>auth_subject.
      bind (get_auth_tokens_by_subject auth_subject) (\<lambda>auth_tokens.
      ret \<lparr>ed_id = ident, ed_name = the_str (attr esc_model ''name''), ed_tokens = map auth_token_data auth_tokens\<rparr>))))"

definition revoke_esc_token :: "string \<Rightarrow> string \<Rightarrow> Request \<Rightarrow> ('x, unit) svm" where
  "revoke_esc_token ident token_id request =
     seq (check_staff_user request) (seq (read_esc_model ident) (revoke_token token_id))"

definition add_new_esc_token :: "string \<Rightarrow> int option \<Rightarrow> Request \<Rightarrow> ('x, AuthTokenData) svm" where
  "add_new_esc_token ident expiry request =
     seq (check_staff_user request)
     (bind (read_esc_model ident) (\<lambda>esc_model.
      bind (get_auth_subject_by_esc esc_model) (\<lambda>auth_subject.
      bind (create_auth_token auth_subject (map_option timestamp_to_datetime expiry)) (\<lambda>auth_token.
      ret (auth_token_data auth_token)))))"

section \<open>Users\<close>

definition user_profile :: "string \<Rightarrow> robj \<Rightarrow> robj \<Rightarrow> UserProfileDto" where
  "user_profile username auth_token user = \<lparr>up_username = username, up_token = the_str (attr auth_token ''token''),
     up_is_staff = the_bool (attr user ''is_staff'')\<rparr>"

definition validate_user_auth :: "Request \<Rightarrow> ('x, UserProfileDto) svm" where
  "validate_user_auth request =
     bind (check_auth request (Some [USER]) None None None) (\<lambda>auth_subject.
     case auth_subject of
       None \<Rightarrow> raise (AssertionError [])
     | Some subj \<Rightarrow>
         seq (assert_py (attr subj ''user_id'' \<noteq> VNone) [])
         (bind (get_username_from_token request) (\<lambda>username.
          bind (find_user_record_by_id (attr subj ''user_id'')) (\<lambda>user.
          bind (get_auth_token_by_subject subj) (\<lambda>auth_token.
          ret (user_profile username auth_token user))))))"

definition login_user_account :: "string \<Rightarrow> string \<Rightarrow> ('x, UserProfileDto \<times> Cookie) svm" where
  "login_user_account username password =
     bind (authenticate_username_with_password username password) (\<lambda>(user, auth_subject, auth_token).
     let profile = user_profile (the_str (attr user ''username'')) auth_token user
     in bind (set_auth_token_cookie (up_token profile)) (\<lambda>cookie. ret (profile, cookie)))"

definition register_user_account_endpoint :: "string \<Rightarrow> string \<Rightarrow> ('x, unit) svm" where
  "register_user_account_endpoint username password =
     (if CHR ''@'' \<notin> set username then raise (ValidationError ''You have to pass email as username'')
      else if password = [] then raise (ValidationError ''Password cannot be empty'')
      else seq (register_user_account username password) (ret ()))"

definition change_user_password_endpoint :: "string \<Rightarrow> string \<Rightarrow> Request \<Rightarrow> ('x, unit) svm" where
  "change_user_password_endpoint old_password new_password request =
     (if new_password = [] then raise (ValidationError ''Password cannot be empty'')
      else
        seq (check_auth request None None None None)
        (bind (get_username_from_token request) (\<lambda>username.
         change_user_password username old_password new_password)))"

section \<open>Audit log\<close>

record activity_event =
  act_event :: AuditLogEventDto
  act_explanation :: string
  act_time_ago :: string

record activity_data =
  filter_job_name :: string
  filter_job_version :: string
  filter_related_to_me :: bool
  activity_events :: "activity_event list"

definition build_job_activity_data :: "string option \<Rightarrow> string \<Rightarrow> string \<Rightarrow> bool \<Rightarrow> ('x, activity_data) lcm" where
  "build_job_activity_data username name version related_to_me =
     bind (read_audit_log_user_events username (Some name) (Some version)) (\<lambda>events.
     bind (map_py (\<lambda>event.
        bind (lift (explain_audit_log_event event)) (\<lambda>explanation.
        bind now (\<lambda>t.
        ret \<lparr>act_event = event, act_explanation = explanation, act_time_ago = timestamp_pretty_ago t (ev_timestamp event)\<rparr>)))
        events) (\<lambda>event_dicts.
     ret \<lparr>filter_job_name = name, filter_job_version = version, filter_related_to_me = related_to_me,
       activity_events = event_dicts\<rparr>))"

definition get_jobs_audit :: "string \<Rightarrow> string \<Rightarrow> string \<Rightarrow> Request \<Rightarrow> ('x, activity_data) svm" where
  "get_jobs_audit name version related_to_me request =
     seq (check_auth request (Some [USER]) None None None)
     (let filter_related = lower related_to_me \<in> set [''true'', ''yes'', ''1'']
      in bind (if filter_related then bind (get_username_from_token request) (\<lambda>u. ret (Some u)) else ret None) (\<lambda>username.
         build_job_activity_data username name version filter_related))"

text \<open>The lists of events of the current user and of all users, for everything, a family or a job.\<close>

definition get_audit_user_events :: "string option \<Rightarrow> string option \<Rightarrow> Request \<Rightarrow> ('x, AuditLogEventDto list) svm" where
  "get_audit_user_events name version request =
     seq (check_auth request (Some [USER]) None None None)
     (bind (get_username_from_token request) (\<lambda>username. read_audit_log_user_events (Some username) name version))"

definition get_audit_events :: "string option \<Rightarrow> string option \<Rightarrow> Request \<Rightarrow> ('x, AuditLogEventDto list) svm" where
  "get_audit_events name version request =
     seq (check_auth request None None None None) (read_audit_log_user_events None name version)"

section \<open>Server information\<close>

definition info :: "('x, json) lcm" where
  "info = gets (\<lambda>w. JObj [(''service'', JStr ''lifecycle''),
     (''git_version'', JStr (the_default ''dev'' (environ w ''GIT_VERSION''))),
     (''docker_tag'', JStr (the_default [] (environ w ''DOCKER_TAG''))),
     (''auth_required'', JBool (auth_required (config w))),
     (''external_pub_url'', JStr (get_external_pub_url w (external_pub_url (config w)))),
     (''lifecycle_url'', JStr (get_external_lifecycle_url w)),
     (''grafana_url'', JStr (get_external_grafana_url w))])"

end
