(* ===== verification/EndpointLaws.thy ===== *)
theory EndpointLaws
  imports Endpoints DeployerLaws
begin

text \<open>
  Who may call a job, and what the maintenance mode forbids.
\<close>

section \<open>Settings\<close>

definition setting_row :: "string \<Rightarrow> json \<Rightarrow> row" where
  "setting_row name j = [(''name'', VStr name), (''value'', str_val (if json_truthy j then Some (dumps j) else None))]"

lemma setting_row_simps [simp]:
  "row_ok Setting (setting_row name j)" "row_val (setting_row name j) ''name'' = VStr name"
  by (auto simp: setting_row_def row_val_def row_ok_def has_type_def col_type_def meta_eval str_val_def nullable_def)

lemma setting_updatable:
  assumes "wf w" and "r \<in> set (db w Setting)" and "row_val r ''name'' = VStr name"
  shows "updatable (db w) Setting r (setting_row name j)"
  by (rule updatable_same_keys [OF assms(1,2)]) (simp_all add: assms(3) unique_keys_def key_of_def meta_eval)

lemma run_exists_setting:
  "exists_record (new_record Setting (setting_row name j)) w
     = (Inr (\<exists>r \<in> set (db w Setting). row_val r ''name'' = VStr name), w)"
proof -
  let ?k = "[(''name'', VStr name)]"
  have key: "get_primary_key_value (new_record Setting (setting_row name j)) = Inr (VStr name)"
    by (simp add: get_primary_key_value_def new_record_def setting_row_def)
  have "filter (key_filter ?k) (db w Setting) = [] \<longleftrightarrow> \<not> (\<exists>r \<in> set (db w Setting). row_val r ''name'' = VStr name)"
    by (auto simp: filter_empty_conv key_filter_def)
  then show ?thesis
    using key run_select_one [of "[pk Setting]" Setting "key_conditions ?k" "[VStr name]" w]
      where_key_conditions [of ?k Setting] pk_in_fields [of Setting]
    by (auto simp: exists_record_def new_record_def py_run split: list.splits)
qed

lemma run_save_setting:
  assumes "wf w" and "name \<noteq> []"
  obtains w' where "save_setting name j w = (Inr (), w')" "setting_row name j \<in> set (db w' Setting)"
    "\<And>t. t \<noteq> Setting \<Longrightarrow> db w' t = db w t"
proof (cases "\<exists>r \<in> set (db w Setting). row_val r ''name'' = VStr name")
  case True
  then obtain r where r: "r \<in> set (db w Setting)" "row_val r ''name'' = VStr name" by blast
  have run: "save_setting name j w = (Inr (), w\<lparr>db := replace_row (db w) Setting r (setting_row name j)\<rparr>)"
    using run_overwrite [OF assms(1) r(1), of "setting_row name j"] setting_updatable [OF assms(1) r, of j] r(2) True
    by (simp add: save_setting_def create_or_update_def run_seq run_bind run_ret run_exists_setting Let_def flip: setting_row_def)
  show thesis by (rule that [OF run]) (use r in \<open>auto simp: replace_row_def\<close>)
next
  case False
  have "create_record (new_record Setting (setting_row name j)) w
      = (Inr (new_record Setting (setting_row name j)), w\<lparr>db := add_row (db w) Setting (setting_row name j)\<rparr>)"
    using False assms by (intro run_create_keyed) (auto simp: unique_keys_def targets_ok_def meta_eval)
  with False have run: "save_setting name j w = (Inr (), w\<lparr>db := add_row (db w) Setting (setting_row name j)\<rparr>)"
    by (simp add: save_setting_def create_or_update_def run_seq run_bind run_ret run_exists_setting Let_def flip: setting_row_def)
  show thesis by (rule that [OF run]) (auto simp: add_row_def)
qed

lemma run_read_setting:
  assumes "wf w" and "setting_row name j \<in> set (db w Setting)" and "keys_distinct j"
  shows "read_setting name w = (Inr (if json_truthy j then j else JNull), w)"
proof -
  have "find_one Setting [(''name'', VStr name)] w = (Inr (record_of Setting (setting_row name j)), w)"
    using run_find_by_pk [OF assms(1,2)] by simp
  moreover have "loads (dumps j) = Inr j" by (rule loads_dumps [OF assms(3)])
  moreover have "dumps j \<noteq> []" using calculation(2) by (auto simp: loads_def)
  ultimately show ?thesis
    by (simp add: read_setting_def run_try run_bind run_ret run_lift setting_row_def row_val_def str_val_def)
qed

section \<open>Maintenance\<close>



section \<open>Calls of jobs\<close>

lemma authorize_endpoint_accessD:
  fixes w :: "'x server_scheme"
  assumes "authorize_resource_access subj name version scope (Some e) w = (Inr (), w')" and "e \<noteq> []"
  shows "w' = w \<and> (\<exists>v. requested_version name version w v \<and>
    (\<exists>p \<in> set (db w AuthResourcePermission). of_subject subj p \<and> covers (db w) p name v \<and> in_scope p scope
       \<and> row_val p ''endpoint'' \<in> {VNone, VStr e}))"
proof -
  from assms obtain v w1 where v: "try_except (bind (resolve_job_model name version) (\<lambda>job_model. ret (the_str (attr job_model ''version''))))
      is_EntityNotFound (\<lambda>_. ret []) w = (Inr v, w1)"
    unfolding authorize_resource_access_def by (elim bind_okE)
  with resolved_versionD [OF v] assms show ?thesis
    by (auto simp: authorize_resource_access_def run_bind run_has_endpoint_permission run_ret run_raise split: if_splits sum.splits prod.splits)
qed

lemma authorize_requestD:
  fixes w :: "'x server_scheme"
  assumes "authorize_request request name version scope (Some e) w = (Inr so, w')" and "e \<noteq> []"
  shows "\<exists>p w1. authenticate_token request w = (Inr (p, so), w1)
    \<and> (if tp_subject_type p = ''internal'' then internal_allows p scope
       else \<exists>subj v perm. so = Some subj \<and> requested_version name version w1 v \<and> perm \<in> set (db w1 AuthResourcePermission)
         \<and> of_subject subj perm \<and> covers (db w1) perm name v \<and> in_scope perm scope
         \<and> row_val perm ''endpoint'' \<in> {VNone, VStr e})"
proof -
  from assms(1) obtain p s w1 where auth: "authenticate_token request w = (Inr (p, s), w1)"
    unfolding authorize_request_def by (elim bind_okE) auto
  let ?a = "if tp_subject_type p = subject_type_value INTERNAL then authorize_internal_token p (Some scope)
    else case s of None \<Rightarrow> raise (AssertionError []) | Some subj \<Rightarrow> authorize_resource_access subj name version scope (Some e)"
  have "seq ?a (ret s) w1 = (Inr so, w')" using assms(1) auth by (simp add: authorize_request_def run_bind)
  then have a: "?a w1 = (Inr (), w')" and so: "so = s" by (auto simp: run_seq run_ret split: sum.splits prod.splits)
  show ?thesis
  proof (cases "tp_subject_type p = ''internal''")
    case True
    with a authorize_internal_tokenD [of p scope] auth so show ?thesis by auto
  next
    case False
    then obtain subj where "s = Some subj" and acc: "authorize_resource_access subj name version scope (Some e) w1 = (Inr (), w')"
      using a by (auto simp: run_raise split: option.splits)
    with authorize_endpoint_accessD [OF acc assms(2)] auth so False show ?thesis by auto
  qed
qed

lemma normalized_nonempty: "normalize_endpoint_path endpoint \<noteq> []"
  by (auto simp: normalize_endpoint_path_def Let_def startswith_iff)


text \<open>The sample cluster with a public endpoint of the job \<open>adder\<close>.\<close>

definition public_cluster :: "(string \<times> string) list cluster" where
  "public_cluster = sample_cluster\<lparr>db := sample_db(PublicEndpointRequest := [[(''id'', VStr ''p1''), (''job_id'', VStr ''j1''),
     (''endpoint'', VStr ''/api/v1''), (''active'', VBool True)]])\<rparr>"

lemma public_cluster_ok: "db_ok (db public_cluster)"
  unfolding public_cluster_def by code_simp

lemma public_call:
  "case fst (auth_can_call_job_endpoint ''adder'' ''0.0.1'' ''api/v1/perform/'' \<lparr>headers = Map.empty\<rparr> public_cluster) of
     Inr (Result data) \<Rightarrow> call_caller data = None | _ \<Rightarrow> False"
  by code_simp


end
