(* ===== verification/Records.thy ===== *)
theory Records
  imports AuthCheck
begin

text \<open>
  The endpoints of the administration panel for records of any table (\<open>lifecycle/endpoints/records.py\<close>):
  their functions on the record mapper, each behind the check for staff users.
\<close>

section \<open>Values of responses\<close>

text \<open>\<open>datetime.isoformat\<close> of a time in UTC: microseconds are written unless they are zero.\<close>

definition pad :: "nat \<Rightarrow> string \<Rightarrow> string" where
  "pad n s = replicate (n - length s) (CHR ''0'') @ s"

definition isoformat :: "int \<Rightarrow> string" where
  "isoformat dt =
     (let seconds = dt div usec;
          s = seconds mod 86400;
          micro = dt mod usec
      in case civil_from_days (seconds div 86400) of
           (y, m, d) \<Rightarrow> pad 4 (int_to_str y) @ ''-'' @ two_digits m @ ''-'' @ two_digits d @ ''T''
             @ two_digits (s div 3600) @ '':'' @ two_digits (s div 60 mod 60) @ '':'' @ two_digits (s mod 60)
             @ (if micro = 0 then [] else ''.'' @ pad 6 (int_to_str micro)) @ ''+00:00'')"

text \<open>\<open>convert_to_json_serializable\<close> on the values of a record.\<close>

fun json_serializable :: "val \<Rightarrow> val" where
  "json_serializable (VDt t) = VStr (isoformat t)"
| "json_serializable (VList vs) = VList (map json_serializable vs)"
| "json_serializable v = v"

definition convert_to_json_serializable :: "row \<Rightarrow> row" where
  "convert_to_json_serializable r = map (\<lambda>(k, v). (k, json_serializable v)) r"

section \<open>Tables\<close>

record TableMetadataPayload =
  tm_class_name :: string
  tm_table_name :: string
  tm_plural_name :: string
  tm_primary_key_column :: string
  tm_main_columns :: "string list"
  tm_all_columns :: "string list"
  tm_column_types :: "(string, ColumnType) dict"
  tm_foreign_keys :: "(string, string) dict"

definition build_table_metadata_payload :: "table \<Rightarrow> TableMetadataPayload" where
  "build_table_metadata_payload t =
     \<lparr>tm_class_name = cls_name (class_of t), tm_table_name = table_name (meta t), tm_plural_name = plural_name (meta t),
      tm_primary_key_column = primary_key_column (meta t), tm_main_columns = main_columns (meta t),
      tm_all_columns = meta_fields (meta t), tm_column_types = column_types (meta t),
      tm_foreign_keys = map (\<lambda>(c, t'). (c, table_name (meta t'))) (on_delete_cascade (meta t))\<rparr>"

definition list_all_tables :: "TableMetadataPayload list" where
  "list_all_tables = map build_table_metadata_payload all_tables"

definition get_table_metadata :: "string \<Rightarrow> exn + TableMetadataPayload" where
  "get_table_metadata table_nm =
     (case table_name_to_class table_nm of Inl e \<Rightarrow> Inl e | Inr t \<Rightarrow> Inr (build_table_metadata_payload t))"

section \<open>Records\<close>

definition typed_values :: "row \<Rightarrow> table \<Rightarrow> ('x, row) dbm" where
  "typed_values data t = bind (gets (\<lambda>w. parse_dict_typed_values w data t)) lift"

definition count_table_records :: "row option \<Rightarrow> string \<Rightarrow> ('x, int) dbm" where
  "count_table_records filters table_nm =
     bind (lift (table_name_to_class table_nm)) (\<lambda>t.
     bind (typed_values (the_default [] filters) t) (\<lambda>filters. count_records t filters))"

definition records_create :: "row \<Rightarrow> string \<Rightarrow> ('x, row) dbm" where
  "records_create payload_fields table_nm =
     bind (lift (table_name_to_class table_nm)) (\<lambda>t.
     bind (typed_values payload_fields t) (\<lambda>fields_data.
     bind (create_from_dict t fields_data) (\<lambda>record_data.
     ret (convert_to_json_serializable record_data))))"

record FetchManyRecordsRequest =
  fm_offset :: int
  fm_limit :: "int option"
  fm_order_by :: "string list option"
  fm_filters :: "row option"
  fm_columns :: "string list option"

record FetchManyRecordsResponse =
  fr_columns :: "string list"
  fr_primary_key_column :: string
  fr_records :: "row list"

definition list_table_records :: "FetchManyRecordsRequest \<Rightarrow> string \<Rightarrow> ('x, FetchManyRecordsResponse) dbm" where
  "list_table_records payload table_nm =
     bind (lift (table_name_to_class table_nm)) (\<lambda>t.
     bind (typed_values (the_default [] (fm_filters payload)) t) (\<lambda>filters.
     let columns = (if the_default [] (fm_columns payload) = [] then meta_fields (meta t) else the (fm_columns payload))
     in bind (filter_dicts t (fm_columns payload) (fm_order_by payload) (Some (fm_offset payload)) (fm_limit payload)
                (Some filters)) (\<lambda>records.
        ret \<lparr>fr_columns = columns, fr_primary_key_column = primary_key_column (meta t),
          fr_records = map convert_to_json_serializable records\<rparr>)))"

text \<open>The identifiers are visited in the order of a set, which is a parameter.\<close>

fun record_names :: "table \<Rightarrow> string list \<Rightarrow> ('x, (string, string) dict) dbm" where
  "record_names t [] = ret []"
| "record_names t (ident # ids) =
     (if ident = [] then record_names t ids
      else bind (get_record_name t (VStr ident)) (\<lambda>record_name.
           bind (record_names t ids) (\<lambda>names.
           ret (case record_name of None \<Rightarrow> names | Some n \<Rightarrow> (ident, n) # names))))"

definition enrich_record_names :: "(string list \<Rightarrow> string list) \<Rightarrow> string list \<Rightarrow> string \<Rightarrow> ('x, (string, string) dict) dbm" where
  "enrich_record_names set_order record_ids table_nm =
     bind (lift (table_name_to_class table_nm)) (\<lambda>t. record_names t (set_order (remdups record_ids)))"

definition find_by_id :: "table \<Rightarrow> val \<Rightarrow> ('x, robj) dbm" where
  "find_by_id t key = find_one t [(primary_key_column (meta t), key)]"

definition get_one_record :: "string \<Rightarrow> string \<Rightarrow> ('x, row) dbm" where
  "get_one_record table_nm record_id =
     bind (lift (table_name_to_class table_nm)) (\<lambda>t.
     bind (pk_cast t (VStr record_id)) (\<lambda>key.
     bind (find_by_id t key) (\<lambda>record_model.
     ret (convert_to_json_serializable (record_to_dict record_model)))))"

definition records_update :: "row \<Rightarrow> string \<Rightarrow> string \<Rightarrow> ('x, unit) dbm" where
  "records_update payload_fields table_nm record_id =
     bind (lift (table_name_to_class table_nm)) (\<lambda>t.
     bind (pk_cast t (VStr record_id)) (\<lambda>primary_key_value.
     bind (typed_values payload_fields t) (\<lambda>fields_data.
     update_from_dict t primary_key_value fields_data)))"

definition delete_by_key :: "table \<Rightarrow> val \<Rightarrow> ('x, unit) dbm" where
  "delete_by_key t key = bind (find_by_id t key) (\<lambda>record_model. delete_record record_model True)"

definition records_delete :: "string \<Rightarrow> string \<Rightarrow> ('x, unit) dbm" where
  "records_delete table_nm record_id =
     bind (lift (table_name_to_class table_nm)) (\<lambda>t.
     bind (pk_cast t (VStr record_id)) (\<lambda>key. delete_by_key t key))"

definition delete_many_records :: "string \<Rightarrow> string list \<Rightarrow> ('x, unit) dbm" where
  "delete_many_records table_nm record_ids =
     bind (lift (table_name_to_class table_nm)) (\<lambda>t.
     bind (map_py (\<lambda>record_id. pk_cast t (VStr record_id)) record_ids) (\<lambda>primary_keys.
     for_each primary_keys (delete_by_key t)))"

section \<open>Endpoints\<close>

text \<open>Every endpoint calls one of these functions after the check for staff users.\<close>

definition list_all_tables_endpoint :: "Request \<Rightarrow> ('x, TableMetadataPayload list) svm" where
  "list_all_tables_endpoint request = seq (check_staff_user request) (ret list_all_tables)"

definition create_record_endpoint :: "row \<Rightarrow> string \<Rightarrow> Request \<Rightarrow> ('x, row) svm" where
  "create_record_endpoint payload_fields table_nm request =
     seq (check_staff_user request) (records_create payload_fields table_nm)"

definition get_table_metadata_endpoint :: "string \<Rightarrow> Request \<Rightarrow> ('x, TableMetadataPayload) svm" where
  "get_table_metadata_endpoint table_nm request =
     seq (check_staff_user request) (lift (get_table_metadata table_nm))"

definition count_table_records_endpoint :: "row option \<Rightarrow> string \<Rightarrow> Request \<Rightarrow> ('x, int) svm" where
  "count_table_records_endpoint filters table_nm request =
     seq (check_staff_user request) (count_table_records filters table_nm)"

definition list_table_records_endpoint :: "FetchManyRecordsRequest \<Rightarrow> string \<Rightarrow> Request \<Rightarrow> ('x, FetchManyRecordsResponse) svm" where
  "list_table_records_endpoint payload table_nm request =
     seq (check_staff_user request) (list_table_records payload table_nm)"

definition enrich_record_names_endpoint :: "(string list \<Rightarrow> string list) \<Rightarrow> string list \<Rightarrow> string \<Rightarrow> Request
    \<Rightarrow> ('x, (string, string) dict) svm" where
  "enrich_record_names_endpoint set_order record_ids table_nm request =
     seq (check_staff_user request) (enrich_record_names set_order record_ids table_nm)"

definition get_one_record_endpoint :: "string \<Rightarrow> string \<Rightarrow> Request \<Rightarrow> ('x, row) svm" where
  "get_one_record_endpoint table_nm record_id request =
     seq (check_staff_user request) (get_one_record table_nm record_id)"

definition update_record_endpoint :: "row \<Rightarrow> string \<Rightarrow> string \<Rightarrow> Request \<Rightarrow> ('x, unit) svm" where
  "update_record_endpoint payload_fields table_nm record_id request =
     seq (check_staff_user request) (records_update payload_fields table_nm record_id)"

definition delete_record_endpoint :: "string \<Rightarrow> string \<Rightarrow> Request \<Rightarrow> ('x, unit) svm" where
  "delete_record_endpoint table_nm record_id request =
     seq (check_staff_user request) (records_delete table_nm record_id)"

definition delete_many_records_endpoint :: "string \<Rightarrow> string list \<Rightarrow> Request \<Rightarrow> ('x, unit) svm" where
  "delete_many_records_endpoint table_nm record_ids request =
     seq (check_staff_user request) (delete_many_records table_nm record_ids)"

end
