(* ===== verification/Health.thy ===== *)
theory Health
  imports Http
begin

text \<open>
  Probes of jobs (\<open>lifecycle/monitor/health.py\<close>): a new job is waited for until it accepts connections,
  then until it is ready; and the answers of the server to exceptions
  (\<open>racetrack_commons/api/asgi/error_handler.py\<close>). The attempts that \<open>backoff\<close> allows within its time limit are
  parameters, as is the network.
\<close>

section \<open>Probes\<close>

definition content_type :: "Response \<Rightarrow> string" where
  "content_type r = (case header_of (rs_headers r) ''content-type'' of None \<Rightarrow> [] | Some v \<Rightarrow> v)"

text \<open>\<open>int(x or 0)\<close> of a JSON value.\<close>

definition int_argument :: "string \<Rightarrow> string" where
  "int_argument ty = ''int() argument must be a string, a bytes-like object or a real number, not '' @ py_repr ty"

fun int_or_zero :: "json \<Rightarrow> exn + int" where
  "int_or_zero JNull = Inr 0"
| "int_or_zero (JBool b) = Inr (if b then 1 else 0)"
| "int_or_zero (JInt n) = Inr n"
| "int_or_zero (JStr s) = (if s = [] then Inr 0 else py_int s)"
| "int_or_zero (JList xs) = (if xs = [] then Inr 0
     else Inl (TypeError (int_argument ''list'')))"
| "int_or_zero (JObj d) = (if d = [] then Inr 0
     else Inl (TypeError (int_argument ''dict'')))"

definition live_timestamp :: "Response \<Rightarrow> ('w, int) py" where
  "live_timestamp response =
     seq (assert_py (content_type response \<noteq> []) ''Missing Content-Type header in live endpoint'')
     (seq (assert_py (contains (content_type response) ''application/json'')
            ''live endpoint should respond with application/json content-type'')
     (bind (lift (response_json response)) (\<lambda>result.
      case result of
        JObj d \<Rightarrow>
          seq (assert_py (map_of d ''deployment_timestamp'' \<noteq> None)
                ''live endpoint JSON should have \"deployment_timestamp\" field'')
          (lift (int_or_zero (the (map_of d ''deployment_timestamp''))))
      | _ \<Rightarrow> raise (AssertionError ''live endpoint should respond with JSON object''))))"

text \<open>A probe that cannot reach the job.\<close>

definition probe :: "'w opener \<Rightarrow> string \<Rightarrow> string \<Rightarrow> (string \<times> string option) list \<Rightarrow> ('w, Response) py" where
  "probe urlopen base_url path hdrs =
     try_except (requests_get urlopen (base_url @ path) hdrs (Some 3)) is_RequestError
       (\<lambda>e. raise (RuntimeError (''Cluster error: can't reach Job: '' @ exn_str e)))"

definition check_job_is_alive :: "'w opener \<Rightarrow> string \<Rightarrow> int \<Rightarrow> (string \<times> string option) list \<Rightarrow> ('w, Response) py" where
  "check_job_is_alive urlopen base_url expected_deployment_timestamp hdrs =
     bind (probe urlopen base_url ''/live'' hdrs) (\<lambda>response.
     if expected_deployment_timestamp = 0 then ret response
     else
       bind (live_timestamp response) (\<lambda>current_deployment_timestamp.
       if current_deployment_timestamp \<noteq> expected_deployment_timestamp then
         raise (RuntimeError ''Cluster error: can't reach newer Job, incorrect deployment_timestamp field'')
       else ret response))"

definition validate_live_response :: "Response \<Rightarrow> exn + unit" where
  "validate_live_response response =
     (if status_code response = 200 then Inr ()
      else if status_code response = 404 then Inl (RuntimeError ''Job health error: liveness endpoint not found'')
      else
        let failure = (case status_reason response of Inl e \<Rightarrow> Inl e
                       | Inr s \<Rightarrow> Inl (RuntimeError (''Job liveness error: '' @ int_to_str (status_code response) @ '' '' @ s)))
        in if contains (content_type response) ''application/json'' then
             case response_json response of
               Inl e \<Rightarrow> Inl e
             | Inr (JObj d) \<Rightarrow> (case map_of d ''error'' of
                   Some err \<Rightarrow> Inl (RuntimeError (''Job initialization error: '' @ json_str err))
                 | None \<Rightarrow> failure)
             | Inr _ \<Rightarrow> failure
           else failure)"

definition check_job_is_ready :: "'w opener \<Rightarrow> string \<Rightarrow> (string \<times> string option) list \<Rightarrow> ('w, unit) py" where
  "check_job_is_ready urlopen base_url hdrs =
     bind (try_except (requests_get urlopen (base_url @ ''/ready'') hdrs (Some 3)) (\<lambda>_. True)
             (\<lambda>e. raise (ContextError ''Job server crashed while initialization'' (Some e)))) (\<lambda>response.
     if status_code response = 200 then ret ()
     else if status_code response = 404 then raise (RuntimeError ''Job health error: readiness endpoint not found'')
     else
       bind (requests_get urlopen (base_url @ ''/live'') hdrs (Some 3)) (\<lambda>response.
       seq (lift (validate_live_response response)) (raise (TimeoutError ''Job initialization timed out''))))"

definition check_until_job_is_operational :: "'w opener \<Rightarrow> nat \<Rightarrow> nat \<Rightarrow> string \<Rightarrow> int \<Rightarrow> ('w, unit) py option
    \<Rightarrow> (string \<times> string option) list \<Rightarrow> ('w, unit) py" where
  "check_until_job_is_operational urlopen alive_tries ready_tries base_url deployment_timestamp on_job_alive hdrs =
     bind (retry alive_tries is_RuntimeError (check_job_is_alive urlopen base_url deployment_timestamp hdrs)) (\<lambda>response.
     seq (lift (validate_live_response response))
     (seq (case on_job_alive of None \<Rightarrow> ret () | Some f \<Rightarrow> f)
          (retry ready_tries is_TimeoutError (check_job_is_ready urlopen base_url hdrs))))"

definition quick_check_job_condition :: "'w opener \<Rightarrow> string \<Rightarrow> (string \<times> string option) list \<Rightarrow> ('w, unit) py" where
  "quick_check_job_condition urlopen base_url hdrs =
     bind (probe urlopen base_url ''/live'' hdrs) (\<lambda>response.
     seq (lift (validate_live_response response))
     (bind (probe urlopen base_url ''/ready'' hdrs) (\<lambda>response.
      if status_code response = 200 then ret ()
      else if status_code response = 404 then raise (RuntimeError ''Job health error: readiness endpoint not found'')
      else raise (RuntimeError ''Job is still initializing''))))"

section \<open>Errors of endpoints\<close>

text \<open>The handler of the most specific class of an exception; the name of the class in the response is
  not modelled.\<close>

fun error_status :: "exn \<Rightarrow> int" where
  "error_status (ValueError m) = 400"
| "error_status (UnauthorizedError c d) = 401"
| "error_status (EntityNotFound m) = 404"
| "error_status (AlreadyExists m) = 409"
| "error_status (ValidationError m) = 400"
| "error_status e = 500"

definition error_response :: "exn \<Rightarrow> int \<times> string" where
  "error_response e = (error_status e, exn_str e)"

section \<open>Operational jobs\<close>

lemma retry_ok: "retry n p m w = (Inr x, w') \<Longrightarrow> \<exists>v. m v = (Inr x, w')"
  by (induction n arbitrary: w) (auto simp: run_try split: sum.splits prod.splits if_splits)

lemma probe_ok: "probe urlopen base_url path hdrs w = (Inr r, w') \<longleftrightarrow> requests_get urlopen (base_url @ path) hdrs (Some 3) w = (Inr r, w')"
  by (auto simp: probe_def run_try run_raise split: sum.splits prod.splits if_splits)

text \<open>The answer of a running job of the deployment.\<close>

definition answers_live :: "Response \<Rightarrow> int \<Rightarrow> bool" where
  "answers_live r timestamp \<longleftrightarrow> status_code r = 200 \<and> (timestamp = 0
     \<or> (\<exists>d v. response_json r = Inr (JObj d) \<and> map_of d ''deployment_timestamp'' = Some v \<and> int_or_zero v = Inr timestamp))"

lemma live_timestampD:
  "live_timestamp r w = (Inr n, w') \<Longrightarrow> w' = w \<and> (\<exists>d v. response_json r = Inr (JObj d)
     \<and> map_of d ''deployment_timestamp'' = Some v \<and> int_or_zero v = Inr n)"
  by (auto simp: live_timestamp_def run_seq run_bind run_assert run_lift run_raise split: sum.splits prod.splits if_splits json.splits)

lemma validate_liveD: "validate_live_response r = Inr u \<Longrightarrow> status_code r = 200"
  by (auto simp: validate_live_response_def Let_def split: if_splits sum.splits json.splits option.splits)

lemma check_aliveD:
  assumes "check_job_is_alive urlopen base_url timestamp hdrs w = (Inr r, w')"
  shows "requests_get urlopen (base_url @ ''/live'') hdrs (Some 3) w = (Inr r, w') \<and> (status_code r = 200 \<longrightarrow> answers_live r timestamp)"
  using assms unfolding check_job_is_alive_def
  by (auto simp: probe_ok run_ret run_raise answers_live_def elim!: bind_okE dest!: live_timestampD split: if_splits)

lemma check_readyD:
  "check_job_is_ready urlopen base_url hdrs w = (Inr (), w') \<Longrightarrow>
     \<exists>r. requests_get urlopen (base_url @ ''/ready'') hdrs (Some 3) w = (Inr r, w') \<and> status_code r = 200"
  unfolding check_job_is_ready_def
  by (auto simp: run_try run_ret run_raise run_seq run_lift elim!: bind_okE split: if_splits sum.splits prod.splits)

text \<open>
  C5. A job is reported as operational only when it is: if the check succeeds, the liveness endpoint has
  answered with status 200 and, when a deployment is expected, with the timestamp of that deployment,
  so that an old instance is never taken for the new one; and the last answer that was received is one
  of the readiness endpoint with status 200. This holds for every behaviour of the network, any number
  of attempts and any callback.
\<close>
theorem operational_sound:
  assumes "check_until_job_is_operational urlopen alive_tries ready_tries base_url timestamp on_job_alive hdrs w = (Inr (), w')"
  shows "\<exists>v1 v2 v3 live ready. requests_get urlopen (base_url @ ''/live'') hdrs (Some 3) v1 = (Inr live, v2) \<and> answers_live live timestamp
    \<and> requests_get urlopen (base_url @ ''/ready'') hdrs (Some 3) v3 = (Inr ready, w') \<and> status_code ready = 200"
proof -
  from assms obtain live v2 v where alive: "retry alive_tries is_RuntimeError (check_job_is_alive urlopen base_url timestamp hdrs) w = (Inr live, v2)"
    and ok: "validate_live_response live = Inr ()"
    and ready: "retry ready_tries is_TimeoutError (check_job_is_ready urlopen base_url hdrs) v = (Inr (), w')"
    unfolding check_until_job_is_operational_def
    by (auto simp: run_seq run_lift elim!: bind_okE split: sum.splits prod.splits)
  obtain v1 where a: "check_job_is_alive urlopen base_url timestamp hdrs v1 = (Inr live, v2)" using retry_ok [OF alive] by blast
  obtain v3 where b: "check_job_is_ready urlopen base_url hdrs v3 = (Inr (), w')" using retry_ok [OF ready] by blast
  from check_aliveD [OF a] check_readyD [OF b] validate_liveD [OF ok] show ?thesis by blast
qed

text \<open>A job that starts: connections are refused twice, then it is live, and ready at the second probe.\<close>

definition starting_job :: "nat opener" where
  "starting_job rq n =
     ((if n < 2 then URLError (RuntimeError ''connection refused'')
       else if endswith (rq_url rq) ''/live'' then Opened 200 ''{\"deployment_timestamp\": 7}'' [(''Content-Type'', ''application/json'')]
       else if n < 4 then HTTPError 500 [] [] else Opened 200 [] []), n + 1)"

theorem operational_sound_witness:
  "\<exists>v1 v2 live. check_until_job_is_operational starting_job 5 5 ''http://job'' 7 None [] 0 = (Inr (), 6)
     \<and> requests_get starting_job ''http://job/live'' [] (Some 3) v1 = (Inr live, v2) \<and> answers_live live 7"
proof -
  have "check_until_job_is_operational starting_job 5 5 ''http://job'' 7 None [] 0 = (Inr (), 6)" by code_simp
  from this operational_sound [OF this] show ?thesis by auto
qed

end
