(* ===== verification/Paths.thy ===== *)
theory Paths
  imports PyString
begin

text \<open>
  POSIX paths of \<open>pathlib\<close>: their parts, their normal form, joining, parents and names. A path object is
  represented by its text, \<open>str(path)\<close>.
\<close>

text \<open>The parts of a path: its root, if it has one, and its components without empty ones and dots.\<close>

definition path_root :: "string \<Rightarrow> string list" where
  "path_root s = (if startswith s ''//'' \<and> \<not> startswith s ''///'' then [''//'']
                  else if startswith s ''/'' then [''/''] else [])"

definition path_parts :: "string \<Rightarrow> string list" where
  "path_parts s = path_root s @ filter (\<lambda>p. p \<noteq> [] \<and> p \<noteq> ''.'') (split_on CHR ''/'' s)"

definition path_of :: "string list \<Rightarrow> string" where
  "path_of parts =
     (case parts of [] \<Rightarrow> ''.''
      | p # ps \<Rightarrow> if p = ''/'' \<or> p = ''//'' then p @ join ''/'' ps else join ''/'' parts)"

text \<open>\<open>Path(s)\<close> and \<open>Path(base) / p\<close>, where an absolute path replaces the base.\<close>

definition Path :: "string \<Rightarrow> string" where
  "Path s = path_of (path_parts s)"

definition is_absolute :: "string \<Rightarrow> bool" where
  "is_absolute s = startswith s ''/''"

definition path_div :: "string \<Rightarrow> string \<Rightarrow> string" where
  "path_div base p = path_of (if is_absolute p then path_parts p else path_parts base @ path_parts p)"

definition parent :: "string \<Rightarrow> string" where
  "parent s = (let parts = path_parts s in
     if parts = path_root s then path_of parts else path_of (butlast parts))"

definition path_name :: "string \<Rightarrow> string" where
  "path_name s = (let parts = path_parts s in if parts = path_root s then [] else last parts)"

section \<open>Normal forms\<close>

definition component :: "string \<Rightarrow> bool" where
  "component p \<longleftrightarrow> p \<noteq> [] \<and> p \<noteq> ''.'' \<and> CHR ''/'' \<notin> set p"

lemma path_parts_components: "list_all component (filter (\<lambda>p. p \<noteq> [] \<and> p \<noteq> ''.'') (split_on CHR ''/'' s))"
  by (auto simp: component_def list_all_iff dest: split_on_parts_free)

lemma join_component_hd: "component p \<Longrightarrow> hd (join ''/'' (p # ps)) \<noteq> CHR ''/'' \<and> join ''/'' (p # ps) \<noteq> []"
  by (cases ps; cases p) (auto simp: component_def)

lemma relative_parts:
  assumes "list_all component ps" "ps \<noteq> []"
  shows "path_parts (join ''/'' ps) = ps" and "path_root (join ''/'' ps) = []"
proof -
  obtain p qs where ps: "ps = p # qs" using assms(2) by (cases ps) auto
  then have "hd (join ''/'' ps) \<noteq> CHR ''/''" "join ''/'' ps \<noteq> []" using assms(1) join_component_hd by auto
  then show root: "path_root (join ''/'' ps) = []"
    by (cases "join ''/'' ps") (auto simp: path_root_def startswith_def)
  have "split_on CHR ''/'' (join ''/'' ps) = ps"
    using assms by (intro split_on_join) (auto simp: component_def list_all_iff)
  then show "path_parts (join ''/'' ps) = ps"
    using assms(1) root by (auto simp: path_parts_def component_def list_all_iff intro: filter_True)
qed

lemma rooted_parts:
  assumes "list_all component ps" "r = ''/'' \<or> r = ''//''"
  shows "path_parts (r @ join ''/'' ps) = r # ps" and "path_root (r @ join ''/'' ps) = [r]"
proof -
  have hd: "join ''/'' ps = [] \<or> hd (join ''/'' ps) \<noteq> CHR ''/''"
    using assms(1) join_component_hd by (cases ps) auto
  then show root: "path_root (r @ join ''/'' ps) = [r]"
    using assms(2) by (cases "join ''/'' ps") (auto simp: path_root_def startswith_def)
  have "filter (\<lambda>p. p \<noteq> [] \<and> p \<noteq> ''.'') (split_on CHR ''/'' (join ''/'' ps)) = ps"
  proof (cases "ps = []")
    case False
    then show ?thesis using relative_parts [OF assms(1)] by (simp add: path_parts_def)
  qed simp
  then show "path_parts (r @ join ''/'' ps) = r # ps"
    using root assms(2) by (auto simp: path_parts_def)
qed

text \<open>Reading the text of a path gives its parts back.\<close>

definition normal_parts :: "string list \<Rightarrow> bool" where
  "normal_parts ps \<longleftrightarrow> (case ps of [] \<Rightarrow> True
     | p # qs \<Rightarrow> (p = ''/'' \<or> p = ''//'' \<or> component p) \<and> list_all component qs)"

lemma path_of_parts:
  assumes "normal_parts ps"
  shows "path_parts (path_of ps) = ps"
    and "path_root (path_of ps) = (case ps of [] \<Rightarrow> [] | p # qs \<Rightarrow> if p = ''/'' \<or> p = ''//'' then [p] else [])"
proof -
  have "component p \<Longrightarrow> p \<noteq> ''/'' \<and> p \<noteq> ''//''" for p by (auto simp: component_def)
  then show "path_parts (path_of ps) = ps"
    and "path_root (path_of ps) = (case ps of [] \<Rightarrow> [] | p # qs \<Rightarrow> if p = ''/'' \<or> p = ''//'' then [p] else [])"
    using assms relative_parts [of ps] rooted_parts [of "tl ps" "hd ps"]
    by (cases ps; auto simp: normal_parts_def path_of_def; simp add: path_parts_def path_root_def startswith_def)+
qed

lemma normal_path_parts: "normal_parts (path_parts s)"
  using path_parts_components [of s]
  by (auto simp: normal_parts_def path_parts_def path_root_def split: list.splits if_splits)

lemma path_div_component: "component name \<Longrightarrow> path_div base name = path_of (path_parts base @ [name])"
  using relative_parts [of "[name]"]
  by (cases name) (auto simp: path_div_def is_absolute_def startswith_def component_def)

lemma normal_snoc: "component name \<Longrightarrow> normal_parts (path_parts base @ [name])"
  using normal_path_parts [of base] by (auto simp: normal_parts_def split: list.splits)

lemma path_div_parts: "component name \<Longrightarrow> path_parts (path_div base name) = path_parts base @ [name]"
  by (simp add: path_div_component path_of_parts normal_snoc)

lemma parent_path_div: "component name \<Longrightarrow> parent (path_div base name) = Path base \<and> path_name (path_div base name) = name"
proof -
  assume c: "component name"
  then have "name \<noteq> ''/'' \<and> name \<noteq> ''//''" by (auto simp: component_def)
  then have "path_root (path_div base name) \<noteq> path_parts base @ [name]"
    using path_of_parts(2) [OF normal_snoc [OF c], of base]
    by (auto simp: path_div_component [OF c] split: list.splits if_splits)
  then show ?thesis
    using path_div_parts [OF c, of base] by (simp add: parent_def path_name_def Path_def Let_def)
qed

end
