(* ===== verification/FileMatcher.thy ===== *)
theory FileMatcher
  imports Paths
begin

text \<open>
  Which files of a directory are sent to the server (\<open>racetrack_client/plugin/bundler/filename_matcher.py\<close>):
  shell-style patterns as \<open>fnmatch.fnmatchcase\<close> reads them, rules that include or exclude paths, and the
  walk over a directory. A path is the list of its parts, a directory a finite tree whose order is the
  one in which \<open>iterdir\<close> returns entries; links to directories are not followed.
\<close>

section \<open>Wildcards\<close>

datatype glob = GChar char | GAny | GStar | GSet bool "(char \<times> char) list"

text \<open>The members of a bracket expression, single characters and ranges; a range whose bounds are in the
  wrong order has no members.\<close>

fun bracket_items :: "string \<Rightarrow> (char \<times> char) list" where
  "bracket_items (c # d # e # cs) =
     (if d = CHR ''-'' then (c, e) # bracket_items cs else (c, c) # bracket_items (d # e # cs))"
| "bracket_items (c # cs) = (c, c) # bracket_items cs"
| "bracket_items [] = []"

definition in_items :: "char \<Rightarrow> (char \<times> char) list \<Rightarrow> bool" where
  "in_items c rs \<longleftrightarrow> (\<exists>(a, b) \<in> set rs. of_char a \<le> (of_char c :: nat) \<and> (of_char c :: nat) \<le> of_char b)"

text \<open>The text up to the closing bracket, which may not be the first character of the set, and the rest.\<close>

fun close_bracket :: "string \<Rightarrow> (string \<times> string) option" where
  "close_bracket [] = None"
| "close_bracket (c # cs) = (if c = CHR '']'' then Some ([], cs)
     else map_option (\<lambda>(s, rest). (c # s, rest)) (close_bracket cs))"

fun bracket_body :: "string \<Rightarrow> (string \<times> string) option" where
  "bracket_body [] = None"
| "bracket_body (c # cs) = map_option (\<lambda>(s, rest). (c # s, rest)) (close_bracket cs)"

definition bracket :: "string \<Rightarrow> (bool \<times> string \<times> string) option" where
  "bracket cs =
     (if startswith cs ''!'' then map_option (Pair True) (bracket_body (tl cs))
      else map_option (Pair False) (bracket_body cs))"

lemma close_bracket_shorter: "close_bracket cs = Some (s, rest) \<Longrightarrow> length rest < length cs"
  by (induction cs arbitrary: s) (auto split: if_splits)

lemma bracket_shorter [termination_simp]: "bracket cs = Some (neg, s, rest) \<Longrightarrow> length rest < Suc (length cs)"
  by (cases cs; cases "tl cs")
    (auto simp: bracket_def startswith_def less_Suc_eq dest!: close_bracket_shorter split: if_splits)

fun translate :: "string \<Rightarrow> glob list" where
  "translate [] = []"
| "translate (c # cs) =
     (if c = CHR ''*'' then GStar # translate cs
      else if c = CHR ''?'' then GAny # translate cs
      else if c = CHR ''['' then
        (case bracket cs of None \<Rightarrow> GChar c # translate cs
         | Some (neg, s, rest) \<Rightarrow> GSet neg (bracket_items s) # translate rest)
      else GChar c # translate cs)"

fun glob_match :: "glob list \<Rightarrow> string \<Rightarrow> bool" where
  "glob_match [] s = (s = [])"
| "glob_match (GStar # gs) [] = glob_match gs []"
| "glob_match (GStar # gs) (c # cs) = (glob_match gs (c # cs) \<or> glob_match (GStar # gs) cs)"
| "glob_match (GChar d # gs) (c # cs) = (c = d \<and> glob_match gs cs)"
| "glob_match (GAny # gs) (c # cs) = glob_match gs cs"
| "glob_match (GSet neg rs # gs) (c # cs) = (in_items c rs \<noteq> neg \<and> glob_match gs cs)"
| "glob_match (g # gs) [] = False"

definition fnmatchcase :: "string \<Rightarrow> string \<Rightarrow> bool" where
  "fnmatchcase name pattern = glob_match (translate pattern) name"

section \<open>Patterns\<close>

definition match_file_pattern_beginning :: "string list \<Rightarrow> string \<Rightarrow> bool" where
  "match_file_pattern_beginning relative_path pattern =
     (let pattern_parts = path_parts pattern
      in if length relative_path < length pattern_parts then False
         else list_all (\<lambda>(path_part, pattern_part). fnmatchcase path_part pattern_part)
                (zip relative_path pattern_parts))"

definition match_file_pattern :: "string list \<Rightarrow> string \<Rightarrow> bool" where
  "match_file_pattern relative_path pattern =
     (if startswith pattern ''/'' then match_file_pattern_beginning relative_path (tl pattern)
      else
        let pattern_parts = path_parts pattern
        in if length pattern_parts = 1 then list_ex (\<lambda>path_part. fnmatchcase path_part pattern) relative_path
           else if length pattern_parts > 1 then
             if length relative_path < length pattern_parts then False
             else list_all (\<lambda>(path_part, pattern_part). fnmatchcase path_part pattern_part)
                    (zip (rev relative_path) (rev pattern_parts))
           else False)"

section \<open>Rules\<close>

definition DEFAULT_IGNORE_PATTERNS :: "string list" where
  "DEFAULT_IGNORE_PATTERNS =
     [''*.zip'', ''.git'', ''*.pyc'', ''__pycache__'', ''.gitignore'', ''/.racetrackignore'', ''/plugin-manifest.yaml'']"

definition FilenameMatcher :: "string list option \<Rightarrow> bool \<Rightarrow> string list" where
  "FilenameMatcher file_patterns apply_defaults =
     (case file_patterns of None \<Rightarrow> [] | Some ps \<Rightarrow> filter (\<lambda>p. p \<noteq> []) ps)
     @ (if apply_defaults then DEFAULT_IGNORE_PATTERNS else [])"

text \<open>The result that a rule gives to the paths it matches, and its pattern.\<close>

definition rule_of :: "string \<Rightarrow> bool \<times> string" where
  "rule_of pattern =
     (if startswith pattern ''-'' then (False, tl pattern)
      else if startswith pattern ''+'' \<or> startswith pattern ''!'' then (True, tl pattern)
      else (False, pattern))"

definition match_path :: "string list \<Rightarrow> string list \<Rightarrow> bool" where
  "match_path patterns relative_path =
     fold (\<lambda>pattern result. case rule_of pattern of (pattern_result, p) \<Rightarrow>
             if match_file_pattern relative_path p then pattern_result else result) patterns True"

section \<open>Directories\<close>

datatype node = File | Dir "(string \<times> node) list"

fun list_files_in_subdir :: "string list \<Rightarrow> string list \<Rightarrow> (string \<times> node) list \<Rightarrow> string list list" where
  "list_files_in_subdir patterns relative [] = []"
| "list_files_in_subdir patterns relative ((name, n) # ns) =
     (let relative_path = relative @ [name]
      in (if \<not> match_path patterns relative_path then []
          else case n of Dir sub \<Rightarrow> list_files_in_subdir patterns relative_path sub | File \<Rightarrow> [relative_path])
         @ list_files_in_subdir patterns relative ns)"

definition list_files :: "string list \<Rightarrow> (string \<times> node) list \<Rightarrow> string list list" where
  "list_files patterns base = list_files_in_subdir patterns [] base"

section \<open>What is listed\<close>

text \<open>All files of a directory, as \<open>rglob\<close> finds them.\<close>

fun files_under :: "string list \<Rightarrow> (string \<times> node) list \<Rightarrow> string list list" where
  "files_under relative [] = []"
| "files_under relative ((name, n) # ns) =
     (case n of Dir sub \<Rightarrow> files_under (relative @ [name]) sub | File \<Rightarrow> [relative @ [name]])
     @ files_under relative ns"

text \<open>A path is reached when it and every directory above it are included.\<close>

definition reached :: "string list \<Rightarrow> string list \<Rightarrow> bool" where
  "reached patterns path \<longleftrightarrow> list_all (\<lambda>k. match_path patterns (take (Suc k) path)) [0..<length path]"


lemma match_path_snoc: "match_path (ps @ [p]) path =
  (if match_file_pattern path (snd (rule_of p)) then fst (rule_of p) else match_path ps path)"
  by (simp add: match_path_def split: prod.splits)

lemma match_path_last:
  "match_path ps path = (case find (\<lambda>p. match_file_pattern path (snd (rule_of p))) (rev ps) of
     None \<Rightarrow> True | Some p \<Rightarrow> fst (rule_of p))"
  by (induction ps rule: rev_induct) (simp_all add: match_path_snoc, simp add: match_path_def)

definition reached_from :: "nat \<Rightarrow> string list \<Rightarrow> string list \<Rightarrow> bool" where
  "reached_from n patterns path \<longleftrightarrow> list_all (\<lambda>k. match_path patterns (take (Suc k) path)) [n..<length path]"

lemma files_under_extend: "path \<in> set (files_under rel ns) \<Longrightarrow> \<exists>name rest. path = rel @ name # rest"
  by (induction rel ns rule: files_under.induct) (auto split: node.splits)

lemma reached_from_iff:
  "reached_from n ps path \<longleftrightarrow> (\<forall>k. n \<le> k \<and> k < length path \<longrightarrow> match_path ps (take (Suc k) path))"
  by (auto simp: reached_from_def list_all_iff)

lemma reached_from_step:
  "reached_from (length rel) ps (rel @ name # rest)
   \<longleftrightarrow> match_path ps (rel @ [name]) \<and> reached_from (Suc (length rel)) ps (rel @ name # rest)" (is "?l \<longleftrightarrow> ?r")
proof
  assume ?l then show ?r unfolding reached_from_iff by (auto dest: spec [of _ "length rel"])
next
  assume ?r then show ?l unfolding reached_from_iff
    by (metis append_Cons append_Nil append_eq_append_conv2 append_eq_conv_conj append_take_drop_id le_antisym length_append_singleton not_less_eq_eq)
qed

lemma filter_reached_step:
  "filter (reached_from (length rel) ps) (files_under (rel @ [name]) sub)
   = (if match_path ps (rel @ [name]) then filter (reached_from (Suc (length rel)) ps) (files_under (rel @ [name]) sub) else [])"
  by (auto simp: reached_from_step dest!: files_under_extend intro!: filter_cong filter_False)

lemma list_files_filter:
  "list_files_in_subdir ps rel ns = filter (reached_from (length rel) ps) (files_under rel ns)"
proof (induction ps rel ns rule: list_files_in_subdir.induct)
  case (2 ps rel name n ns)
  then show ?case
    by (cases n) (simp_all add: Let_def filter_reached_step reached_from_step, simp add: reached_from_def)
qed simp

text \<open>
  C11. The walk over a directory yields, in the order of the directory and once per file, exactly the
  files whose path and every directory above it are included by the rules; a path is included when the
  last rule that matches it includes it, or no rule matches it.
\<close>
theorem list_files_exact:
  "list_files ps base = filter (reached ps) (files_under [] base)
   \<and> (match_path ps path = (case find (\<lambda>p. match_file_pattern path (snd (rule_of p))) (rev ps) of
        None \<Rightarrow> True | Some p \<Rightarrow> fst (rule_of p)))"
  unfolding list_files_def list_files_filter match_path_last
  by (simp add: reached_def [abs_def] reached_from_def [abs_def])

section \<open>Differences from gitignore\<close>

text \<open>An included path below an excluded directory is not listed, although the comment of the class
  gives such rules as an example; a bundle of a plugin, which tests each file on its own, has it.\<close>

lemma included_below_excluded:
  "match_path [''-whole_dir'', ''+whole_dir/but_this''] [''whole_dir'', ''but_this'']
   \<and> list_files [''-whole_dir'', ''+whole_dir/but_this''] [(''whole_dir'', Dir [(''but_this'', File)])] = []"
  by code_simp

lemma glob_match_last: "glob_match gs s \<Longrightarrow> gs \<noteq> [] \<Longrightarrow> last gs = GChar d \<Longrightarrow> d \<in> set s"
  by (induction gs s rule: glob_match.induct) (auto split: if_splits)

lemma close_bracket_snoc:
  "d \<noteq> CHR '']'' \<Longrightarrow> close_bracket (cs @ [d]) = map_option (\<lambda>(s, rest). (s, rest @ [d])) (close_bracket cs)"
  by (induction cs) (simp_all add: option.map_comp o_def split_def)

lemma bracket_snoc:
  "d \<noteq> CHR '']'' \<Longrightarrow> d \<noteq> CHR ''!'' \<Longrightarrow>
   bracket (cs @ [d]) = map_option (\<lambda>(neg, s, rest). (neg, s, rest @ [d])) (bracket cs)"
  by (cases cs; cases "tl cs")
    (auto simp: bracket_def startswith_def close_bracket_snoc option.map_comp o_def split_def)

lemma translate_snoc:
  assumes "d \<noteq> CHR '']''" "d \<noteq> CHR ''!''" "d \<noteq> CHR ''*''" "d \<noteq> CHR ''?''" "d \<noteq> CHR ''[''"
  shows "translate (cs @ [d]) = translate cs @ [GChar d]"
  using assms
  by (induction cs rule: translate.induct) (auto simp: bracket_snoc split: option.splits)


lemma split_on_trailing: "c \<notin> set s \<Longrightarrow> split_on c (s @ [c]) = [s, []]"
  by (induction s) auto

text \<open>
  A rule with a name and a trailing slash, the usual way to name a directory in a gitignore file,
  matches no path at all: the name is compared together with its slash.
\<close>
lemma trailing_slash_never_matches:
  assumes "CHR ''/'' \<notin> set name" and "name \<noteq> []" "name \<noteq> ''.''"
    and "\<forall>part \<in> set path. CHR ''/'' \<notin> set part"
  shows "\<not> match_file_pattern path (name @ ''/'')"
proof -
  have "path_parts (name @ ''/'') = [name]"
    using assms by (cases name) (auto simp: path_parts_def path_root_def split_on_trailing startswith_def)
  moreover have "\<not> startswith (name @ ''/'') ''/''"
    using assms by (cases name) (auto simp: startswith_def)
  moreover have "\<not> fnmatchcase part (name @ ''/'')" if "part \<in> set path" for part
    using that assms glob_match_last [of "translate (name @ ''/'')" part "CHR ''/''"]
    by (auto simp: fnmatchcase_def translate_snoc)
  ultimately show ?thesis
    by (auto simp: match_file_pattern_def list_ex_iff)
qed

lemma trailing_slash_never_matches_witness:
  "\<not> match_file_pattern [''venv'', ''bin'', ''python''] (''venv'' @ ''/'')
   \<and> match_file_pattern [''venv'', ''bin'', ''python''] ''venv''"
proof
  show "\<not> match_file_pattern [''venv'', ''bin'', ''python''] (''venv'' @ ''/'')"
    by (rule trailing_slash_never_matches) simp_all
qed code_simp

end
