(* ===== verification/ManifestFiles.thy ===== *)
theory ManifestFiles
  imports Registry Paths
begin

text \<open>
  Manifest files: loading a manifest, extending a base manifest by an overlay and setting extra variables
  (\<open>racetrack_client/manifest/load.py\<close>, \<open>merge.py\<close>), and the comparison of a submitted manifest with the one in
  the repository of the job (\<open>image_builder/verify.py\<close>). The contents of the regular files are a parameter, as
  is the order in which a set of keys is iterated; both loaders of YAML are the same parameter.
\<close>

section \<open>Loading\<close>

type_synonym file_texts = "string \<Rightarrow> string option"

definition JOB_MANIFEST_FILENAME :: string where
  "JOB_MANIFEST_FILENAME = ''job.yaml''"

definition FORMER_MANIFEST_FILENAME :: string where
  "FORMER_MANIFEST_FILENAME = ''fatman.yaml''"

definition missing_manifest :: "string \<Rightarrow> exn" where
  "missing_manifest p = FileNotFoundError (''local manifest file '' @ [CHR 0x27] @ p @ [CHR 0x27] @ '' doesn't exist'')"

definition load_yaml :: "string \<Rightarrow> ('x, json) lcm" where
  "load_yaml text = bind (gets (\<lambda>w. yaml_load w text)) lift"

definition load_manifest_dict_from_yaml :: "file_texts \<Rightarrow> string \<Rightarrow> ('x, json) lcm" where
  "load_manifest_dict_from_yaml file_text p =
     (case file_text p of None \<Rightarrow> raise (missing_manifest p)
      | Some text \<Rightarrow> wrap_context ''loading YAML'' (load_yaml text))"

definition load_manifest_from_yaml :: "file_texts \<Rightarrow> string \<Rightarrow> ('x, Manifest) lcm" where
  "load_manifest_from_yaml file_text p =
     bind (load_manifest_dict_from_yaml file_text p) (\<lambda>manifest_dict. load_manifest_from_dict manifest_dict)"

definition get_manifest_path :: "file_texts \<Rightarrow> (string \<Rightarrow> bool) \<Rightarrow> string \<Rightarrow> exn + string" where
  "get_manifest_path file_text is_dir workdir_or_file =
     (if is_dir (Path workdir_or_file) then
        let manifest_path = path_div workdir_or_file JOB_MANIFEST_FILENAME;
            former_path = path_div workdir_or_file FORMER_MANIFEST_FILENAME
        in if file_text manifest_path \<noteq> None then Inr manifest_path
           else if file_text former_path \<noteq> None then Inr former_path
           else Inl (missing_manifest manifest_path)
      else
        let manifest_path = Path workdir_or_file
        in if file_text manifest_path = None then Inl (missing_manifest manifest_path) else Inr manifest_path)"

text \<open>\<open>d.get(key)\<close> and \<open>Path(value)\<close> of a JSON-like value.\<close>

definition as_dict :: "json \<Rightarrow> exn + (string, json) dict" where
  "as_dict j = (case j of JObj d \<Rightarrow> Inr d | _ \<Rightarrow> Inl (AttributeError (json_type j @ '' object has no attribute get'')))"

definition none_or :: "json option \<Rightarrow> json" where
  "none_or v = (case v of None \<Rightarrow> JNull | Some j \<Rightarrow> j)"

definition as_path :: "json \<Rightarrow> exn + string" where
  "as_path j = (case j of JStr s \<Rightarrow> Inr (Path s)
     | _ \<Rightarrow> Inl (TypeError (''argument should be a str or an os.PathLike object, not '' @ json_type j)))"

text \<open>Merging a base manifest and its overlay.\<close>

definition merge_layers :: "json \<Rightarrow> (string, json) dict \<Rightarrow> ('x, (string, json) dict) lcm" where
  "merge_layers base_manifest_dict manifest_dict = wrap_context ''merging base & overlay layers'' (
     case base_manifest_dict of
       JObj base \<Rightarrow> ret (dict_set ''extends'' JNull (merge_dicts base manifest_dict))
     | _ \<Rightarrow> raise (TypeError (json_type base_manifest_dict @ '' object does not support item assignment'')))"

definition extend_manifest :: "file_texts \<Rightarrow> string \<Rightarrow> (string, json) dict \<Rightarrow> ('x, (string, json) dict) lcm" where
  "extend_manifest file_text manifest_path manifest_dict =
     (let extends = none_or (map_of manifest_dict ''extends'')
      in if \<not> json_truthy extends then ret manifest_dict
         else
           bind (lift (as_path extends)) (\<lambda>extends_path.
           wrap_context ''extending base manifest with overlay'' (
             bind (wrap_context ''loading base manifest'' (
                seq (assert_py (\<not> is_absolute extends_path) ''extends path should be relative'')
                (bind (load_manifest_dict_from_yaml file_text (path_div (parent manifest_path) extends_path)) (\<lambda>base_manifest_dict.
                 bind (lift (as_dict base_manifest_dict)) (\<lambda>base.
                 seq (assert_py (\<not> json_truthy (none_or (map_of base ''extends''))) ''base manifest cannot extend another one'')
                     (ret base_manifest_dict)))))) (\<lambda>base_manifest_dict.
             merge_layers base_manifest_dict manifest_dict))))"

section \<open>Extra variables\<close>

text \<open>\<open>node[key]\<close>, and the assignment to a path of keys.\<close>

definition get_item :: "json \<Rightarrow> string \<Rightarrow> exn + json" where
  "get_item node key =
     (case node of
        JObj d \<Rightarrow> (case map_of d key of None \<Rightarrow> Inl (KeyError (py_repr key)) | Some v \<Rightarrow> Inr v)
      | JList _ \<Rightarrow> Inl (TypeError ''list indices must be integers or slices, not str'')
      | JStr _ \<Rightarrow> Inl (TypeError ''string indices must be integers, not str'')
      | _ \<Rightarrow> Inl (TypeError (json_type node @ '' object is not subscriptable'')))"

fun node_at :: "string list \<Rightarrow> json \<Rightarrow> exn + json" where
  "node_at [] node = Inr node"
| "node_at (key # rest) node = (case get_item node key of Inl e \<Rightarrow> Inl e | Inr sub \<Rightarrow> node_at rest sub)"

fun set_at :: "string list \<Rightarrow> string \<Rightarrow> json \<Rightarrow> json \<Rightarrow> exn + json" where
  "set_at [] last_name v node =
     (case node of
        JObj d \<Rightarrow> Inr (JObj (dict_set last_name v d))
      | JList _ \<Rightarrow> Inl (TypeError ''list indices must be integers or slices, not str'')
      | _ \<Rightarrow> Inl (TypeError (json_type node @ '' object does not support item assignment'')))"
| "set_at (key # rest) last_name v node =
     (case get_item node key of Inl e \<Rightarrow> Inl e
      | Inr sub \<Rightarrow>
          (case set_at rest last_name v sub of Inl e \<Rightarrow> Inl e
           | Inr sub' \<Rightarrow> (case node of JObj d \<Rightarrow> Inr (JObj (dict_set key sub' d)) | _ \<Rightarrow> Inr node)))"

definition set_extra_var :: "string \<Rightarrow> string \<Rightarrow> (string, json) dict \<Rightarrow> ('x, (string, json) dict) lcm" where
  "set_extra_var extra_key extra_value manifest_dict =
     seq (assert_py (extra_key \<noteq> []) ''extra var key cannot be empty'')
     (let key_nodes = split_on (CHR ''.'') extra_key
      in bind (lift (node_at (butlast key_nodes) (JObj manifest_dict))) (\<lambda>_.
         bind (load_yaml extra_value) (\<lambda>value_object.
         bind (lift (set_at (butlast key_nodes) (last key_nodes) value_object (JObj manifest_dict))) (\<lambda>j.
         lift (as_dict j)))))"

fun apply_extra_vars :: "(string, string) dict \<Rightarrow> (string, json) dict \<Rightarrow> ('x, (string, json) dict) lcm" where
  "apply_extra_vars [] manifest_dict = ret manifest_dict"
| "apply_extra_vars ((k, v) # extra_vars) manifest_dict =
     bind (set_extra_var k v manifest_dict) (apply_extra_vars extra_vars)"

definition load_merged_manifest_dict :: "file_texts \<Rightarrow> string \<Rightarrow> (string, string) dict \<Rightarrow> ('x, (string, json) dict) lcm" where
  "load_merged_manifest_dict file_text manifest_path extra_vars =
     bind (wrap_context ''loading manifest'' (load_manifest_dict_from_yaml file_text manifest_path)) (\<lambda>j.
     bind (lift (as_dict j)) (\<lambda>manifest_dict.
     bind (extend_manifest file_text manifest_path manifest_dict) (\<lambda>manifest_dict.
     if extra_vars = [] then ret manifest_dict
     else wrap_context ''applying extra vars'' (apply_extra_vars extra_vars manifest_dict))))"

definition load_merged_manifest :: "file_texts \<Rightarrow> string \<Rightarrow> (string, string) dict \<Rightarrow> ('x, Manifest) lcm" where
  "load_merged_manifest file_text manifest_path extra_vars =
     bind (load_merged_manifest_dict file_text manifest_path extra_vars) (\<lambda>d. load_manifest_from_dict (JObj d))"

section \<open>Comparing manifests\<close>

definition find_workspace_manifest_file :: "file_texts \<Rightarrow> string \<Rightarrow> string \<Rightarrow> string option" where
  "find_workspace_manifest_file file_text workspace repo_dir =
     find (\<lambda>p. file_text p \<noteq> None)
       [path_div workspace JOB_MANIFEST_FILENAME, path_div workspace FORMER_MANIFEST_FILENAME,
        path_div repo_dir JOB_MANIFEST_FILENAME, path_div repo_dir FORMER_MANIFEST_FILENAME]"

fun sort_dict_keys :: "json \<Rightarrow> json" where
  "sort_dict_keys (JObj d) = JObj (sort_key fst (map (\<lambda>(k, v). (k, sort_dict_keys v)) d))"
| "sort_dict_keys j = j"

definition is_dict :: "json \<Rightarrow> bool" where
  "is_dict j = (case j of JObj d \<Rightarrow> True | _ \<Rightarrow> False)"

definition dict_of_json :: "json \<Rightarrow> (string, json) dict" where
  "dict_of_json j = (case j of JObj d \<Rightarrow> d | _ \<Rightarrow> [])"

lemma dict_of_json_size [termination_simp]: "map_of d k = Some v \<Longrightarrow> is_dict v \<Longrightarrow>
    size_list (size_prod (\<lambda>_. 0) size) (dict_of_json v) < size_list (size_prod (\<lambda>_. 0) size) d"
  by (induction d) (auto simp: is_dict_def dict_of_json_def split: json.splits if_splits)

function differentiate_dicts :: "(string list \<Rightarrow> string list) \<Rightarrow> (string, json) dict \<Rightarrow> (string, json) dict \<Rightarrow> (string, json) dict" where
  "differentiate_dicts order a b =
     concat (map (\<lambda>key.
       let both = [(key, JObj [(''-'', none_or (map_of a key)), (''+'', none_or (map_of b key))])]
       in case (map_of a key, map_of b key) of
            (Some value_a, Some value_b) \<Rightarrow>
              if is_dict value_a \<noteq> is_dict value_b then both
              else if \<not> is_dict value_a then (if \<not> json_eq value_a value_b then both else [])
              else if \<not> json_eq value_a value_b
                then [(key, JObj (differentiate_dicts order (dict_of_json value_a) (dict_of_json value_b)))]
              else []
          | _ \<Rightarrow> both) (order (remdups (keys a @ keys b))))"
  by pat_completeness auto
termination
  by (relation "measure (\<lambda>(order, a, b). size_list (size_prod (\<lambda>_. 0) size) a)") (auto simp: dict_of_json_size)

declare differentiate_dicts.simps [simp del]

definition no_manifest_warning :: string where
  "no_manifest_warning = ''Can't find manifest file in a Job repository to verify it with submitted YAML''"

definition inconsistent_warning :: "(string, json) dict \<Rightarrow> string" where
  "inconsistent_warning difference =
     ''Submitted job manifest is not consistent with the file found in a repository. ''
     @ ''Did you forget to do '' @ [dquote] @ ''git push'' @ [dquote] @ ''? '' @ ''Difference: '' @ json_repr (JObj difference)"

definition repo_manifest :: "file_texts \<Rightarrow> string \<Rightarrow> json \<Rightarrow> ('x, (string, json) dict) lcm" where
  "repo_manifest file_text repo_file j =
     bind (lift (as_dict j)) (\<lambda>repo_dict.
     let extends = none_or (map_of repo_dict ''extends'')
     in if \<not> json_truthy extends then ret repo_dict
        else
          bind (lift (as_path extends)) (\<lambda>extends_path.
          wrap_context ''extending base manifest with overlay'' (
            bind (wrap_context ''loading base manifest''
                    (load_manifest_dict_from_yaml file_text (path_div (parent repo_file) extends_path))) (\<lambda>base_manifest_dict.
            merge_layers base_manifest_dict repo_dict))))"

definition verify_manifest_consistency :: "(string list \<Rightarrow> string list) \<Rightarrow> file_texts \<Rightarrow> string \<Rightarrow> string \<Rightarrow> string
    \<Rightarrow> ('x, string option) lcm" where
  "verify_manifest_consistency order file_text submitted_yaml workspace repo_dir =
     (case find_workspace_manifest_file file_text workspace repo_dir of
        None \<Rightarrow> ret (Some no_manifest_warning)
      | Some repo_file \<Rightarrow>
          bind (wrap_context ''parsing YAML manifest'' (
             bind (load_yaml (the (file_text repo_file))) (\<lambda>repo.
             bind (load_yaml submitted_yaml) (\<lambda>submitted. ret (repo, submitted))))) (\<lambda>(repo, submitted).
          bind (repo_manifest file_text repo_file repo) (\<lambda>repo_dict.
          if json_eq submitted (JObj repo_dict) then ret None
          else
            bind (lift (as_dict (sort_dict_keys submitted))) (\<lambda>submitted_dict.
            ret (Some (inconsistent_warning
              (differentiate_dicts order (dict_of_json (sort_dict_keys (JObj repo_dict))) submitted_dict)))))))"

section \<open>The difference\<close>

lemma json_eq_obj:
  "json_eq (JObj a) (JObj b) \<longleftrightarrow> length a = length b
     \<and> (\<forall>(k, v) \<in> set a. case map_of b k of None \<Rightarrow> False | Some v' \<Rightarrow> json_eq v v')"
  by (subst json_eq.simps) (auto simp: list_all_iff)

lemma json_eq_objD: "json_eq (JObj a) (JObj b) \<Longrightarrow> (k, v) \<in> set a \<Longrightarrow> \<exists>v'. map_of b k = Some v' \<and> json_eq v v'"
  unfolding json_eq_obj by (auto dest!: bspec split: option.splits)

lemma json_eq_is_dict: "json_eq a b \<Longrightarrow> is_dict a = is_dict b"
  by (subst (asm) json_eq.simps) (auto simp: is_dict_def split: json.splits)

text \<open>The keys under which two dictionaries do not have equal values.\<close>

definition agree_at :: "(string, json) dict \<Rightarrow> (string, json) dict \<Rightarrow> string \<Rightarrow> bool" where
  "agree_at a b k \<longleftrightarrow> (case (map_of a k, map_of b k) of (Some x, Some y) \<Rightarrow> json_eq x y | (None, None) \<Rightarrow> True | _ \<Rightarrow> False)"

lemma agree_everywhere:
  assumes "distinct (keys a)" "distinct (keys b)"
  shows "json_eq (JObj a) (JObj b) \<longleftrightarrow> (\<forall>k. agree_at a b k)"
proof
  assume eq: "json_eq (JObj a) (JObj b)"
  have sub: "set (keys a) \<subseteq> set (keys b)"
    using json_eq_objD [OF eq] by (force dest: map_of_SomeD)
  have "card (set (keys a)) = card (set (keys b))"
    using eq distinct_card [OF assms(1)] distinct_card [OF assms(2)] by (simp add: json_eq_obj)
  then have "set (keys a) = set (keys b)" using sub by (simp add: card_subset_eq)
  then have none: "map_of a k = None \<longleftrightarrow> map_of b k = None" for k
    by (simp add: map_of_eq_None_iff)
  show "\<forall>k. agree_at a b k"
  proof
    show "agree_at a b k" for k
      using none [of k] json_eq_objD [OF eq map_of_SomeD] by (cases "map_of a k") (fastforce simp: agree_at_def)+
  qed
next
  assume all: "\<forall>k. agree_at a b k"
  have "k \<in> set (keys a) \<longleftrightarrow> k \<in> set (keys b)" for k
    using all [rule_format, of k] map_of_eq_None_iff [of a k] map_of_eq_None_iff [of b k]
    by (auto simp: agree_at_def split: option.splits)
  then have "set (keys a) = set (keys b)" by blast
  then have "length a = length b" using assms by (metis distinct_card length_map)
  moreover have "case map_of b k of None \<Rightarrow> False | Some v' \<Rightarrow> json_eq v v'" if "(k, v) \<in> set a" for k v
    using all [rule_format, of k] that assms(1) by (auto simp: agree_at_def split: option.splits)
  ultimately show "json_eq (JObj a) (JObj b)" by (auto simp: json_eq_obj)
qed

lemma keys_concat_map:
  assumes "\<And>x. set (keys (f x)) \<subseteq> {x}"
  shows "k \<in> set (keys (concat (map f xs))) \<longleftrightarrow> k \<in> set xs \<and> f k \<noteq> []"
proof -
  have "k \<in> set (keys (f x)) \<longleftrightarrow> k = x \<and> f k \<noteq> []" for x
    using assms [of x] by (cases "f x") auto
  then show ?thesis by (auto simp: image_iff)
qed

lemma differentiate_keys:
  assumes "\<forall>xs. set (order xs) = set xs"
  shows "k \<in> set (keys (differentiate_dicts order a b)) \<longleftrightarrow> \<not> agree_at a b k"
proof -
  have "k \<in> set (keys (differentiate_dicts order a b)) \<longleftrightarrow> k \<in> set (keys a @ keys b) \<and> \<not> agree_at a b k"
    unfolding differentiate_dicts.simps [of order a b]
    by (subst keys_concat_map)
      (auto simp: assms agree_at_def Let_def split: option.splits if_splits dest: json_eq_is_dict weak_map_of_SomeI)
  moreover have "\<not> agree_at a b k \<Longrightarrow> k \<in> set (keys a @ keys b)"
    using map_of_eq_None_iff [of a k] map_of_eq_None_iff [of b k] by (auto simp: agree_at_def)
  ultimately show ?thesis by blast
qed

text \<open>Sorting the keys does not change what is compared.\<close>

definition sorted_dict :: "(string, json) dict \<Rightarrow> (string, json) dict" where
  "sorted_dict d = sort_key fst (map (\<lambda>(k, v). (k, sort_dict_keys v)) d)"

lemma sorted_dict_keys: "distinct (keys (sorted_dict d)) \<longleftrightarrow> distinct (keys d)"
proof -
  have "mset (keys (sorted_dict d)) = mset (keys d)"
    by (simp add: sorted_dict_def multiset.map_comp o_def split_def)
  then show ?thesis by (rule mset_eq_imp_distinct_iff)
qed

lemma map_of_sorted_dict: "distinct (keys d) \<Longrightarrow> map_of (sorted_dict d) k = map_option sort_dict_keys (map_of d k)"
proof -
  assume d: "distinct (keys d)"
  then have "map_of (sorted_dict d) = map_of (map (\<lambda>(k, v). (k, sort_dict_keys v)) d)"
    using sorted_dict_keys [of d] by (subst map_of_inject_set) (auto simp: sorted_dict_def o_def split_def)
  then show ?thesis by (simp add: map_of_map)
qed

lemma sort_not_dict: "\<not> is_dict a \<Longrightarrow> sort_dict_keys a = a"
  by (cases a) (auto simp: is_dict_def)

lemma is_dict_sort [simp]: "is_dict (sort_dict_keys a) = is_dict a"
  by (cases a) (auto simp: is_dict_def)

lemma json_eq_sort_not_dict:
  "\<not> (is_dict a \<and> is_dict b) \<Longrightarrow> json_eq (sort_dict_keys a) (sort_dict_keys b) = json_eq a b"
  by (metis json_eq_is_dict is_dict_sort sort_not_dict)

lemma json_eq_sort:
  "keys_distinct a \<Longrightarrow> keys_distinct b \<Longrightarrow> json_eq (sort_dict_keys a) (sort_dict_keys b) = json_eq a b"
proof (induction a arbitrary: b)
  case (JObj d)
  show ?case
  proof (cases "is_dict b")
    case True
    then obtain e where b: "b = JObj e" by (cases b) (auto simp: is_dict_def)
    have IH: "json_eq (sort_dict_keys x) (sort_dict_keys y) = json_eq x y"
      if "map_of d k = Some x" "map_of e k = Some y" for k x y
      using JObj.IH [of "(k, x)" x y] map_of_SomeD [OF that(1)] map_of_SomeD [OF that(2)] JObj.prems
      by (auto simp: b list_all_iff snds.simps)
    have "agree_at (sorted_dict d) (sorted_dict e) k = agree_at d e k" for k
      using JObj.prems IH [of k] by (auto simp: b agree_at_def map_of_sorted_dict split: option.splits)
    then show ?thesis
      using JObj.prems
      by (simp add: b agree_everywhere sorted_dict_keys flip: sorted_dict_def)
  next
    case False
    then show ?thesis by (intro json_eq_sort_not_dict) simp
  qed
qed (rule json_eq_sort_not_dict, simp add: is_dict_def)+

lemma keys_distinct_map_of: "keys_distinct (JObj d) \<Longrightarrow> map_of d k = Some x \<Longrightarrow> keys_distinct x"
  by (auto simp: list_all_iff dest!: map_of_SomeD)

lemma agree_at_sorted:
  assumes "keys_distinct (JObj a)" "keys_distinct (JObj b)"
  shows "agree_at (sorted_dict a) (sorted_dict b) k \<longleftrightarrow> agree_at a b k"
  using assms keys_distinct_map_of [OF assms(1), of k] keys_distinct_map_of [OF assms(2), of k]
  by (auto simp: agree_at_def map_of_sorted_dict json_eq_sort split: option.splits)

lemma json_eq_list:
  "json_eq (JList xs) (JList ys) \<longleftrightarrow> list_all2 json_eq xs ys"
  by (subst json_eq.simps) (auto simp: list_all2_iff list_all_iff)

lemma json_eq_other:
  "\<not> is_dict a \<Longrightarrow> \<not> (\<exists>xs ys. a = JList xs \<and> b = JList ys) \<Longrightarrow>
   json_eq a b \<longleftrightarrow> a = b \<or> (json_number a \<noteq> None \<and> json_number a = json_number b)"
  by (subst json_eq.simps) (auto simp: is_dict_def split: json.splits)

lemma json_eq_sym_other:
  assumes "\<not> (is_dict a \<and> is_dict b)" "\<not> (\<exists>xs ys. a = JList xs \<and> b = JList ys)"
  shows "json_eq a b \<longleftrightarrow> json_eq b a"
proof (cases "is_dict a \<or> is_dict b")
  case True
  then show ?thesis using assms(1) json_eq_is_dict by metis
next
  case False
  moreover have "\<not> (\<exists>xs ys. b = JList xs \<and> a = JList ys)" using assms(2) by blast
  ultimately show ?thesis using assms json_eq_other [of a b] json_eq_other [of b a] by metis
qed

lemma json_eq_sym: "keys_distinct a \<Longrightarrow> keys_distinct b \<Longrightarrow> json_eq a b \<longleftrightarrow> json_eq b a"
proof (induction a arbitrary: b)
  case (JObj d)
  show ?case
  proof (cases "is_dict b")
    case True
    then obtain e where b: "b = JObj e" by (cases b) (auto simp: is_dict_def)
    have IH: "json_eq x y \<longleftrightarrow> json_eq y x" if "map_of d k = Some x" "map_of e k = Some y" for k x y
      using JObj.IH [of "(k, x)" x y] map_of_SomeD [OF that(1)] map_of_SomeD [OF that(2)] JObj.prems
      by (auto simp: b list_all_iff snds.simps)
    then have "agree_at d e k \<longleftrightarrow> agree_at e d k" for k
      by (auto simp: agree_at_def split: option.splits)
    then show ?thesis using JObj.prems by (simp add: b agree_everywhere)
  next
    case False
    then show ?thesis by (intro json_eq_sym_other) auto
  qed
next
  case (JList xs)
  show ?case
  proof (cases b)
    case (JList ys)
    then have "json_eq (xs ! i) (ys ! i) \<longleftrightarrow> json_eq (ys ! i) (xs ! i)" if "i < length xs" "i < length ys" for i
      using JList.IH [of "xs ! i" "ys ! i"] JList.prems that by (simp add: list_all_length)
    then show ?thesis
      using JList by (auto simp: json_eq_list list_all2_conv_all_nth)
  qed (rule json_eq_sym_other, simp_all add: is_dict_def)+
qed (rule json_eq_sym_other, simp_all add: is_dict_def)+

text \<open>
  C9. The comparison of a submitted manifest with the manifest file of the repository, extended by its base,
  warns exactly when the two dictionaries do not have equal values under all keys, and the difference in
  the warning has exactly the keys under which they differ, whatever order the keys are iterated in.
\<close>
theorem verify_manifest_reports_difference:
  assumes "\<forall>xs. set (order xs) = set xs"
    and "find_workspace_manifest_file file_text workspace repo_dir = Some repo_file"
    and "yaml_load w (the (file_text repo_file)) = Inr repo" "yaml_load w submitted_yaml = Inr (JObj submitted)"
    and "repo_manifest file_text repo_file repo w = (Inr repo_dict, w)"
    and "keys_distinct (JObj repo_dict)" "keys_distinct (JObj submitted)"
  shows "\<exists>difference.
     verify_manifest_consistency order file_text submitted_yaml workspace repo_dir w
       = (Inr (if \<forall>k. agree_at repo_dict submitted k then None else Some (inconsistent_warning difference)), w)
     \<and> (\<forall>k. k \<in> set (keys difference) \<longleftrightarrow> \<not> agree_at repo_dict submitted k)"
proof -
  let ?diff = "differentiate_dicts order (sorted_dict repo_dict) (sorted_dict submitted)"
  have eq: "json_eq (JObj submitted) (JObj repo_dict) \<longleftrightarrow> (\<forall>k. agree_at repo_dict submitted k)"
    using json_eq_sym [OF assms(7,6)] assms(6,7) by (simp add: agree_everywhere)
  have "\<forall>k. k \<in> set (keys ?diff) \<longleftrightarrow> \<not> agree_at repo_dict submitted k"
    using differentiate_keys [OF assms(1)] agree_at_sorted [OF assms(6,7)] by blast
  moreover have "verify_manifest_consistency order file_text submitted_yaml workspace repo_dir w
      = (Inr (if \<forall>k. agree_at repo_dict submitted k then None else Some (inconsistent_warning ?diff)), w)"
    using assms(2-5) eq
    by (auto simp: verify_manifest_consistency_def load_yaml_def py_run as_dict_def dict_of_json_def sorted_dict_def)
  ultimately show ?thesis by blast
qed

definition sample_texts :: file_texts where
  "sample_texts p = (if p = ''ws/job.yaml'' then Some ''repository'' else None)"

definition sample_yaml :: "string \<Rightarrow> exn + json" where
  "sample_yaml text = Inr (JObj [(''name'', JStr ''adder''), (''replicas'', JInt (if text = ''repository'' then 1 else 2))])"

definition sample_client :: lifecycle where
  "sample_client = sample_lifecycle\<lparr>yaml_load := sample_yaml\<rparr>"

theorem verify_manifest_reports_difference_witness:
  "\<exists>difference.
     verify_manifest_consistency rev sample_texts ''submitted'' ''ws'' ''ws'' sample_client
       = (Inr (Some (inconsistent_warning difference)), sample_client)
     \<and> ''replicas'' \<in> set (keys difference) \<and> ''name'' \<notin> set (keys difference)"
proof -
  let ?d = "\<lambda>n. [(''name'', JStr ''adder''), (''replicas'', JInt n)]"
  have files: "find_workspace_manifest_file sample_texts ''ws'' ''ws'' = Some ''ws/job.yaml''"
      "repo_manifest sample_texts ''ws/job.yaml'' (JObj (?d 1)) sample_client = (Inr (?d 1), sample_client)"
    by code_simp (simp add: repo_manifest_def py_run as_dict_def none_or_def)
  have agree: "\<not> agree_at (?d 1) (?d 2) ''replicas''" "agree_at (?d 1) (?d 2) ''name''"
    by (simp_all add: agree_at_def json_eq_other is_dict_def)
  obtain difference where
    v: "verify_manifest_consistency rev sample_texts ''submitted'' ''ws'' ''ws'' sample_client
       = (Inr (if \<forall>k. agree_at (?d 1) (?d 2) k then None else Some (inconsistent_warning difference)), sample_client)"
    and d: "\<forall>k. k \<in> set (keys difference) \<longleftrightarrow> \<not> agree_at (?d 1) (?d 2) k"
    using verify_manifest_reports_difference [of rev sample_texts "''ws''" "''ws''" "''ws/job.yaml''" sample_client "JObj (?d 1)"
        "''submitted''" "?d 2" "?d 1"] files
    by (auto simp: sample_client_def sample_yaml_def sample_texts_def)
  have "\<not> (\<forall>k. agree_at (?d 1) (?d 2) k)" using agree(1) by blast
  with v d agree show ?thesis by (intro exI [of _ difference]) simp
qed

end
