(* ===== verification/Files.thy ===== *)
theory Files
  imports Deployer ManifestFiles
begin

text \<open>
  The file system of a component and the shell commands it runs (\<open>racetrack_client/utils/shell.py\<close>). Regular files are a
  dictionary from paths to contents; what a command prints and does to the files, the directories and the
  infrastructure is a parameter. A file that cannot be read or written because of its permissions is not
  modelled.
\<close>

section \<open>State\<close>

type_synonym directories = "string \<Rightarrow> bool"

record 'i machine = "'i cluster" +
  files :: "(string, string) dict"
  dirs :: directories
  run_command :: "string \<Rightarrow> string option \<Rightarrow> 'i \<times> (string, string) dict \<times> directories
    \<Rightarrow> (string \<times> int) \<times> 'i \<times> (string, string) dict \<times> directories"
  working_dir :: string
  resolve_links :: "string \<Rightarrow> string"

type_synonym ('i, 'x, 'a) mcm = "(('i, 'x) machine_scheme, 'a) py"

section \<open>Files\<close>

definition no_such_file :: "string \<Rightarrow> exn" where
  "no_such_file p = FileNotFoundError (''[Errno 2] No such file or directory: '' @ py_repr p)"

definition read_text :: "string \<Rightarrow> ('i, 'x, string) mcm" where
  "read_text p = bind (gets files) (\<lambda>f. case map_of f p of None \<Rightarrow> raise (no_such_file p) | Some text \<Rightarrow> ret text)"

definition write_text :: "string \<Rightarrow> string \<Rightarrow> ('i, 'x, unit) mcm" where
  "write_text p text = modify (\<lambda>w. w\<lparr>files := dict_set p text (files w)\<rparr>)"

definition unlink :: "string \<Rightarrow> ('i, 'x, unit) mcm" where
  "unlink p = bind (gets files) (\<lambda>f.
     if map_of f p = None then raise (no_such_file p) else modify (\<lambda>w. w\<lparr>files := dict_del p (files w)\<rparr>))"

definition path_is_file :: "string \<Rightarrow> ('i, 'x, bool) mcm" where
  "path_is_file p = gets (\<lambda>w. map_of (files w) p \<noteq> None)"

definition path_is_dir :: "string \<Rightarrow> ('i, 'x, bool) mcm" where
  "path_is_dir p = gets (\<lambda>w. dirs w p)"

definition within_path :: "string \<Rightarrow> string \<Rightarrow> bool" where
  "within_path p q \<longleftrightarrow> prefix (path_parts p) (path_parts q)"

definition mkdir_parents :: "string \<Rightarrow> ('i, 'x, unit) mcm" where
  "mkdir_parents p = bind (gets files) (\<lambda>f.
     if map_of f p \<noteq> None then raise (OSError (''[Errno 17] File exists: '' @ py_repr p))
     else modify (\<lambda>w. w\<lparr>dirs := (\<lambda>q. dirs w q \<or> q \<noteq> ''.'' \<and> within_path q p)\<rparr>))"

definition rmtree :: "string \<Rightarrow> ('i, 'x, unit) mcm" where
  "rmtree p = bind (gets dirs) (\<lambda>d.
     if \<not> d p then raise (no_such_file p)
     else modify (\<lambda>w. w\<lparr>files := filter (\<lambda>(q, _). \<not> within_path p q) (files w),
                        dirs := (\<lambda>q. dirs w q \<and> \<not> within_path p q)\<rparr>))"

text \<open>\<open>try: m finally: f\<close>.\<close>

definition try_finally :: "('w, 'a) py \<Rightarrow> ('w, unit) py \<Rightarrow> ('w, 'a) py" where
  "try_finally m f = (\<lambda>w. case m w of (r, w') \<Rightarrow>
     (case f w' of (Inl e, w'') \<Rightarrow> (Inl e, w'') | (Inr _, w'') \<Rightarrow> (r, w'')))"

section \<open>Commands\<close>

text \<open>A command with its working directory and the file its output is appended to.\<close>

definition touch_log :: "string option \<Rightarrow> (string, string) dict \<Rightarrow> (string, string) dict" where
  "touch_log out f = (case out of None \<Rightarrow> f | Some p \<Rightarrow> dict_set p (the_default [] (map_of f p)) f)"

definition append_log :: "string option \<Rightarrow> string \<Rightarrow> (string, string) dict \<Rightarrow> (string, string) dict" where
  "append_log out text f = (case out of None \<Rightarrow> f | Some p \<Rightarrow> dict_set p (the_default [] (map_of f p) @ text) f)"

definition shell_output :: "string \<Rightarrow> string option \<Rightarrow> string option \<Rightarrow> ('i, 'x, string) mcm" where
  "shell_output cmd workdir output_filename =
     (if length cmd > 4096 then raise (RuntimeError ''maximum tty line length has been exceeded'')
      else seq (bind (gets dirs) (\<lambda>d.
        case workdir of
          Some wd \<Rightarrow> if d wd then ret () else raise (no_such_file wd)
        | None \<Rightarrow> ret ())) (\<lambda>w.
        case run_command w cmd workdir (infra w, touch_log output_filename (files w), dirs w) of
          ((stdout, returncode), i, f, d) \<Rightarrow>
            let w' = w\<lparr>infra := i, files := append_log output_filename stdout f, dirs := d\<rparr>
            in if returncode \<noteq> 0 then (Inl (CommandError cmd stdout returncode), w') else (Inr stdout, w')))"

definition shell :: "string \<Rightarrow> ('i, 'x, unit) mcm" where
  "shell cmd = seq (shell_output cmd None None) (ret ())"

fun command_stdout :: "exn \<Rightarrow> string" where
  "command_stdout (CommandError cmd out code) = out"
| "command_stdout e = []"

fun command_returncode :: "exn \<Rightarrow> int" where
  "command_returncode (CommandError cmd out code) = code"
| "command_returncode e = 0"

definition quoted :: "string \<Rightarrow> string" where
  "quoted s = [dquote] @ s @ [dquote]"

end
