(* ===== verification/ImageBuilder.thy ===== *)
theory ImageBuilder
  imports Files AuthCheck Urls
begin

text \<open>
  The image builder (\<open>src/image_builder/image_builder\<close>): it fetches the source of a job with git or from an
  archive, compares the manifests, fills in Dockerfile templates, builds and pushes one image per part of
  the job type with docker, and reports its phases to the Lifecycle server. The file system is a part of
  the state; what a shell command does to it and to the infrastructure is a parameter, as are Jinja,
  the extraction of archives, the resolution of symbolic links and the validator of a job type's plugin.
\<close>

section \<open>State\<close>

record BuilderConfig =
  ib_log_level :: string
  ib_http_addr :: string
  ib_http_port :: int
  ib_docker_registry :: string
  ib_lifecycle_url :: string
  ib_docker_registry_namespace :: string
  ib_build_logs_dir :: string
  ib_build_cache_retention_hours :: "rat option"
  ib_build_cache_prune_interval_m :: int
  ib_cache_base_images :: bool
  ib_plugins_dir :: string
  ib_clean_up_workspaces :: bool
  ib_verify_manifest_consistency :: bool

text \<open>The variables of a Dockerfile template.\<close>

record render_vars =
  rv_manifest :: Manifest
  rv_base_image :: string
  rv_resource_name :: string
  rv_git_version :: string
  rv_deployed_by_racetrack_version :: string
  rv_job_type_version :: string
  rv_env_vars :: "(string, string) dict"
  rv_manifest_jobtype_extra :: "(string, json) dict"

record 'i workshop = "'i machine" +
  builder_config :: BuilderConfig
  project_root :: string
  extract_tar :: "string \<Rightarrow> string \<Rightarrow> (string, string) dict \<times> directories \<Rightarrow> exn option \<times> (string, string) dict \<times> directories"
  render_template :: "string \<Rightarrow> render_vars \<Rightarrow> exn + string"
  manifest_validator :: "JobType \<Rightarrow> (PluginManifest \<times> (Manifest \<Rightarrow> string \<Rightarrow> ('i, unit) py)) option"
  key_order :: "string list \<Rightarrow> string list"

type_synonym ('i, 'x, 'a) wsm = "(('i, 'x) workshop_scheme, 'a) py"

section \<open>Progress\<close>

definition send_update :: "string \<Rightarrow> string \<Rightarrow> string \<Rightarrow> ('i, 'x, unit) wsm" where
  "send_update deployment_id what text =
     bind (gets (\<lambda>w. (urlopen w, ib_lifecycle_url (builder_config w), environ w ''LIFECYCLE_AUTH_TOKEN''))) (\<lambda>(op, url, token).
     if url = [] then ret ()
     else
       bind (on_infra (requests_put op (url @ ''/api/v1/deploy/'' @ deployment_id @ ''/'' @ what)
               (Some (JObj [(what, JStr text)])) None [(RT_AUTH_HEADER, token)] None)) (\<lambda>r.
       seq (lift (parse_response r ''Lifecycle API error'')) (ret ())))"

definition report_deployment_phase :: "string \<Rightarrow> string \<Rightarrow> ('i, 'x, unit) wsm" where
  "report_deployment_phase deployment_id phase = send_update deployment_id ''phase'' phase"

definition report_deployment_warnings :: "string \<Rightarrow> string \<Rightarrow> ('i, 'x, unit) wsm" where
  "report_deployment_warnings deployment_id warnings = send_update deployment_id ''warnings'' warnings"

definition phase_context :: "string \<Rightarrow> string \<Rightarrow> ('i, 'x, 'a) wsm \<Rightarrow> ('i, 'x, 'a) wsm" where
  "phase_context phase_name deployment_id m =
     seq (report_deployment_phase deployment_id phase_name) (wrap_context phase_name m)"

section \<open>Fetching the source\<close>

definition git_remote_with_credentials :: "string \<Rightarrow> Credentials option \<Rightarrow> exn + string" where
  "git_remote_with_credentials remote_url credentials =
     (let c = (case credentials of None \<Rightarrow> \<lparr>cred_username = [], cred_password = []\<rparr> | Some c \<Rightarrow> c)
      in case urlsplit remote_url of
           Inl e \<Rightarrow> Inl e
         | Inr split \<Rightarrow>
             if us_scheme split = [] then Inr remote_url
             else Inr (us_scheme split @ ''://'' @ url_quote (cred_username c) @ '':'' @ url_quote (cred_password c) @ ''@''
                    @ us_netloc split @ us_path split))"

definition read_job_git_version :: "string \<Rightarrow> ('i, 'x, string) wsm" where
  "read_job_git_version workspace = wrap_context ''reading version from job git history'' (
     bind (shell_output ''git describe --long --tags --dirty --always'' (Some workspace) None) (\<lambda>out. ret (strip out)))"

definition branch_option :: "string option \<Rightarrow> string" where
  "branch_option branch = (if given branch then ''--branch '' @ quoted (the branch) else [])"

definition clone_command :: "string option \<Rightarrow> string \<Rightarrow> string \<Rightarrow> string" where
  "clone_command branch remote_url target =
     ''GIT_TERMINAL_PROMPT=0 git clone --depth=1 --single-branch '' @ branch_option branch @ '' '' @ quoted remote_url @ '' ''
     @ quoted target"

definition clone_repository :: "string \<Rightarrow> string option \<Rightarrow> string \<Rightarrow> Credentials option \<Rightarrow> ('i, 'x, unit) wsm" where
  "clone_repository workspace branch remote_url credentials = wrap_context ''cloning git repo'' (
     seq (if given branch then
            seq (assert_py (dquote \<notin> set (the branch)) ''illegal characters in a branch name'')
                (shell (''git check-ref-format --branch '' @ quoted (the branch)))
          else ret ())
     (bind (gets (\<lambda>w. (project_root w, resolve_links w workspace))) (\<lambda>(root, target).
      try_except (seq (shell_output (clone_command branch remote_url target) (Some root) None) (ret ())) is_CommandError
        (\<lambda>e. if contains (command_stdout e) ''fatal: Authentication failed'' then
                if credentials = None then raise (RuntimeError ''no git credentials configured for a repo'')
                else raise (ContextError ''authentication failure'' (Some e))
              else raise e))))"

definition fetch_repository :: "string \<Rightarrow> Manifest \<Rightarrow> Credentials option \<Rightarrow> ('i, 'x, string \<times> string) wsm" where
  "fetch_repository workspace manifest credentials =
     bind (lift (git_remote_with_credentials (git_remote (git manifest)) credentials)) (\<lambda>remote_url.
     seq (clone_repository workspace (git_branch (git manifest)) remote_url credentials)
     (bind (read_job_git_version workspace) (\<lambda>git_version.
      bind (gets (\<lambda>w. (resolve_links w (path_div workspace ''.git''), path_div (project_root w) ''workspaces''))) (\<lambda>(git_path, root).
      seq (assert_py (startswith git_path root) [])
      (seq (rmtree git_path)
      (bind (path_is_dir workspace) (\<lambda>d.
       seq (assert_py d (''workspace directory doesn't exist: '' @ workspace))
       (bind (gets (\<lambda>w. resolve_links w (path_div workspace (git_directory (git manifest))))) (\<lambda>sub_workspace.
        bind (path_is_dir sub_workspace) (\<lambda>d.
        seq (assert_py d (''can't find workspace subdirectory: '' @ sub_workspace))
            (ret (sub_workspace, git_version))))))))))))"

definition extract_archive :: "string \<Rightarrow> string \<Rightarrow> ('i, 'x, unit) wsm" where
  "extract_archive archive target = (\<lambda>w. case extract_tar w archive target (files w, dirs w) of
     (err, f, d) \<Rightarrow> (case err of None \<Rightarrow> Inr () | Some e \<Rightarrow> Inl e, w\<lparr>files := f, dirs := d\<rparr>))"

text \<open>\<open>b64decode\<close> drops the characters outside of its alphabet.\<close>

definition base64_char :: "char \<Rightarrow> bool" where
  "base64_char c \<longleftrightarrow> b64_index c \<noteq> None \<or> c = CHR ''=''"

definition prepare_workspace :: "string \<Rightarrow> Manifest \<Rightarrow> Credentials option \<Rightarrow> string option \<Rightarrow> string
    \<Rightarrow> ('i, 'x, string \<times> string \<times> string) wsm" where
  "prepare_workspace workspaces_path manifest credentials build_context deployment_id =
     (let repo_dir = path_div workspaces_path deployment_id
      in if given build_context then
           wrap_context ''extracting build context'' (
             case b64decode (filter base64_char (the build_context)) of
               None \<Rightarrow> raise (ValueError ''Incorrect padding'')
             | Some archive \<Rightarrow> seq (extract_archive archive repo_dir) (ret (repo_dir, repo_dir, ''tar'')))
         else
           wrap_context ''fetching job repo'' (
             bind (fetch_repository repo_dir manifest credentials) (\<lambda>(workspace, git_version).
             ret (workspace, repo_dir, git_version))))"

section \<open>Building images\<close>

definition wait_for_docker_engine_ready :: "('i, 'x, unit) wsm" where
  "wait_for_docker_engine_ready = on_backoff ''_wait_for_docker_engine_ready'' is_CommandError (shell ''docker ps'')"

definition validate_jobtype_manifest :: "JobType \<Rightarrow> Manifest \<Rightarrow> ('i, 'x, unit) wsm" where
  "validate_jobtype_manifest job_type manifest =
     wrap_context ''invalid manifest according to job type rules'' (
       bind (gets manifest_validator) (\<lambda>validator.
       case validator job_type of
         None \<Rightarrow> ret ()
       | Some (plugin, hook) \<Rightarrow>
           wrap_context (''Invoking hook '' @ quoted ''validate_job_manifest'' @ '' of plugin '' @ pm_name plugin @ '' '' @ pm_version plugin)
             (on_infra (hook manifest (full_name job_type)))))"

definition template_dockerfile :: "Manifest \<Rightarrow> string \<Rightarrow> string \<Rightarrow> string \<Rightarrow> string \<Rightarrow> string \<Rightarrow> (string, string) dict \<Rightarrow> string
    \<Rightarrow> ('i, 'x, unit) wsm" where
  "template_dockerfile manifest template_path dockerfile git_version racetrack_version type_version env_vars base_image =
     bind (read_text template_path) (\<lambda>template_content.
     bind (gets (\<lambda>w. render_template w template_content \<lparr>rv_manifest = manifest, rv_base_image = base_image,
             rv_resource_name = job_resource_name (mf_name manifest) (mf_version manifest), rv_git_version = git_version,
             rv_deployed_by_racetrack_version = racetrack_version, rv_job_type_version = type_version,
             rv_env_vars = env_vars, rv_manifest_jobtype_extra = get_jobtype_extra manifest\<rparr>)) (\<lambda>r.
     bind (lift r) (write_text dockerfile)))"

definition progress :: "nat \<Rightarrow> nat \<Rightarrow> string" where
  "progress image_index images_count = ''('' @ nat_to_str (image_index + 1) @ ''/'' @ nat_to_str images_count @ '')''"

definition approved_flags :: "string list" where
  "approved_flags = [''--no-cache'']"

definition check_build_flags :: "string list \<Rightarrow> exn + unit" where
  "check_build_flags build_flags =
     (case find (\<lambda>f. f \<notin> set approved_flags) build_flags of
        None \<Rightarrow> Inr ()
      | Some f \<Rightarrow> Inl (ValueError (''Flag '' @ [CHR 0x27] @ f @ [CHR 0x27] @ '' is not approved for use.'')))"

definition secrets_text :: "(string, string) dict \<Rightarrow> string" where
  "secrets_text secret_env_vars = join [newline] (map (\<lambda>(k, v). k @ ''='' @ quoted v) secret_env_vars)"

definition absolute :: "string \<Rightarrow> string \<Rightarrow> string" where
  "absolute directory p = (if is_absolute p then p else path_div directory p)"

definition build_command :: "string \<Rightarrow> string \<Rightarrow> string \<Rightarrow> string \<Rightarrow> string list \<Rightarrow> string option \<Rightarrow> string" where
  "build_command image_name dockerfile job_workspace jobtype_directory build_flags secrets_path = join '' '' (
     [''DOCKER_BUILDKIT=1 docker buildx build'', ''-t '' @ image_name, ''-f '' @ dockerfile, ''--network=host'',
      ''--build-context jobtype='' @ quoted jobtype_directory] @ build_flags
     @ (case secrets_path of None \<Rightarrow> [] | Some p \<Rightarrow> [''--secret id=build_secrets,src='' @ p]) @ [job_workspace])"

definition build_secrets_path :: "string \<Rightarrow> string" where
  "build_secrets_path job_workspace = path_div job_workspace ''build_secrets.env''"

definition build_container_image :: "string \<Rightarrow> string \<Rightarrow> string \<Rightarrow> string \<Rightarrow> string \<Rightarrow> string list \<Rightarrow> (string, string) dict
    \<Rightarrow> ('i, 'x, string) wsm" where
  "build_container_image image_name dockerfile job_workspace jobtype_directory logs_filename build_flags secret_env_vars =
     seq (lift (check_build_flags build_flags))
     (bind (gets working_dir) (\<lambda>directory.
      let secrets_path = build_secrets_path job_workspace;
          cmd = build_command image_name dockerfile job_workspace jobtype_directory build_flags
                  (if secret_env_vars = [] then None else Some (absolute directory secrets_path))
      in seq (write_text secrets_path (if secret_env_vars = [] then [] else secrets_text secret_env_vars))
             (try_finally (shell_output cmd None (Some logs_filename)) (unlink secrets_path))))"

definition push_container_image :: "string \<Rightarrow> string \<Rightarrow> ('i, 'x, unit) wsm" where
  "push_container_image image_name logs_filename =
     seq (shell_output (''docker push '' @ image_name) None (Some logs_filename)) (ret ())"

definition image_exists_in_registry :: "string \<Rightarrow> ('i, 'x, bool) wsm" where
  "image_exists_in_registry image_name = wrap_context ''checking if image exists in registry'' (
     try_except (seq (shell (''docker manifest inspect --insecure '' @ image_name)) (ret True)) is_CommandError
       (\<lambda>e. if command_returncode e = 1 \<and> (contains (command_stdout e) ''manifest unknown'' \<or> contains (command_stdout e) ''no such manifest'')
             then ret False else raise e))"

definition get_base_image_name :: "string \<Rightarrow> string \<Rightarrow> string \<Rightarrow> string \<Rightarrow> nat \<Rightarrow> string" where
  "get_base_image_name registry registry_namespace name tag module_index =
     join_paths [registry, registry_namespace,
       if module_index = 0 then ''job-base'' else ''job-base-'' @ nat_to_str module_index, name @ '':'' @ tag]"

definition build_base_image :: "JobType \<Rightarrow> string \<Rightarrow> nat \<Rightarrow> string \<Rightarrow> ('i, 'x, string) wsm" where
  "build_base_image job_type dockerfile image_index deployment_id =
     bind (gets builder_config) (\<lambda>cfg.
     let image_name = get_base_image_name (ib_docker_registry cfg) (ib_docker_registry_namespace cfg) (lang_name job_type)
                        (jt_version job_type) image_index
     in bind (if ib_cache_base_images cfg then image_exists_in_registry image_name else ret False) (\<lambda>cached.
        if cached then ret image_name
        else
          let logs_filename = ib_build_logs_dir cfg @ ''/'' @ deployment_id @ ''.base.log''
          in bind (path_is_file dockerfile) (\<lambda>found.
             seq (assert_py found (''base Dockerfile doesn't exist: '' @ dockerfile))
             (seq (shell_output (''DOCKER_BUILDKIT=1 docker build -t '' @ image_name @ '' -f '' @ dockerfile @ '' --network=host ''
                     @ parent dockerfile) None (Some logs_filename))
             (seq (push_container_image image_name logs_filename) (ret image_name))))))"

text \<open>What all images of a build share.\<close>

record build_job_args =
  ba_manifest :: Manifest
  ba_workspace :: string
  ba_tag :: string
  ba_git_version :: string
  ba_env_vars :: "(string, string) dict"
  ba_secret_env_vars :: "(string, string) dict"
  ba_deployment_id :: string
  ba_build_flags :: "string list"

definition source_dockerfile :: "build_job_args \<Rightarrow> JobTypeImageDef \<Rightarrow> ('i, 'x, string) wsm" where
  "source_dockerfile args img =
     (if img_source img = Src_job then
        let p = path_div (ba_workspace args) (dockerfile_path img)
        in bind (path_is_file p) (\<lambda>found.
           seq (assert_py found (''User-module Dockerfile was not found in a job workspace: '' @ dockerfile_path img)) (ret p))
      else
        bind (path_is_file (dockerfile_path img)) (\<lambda>found.
        seq (assert_py found (''Dockerfile was not found in a job type: '' @ dockerfile_path img)) (ret (dockerfile_path img))))"

definition target_dockerfile :: "build_job_args \<Rightarrow> JobType \<Rightarrow> JobTypeImageDef \<Rightarrow> nat \<Rightarrow> string \<Rightarrow> string \<Rightarrow> ('i, 'x, string) wsm" where
  "target_dockerfile args job_type img image_index base_image src_dockerfile =
     (if \<not> json_truthy (template img) then ret src_dockerfile
      else wrap_context (''templating Dockerfile '' @ progress image_index (images_num job_type)) (
        bind (path_is_file src_dockerfile) (\<lambda>found.
        seq (assert_py found (''Job template Dockerfile was not found: '' @ src_dockerfile))
        (bind (gets (\<lambda>w. the_default ''latest'' (environ w ''DOCKER_TAG''))) (\<lambda>racetrack_version.
         let dst = path_div (ba_workspace args) (''.job-'' @ nat_to_str image_index @ ''.Dockerfile'')
         in seq (template_dockerfile (ba_manifest args) src_dockerfile dst (ba_git_version args) racetrack_version
                   (jt_version job_type) (ba_env_vars args) base_image)
                (ret dst))))))"

definition image_name_at :: "BuilderConfig \<Rightarrow> build_job_args \<Rightarrow> nat \<Rightarrow> string" where
  "image_name_at cfg args image_index = get_job_image (ib_docker_registry cfg) (ib_docker_registry_namespace cfg)
     (mf_name (ba_manifest args)) (ba_tag args) image_index"

text \<open>One image: its logs and its name.\<close>

definition build_one_image :: "build_job_args \<Rightarrow> JobType \<Rightarrow> string \<Rightarrow> nat \<Rightarrow> ('i, 'x, string \<times> string) wsm" where
  "build_one_image args job_type logs_filename image_index =
     (let step = progress image_index (images_num job_type); img = images job_type ! image_index
      in bind (phase_context (''building image '' @ step) (ba_deployment_id args) (
           bind (case base_image_path img of
                   None \<Rightarrow> ret []
                 | Some p \<Rightarrow> wrap_context (''building base image '' @ step)
                     (build_base_image job_type p image_index (ba_deployment_id args))) (\<lambda>base_image.
           bind (source_dockerfile args img) (\<lambda>src.
           bind (target_dockerfile args job_type img image_index base_image src) (\<lambda>dst.
           bind (gets (\<lambda>w. image_name_at (builder_config w) args image_index)) (\<lambda>image_name.
           bind (build_container_image image_name dst (ba_workspace args) (jobtype_dir job_type) logs_filename
                   (ba_build_flags args) (ba_secret_env_vars args)) (\<lambda>build_logs.
           ret (build_logs, image_name))))))))
         (\<lambda>(build_logs, image_name).
         seq (phase_context (''pushing image '' @ step) (ba_deployment_id args) (push_container_image image_name logs_filename))
             (ret (build_logs, image_name))))"

fun cause_of :: "exn \<Rightarrow> exn option" where
  "cause_of (ContextError m c) = c"
| "cause_of (RequestError m c) = c"
| "cause_of (ResponseError m code c) = c"
| "cause_of e = None"

text \<open>An error of a docker command ends the build with the output of the command and the images built so
  far; any other error is raised.\<close>

definition build_failure :: "string \<Rightarrow> string list \<Rightarrow> exn \<Rightarrow> exn + (string list \<times> string \<times> string option)" where
  "build_failure step built_images e =
     (let message = ''building Job image '' @ step
      in case cause_of e of
           Some (CommandError cmd out code) \<Rightarrow>
             if is_ContextError e then Inr (built_images, out, Some (message @ '': '' @ exn_str e))
             else Inl (ContextError message (Some e))
         | _ \<Rightarrow> Inl (ContextError message (Some e)))"

fun build_images :: "build_job_args \<Rightarrow> JobType \<Rightarrow> string \<Rightarrow> nat list \<Rightarrow> string list \<Rightarrow> string list
    \<Rightarrow> ('i, 'x, string list \<times> string \<times> string option) wsm" where
  "build_images args job_type logs_filename [] logs built_images = ret (built_images, join [newline] logs, None)"
| "build_images args job_type logs_filename (image_index # rest) logs built_images =
     try_else (build_one_image args job_type logs_filename image_index) (\<lambda>_. True)
       (\<lambda>e. lift (build_failure (progress image_index (images_num job_type)) built_images e))
       (\<lambda>(build_logs, image_name).
          build_images args job_type logs_filename rest (logs @ [build_logs]) (built_images @ [image_name]))"

definition prepare_job_type_builder :: "build_job_args \<Rightarrow> ('i, 'x, JobType \<times> string) wsm" where
  "prepare_job_type_builder args = phase_context ''preparing job type builder'' (ba_deployment_id args) (
     seq wait_for_docker_engine_ready
     (bind (load_job_type (get_jobtype (ba_manifest args))) (\<lambda>job_type.
      seq (validate_jobtype_manifest job_type (ba_manifest args))
      (bind (gets (\<lambda>w. ib_build_logs_dir (builder_config w))) (\<lambda>logs_dir.
       seq (mkdir_parents (Path logs_dir)) (ret (job_type, logs_dir @ ''/'' @ ba_deployment_id args @ ''.log'')))))))"

definition docker_build :: "build_job_args \<Rightarrow> ('i, 'x, string list \<times> string \<times> string option) wsm" where
  "docker_build args =
     bind (prepare_job_type_builder args) (\<lambda>(job_type, logs_filename).
     build_images args job_type logs_filename [0..<images_num job_type] [] [])"

section \<open>Building a job\<close>

definition fetch_source :: "Manifest \<Rightarrow> Credentials option \<Rightarrow> string option \<Rightarrow> string \<Rightarrow> ('i, 'x, string \<times> string \<times> string) wsm" where
  "fetch_source manifest credentials build_context deployment_id =
     phase_context ''fetching the source code'' deployment_id (
       seq (assert_py (image_type manifest = ''docker'') (''not supported image_type: '' @ image_type manifest))
       (bind (gets (\<lambda>w. path_div (project_root w) ''workspaces'')) (\<lambda>workspaces_path.
        seq (mkdir_parents workspaces_path)
        (bind (path_is_dir workspaces_path) (\<lambda>d.
         seq (assert_py d ''workspaces directory doesn't exist'')
         (bind (prepare_workspace workspaces_path manifest credentials build_context deployment_id)
            (\<lambda>(workspace, repo_dir, git_version).
          bind (gets (\<lambda>w. (ib_verify_manifest_consistency (builder_config w), key_order w, map_of (files w)))) (\<lambda>(verify, order, f).
          seq (if verify \<and> \<not> given build_context then
                 bind (verify_manifest_consistency order f (the_default [] (origin_yaml manifest)) workspace repo_dir) (\<lambda>warnings.
                 if given warnings then report_deployment_warnings deployment_id (the warnings) else ret ())
               else ret ())
          (seq (write_text (path_div workspace ''job.yaml'') (the_default [] (origin_yaml manifest)))
               (ret (workspace, repo_dir, git_version)))))))))))"

definition clean_up_workspace :: "string \<Rightarrow> string \<Rightarrow> ('i, 'x, unit) wsm" where
  "clean_up_workspace repo_dir deployment_id =
     bind (gets (\<lambda>w. ib_clean_up_workspaces (builder_config w))) (\<lambda>clean.
     if clean then
       phase_context ''cleaning up the workspace'' deployment_id (
         bind (gets (\<lambda>w. dirs w repo_dir \<or> map_of (files w) repo_dir \<noteq> None)) (\<lambda>found. if found then rmtree repo_dir else ret ()))
     else ret ())"

definition build_job_image :: "Manifest \<Rightarrow> Credentials option \<Rightarrow> (string, string) dict \<Rightarrow> string \<Rightarrow> string option \<Rightarrow> string
    \<Rightarrow> string list \<Rightarrow> ('i, 'x, string list \<times> string \<times> string option) wsm" where
  "build_job_image manifest credentials secret_env_vars tag build_context deployment_id build_flags =
     bind (fetch_source manifest credentials build_context deployment_id) (\<lambda>(workspace, repo_dir, git_version).
     bind (docker_build \<lparr>ba_manifest = manifest, ba_workspace = workspace, ba_tag = tag, ba_git_version = git_version,
             ba_env_vars = the_default [] (build_env manifest), ba_secret_env_vars = secret_env_vars,
             ba_deployment_id = deployment_id, ba_build_flags = build_flags\<rparr>) (\<lambda>result.
     seq (clean_up_workspace repo_dir deployment_id)
     (seq (report_deployment_phase deployment_id ''finalizing the build'') (ret result))))"

section \<open>Endpoints\<close>

record BuildPayload =
  bp_manifest :: json
  bp_git_credentials :: "Credentials option"
  bp_secret_build_env :: "(string, string) dict option"
  bp_tag :: string
  bp_build_context :: "string option"
  bp_deployment_id :: string
  bp_build_flags :: "string list"

definition BuildingResult :: "string list \<times> string \<times> string option \<Rightarrow> json" where
  "BuildingResult result = (case result of (image_names, logs, err) \<Rightarrow> JObj [
     (''image_names'', JList (map JStr image_names)), (''logs'', JStr logs),
     (''error'', case err of None \<Rightarrow> JNull | Some e \<Rightarrow> JStr e)])"

definition build_payload :: "BuildPayload \<Rightarrow> Manifest \<Rightarrow> ('i, 'x, json) wsm" where
  "build_payload payload manifest =
     bind (build_job_image manifest (bp_git_credentials payload) (the_default [] (bp_secret_build_env payload)) (bp_tag payload)
             (bp_build_context payload) (bp_deployment_id payload) (bp_build_flags payload)) (\<lambda>result.
     ret (BuildingResult result))"

definition build_image_endpoint :: "BuildPayload \<Rightarrow> ('i, 'x, json) wsm" where
  "build_image_endpoint payload = bind (load_manifest_from_dict (bp_manifest payload)) (build_payload payload)"

text \<open>The stream has a number of heartbeats while the build runs.\<close>

definition build_server_sent_events :: "nat \<Rightarrow> BuildPayload \<Rightarrow> ('i, 'x, string) wsm" where
  "build_server_sent_events heartbeats payload =
     bind (load_manifest_from_dict (bp_manifest payload)) (\<lambda>manifest w.
     case build_payload payload manifest w of (r, w') \<Rightarrow> (Inr (stream_result_with_heartbeat heartbeats r), w'))"

definition check_docker :: "('i, 'x, bool) wsm" where
  "check_docker = seq (wrap_context ''docker daemon not ready'' (shell ''docker ps'')) (ret True)"

definition health_response :: "('i, 'x, json \<times> int) wsm" where
  "health_response =
     bind (gets environ) (\<lambda>env.
     let result = [(''service'', JStr ''image-builder''), (''git_version'', JStr (the_default ''dev'' (env ''GIT_VERSION''))),
                   (''docker_tag'', JStr (the_default [] (env ''DOCKER_TAG'')))]
     in try_else check_docker (\<lambda>_. True)
          (\<lambda>e. ret (JObj (result @ [(''status'', JStr ''fail''), (''details'', JStr (exn_str e))]), 500))
          (\<lambda>ok. ret (JObj (result @ [(''status'', JStr (if ok then ''pass'' else ''warn''))]), 200)))"

end
