(* ===== verification/ImageBuilderLaws.thy ===== *)
theory ImageBuilderLaws
  imports ImageBuilder HttpLaws Health
begin

text \<open>
  What the image builder guarantees, whatever git, docker and the plugins do: unapproved flags do not reach
  docker, the file with the build secrets is gone after a build, images are built in order under the names
  the server expects, and nothing but files and the infrastructure changes.
\<close>

section \<open>What a build changes\<close>

lemma keeps_modify: "(\<And>w. P w \<Longrightarrow> P (f w)) \<Longrightarrow> keeps P (modify f)"
  by (simp add: keeps_def modify_def)

text \<open>An invariant of the state that does not look at the files and the infrastructure.\<close>

locale workshop_invariant =
  fixes I :: "('i, 'x) workshop_scheme \<Rightarrow> bool"
  assumes infra_law: "I w \<Longrightarrow> I (w\<lparr>infra := i\<rparr>)"
    and files_law: "I w \<Longrightarrow> I (w\<lparr>files := f\<rparr>)"
    and dirs_law: "I w \<Longrightarrow> I (w\<lparr>dirs := d\<rparr>)"
begin

lemma disk_law: "I w \<Longrightarrow> I (w\<lparr>files := f, dirs := d\<rparr>)" "I w \<Longrightarrow> I (w\<lparr>infra := i, files := f, dirs := d\<rparr>)"
  using files_law dirs_law infra_law by blast+

lemma keeps_files:
  "keeps I (read_text p)" "keeps I (write_text p text)" "keeps I (unlink p)" "keeps I (path_is_file p)" "keeps I (path_is_dir p)"
  "keeps I (mkdir_parents p)" "keeps I (rmtree p)"
  unfolding read_text_def write_text_def unlink_def path_is_file_def path_is_dir_def mkdir_parents_def rmtree_def
  by (auto intro!: keeps_intro keeps_modify intro: files_law dirs_law disk_law split: option.splits)

lemma keeps_finally: "keeps I m \<Longrightarrow> keeps I f \<Longrightarrow> keeps I (try_finally m f)"
  by (auto simp: keeps_def try_finally_def split: sum.splits prod.splits)

lemma keeps_shell_output: "keeps I (shell_output cmd workdir out)"
proof -
  have "keeps I (\<lambda>w. case run_command w cmd workdir (infra w, touch_log out (files w), dirs w) of
          ((stdout, returncode), i, f, d) \<Rightarrow>
            let w' = w\<lparr>infra := i, files := append_log out stdout f, dirs := d\<rparr>
            in if returncode \<noteq> 0 then (Inl (CommandError cmd stdout returncode), w') else (Inr stdout, w'))"
    by (auto simp: keeps_def Let_def disk_law split: prod.splits)
  then show ?thesis
    unfolding shell_output_def by (auto intro!: keeps_intro split: option.splits)
qed

lemma keeps_shell: "keeps I (shell cmd)"
  unfolding shell_def by (intro keeps_intro keeps_shell_output)

lemma keeps_phase:
  "keeps I (report_deployment_phase deployment_id phase)" "keeps I (report_deployment_warnings deployment_id text)"
  "keeps I m \<Longrightarrow> keeps I (phase_context phase deployment_id m)"
  unfolding phase_context_def report_deployment_phase_def report_deployment_warnings_def send_update_def
  by (auto intro!: keeps_intro intro: infra_law split: prod.splits)

lemmas keeps_tools = keeps_files keeps_finally keeps_shell_output keeps_shell keeps_phase

lemma keeps_fetch: "keeps I (fetch_repository workspace manifest credentials)"
  unfolding fetch_repository_def clone_repository_def read_job_git_version_def
  by (auto intro!: keeps_intro keeps_tools split: prod.splits)

lemma keeps_extract: "keeps I (extract_archive archive target)"
  by (auto simp: keeps_def extract_archive_def disk_law split: prod.splits)

lemma keeps_prepare: "keeps I (prepare_workspace workspaces manifest credentials build_context deployment_id)"
  unfolding prepare_workspace_def Let_def
  by (auto intro!: keeps_intro keeps_fetch keeps_extract split: option.splits)

lemma keeps_dockerfiles:
  "keeps I (source_dockerfile args img)" "keeps I (target_dockerfile args job_type img k base_image src)"
  unfolding source_dockerfile_def target_dockerfile_def template_dockerfile_def Let_def
  by (auto intro!: keeps_intro keeps_tools)

lemma keeps_push: "keeps I (push_container_image image_name logs_filename)"
  unfolding push_container_image_def by (intro keeps_intro keeps_tools)

lemma keeps_base_image: "keeps I (build_base_image job_type dockerfile k deployment_id)"
  unfolding build_base_image_def image_exists_in_registry_def Let_def by (auto intro!: keeps_intro keeps_tools keeps_push)

lemma keeps_container: "keeps I (build_container_image image_name dockerfile workspace directory logs flags secrets)"
  unfolding build_container_image_def Let_def by (intro keeps_intro keeps_tools)

lemma keeps_one_image: "keeps I (build_one_image args job_type logs_filename k)"
  unfolding build_one_image_def Let_def
  by (auto intro!: keeps_intro keeps_tools keeps_base_image keeps_dockerfiles keeps_container keeps_push split: option.splits prod.splits)

lemma keeps_images: "keeps I (build_images args job_type logs_filename ks logs built)"
  by (induction ks arbitrary: logs built) (auto intro!: keeps_intro keeps_one_image split: prod.splits)

lemma keeps_prepare_builder: "keeps I (load_job_type selected)" "keeps I (validate_jobtype_manifest job_type manifest)"
    "keeps I wait_for_docker_engine_ready"
  unfolding load_job_type_def on_backoff_def gather_job_types_def validate_job_type_def validate_jobtype_manifest_def
    wait_for_docker_engine_ready_def
  by (auto intro!: keeps_intro keeps_tools intro: infra_law split: option.splits prod.splits)

lemma keeps_docker_build: "keeps I (docker_build args)" "keeps I (prepare_job_type_builder args)"
  unfolding docker_build_def prepare_job_type_builder_def
  by (auto intro!: keeps_intro keeps_tools keeps_prepare_builder keeps_images split: prod.splits)

lemma keeps_manifest_checks: "keeps I (verify_manifest_consistency order f submitted workspace repo_dir)"
  unfolding verify_manifest_consistency_def repo_manifest_def merge_layers_def load_yaml_def load_manifest_dict_from_yaml_def Let_def
  by (auto intro!: keeps_intro split: option.splits prod.splits json.splits)

lemma keeps_build_steps:
  "keeps I (fetch_source manifest credentials build_context deployment_id)" "keeps I (clean_up_workspace repo_dir deployment_id)"
  unfolding fetch_source_def clean_up_workspace_def
  by (auto intro!: keeps_intro keeps_tools keeps_prepare keeps_manifest_checks split: prod.splits)

lemma keeps_build_job_image:
  "keeps I (build_job_image manifest credentials secrets tag build_context deployment_id flags)"
  unfolding build_job_image_def by (auto intro!: keeps_intro keeps_tools keeps_docker_build keeps_build_steps split: prod.splits)

end

text \<open>Everything else of the state is the same: the two invariants the properties below need.\<close>

definition same_but_disk :: "('i, 'x) workshop_scheme \<Rightarrow> ('i, 'x) workshop_scheme \<Rightarrow> bool" where
  "same_but_disk v w \<longleftrightarrow> w\<lparr>infra := infra v, files := files v, dirs := dirs v\<rparr> = v"

lemma same_but_diskD: "same_but_disk v w \<Longrightarrow> w = v\<lparr>infra := infra w, files := files w, dirs := dirs w\<rparr>"
  by (cases v; cases w) (simp add: same_but_disk_def)

interpretation frame: workshop_invariant "same_but_disk v" for v :: "('i, 'x) workshop_scheme"
  by unfold_locales (auto simp: same_but_disk_def)

interpretation configured: workshop_invariant "\<lambda>w :: ('i, 'x) workshop_scheme. builder_config w = cfg" for cfg
  by unfold_locales auto


section \<open>Flags and secrets\<close>

lemma check_build_flags_result:
  "check_build_flags flags = (if list_all (\<lambda>f. f = ''--no-cache'') flags then Inr ()
     else Inl (ValueError (''Flag '' @ [CHR 0x27] @ the (find (\<lambda>f. f \<noteq> ''--no-cache'') flags) @ [CHR 0x27] @ '' is not approved for use.'')))"
  by (induction flags) (auto simp: check_build_flags_def approved_flags_def)

lemma unlink_gone: "unlink p w = (r, w') \<Longrightarrow> map_of (files w') p = None"
  by (auto simp: unlink_def py_run split: if_splits)

lemma try_finally_last: "try_finally m f w = (r, w') \<Longrightarrow> \<exists>v s. f v = (s, w')"
  by (auto simp: try_finally_def split: sum.splits prod.splits)

text \<open>
  C7. A build with a flag other than \<open>--no-cache\<close> is refused before anything happens: no file is written and
  docker is not called. In every other build the file with the secrets of the build is gone afterwards,
  whether docker succeeds, fails or is not reached.
\<close>
theorem build_container_image_safe:
  "case build_container_image image_name dockerfile workspace directory logs flags secrets w of (r, w') \<Rightarrow>
     if list_all (\<lambda>f. f = ''--no-cache'') flags then map_of (files w') (build_secrets_path workspace) = None
     else w' = w \<and> (\<exists>m. r = Inl (ValueError m))"
proof (cases "build_container_image image_name dockerfile workspace directory logs flags secrets w")
  case (Pair r w')
  then show ?thesis
    unfolding build_container_image_def
    by (auto simp: check_build_flags_result run_seq run_lift run_bind run_gets Let_def write_text_def run_modify
        dest!: try_finally_last dest: unlink_gone)
qed

section \<open>Images in order\<close>

text \<open>\<open>yields I m Q\<close>: a value that \<open>m\<close> returns from a state with \<open>I\<close> satisfies \<open>Q\<close>.\<close>

definition yields :: "('w \<Rightarrow> bool) \<Rightarrow> ('w, 'a) py \<Rightarrow> ('a \<Rightarrow> bool) \<Rightarrow> bool" where
  "yields I m Q \<longleftrightarrow> (\<forall>w x w'. I w \<longrightarrow> m w = (Inr x, w') \<longrightarrow> Q x)"

lemma yields_mono: "yields I m Q \<Longrightarrow> (\<And>x. Q x \<Longrightarrow> R x) \<Longrightarrow> yields I m R"
  unfolding yields_def by blast

lemma yields_ret: "Q x \<Longrightarrow> yields I (ret x) Q"
  by (simp add: yields_def ret_def)

lemma yields_lift: "(\<And>x. r = Inr x \<Longrightarrow> Q x) \<Longrightarrow> yields I (lift r) Q"
  by (simp add: yields_def lift_def)

lemma yields_gets: "(\<And>w. I w \<Longrightarrow> Q (f w)) \<Longrightarrow> yields I (gets f) Q"
  by (simp add: yields_def gets_def)

lemma yields_wrap: "yields I m Q \<Longrightarrow> yields I (wrap_context c m) Q"
  by (auto simp: yields_def wrap_context_def split: sum.splits prod.splits)

lemma yields_bind: "keeps I m \<Longrightarrow> (\<And>x. yields I (f x) Q) \<Longrightarrow> yields I (bind m f) Q"
  unfolding yields_def keeps_def by (auto elim!: bind_okE) (metis snd_conv)

lemma yields_bind_gets: "(\<And>w. I w \<Longrightarrow> yields I (g (f w)) Q) \<Longrightarrow> yields I (bind (gets f) g) Q"
  by (auto simp: yields_def bind_def gets_def)

lemma yields_bind_value:
  "yields I m R \<Longrightarrow> keeps I m \<Longrightarrow> (\<And>x. R x \<Longrightarrow> yields I (f x) Q) \<Longrightarrow> yields I (bind m f) Q"
  unfolding yields_def keeps_def by (auto elim!: bind_okE) (metis snd_conv)

lemma yields_seq: "keeps I m \<Longrightarrow> yields I k Q \<Longrightarrow> yields I (seq m k) Q"
  unfolding seq_def by (rule yields_bind)

lemma yields_phase: "yields (\<lambda>w. builder_config w = cfg) m Q
    \<Longrightarrow> yields (\<lambda>w. builder_config w = cfg) (phase_context phase deployment_id m) Q"
  unfolding phase_context_def by (intro yields_seq yields_wrap configured.keeps_phase)

lemma yields_one_image:
  "yields (\<lambda>w. builder_config w = cfg) (build_one_image args job_type logs_filename k) (\<lambda>(logs, name). name = image_name_at cfg args k)"
  unfolding build_one_image_def Let_def
  by (rule yields_bind_value [where R = "\<lambda>(logs, name). name = image_name_at cfg args k"], rule yields_phase,
      rule yields_bind [rotated], rule yields_bind [rotated], rule yields_bind [rotated], rule yields_bind_gets, rule yields_bind [rotated])
    (auto intro!: yields_ret yields_seq keeps_intro configured.keeps_tools configured.keeps_base_image
       configured.keeps_dockerfiles configured.keeps_container configured.keeps_push split: option.splits prod.splits)

text \<open>
  The result of building some images: those built before, then the names of the images in order, all of
  them exactly when there is no error.
\<close>

lemma yields_images:
  "yields (\<lambda>w :: ('i, 'x) workshop_scheme. builder_config w = cfg) (build_images args job_type logs_filename ks logs built)
     (\<lambda>(names, text, err). \<exists>n \<le> length ks. names = built @ map (image_name_at cfg args) (take n ks) \<and> (err = None \<longleftrightarrow> n = length ks))"
proof (induction ks arbitrary: logs built)
  case Nil
  show ?case by (simp add: yields_ret)
next
  case (Cons k ks)
  show ?case
    unfolding yields_def
  proof (intro allI impI)
    fix w x and w' :: "('i, 'x) workshop_scheme"
    assume cfg: "builder_config w = cfg" and run: "build_images args job_type logs_filename (k # ks) logs built w = (Inr x, w')"
    obtain r v where one: "build_one_image args job_type logs_filename k w = (r, v)" by fastforce
    have v: "builder_config v = cfg" using keepsD [OF configured.keeps_one_image cfg one] .
    show "case x of (names, text, err) \<Rightarrow> \<exists>n \<le> length (k # ks).
        names = built @ map (image_name_at cfg args) (take n (k # ks)) \<and> (err = None \<longleftrightarrow> n = length (k # ks))"
    proof (cases r)
      case (Inl e)
      then have "build_failure (progress k (images_num job_type)) built e = Inr x"
        using run one by (simp add: run_try_else run_lift)
      then have "\<exists>text err. x = (built, text, Some err)"
        by (auto simp: build_failure_def Let_def split: option.splits exn.splits if_splits)
      then show ?thesis by (auto intro: exI [of _ 0])
    next
      case (Inr y)
      then obtain log where y: "y = (log, image_name_at cfg args k)"
        using yields_one_image [of cfg args job_type logs_filename k] one cfg
        by (cases y) (auto simp: yields_def)
      have rest: "build_images args job_type logs_filename ks (logs @ [log]) (built @ [image_name_at cfg args k]) v = (Inr x, w')"
        using run one Inr y by (simp add: run_try_else)
      have "case x of (names, text, err) \<Rightarrow> \<exists>n \<le> length ks.
          names = (built @ [image_name_at cfg args k]) @ map (image_name_at cfg args) (take n ks) \<and> (err = None \<longleftrightarrow> n = length ks)"
        using Cons.IH [unfolded yields_def, rule_format, OF v rest] .
      then show ?thesis by (force intro: exI [of _ "Suc n" for n])
    qed
  qed
qed

lemma loaded_job_type_images: "load_job_type selected v = (Inr job_type, v') \<Longrightarrow> images job_type \<noteq> []"
proof -
  assume load: "load_job_type selected v = (Inr job_type, v')"
  have "images job_type \<noteq> []" if "validate_job_type job_type u = (Inr (), u')" for u u' :: "('a, 'b) cluster_scheme"
    using that by (auto simp: validate_job_type_def run_seq run_assert split: if_splits)
  then show ?thesis
    using load unfolding load_job_type_def on_backoff_def
    by (auto elim!: bind_okE dest!: retry_ok simp: run_seq run_ret run_raise split: option.splits sum.splits prod.splits)
qed

text \<open>A result of the builder: the first images of a loaded job type under their names, all of them without an error.\<close>

definition in_order :: "BuilderConfig \<Rightarrow> Manifest \<Rightarrow> string \<Rightarrow> nat \<Rightarrow> string list \<times> string \<times> string option \<Rightarrow> bool" where
  "in_order cfg manifest tag n = (\<lambda>(names, logs, err).
     length names \<le> n \<and> (err = None \<longleftrightarrow> length names = n)
     \<and> names = map (get_job_image (ib_docker_registry cfg) (ib_docker_registry_namespace cfg) (mf_name manifest) tag) [0..<length names])"

definition job_type_of_images :: "('i, 'x) workshop_scheme itself \<Rightarrow> Manifest \<Rightarrow> nat \<Rightarrow> bool" where
  "job_type_of_images ty manifest n \<longleftrightarrow> (\<exists>job_type. \<exists>u u' :: ('i, 'x) workshop_scheme.
     load_job_type (get_jobtype manifest) u = (Inr job_type, u') \<and> images_num job_type = n \<and> 0 < n)"

lemma yields_prepared:
  "yields (\<lambda>w :: ('i, 'x) workshop_scheme. builder_config w = cfg) (prepare_job_type_builder args)
     (\<lambda>(job_type, logs_filename). job_type_of_images TYPE(('i, 'x) workshop_scheme) (ba_manifest args) (images_num job_type))"
proof -
  let ?R = "\<lambda>job_type. job_type_of_images TYPE(('i, 'x) workshop_scheme) (ba_manifest args) (images_num job_type)"
  have "yields (\<lambda>w :: ('i, 'x) workshop_scheme. builder_config w = cfg) (load_job_type (get_jobtype (ba_manifest args))) ?R"
    using loaded_job_type_images by (fastforce simp: yields_def job_type_of_images_def images_num_def)
  note load = yields_bind_value [where R = ?R, OF this configured.keeps_prepare_builder(1)]
  show ?thesis
    unfolding prepare_job_type_builder_def
    by (intro yields_phase yields_seq load yields_bind_gets yields_ret configured.keeps_tools configured.keeps_prepare_builder) simp
qed

lemma yields_docker_build:
  "yields (\<lambda>w :: ('i, 'x) workshop_scheme. builder_config w = cfg) (docker_build args)
    (\<lambda>r. \<exists>n. job_type_of_images TYPE(('i, 'x) workshop_scheme) (ba_manifest args) n \<and> in_order cfg (ba_manifest args) (ba_tag args) n r)"
proof -
  have "in_order cfg (ba_manifest args) (ba_tag args) (images_num job_type) r"
    if "case r of (names, logs, err) \<Rightarrow> \<exists>n \<le> length [0..<images_num job_type].
          names = [] @ map (image_name_at cfg args) (take n [0..<images_num job_type]) \<and> (err = None \<longleftrightarrow> n = length [0..<images_num job_type])"
    for r job_type
    using that by (auto simp: in_order_def image_name_at_def)
  then have "yields (\<lambda>w :: ('i, 'x) workshop_scheme. builder_config w = cfg)
      (build_images args job_type logs_filename [0..<images_num job_type] [] [])
      (in_order cfg (ba_manifest args) (ba_tag args) (images_num job_type))" for job_type logs_filename
    by (rule yields_mono [OF yields_images])
  note built = yields_mono [OF this]
  show ?thesis
    unfolding docker_build_def
    by (rule yields_bind_value [OF yields_prepared configured.keeps_docker_build(2)]) (auto intro: built split: prod.splits)
qed


section \<open>Remotes and directories\<close>

text \<open>A slash in the credentials is not quoted, so that the host of the remote changes; and an absolute
  directory in a manifest leaves the workspace.\<close>

lemma credentials_with_slash:
  "git_remote_with_credentials ''https://github.com/team/jobs'' (Some \<lparr>cred_username = ''u'', cred_password = ''a/b''\<rparr>)
     = Inr ''https://u:a/b@github.com/team/jobs''
   \<and> map_option url_hostname (case urlsplit ''https://u:a/b@github.com/team/jobs'' of Inr r \<Rightarrow> Some r | Inl e \<Rightarrow> None) = Some (Some ''u'')
   \<and> map_option url_hostname (case urlsplit ''https://u:ab@github.com/team/jobs'' of Inr r \<Rightarrow> Some r | Inl e \<Rightarrow> None) = Some (Some ''github.com'')"
  by code_simp

lemma git_directory_not_confined:
  "is_absolute (git_directory (git manifest)) \<Longrightarrow> path_div workspace (git_directory (git manifest)) = Path (git_directory (git manifest))"
  by (simp add: path_div_def Path_def)

end
