(* ===== verification/VersionOrder.thy ===== *)
theory VersionOrder
  imports Semver
begin

text \<open>
  Sorting by version, as plugins and the releases of plugins are: the keys of a list that could be parsed,
  and the last element of a sorted list that satisfies a condition.
\<close>

lemma parse_versions_InrD:
  "parse_versions key xs = Inr ps \<Longrightarrow> ps = map (\<lambda>x. (case SemanticVersion (key x) of Inr v \<Rightarrow> v, x)) xs"
  by (induction xs arbitrary: ps) (auto split: sum.splits)

lemma sort_key_map: "sort_key f (map g xs) = map g (sort_key (f \<circ> g) xs)"
proof -
  have "insort_key f (g x) (map g ys) = map g (insort_key (f \<circ> g) x ys)" for x ys
    by (induction ys) auto
  then show ?thesis by (induction xs) auto
qed

lemma sorted_le_last: "sorted (map f ys) \<Longrightarrow> y \<in> set ys \<Longrightarrow> f y \<le> f (last ys)"
proof (induction ys)
  case (Cons a ys)
  then show ?case by (cases "ys = []") auto
qed simp

lemma last_filter_sorted:
  assumes "filter P (sort_key f xs) \<noteq> []"
  shows "last (filter P (sort_key f xs)) \<in> set xs \<and> P (last (filter P (sort_key f xs)))
    \<and> (\<forall>x \<in> set xs. P x \<longrightarrow> f x \<le> f (last (filter P (sort_key f xs))))"
  using last_in_set [OF assms] sorted_le_last [of f "filter P (sort_key f xs)"] by (simp add: sorted_filter)

lemma parse_versions_set: "(\<exists>ps. parse_versions key xs = Inr ps) \<longleftrightarrow> (\<forall>x \<in> set xs. \<exists>v. SemanticVersion (key x) = Inr v)"
  by (induction xs) (auto split: sum.splits)

end
