(* ===== verification/PluginFiles.thy ===== *)
theory PluginFiles
  imports Files FileMatcher Urls Endpoints VersionOrder
begin

text \<open>
  Plugin files (\<open>racetrack_commons/plugin/engine.py\<close>, \<open>plugin/loader.py\<close>) and the endpoints that manage plugins
  (\<open>lifecycle/endpoints/plugin.py\<close>): loading all plugins of a directory in their order, uploading, replacing
  and deleting archives, configuration files, and the reload when another process changed the directory.
  Unpacking an archive, parsing a plugin manifest and executing the class of a plugin are parameters, as
  are the name of the temporary directory and the hooks for documentation and actions. Permission bits
  are not modelled.
\<close>

section \<open>State\<close>

record 'i plugin_host = "'i machine" +
  plugins_path :: string
  last_change_timestamp :: int
  component_name :: string
  unzip :: "string \<Rightarrow> exn + (string, string) dict"
  parse_plugin_manifest :: "string \<Rightarrow> exn + PluginManifest"
  run_plugin_class :: "string \<Rightarrow> string \<Rightarrow> PluginManifest \<Rightarrow> 'i \<times> (string, string) dict \<times> directories
    \<Rightarrow> (exn + 'i PluginData) \<times> 'i \<times> (string, string) dict \<times> directories"
  mkdtemp :: string
  randint :: nat
  hook_markdown_docs :: "'i PluginData \<Rightarrow> ('i, string option) py option"
  hook_run_action :: "'i PluginData \<Rightarrow> (string, json) dict \<Rightarrow> ('i, json) py option"

type_synonym ('i, 'x, 'a) phm = "(('i, 'x) plugin_host_scheme, 'a) py"

text \<open>\<open>path.suffix\<close> and \<open>path.stem\<close>.\<close>

definition has_suffix :: "string \<Rightarrow> bool" where
  "has_suffix p = (let n = path_name p; ext = after_last CHR ''.'' n
     in CHR ''.'' \<in> set n \<and> ext \<noteq> [] \<and> length ext + 1 < length n)"

definition path_suffix :: "string \<Rightarrow> string" where
  "path_suffix p = (if has_suffix p then CHR ''.'' # after_last CHR ''.'' (path_name p) else [])"

definition path_stem :: "string \<Rightarrow> string" where
  "path_stem p = take (length (path_name p) - length (path_suffix p)) (path_name p)"

section \<open>Loading\<close>

definition EXTRACTED_PLUGINS_DIR :: string where "EXTRACTED_PLUGINS_DIR = ''extracted''"
definition PLUGINS_CONFIG_DIR :: string where "PLUGINS_CONFIG_DIR = ''config''"
definition PLUGIN_CONFIG_FILENAME :: string where "PLUGIN_CONFIG_FILENAME = ''config.yaml''"
definition PLUGIN_MANIFEST_FILENAME :: string where "PLUGIN_MANIFEST_FILENAME = ''plugin-manifest.yaml''"
definition LAST_CHANGE_FILE :: string where "LAST_CHANGE_FILE = ''last-change.txt''"

definition ensure_dir_exists :: "string \<Rightarrow> ('i, 'x, unit) phm" where
  "ensure_dir_exists p = bind (path_is_dir p) (\<lambda>d. if d then ret () else mkdir_parents p)"

definition load_plugin_manifest :: "string \<Rightarrow> ('i, 'x, PluginManifest) phm" where
  "load_plugin_manifest directory =
     (let manifest_file = path_div directory PLUGIN_MANIFEST_FILENAME
      in bind (path_is_file manifest_file) (\<lambda>f.
         seq (assert_py f (''plugin manifest file was not found in '' @ manifest_file))
         (bind (read_text manifest_file) (\<lambda>yaml_str.
          bind (gets (\<lambda>w. parse_plugin_manifest w yaml_str)) lift))))"

definition install_plugin_dependencies :: "string \<Rightarrow> ('i, 'x, unit) phm" where
  "install_plugin_dependencies directory =
     bind (path_is_file (path_div directory ''requirements.txt'')) (\<lambda>f.
     if f then seq (shell_output ''python -m pip install --user -r requirements.txt'' (Some directory) None) (ret ()) else ret ())"

text \<open>Executing the module of a plugin may change anything on the disk and the infrastructure.\<close>

definition load_plugin_class :: "string \<Rightarrow> string \<Rightarrow> PluginManifest \<Rightarrow> ('i, 'x, 'i PluginData) phm" where
  "load_plugin_class directory config_file manifest = (\<lambda>w.
     case run_plugin_class w directory config_file manifest (infra w, files w, dirs w) of
       (r, i, f, d) \<Rightarrow> (r, w\<lparr>infra := i, files := f, dirs := d\<rparr>))"

text \<open>A plugin that is meant for other components has the hooks of the base class, which do nothing.\<close>

definition plugin_core :: "'i PluginData" where
  "plugin_core = \<lparr>plugin_manifest = \<lparr>pm_name = [], pm_version = [], build_date = None, pm_url = None, priority = 0, category = None, pm_components = []\<rparr>,
     plugin_dir = [], zip_path = [], config_path = [],
     hook_infrastructure_targets = Some (ret (Some [])), hook_job_types = Some (ret (Some [])),
     hook_post_job_deploy = Some (\<lambda>m j i u. ret ()), hook_post_job_delete = Some (\<lambda>j u. ret ())\<rparr>"

definition eligible_for_loading :: "string \<Rightarrow> PluginManifest \<Rightarrow> bool" where
  "eligible_for_loading my_component manifest \<longleftrightarrow> pm_components manifest = [] \<or> my_component \<in> set (pm_components manifest)"

definition load_plugin_from_dir :: "string \<Rightarrow> string \<Rightarrow> string \<Rightarrow> ('i, 'x, 'i PluginData) phm" where
  "load_plugin_from_dir directory config_file zip_file =
     bind (load_plugin_manifest directory) (\<lambda>manifest.
     bind (gets component_name) (\<lambda>my_component.
     bind (if eligible_for_loading my_component manifest then
             seq (install_plugin_dependencies directory) (load_plugin_class directory config_file manifest)
           else ret plugin_core) (\<lambda>plugin.
     ret (plugin\<lparr>plugin_manifest := manifest, plugin_dir := directory, zip_path := zip_file, config_path := config_file\<rparr>))))"

fun write_members :: "string \<Rightarrow> (string, string) dict \<Rightarrow> ('i, 'x, unit) phm" where
  "write_members directory [] = ret ()"
| "write_members directory ((member, text) # rest) =
     (let p = path_div directory member in seq (mkdir_parents (parent p)) (seq (write_text p text) (write_members directory rest)))"

definition extract_plugin :: "string \<Rightarrow> string \<Rightarrow> ('i, 'x, unit) phm" where
  "extract_plugin zip_file directory =
     seq (mkdir_parents directory)
     (bind (read_text zip_file) (\<lambda>content.
      bind (gets (\<lambda>w. unzip w content)) (\<lambda>r. bind (lift r) (write_members directory))))"

definition touch_file :: "string \<Rightarrow> ('i, 'x, unit) phm" where
  "touch_file p = bind (path_is_file p) (\<lambda>f. if f then ret () else write_text p [])"

definition load_plugin_from_zip :: "string \<Rightarrow> ('i, 'x, 'i PluginData) phm" where
  "load_plugin_from_zip zip_file = wrap_context (''loading plugin from '' @ path_name zip_file) (
     let extracted_plugins_dir = path_div (parent zip_file) EXTRACTED_PLUGINS_DIR;
         extracted_plugin_path = path_div extracted_plugins_dir (path_stem zip_file);
         plugin_config_dir = path_div (path_div (parent zip_file) PLUGINS_CONFIG_DIR) (path_stem zip_file);
         config_file = path_div plugin_config_dir PLUGIN_CONFIG_FILENAME
     in bind (path_is_file zip_file) (\<lambda>f.
        seq (assert_py f (''no such file '' @ zip_file))
        (seq (ensure_dir_exists extracted_plugins_dir)
        (seq (ensure_dir_exists (parent plugin_config_dir))
        (seq (ensure_dir_exists plugin_config_dir)
        (seq (touch_file config_file)
        (seq (bind (path_is_dir extracted_plugin_path) (\<lambda>d. if d then ret () else extract_plugin zip_file extracted_plugin_path))
             (load_plugin_from_dir extracted_plugin_path config_file zip_file))))))))"

text \<open>\<open>sorted(path.glob('*.zip'))\<close>.\<close>

definition zip_files :: "string \<Rightarrow> (string, string) dict \<Rightarrow> string list" where
  "zip_files directory f =
     sort (remdups (filter (\<lambda>p. parent p = Path directory \<and> fnmatchcase (path_name p) ''*.zip'') (keys f)))"

text \<open>The stable sort by priority and version; versions are parsed for the keys.\<close>

definition sort_plugins :: "'i PluginData list \<Rightarrow> exn + 'i PluginData list" where
  "sort_plugins ps =
     (case parse_versions (\<lambda>p. pm_version (plugin_manifest p)) ps of
        Inl e \<Rightarrow> Inl e
      | Inr vps \<Rightarrow> Inr (map snd (sort_key (\<lambda>(v, p). (priority (plugin_manifest p), v)) vps)))"

definition load_plugins_from_dir :: "string \<Rightarrow> ('i, 'x, 'i PluginData list) phm" where
  "load_plugins_from_dir directory =
     seq (ensure_dir_exists directory)
     (bind (gets (\<lambda>w. zip_files directory (files w))) (\<lambda>zips.
      bind (map_py load_plugin_from_zip zips) (\<lambda>ps. lift (sort_plugins ps))))"

section \<open>The engine\<close>

definition load_plugins :: "('i, 'x, unit) phm \<Rightarrow> ('i, 'x, unit) phm" where
  "load_plugins on_reload = wrap_context ''Loading plugins'' (
     bind (gets plugins_path) (\<lambda>directory.
     bind (load_plugins_from_dir directory) (\<lambda>ps.
     seq (modify (\<lambda>w. w\<lparr>plugins_data := ps\<rparr>)) on_reload)))"

definition read_last_change_timestamp :: "('i, 'x, int) phm" where
  "read_last_change_timestamp =
     bind (gets (\<lambda>w. map_of (files w) (path_div (plugins_path w) LAST_CHANGE_FILE))) (\<lambda>f.
     case f of None \<Rightarrow> ret 0 | Some txt \<Rightarrow> if txt = [] then ret 0 else lift (py_int (strip txt)))"

definition record_last_change :: "('i, 'x, unit) phm" where
  "record_last_change =
     bind now (\<lambda>t.
     seq (modify (\<lambda>w. w\<lparr>last_change_timestamp := datetime_to_timestamp t\<rparr>))
     (bind (gets (\<lambda>w. path_div (plugins_path w) LAST_CHANGE_FILE)) (\<lambda>change_file.
      seq (touch_file change_file) (write_text change_file (int_to_str (datetime_to_timestamp t))))))"

text \<open>The start of the engine before it watches the directory, and what it does on a change or every minute;
  errors are only logged.\<close>

definition logged :: "('i, 'x, unit) phm \<Rightarrow> ('i, 'x, unit) phm" where
  "logged m = try_except m (\<lambda>_. True) (\<lambda>e. ret ())"

definition start_engine :: "('i, 'x, unit) phm \<Rightarrow> ('i, 'x, unit) phm" where
  "start_engine on_reload =
     seq (logged (load_plugins on_reload))
     (bind read_last_change_timestamp (\<lambda>t.
      seq (modify (\<lambda>w. w\<lparr>last_change_timestamp := t\<rparr>)) (if t = 0 then record_last_change else ret ())))"

definition compare_changes :: "('i, 'x, unit) phm \<Rightarrow> ('i, 'x, unit) phm" where
  "compare_changes on_reload = logged (
     bind read_last_change_timestamp (\<lambda>new_timestamp.
     bind (gets last_change_timestamp) (\<lambda>old.
     if old \<noteq> new_timestamp then
       seq (modify (\<lambda>w. w\<lparr>last_change_timestamp := new_timestamp\<rparr>)) (load_plugins on_reload)
     else ret ())))"

definition delete_plugin_files :: "string \<Rightarrow> ('i, 'x, bool) phm" where
  "delete_plugin_files stem =
     bind (gets plugins_path) (\<lambda>directory.
     let extracted_dir = path_div (path_div directory EXTRACTED_PLUGINS_DIR) stem; zip_file = path_div directory (stem @ ''.zip'')
     in bind (path_is_dir extracted_dir) (\<lambda>d.
        seq (if d then rmtree extracted_dir else ret ())
        (bind (path_is_file zip_file) (\<lambda>f.
         seq (if f then unlink zip_file else ret ()) (ret (d \<or> f))))))"

definition delete_older_plugins :: "string \<Rightarrow> ('i, 'x, unit) phm" where
  "delete_older_plugins plugin_name =
     bind (find_plugins plugin_name None) (\<lambda>ps.
     for_each ps (\<lambda>p. seq (delete_plugin_files (path_stem (zip_path p))) (ret ())))"

definition delete_older_plugin_version :: "string \<Rightarrow> string \<Rightarrow> ('i, 'x, unit) phm" where
  "delete_older_plugin_version plugin_name plugin_version =
     seq (try_except
       (bind (find_plugin plugin_name (Some plugin_version)) (\<lambda>p. delete_plugin_files (path_stem (zip_path p))))
       is_EntityNotFound (\<lambda>_. delete_plugin_files (plugin_name @ ''-'' @ plugin_version))) (ret ())"

definition infrastructure_exists :: string where
  "infrastructure_exists = ''Infrastructure plugin with same name already exists. There can not be multiple infrastructure plugins ''
     @ ''with the same name. Use --replace if you want to replace the existing infrastructure pluging. ''"

definition move_file :: "string \<Rightarrow> string \<Rightarrow> ('i, 'x, unit) phm" where
  "move_file source target = bind (read_text source) (\<lambda>content. seq (write_text target content) (unlink source))"

text \<open>The part of an upload that works in the temporary directory.\<close>

definition install_upload :: "string \<Rightarrow> string \<Rightarrow> string \<Rightarrow> bool \<Rightarrow> ('i, 'x, 'i PluginData) phm" where
  "install_upload tmp_dir filename file_bytes replace =
     seq (assert_py (path_suffix filename = ''.zip'') ''.zip plugins are only supported'')
     (bind (gets (\<lambda>w. path_div tmp_dir (''tmp_'' @ nat_to_str (randint w) @ ''.zip''))) (\<lambda>tmp_zip.
      seq (write_text tmp_zip file_bytes)
      (bind (load_plugin_from_zip tmp_zip) (\<lambda>plugin.
       let plugin_name = pm_name (plugin_manifest plugin); plugin_version = pm_version (plugin_manifest plugin)
       in seq (if category (plugin_manifest plugin) = Some ''infrastructure'' then
                 bind (find_plugins plugin_name None) (\<lambda>ps.
                 if \<not> replace \<and> list_ex (\<lambda>p. category (plugin_manifest p) = Some ''infrastructure'') ps
                 then raise (AlreadyExists infrastructure_exists) else ret ())
               else ret ())
          (seq (if replace then delete_older_plugins plugin_name else delete_older_plugin_version plugin_name plugin_version)
          (bind (gets plugins_path) (\<lambda>directory.
           seq (move_file tmp_zip (path_div directory (plugin_name @ ''-'' @ plugin_version @ ''.zip''))) (ret plugin))))))))"

definition upload_plugin :: "('i, 'x, unit) phm \<Rightarrow> string \<Rightarrow> string \<Rightarrow> bool \<Rightarrow> ('i, 'x, PluginManifest) phm" where
  "upload_plugin on_reload filename file_bytes replace =
     bind (gets mkdtemp) (\<lambda>tmp_dir.
     seq (mkdir_parents tmp_dir)
     (bind (try_finally (install_upload tmp_dir filename file_bytes replace) (rmtree tmp_dir)) (\<lambda>plugin.
      seq (load_plugins on_reload) (seq record_last_change (ret (plugin_manifest plugin))))))"

definition read_plugin_config :: "string \<Rightarrow> string \<Rightarrow> ('i, 'x, string) phm" where
  "read_plugin_config name version = bind (find_plugin name (Some version)) (\<lambda>p. read_text (config_path p))"

definition write_plugin_config :: "('i, 'x, unit) phm \<Rightarrow> string \<Rightarrow> string \<Rightarrow> string \<Rightarrow> ('i, 'x, unit) phm" where
  "write_plugin_config on_reload name version config_text =
     bind (find_plugin name (Some version)) (\<lambda>p.
     seq (write_text (config_path p) config_text) (seq record_last_change (load_plugins on_reload)))"

definition delete_plugin_by_version :: "('i, 'x, unit) phm \<Rightarrow> string \<Rightarrow> string \<Rightarrow> ('i, 'x, unit) phm" where
  "delete_plugin_by_version on_reload name version =
     seq (try_except
       (bind (find_plugin name (Some version)) (\<lambda>p. seq (delete_plugin_files (path_stem (zip_path p))) (ret ())))
       is_EntityNotFound
       (\<lambda>e. bind (delete_plugin_files (name @ ''-'' @ version)) (\<lambda>deleted. if deleted then ret () else raise e)))
     (seq record_last_change (load_plugins on_reload))"

definition delete_all_plugins :: "('i, 'x, unit) phm \<Rightarrow> ('i, 'x, unit) phm" where
  "delete_all_plugins on_reload =
     bind (gets (\<lambda>w. zip_files (plugins_path w) (files w))) (\<lambda>zips.
     seq (for_each zips unlink)
     (bind (gets (\<lambda>w. path_div (plugins_path w) EXTRACTED_PLUGINS_DIR)) (\<lambda>extracted_dir.
      bind (path_is_dir extracted_dir) (\<lambda>d.
      seq (if d then rmtree extracted_dir else ret ())
      (seq record_last_change (load_plugins on_reload))))))"

section \<open>Endpoints\<close>

text \<open>A missing archive is answered with status 404, written as None.\<close>

definition download_installed_plugin_version :: "string \<Rightarrow> string \<Rightarrow> ('i, 'x, string option) phm" where
  "download_installed_plugin_version plugin_name plugin_version =
     gets (\<lambda>w. map_of (files w) (path_div (plugins_path w) (plugin_name @ ''-'' @ plugin_version @ ''.zip'')))"

definition info_plugins :: "('i, 'x, PluginManifest list) phm" where
  "info_plugins = plugin_manifests"

definition plugin_properties :: "string \<Rightarrow> string \<Rightarrow> (string, json) dict" where
  "plugin_properties plugin_name plugin_version = [(''plugin_name'', JStr plugin_name), (''plugin_version'', JStr plugin_version)]"

definition log_event_plugin_installed :: "string \<Rightarrow> string \<Rightarrow> string \<Rightarrow> ('x, unit) lcm" where
  "log_event_plugin_installed plugin_name plugin_version username =
     log_event (event_type_value PLUGIN_INSTALLED) (Some (plugin_properties plugin_name plugin_version)) (Some username) None None None"

definition log_event_plugin_uninstalled :: "string \<Rightarrow> string \<Rightarrow> string \<Rightarrow> ('x, unit) lcm" where
  "log_event_plugin_uninstalled plugin_name plugin_version username =
     log_event (event_type_value PLUGIN_UNINSTALLED) (Some (plugin_properties plugin_name plugin_version)) (Some username) None None None"

definition upload_plugin_bytes :: "string \<Rightarrow> string \<Rightarrow> int \<Rightarrow> Request \<Rightarrow> ('i, 'x, PluginManifest) phm" where
  "upload_plugin_bytes filename file_bytes replace request =
     seq (check_staff_user request)
     (bind (get_username_from_token request) (\<lambda>username.
      bind (upload_plugin on_plugins_reload filename file_bytes (replace \<noteq> 0)) (\<lambda>manifest.
      seq (log_event_plugin_installed (pm_name manifest) (pm_version manifest) username) (ret manifest))))"

definition upload_plugin_form :: "string \<Rightarrow> string \<Rightarrow> int \<Rightarrow> Request \<Rightarrow> ('i, 'x, unit) phm" where
  "upload_plugin_form filename file_bytes replace request =
     seq (check_staff_user request)
     (bind (get_username_from_token request) (\<lambda>username.
      bind (upload_plugin on_plugins_reload filename file_bytes (replace \<noteq> 0)) (\<lambda>manifest.
      log_event_plugin_installed (pm_name manifest) (pm_version manifest) username)))"

definition delete_plugin_endpoint :: "string \<Rightarrow> string \<Rightarrow> Request \<Rightarrow> ('i, 'x, unit) phm" where
  "delete_plugin_endpoint plugin_name plugin_version request =
     seq (check_staff_user request)
     (bind (get_username_from_token request) (\<lambda>username.
      seq (delete_plugin_by_version on_plugins_reload plugin_name plugin_version)
          (log_event_plugin_uninstalled plugin_name plugin_version username)))"

definition delete_all_plugins_endpoint :: "Request \<Rightarrow> ('i, 'x, unit) phm" where
  "delete_all_plugins_endpoint request = seq (check_staff_user request) (delete_all_plugins on_plugins_reload)"

definition read_plugin_config_endpoint :: "string \<Rightarrow> string \<Rightarrow> Request \<Rightarrow> ('i, 'x, string) phm" where
  "read_plugin_config_endpoint plugin_name plugin_version request =
     seq (check_staff_user request) (read_plugin_config plugin_name plugin_version)"

definition write_plugin_config_endpoint :: "string \<Rightarrow> string \<Rightarrow> string \<Rightarrow> Request \<Rightarrow> ('i, 'x, unit) phm" where
  "write_plugin_config_endpoint config_data plugin_name plugin_version request =
     seq (check_staff_user request) (write_plugin_config on_plugins_reload plugin_name plugin_version config_data)"

definition info_plugin_docs :: "string \<Rightarrow> ('i, 'x, string option) phm" where
  "info_plugin_docs plugin_name =
     bind (gets hook_markdown_docs) (\<lambda>hook.
     bind (invoke_one_plugin_hook plugin_name ''markdown_docs'' hook) (\<lambda>r. ret (case r of None \<Rightarrow> None | Some docs \<Rightarrow> docs)))"

definition run_plugin_action :: "string \<Rightarrow> (string, json) dict \<Rightarrow> (string, json) dict \<Rightarrow> Request \<Rightarrow> ('i, 'x, json option) phm" where
  "run_plugin_action plugin_name query_params payload_params request =
     seq (check_staff_user request)
     (bind (gets hook_run_action) (\<lambda>hook.
      invoke_one_plugin_hook plugin_name ''run_action'' (\<lambda>p. hook p (dict_update query_params payload_params))))"

definition get_job_type_versions :: "('i, 'x, string list) phm" where
  "get_job_type_versions = gets (\<lambda>w. sort (keys (cached_job_types w)))"

definition get_infrastructure_targets :: "('i, 'x, (string, PluginManifest) dict) phm" where
  "get_infrastructure_targets = list_infrastructure_names_with_origins"

text \<open>The plugins with what they provide, and how many jobs use it.\<close>

record usage_data =
  ud_name :: string
  ud_active_jobs :: nat

record provider_data =
  pd_name :: string
  pd_version :: string
  pd_provided :: "usage_data list"

record PluginsData =
  plugins :: "PluginManifest list"
  job_type_plugins_data :: "provider_data list"
  infrastructure_plugins_data :: "provider_data list"

definition count_of :: "string \<Rightarrow> string list \<Rightarrow> nat" where
  "count_of x xs = length (filter (\<lambda>y. y = x) xs)"

text \<open>The names grouped by plugin and version, in the order of the first name of each group.\<close>

definition group_by_plugin :: "(PluginManifest \<times> string) list \<Rightarrow> (string \<times> string, string list) dict" where
  "group_by_plugin = (\<lambda>ps. fold (\<lambda>(m, name) d.
     let k = (pm_name m, pm_version m) in dict_set k (the_default [] (map_of d k) @ [name]) d) ps [])"

definition provider_list :: "(PluginManifest \<times> string) list \<Rightarrow> string list \<Rightarrow> provider_data list" where
  "provider_list provided used =
     sort_key (\<lambda>p. (pd_name p, pd_version p))
       (map (\<lambda>((name, version), names). \<lparr>pd_name = name, pd_version = version,
               pd_provided = map (\<lambda>n. \<lparr>ud_name = n, ud_active_jobs = count_of n used\<rparr>) names\<rparr>) (group_by_plugin provided))"

definition get_plugins_data :: "('i, 'x, PluginsData) phm" where
  "get_plugins_data =
     bind list_job_models (\<lambda>job_models.
     let job_types = map (\<lambda>m. the_str (attr m ''job_type_version'')) job_models;
         targets = filter (\<lambda>t. t \<noteq> []) (map (\<lambda>m. the_default [] (opt_str (attr m ''infrastructure_target''))) job_models)
     in bind list_jobtype_names_of_plugins (\<lambda>provided_types.
        bind list_infrastructure_names_of_plugins (\<lambda>provided_targets.
        bind plugin_manifests (\<lambda>manifests.
        ret \<lparr>plugins = manifests, job_type_plugins_data = provider_list provided_types job_types,
             infrastructure_plugins_data = provider_list provided_targets targets\<rparr>))))"

section \<open>Which plugin is found\<close>

definition plugin_version :: "'i PluginData \<Rightarrow> semantic_version" where
  "plugin_version p = (case SemanticVersion (pm_version (plugin_manifest p)) of Inr v \<Rightarrow> v)"

definition rank :: "'i PluginData \<Rightarrow> int \<times> semantic_version" where
  "rank p = (priority (plugin_manifest p), plugin_version p)"

lemma sort_plugins_rank: "sort_plugins ps = Inr qs \<Longrightarrow> qs = sort_key rank ps"
proof -
  assume "sort_plugins ps = Inr qs"
  then obtain vps where "parse_versions (\<lambda>p. pm_version (plugin_manifest p)) ps = Inr vps"
    and qs: "qs = map snd (sort_key (\<lambda>(v, p). (priority (plugin_manifest p), v)) vps)"
    by (auto simp: sort_plugins_def split: sum.splits)
  then have "vps = map (\<lambda>p. (plugin_version p, p)) ps"
    by (auto dest: parse_versions_InrD simp: plugin_version_def)
  moreover have "sort_key (\<lambda>(v, p). (priority (plugin_manifest p), v)) (map (\<lambda>p. (plugin_version p, p)) ps)
      = map (\<lambda>p. (plugin_version p, p)) (sort_key rank ps)"
    by (simp add: sort_key_map o_def rank_def[abs_def])
  ultimately show ?thesis by (simp add: qs o_def)
qed

text \<open>
  C12. Among the plugins that were loaded, a plugin asked for by its name alone is one of that name whose
  priority, and among equal priorities whose version, is the greatest; a name without a plugin is
  reported as not found.
\<close>
theorem find_plugin_greatest:
  assumes "sort_plugins ps = Inr (plugins_data w)"
  shows "case find_plugin name None w of
      (Inl e, w') \<Rightarrow> w' = w \<and> is_EntityNotFound e \<and> name \<notin> (\<lambda>p. pm_name (plugin_manifest p)) ` set ps
    | (Inr q, w') \<Rightarrow> w' = w \<and> q \<in> set ps \<and> pm_name (plugin_manifest q) = name
        \<and> (\<forall>p \<in> set ps. pm_name (plugin_manifest p) = name \<longrightarrow> rank p \<le> rank q)"
proof -
  let ?P = "\<lambda>p. pm_name (plugin_manifest p) = name"
  have sorted: "plugins_data w = sort_key rank ps" by (rule sort_plugins_rank [OF assms])
  show ?thesis
  proof (cases "filter ?P (sort_key rank ps) = []")
    case True
    then have "\<forall>p \<in> set ps. \<not> ?P p" by (simp add: filter_empty_conv)
    with True show ?thesis by (auto simp: find_plugin_def sorted run_bind run_gets run_raise)
  next
    case False
    from last_filter_sorted [OF False] show ?thesis
      using False by (simp add: find_plugin_def sorted run_bind run_gets run_ret)
  qed
qed

definition old_plugin :: "(string \<times> string) list PluginData" where
  "old_plugin = sample_plugin\<lparr>plugin_manifest := plain_manifest\<lparr>pm_name := ''docker'', pm_version := ''2.10.0''\<rparr>\<rparr>"

definition older_plugin :: "(string \<times> string) list PluginData" where
  "older_plugin = sample_plugin\<lparr>plugin_manifest := plain_manifest\<lparr>pm_name := ''docker'', pm_version := ''2.9.0''\<rparr>\<rparr>"

theorem find_plugin_greatest_witness:
  "\<exists>ps q. sort_plugins [old_plugin, older_plugin] = Inr ps
     \<and> find_plugin ''docker'' None (sample_cluster\<lparr>plugins_data := ps\<rparr>) = (Inr q, sample_cluster\<lparr>plugins_data := ps\<rparr>)
     \<and> rank old_plugin \<le> rank q \<and> rank older_plugin \<le> rank q"
proof -
  have "map_sum (\<lambda>_. ()) (\<lambda>_. ()) (sort_plugins [old_plugin, older_plugin]) = Inr ()" by code_simp
  then obtain ps where ps: "sort_plugins [old_plugin, older_plugin] = Inr ps"
    by (cases "sort_plugins [old_plugin, older_plugin]") auto
  then have "sort_plugins [old_plugin, older_plugin] = Inr (plugins_data (sample_cluster\<lparr>plugins_data := ps\<rparr>))" by simp
  note found = find_plugin_greatest [OF this, of "''docker''"]
  have names: "pm_name (plugin_manifest old_plugin) = ''docker''" "pm_name (plugin_manifest older_plugin) = ''docker''"
    by (simp_all add: old_plugin_def older_plugin_def)
  obtain r w where run: "find_plugin ''docker'' None (sample_cluster\<lparr>plugins_data := ps\<rparr>) = (r, w)" by fastforce
  show ?thesis
  proof (cases r)
    case (Inl e)
    then show ?thesis using found names run by simp
  next
    case (Inr q)
    then show ?thesis using found names run ps by (intro exI [of _ ps] exI [of _ q]) simp
  qed
qed

section \<open>Deleting all plugins\<close>

lemma run_unlink: "map_of (files w) p \<noteq> None \<Longrightarrow> unlink p w = (Inr (), w\<lparr>files := dict_del p (files w)\<rparr>)"
  by (simp add: unlink_def py_run)

lemma run_unlink_all:
  fixes w :: "('i, 'x) plugin_host_scheme"
  assumes "distinct ps" "set ps \<subseteq> set (keys (files w))"
  shows "for_each ps unlink w = (Inr (), w\<lparr>files := filter (\<lambda>(q, _). q \<notin> set ps) (files w)\<rparr>)"
  using assms
proof (induction ps arbitrary: w)
  case Nil
  then show ?case by (simp add: run_ret case_prod_beta')
next
  case (Cons p ps)
  have "map_of (files w) p \<noteq> None" using Cons.prems(2) by (auto simp: map_of_eq_None_iff)
  moreover have "set ps \<subseteq> set (keys (dict_del p (files w)))"
    using Cons.prems by (auto simp: delete_keys)
  ultimately show ?case
    using Cons.IH [of "w\<lparr>files := dict_del p (files w)\<rparr>"] Cons.prems(1)
    by (simp add: run_seq run_unlink AList.delete_eq filter_filter case_prod_beta' eq_commute [of _ p])
qed

lemma run_touch_file: "touch_file p w = (Inr (), if map_of (files w) p = None then w\<lparr>files := dict_set p [] (files w)\<rparr> else w)"
  by (simp add: touch_file_def path_is_file_def write_text_def py_run)

lemma run_record_last_change:
  fixes u :: "('i, 'x) plugin_host_scheme"
  shows "\<exists>x g. record_last_change u = (Inr (), x) \<and> plugins_path x = plugins_path u \<and> dirs x = dirs u
     \<and> files x = dict_set (path_div (plugins_path u) LAST_CHANGE_FILE) g
         (if map_of (files u) (path_div (plugins_path u) LAST_CHANGE_FILE) = None
          then dict_set (path_div (plugins_path u) LAST_CHANGE_FILE) [] (files u) else files u)"
  by (simp add: record_last_change_def now_def run_touch_file write_text_def py_run) blast

lemma set_zip_files:
  "set (zip_files directory f) = {p \<in> set (keys f). parent p = Path directory \<and> fnmatchcase (path_name p) ''*.zip''}"
  by (auto simp: zip_files_def)

lemma zip_files_empty:
  "zip_files directory f = [] \<longleftrightarrow> (\<forall>p \<in> set (keys f). \<not> (parent p = Path directory \<and> fnmatchcase (path_name p) ''*.zip''))"
  unfolding set_empty [symmetric] set_zip_files by blast

text \<open>
  Deleting all plugins leaves no archive in the directory and no plugin loaded, so that no plugin is
  found any more, provided that the directory exists.
\<close>
lemma delete_all_plugins_empty:
  fixes w :: "('i, 'x) plugin_host_scheme"
  assumes "dirs w (plugins_path w)"
  shows "\<exists>w'. delete_all_plugins (ret ()) w = (Inr (), w') \<and> plugins_data w' = [] \<and> zip_files (plugins_path w') (files w') = []
     \<and> (\<exists>e. find_plugin name version w' = (Inl (EntityNotFound e), w'))"
proof -
  let ?P = "plugins_path w"
  let ?zips = "zip_files ?P (files w)"
  let ?f = "filter (\<lambda>(q, _). q \<notin> set ?zips) (files w)"
  let ?ext = "path_div ?P EXTRACTED_PLUGINS_DIR"
  let ?change = "path_div ?P LAST_CHANGE_FILE"
  let ?v = "w\<lparr>files := ?f\<rparr>"
  have unlinked: "for_each ?zips unlink w = (Inr (), ?v)"
    by (rule run_unlink_all) (auto simp: zip_files_def)
  have none: "zip_files ?P ?f = []"
    by (force simp: zip_files_empty set_zip_files)
  have name: "path_name ?change = LAST_CHANGE_FILE"
    by (intro parent_path_div [THEN conjunct2]) (simp add: component_def LAST_CHANGE_FILE_def)
  have "\<not> fnmatchcase LAST_CHANGE_FILE ''*.zip''" by code_simp
  then have change: "zip_files ?P (dict_set ?change t g) = []" if "zip_files ?P g = []" for t g
    using name that by (auto simp: zip_files_empty update_keys)
  have fewer: "zip_files ?P (filter Q ?f) = []" for Q
    using none by (auto simp: zip_files_empty)
  have ext: "\<not> within_path ?ext ?P"
    using path_div_parts [of EXTRACTED_PLUGINS_DIR ?P] prefix_length_le
    by (fastforce simp: within_path_def component_def EXTRACTED_PLUGINS_DIR_def)
  define u where "u = (if dirs w ?ext then ?v\<lparr>files := filter (\<lambda>(q, _). \<not> within_path ?ext q) ?f,
      dirs := (\<lambda>q. dirs w q \<and> \<not> within_path ?ext q)\<rparr> else ?v)"
  have u: "(if dirs ?v ?ext then rmtree ?ext else ret ()) ?v = (Inr (), u)"
    by (simp add: u_def rmtree_def py_run)
  have props: "plugins_path u = ?P" "zip_files ?P (files u) = []" "dirs u ?P" "plugins_path u = plugins_path w"
    using none fewer ext assms by (simp_all add: u_def)
  obtain x where recorded: "record_last_change u = (Inr (), x)" and x: "plugins_path x = ?P" "dirs x ?P" "zip_files ?P (files x) = []"
    using run_record_last_change [of u] props change by (auto split: if_splits)
  have "load_plugins (ret ()) x = (Inr (), x\<lparr>plugins_data := []\<rparr>)"
    using x by (simp add: load_plugins_def load_plugins_from_dir_def ensure_dir_exists_def path_is_dir_def sort_plugins_def py_run)
  then have "delete_all_plugins (ret ()) w = (Inr (), x\<lparr>plugins_data := []\<rparr>)"
    using unlinked u recorded by (auto simp: delete_all_plugins_def path_is_dir_def run_bind run_gets run_seq run_ret split: if_splits)
  then show ?thesis
    using x by (intro exI [of _ "x\<lparr>plugins_data := []\<rparr>"]) (simp add: find_plugin_def py_run)
qed

definition sample_host :: "(string \<times> string) list plugin_host" where
  "sample_host = machine.extend (cluster.extend sample_cluster
       (machine.fields [(''/plugins/docker-1.zip'', ''PK'')] (\<lambda>p. p = ''/plugins'') (\<lambda>cmd wd (i, f, d). (([], 0), i, f, d)) ''/'' (\<lambda>p. p)))
     (plugin_host.fields ''/plugins'' 0 ''lifecycle'' (\<lambda>z. Inr []) (\<lambda>y. Inr plain_manifest)
       (\<lambda>d c m (i, f, ds). (Inr sample_plugin, i, f, ds)) ''/tmp/upload'' 7 (\<lambda>p. None) (\<lambda>p q. None))"

lemma delete_all_plugins_empty_witness:
  "zip_files ''/plugins'' (files sample_host) = [''/plugins/docker-1.zip'']
   \<and> (\<exists>w'. delete_all_plugins (ret ()) sample_host = (Inr (), w') \<and> zip_files (plugins_path w') (files w') = [])"
proof
  have "files sample_host = [(''/plugins/docker-1.zip'', ''PK'')]" by (simp add: sample_host_def cluster.defs machine.defs plugin_host.defs)
  moreover have "zip_files ''/plugins'' [(''/plugins/docker-1.zip'', ''PK'')] = [''/plugins/docker-1.zip'']" by code_simp
  ultimately show "zip_files ''/plugins'' (files sample_host) = [''/plugins/docker-1.zip'']" by simp
  have "dirs sample_host (plugins_path sample_host)" by (simp add: sample_host_def cluster.defs machine.defs plugin_host.defs)
  from delete_all_plugins_empty [OF this] show "\<exists>w'. delete_all_plugins (ret ()) sample_host = (Inr (), w')
      \<and> zip_files (plugins_path w') (files w') = []" by blast
qed

end
