(* ===== verification/ClientRemotes.thy ===== *)
theory ClientRemotes
  imports Files AuthCheck Urls FileMatcher
begin

text \<open>
  The client's side of a remote server: its configuration file with aliases, credentials and tokens
  (\<open>racetrack_client/client_config\<close>), the resolution of the address of a server, and logging in and out
  (\<open>racetrack_client/utils/auth.py\<close>). The home directory, the terminal and pydantic are parameters; what is
  printed is a list of lines. What is only logged, as the mode of the configuration file, is left out.
\<close>

section \<open>State\<close>

record ClientConfig =
  lifecycle_url :: string
  cc_git_credentials :: "(string, Credentials) dict"
  lifecycle_url_aliases :: "(string, string) dict"
  user_auths :: "(string, string) dict"

definition default_client_config :: ClientConfig where
  "default_client_config = \<lparr>lifecycle_url = ''http://127.0.0.1:7002'', cc_git_credentials = [], lifecycle_url_aliases = [], user_auths = []\<rparr>"

record 'i client = "'i machine" +
  home :: string
  is_a_tty :: bool
  printed :: "string list"
  getpass :: "string \<Rightarrow> string"
  piped_input :: "string option"
  temporary_name :: string
  client_config_validate :: "json \<Rightarrow> exn + ClientConfig"
  credentials_validate :: "json \<Rightarrow> exn + Credentials"
  env_items :: "string \<Rightarrow> exn + (string, string) dict"
  walk_dir :: "string \<Rightarrow> (string, string) dict \<times> directories \<Rightarrow> (string \<times> node) list"
  pack :: "string \<Rightarrow> (string \<times> string) list \<Rightarrow> string"
  plugin_manifest_validate :: "json \<Rightarrow> exn + PluginManifest"

type_synonym ('i, 'x, 'a) ccm = "(('i, 'x) client_scheme, 'a) py"

definition print_line :: "string \<Rightarrow> ('i, 'x, unit) ccm" where
  "print_line line = modify (\<lambda>w. w\<lparr>printed := printed w @ [line]\<rparr>)"

section \<open>Configuration file\<close>

definition json_of_strings :: "(string, string) dict \<Rightarrow> json" where
  "json_of_strings d = JObj (map (\<lambda>(k, v). (k, JStr v)) d)"

definition credentials_dump :: "Credentials \<Rightarrow> json" where
  "credentials_dump c = JObj [(''username'', JStr (cred_username c)), (''password'', JStr (cred_password c))]"

definition client_config_dump :: "ClientConfig \<Rightarrow> (string, json) dict" where
  "client_config_dump c =
     [(''lifecycle_url'', JStr (lifecycle_url c)),
      (''git_credentials'', JObj (map (\<lambda>(k, v). (k, credentials_dump v)) (cc_git_credentials c))),
      (''lifecycle_url_aliases'', json_of_strings (lifecycle_url_aliases c)),
      (''user_auths'', json_of_strings (user_auths c))]"

definition config_dir :: "string \<Rightarrow> string" where
  "config_dir home_path = path_div home_path ''.racetrack''"

definition config_path :: "string \<Rightarrow> string" where
  "config_path home_path = path_div (config_dir home_path) ''config.yaml''"

definition load_client_config :: "('i, 'x, ClientConfig) ccm" where
  "load_client_config =
     bind (gets (\<lambda>w. map_of (files w) (config_path (home w)))) (\<lambda>content.
     case content of
       None \<Rightarrow> ret default_client_config
     | Some yaml_str \<Rightarrow>
         try_except
           (bind (load_yaml yaml_str) (\<lambda>config_dict. bind (gets (\<lambda>w. client_config_validate w config_dict)) lift))
           (\<lambda>_. True) (\<lambda>e. raise (RuntimeError ''loading client config failed'')))"

definition load_credentials_from_dict :: "json option \<Rightarrow> ('i, 'x, Credentials option) ccm" where
  "load_credentials_from_dict credentials_dict =
     (case credentials_dict of
        None \<Rightarrow> ret None
      | Some d \<Rightarrow> wrap_context ''parsing credentials'' (
          bind (gets (\<lambda>w. credentials_validate w d)) (\<lambda>r. bind (lift r) (\<lambda>c. ret (Some c)))))"

definition save_client_config :: "ClientConfig \<Rightarrow> ('i, 'x, unit) ccm" where
  "save_client_config cfg =
     bind (gets (\<lambda>w. (config_dir (home w), config_path (home w)))) (\<lambda>(dir_path, path).
     seq (mkdir_parents dir_path)
     (seq (bind (path_is_file path) (\<lambda>f. if \<not> f then write_text path [] else ret ()))
     (bind (gets (\<lambda>w. yaml_dump w (JObj (client_config_dump cfg)))) (\<lambda>yaml_content. write_text path yaml_content))))"

section \<open>Addresses of servers\<close>

definition resolve_short_lifecycle_url :: "ClientConfig \<Rightarrow> string option \<Rightarrow> string" where
  "resolve_short_lifecycle_url cfg lifecycle_name =
     (let name = (if given lifecycle_name then the lifecycle_name else lifecycle_url cfg)
      in case map_of (lifecycle_url_aliases cfg) name of Some url \<Rightarrow> url | None \<Rightarrow> name)"

definition infer_full_lifecycle_url :: "string \<Rightarrow> exn + string" where
  "infer_full_lifecycle_url short =
     (case urlsplit short of Inl e \<Rightarrow> Inl e
      | Inr split \<Rightarrow>
          let scheme = (if us_netloc split = [] then [] else us_scheme split);
              url = (if scheme = [] then ''https://'' @ short else short)
          in (case urlsplit url of Inl e \<Rightarrow> Inl e
              | Inr split \<Rightarrow>
                  let path = (if us_netloc split \<noteq> [] then us_path split else [])
                  in Inr (if path = [] then url @ ''/lifecycle'' else url)))"

definition resolve_lifecycle_url :: "ClientConfig \<Rightarrow> string option \<Rightarrow> exn + string" where
  "resolve_lifecycle_url cfg lifecycle_name = infer_full_lifecycle_url (resolve_short_lifecycle_url cfg lifecycle_name)"

text \<open>\<open>split.geturl()\<close>: the schemes after which two slashes stand even without a host.\<close>

definition uses_netloc :: "string list" where
  "uses_netloc = [[], ''ftp'', ''http'', ''gopher'', ''nntp'', ''telnet'', ''imap'', ''wais'', ''file'', ''mms'', ''https'',
     ''shttp'', ''snews'', ''prospero'', ''rtsp'', ''rtspu'', ''rsync'', ''svn'', ''svn+ssh'', ''sftp'', ''nfs'', ''git'',
     ''git+ssh'', ''ws'', ''wss'']"

definition urlunsplit :: "SplitResult \<Rightarrow> string" where
  "urlunsplit r =
     (let url = us_path r;
          url = (if us_netloc r \<noteq> [] \<or> us_scheme r \<noteq> [] \<and> us_scheme r \<in> set uses_netloc \<and> \<not> startswith url ''//''
                 then ''//'' @ us_netloc r @ (if url \<noteq> [] \<and> \<not> startswith url ''/'' then ''/'' else []) @ url
                 else url);
          url = (if us_scheme r \<noteq> [] then us_scheme r @ '':'' @ url else url);
          url = (if us_query r \<noteq> [] then url @ ''?'' @ us_query r else url)
      in if us_fragment r \<noteq> [] then url @ ''#'' @ us_fragment r else url)"

definition trim_url :: "string \<Rightarrow> exn + string" where
  "trim_url url =
     (case urlsplit url of Inl e \<Rightarrow> Inl e
      | Inr split \<Rightarrow> Inr (urlunsplit (split\<lparr>us_path := rstrip_char CHR ''/'' (us_path split)\<rparr>)))"

section \<open>Requests with a token\<close>

definition get_auth_request_headers :: "string \<Rightarrow> (string \<times> string option) list" where
  "get_auth_request_headers user_auth = [(RT_AUTH_HEADER, if user_auth \<noteq> [] then Some user_auth else None)]"

definition get_from :: "string \<Rightarrow> (string \<times> string option) list \<Rightarrow> ('i, 'x, Response) ccm" where
  "get_from url hdrs = bind (gets urlopen) (\<lambda>op. on_infra (requests_get op url hdrs None))"

definition post_to :: "string \<Rightarrow> json \<Rightarrow> (string \<times> string option) list \<Rightarrow> ('i, 'x, Response) ccm" where
  "post_to url payload hdrs = bind (gets urlopen) (\<lambda>op. on_infra (requests_post op url (Some payload) None hdrs None))"

definition post_data :: "string \<Rightarrow> string \<Rightarrow> (string \<times> string option) list \<Rightarrow> ('i, 'x, Response) ccm" where
  "post_data url data hdrs = bind (gets urlopen) (\<lambda>op. on_infra (requests_post op url None (Some data) hdrs None))"

definition delete_at :: "string \<Rightarrow> (string \<times> string option) list \<Rightarrow> ('i, 'x, Response) ccm" where
  "delete_at url hdrs = bind (gets urlopen) (\<lambda>op. on_infra (requests_delete op url None None hdrs None))"

text \<open>\<open>response['key']\<close> of a dictionary.\<close>

definition item :: "(string, json) dict \<Rightarrow> string \<Rightarrow> ('w, json) py" where
  "item d key = lift (get_item (JObj d) key)"

definition is_auth_required :: "string \<Rightarrow> ('i, 'x, json) ccm" where
  "is_auth_required url =
     bind (get_from (url @ ''/api/v1/info'') []) (\<lambda>r.
     bind (lift (parse_response_object r ''Lifecycle response error'')) (\<lambda>response. item response ''auth_required''))"

definition validate_user_auth_at :: "string \<Rightarrow> string \<Rightarrow> ('i, 'x, json) ccm" where
  "validate_user_auth_at url user_auth =
     bind (get_from (url @ ''/api/v1/users/validate_user_auth'') (get_auth_request_headers user_auth)) (\<lambda>r.
     if status_code r = 401 then raise (AuthError ''Invalid Auth Token'')
     else bind (lift (parse_response_object r ''Lifecycle response error'')) (\<lambda>response. item response ''username''))"

section \<open>Logging in and out\<close>

definition set_user_auth :: "ClientConfig \<Rightarrow> string \<Rightarrow> string \<Rightarrow> exn + ClientConfig" where
  "set_user_auth cfg url user_auth =
     (case resolve_lifecycle_url cfg (Some url) of Inl e \<Rightarrow> Inl e
      | Inr url \<Rightarrow>
          if user_auth = [] then
            if url \<in> set (keys (user_auths cfg)) then Inr (cfg\<lparr>user_auths := dict_del url (user_auths cfg)\<rparr>)
            else Inl (RuntimeError (''Missing '' @ url @ '' in Racetrack logged servers''))
          else Inr (cfg\<lparr>user_auths := dict_set url user_auth (user_auths cfg)\<rparr>))"

definition missing_token :: "string \<Rightarrow> exn" where
  "missing_token url = AuthError (''missing auth token for '' @ url @ ''. You need to do: racetrack login <token> --remote '' @ url)"

definition get_user_auth :: "ClientConfig \<Rightarrow> string \<Rightarrow> ('i, 'x, string) ccm" where
  "get_user_auth cfg url =
     (case map_of (user_auths cfg) url of
        Some token \<Rightarrow> ret token
      | None \<Rightarrow> bind (is_auth_required url) (\<lambda>required. if json_truthy required then raise (missing_token url) else ret []))"

definition login_user_auth :: "string option \<Rightarrow> string \<Rightarrow> ('i, 'x, unit) ccm" where
  "login_user_auth remote user_auth =
     bind load_client_config (\<lambda>cfg.
     bind (lift (resolve_lifecycle_url cfg remote)) (\<lambda>url.
     seq (validate_user_auth_at url user_auth)
     (bind (lift (set_user_auth cfg url user_auth)) save_client_config)))"

definition logout_user_auth :: "string option \<Rightarrow> ('i, 'x, unit) ccm" where
  "logout_user_auth remote =
     bind load_client_config (\<lambda>cfg.
     bind (lift (resolve_lifecycle_url cfg remote)) (\<lambda>url.
     bind (lift (set_user_auth cfg url [])) save_client_config))"

definition get_current_auth :: "string option \<Rightarrow> ('i, 'x, string) ccm" where
  "get_current_auth remote =
     bind load_client_config (\<lambda>cfg. bind (lift (resolve_lifecycle_url cfg remote)) (get_user_auth cfg))"

definition as_string :: "json \<Rightarrow> exn + string" where
  "as_string j = (case j of JStr s \<Rightarrow> Inr s | _ \<Rightarrow> Inl (TypeError (''object of type '' @ json_type j @ '' has no len()'')))"

text \<open>A token that is not a text has no length, at least not for the tokens a server sends.\<close>

definition authorize_username_password :: "string \<Rightarrow> string \<Rightarrow> string \<Rightarrow> ('i, 'x, string) ccm" where
  "authorize_username_password url username password =
     bind (post_to (url @ ''/api/v1/users/login'') (JObj [(''username'', JStr username), (''password'', JStr password)]) []) (\<lambda>r.
     if status_code r = 401 then raise (AuthError ''Incorrect username or password'')
     else bind (lift (parse_response_object r ''Lifecycle response error'')) (\<lambda>response_dict.
          bind (item response_dict ''token'') (\<lambda>token. lift (as_string token))))"

definition login_with_username :: "string option \<Rightarrow> string \<Rightarrow> ('i, 'x, unit) ccm" where
  "login_with_username remote username =
     bind load_client_config (\<lambda>cfg.
     bind (lift (resolve_lifecycle_url cfg remote)) (\<lambda>url.
     bind (gets (\<lambda>w. getpass w (''Enter your password for user '' @ username @ '': ''))) (\<lambda>password.
     bind (authorize_username_password url username password) (\<lambda>auth_token.
     bind (lift (set_user_auth cfg url auth_token)) save_client_config))))"

section \<open>The current remote\<close>

definition get_current_remote :: "bool \<Rightarrow> ('i, 'x, unit) ccm" where
  "get_current_remote quiet =
     bind load_client_config (\<lambda>cfg.
     bind (lift (resolve_lifecycle_url cfg (Some (lifecycle_url cfg)))) (\<lambda>url.
     bind (gets is_a_tty) (\<lambda>tty. if quiet \<or> \<not> tty then print_line url else ret ())))"

definition get_current_pub_address :: "bool \<Rightarrow> ('i, 'x, unit) ccm" where
  "get_current_pub_address quiet =
     bind load_client_config (\<lambda>cfg.
     bind (lift (resolve_lifecycle_url cfg (Some (lifecycle_url cfg)))) (\<lambda>url.
     bind (get_from (url @ ''/api/v1/info'') []) (\<lambda>r.
     bind (lift (parse_response_object r ''Lifecycle response error'')) (\<lambda>response.
     let pub_url = none_or (map_of response ''external_pub_url'')
     in seq (assert_py (json_truthy pub_url) ''Pub URL is not specified by the Racetrack server'')
        (bind (gets is_a_tty) (\<lambda>tty. if quiet \<or> \<not> tty then print_line (json_str pub_url) else ret ()))))))"

section \<open>Changing the configuration\<close>

definition set_credentials :: "string \<Rightarrow> string \<Rightarrow> string \<Rightarrow> ('i, 'x, unit) ccm" where
  "set_credentials repo_url username token_password =
     bind load_client_config (\<lambda>cfg.
     bind (lift (trim_url repo_url)) (\<lambda>repo_url.
     save_client_config (cfg\<lparr>cc_git_credentials :=
       dict_set repo_url \<lparr>cred_username = username, cred_password = token_password\<rparr> (cc_git_credentials cfg)\<rparr>)))"

definition set_config_setting :: "string \<Rightarrow> string \<Rightarrow> ('i, 'x, unit) ccm" where
  "set_config_setting setting_name setting_value =
     bind load_client_config (\<lambda>cfg.
     let config_dict = client_config_dump cfg
     in seq (assert_py (setting_name \<in> set (keys config_dict)) (''client config doesn't have setting named '' @ setting_name))
        (bind (wrap_context ''converting setting to target data type''
           (bind (gets (\<lambda>w. client_config_validate w (JObj (dict_set setting_name (JStr setting_value) config_dict)))) lift))
         save_client_config))"

definition set_current_remote :: "string \<Rightarrow> ('i, 'x, unit) ccm" where
  "set_current_remote remote = set_config_setting ''lifecycle_url'' remote"

definition set_config_url_alias :: "string \<Rightarrow> string \<Rightarrow> ('i, 'x, unit) ccm" where
  "set_config_url_alias alias url =
     bind load_client_config (\<lambda>cfg.
     bind (lift (trim_url url)) (\<lambda>url.
     save_client_config (cfg\<lparr>lifecycle_url_aliases := dict_set alias url (lifecycle_url_aliases cfg)\<rparr>)))"

end
