(* ===== verification/ClientJobs.thy ===== *)
theory ClientJobs
  imports ClientRemotes
begin

text \<open>
  Jobs from the command line: listing, moving, deleting and calling them and showing their logs
  (\<open>racetrack_client/client/manage.py\<close>, \<open>move.py\<close>, \<open>call.py\<close>, \<open>logs.py\<close>, \<open>utils/table.py\<close>, \<open>utils/byte.py\<close>). The lines of
  a stream of live logs are a parameter of the command that shows them.
\<close>

section \<open>Text\<close>

text \<open>\<open>s.upper()\<close>; the three letters of Latin-1 without a capital in it are kept.\<close>

definition upper :: "string \<Rightarrow> string" where
  "upper s = map (\<lambda>c. let n = of_char c :: nat
     in if (97 \<le> n \<and> n \<le> 122) \<or> (224 \<le> n \<and> n \<le> 254 \<and> n \<noteq> 247) then char_of (n - 32) else c) s"

definition ljust :: "nat \<Rightarrow> string \<Rightarrow> string" where
  "ljust n s = s @ replicate (n - length s) CHR '' ''"

text \<open>\<open>json.dumps(j, indent=step)\<close> at an indentation.\<close>

definition line_start :: "nat \<Rightarrow> string" where
  "line_start n = newline # replicate n CHR '' ''"

fun dumps_indent :: "nat \<Rightarrow> nat \<Rightarrow> json \<Rightarrow> string" where
  "dumps_indent step n (JList xs) =
     (if xs = [] then ''[]''
      else ''['' @ line_start (n + step) @ join ('','' @ line_start (n + step)) (map (dumps_indent step (n + step)) xs)
        @ line_start n @ '']'')"
| "dumps_indent step n (JObj kvs) =
     (if kvs = [] then ''{}''
      else ''{'' @ line_start (n + step)
        @ join ('','' @ line_start (n + step)) (map (\<lambda>(k, v). dump_str k @ '': '' @ dumps_indent step (n + step) v) kvs)
        @ line_start n @ ''}'')"
| "dumps_indent step n j = dumps j"

section \<open>Tables\<close>

text \<open>\<open>row[i] or ''\<close>, its \<open>len\<close> and its \<open>ljust\<close>; an index out of range is an error.\<close>

definition cell_at :: "json list \<Rightarrow> nat \<Rightarrow> exn + json" where
  "cell_at row i =
     (if i < length row then Inr (if json_truthy (row ! i) then row ! i else JStr [])
      else Inl (KeyError ''list index out of range''))"

definition cell_len :: "json \<Rightarrow> exn + nat" where
  "cell_len cell =
     (case cell of JStr s \<Rightarrow> Inr (length s) | JList xs \<Rightarrow> Inr (length xs) | JObj d \<Rightarrow> Inr (length d)
      | _ \<Rightarrow> Inl (TypeError (''object of type '' @ json_type cell @ '' has no len()'')))"

definition cell_ljust :: "nat \<Rightarrow> json \<Rightarrow> exn + string" where
  "cell_ljust padding cell =
     (case cell of JStr s \<Rightarrow> Inr (ljust padding s)
      | _ \<Rightarrow> Inl (AttributeError (json_type cell @ '' object has no attribute ljust'')))"

definition col_width :: "json list list \<Rightarrow> nat \<Rightarrow> ('w, nat) py" where
  "col_width tbl col_index =
     bind (map_py (\<lambda>row. bind (lift (cell_at row col_index)) (\<lambda>cell. lift (cell_len cell))) tbl) (\<lambda>widths.
     ret (fold max widths 0))"

definition table_line :: "nat list \<Rightarrow> json list \<Rightarrow> ('w, string) py" where
  "table_line col_widths row =
     bind (map_py (\<lambda>(i, padding). bind (lift (cell_at row i)) (\<lambda>cell. lift (cell_ljust padding cell)))
             (enumerate 0 col_widths)) (\<lambda>row_values.
     ret (join ''   '' row_values))"

definition print_table :: "json list list \<Rightarrow> ('i, 'x, unit) ccm" where
  "print_table tbl =
     bind (map_py (col_width tbl) [0..<fold max (map length tbl) 0]) (\<lambda>col_widths.
     for_each tbl (\<lambda>row. bind (table_line col_widths row) print_line))"

section \<open>Listing\<close>

datatype JobTableColumn = c_job_type | c_infrastructure | c_deployed_by | c_updated_at | c_last_call_at | c_pub_url | c_all

text \<open>A connection to a remote: its address and the token.\<close>

definition connect :: "string option \<Rightarrow> ('i, 'x, string \<times> string) ccm" where
  "connect remote =
     bind load_client_config (\<lambda>cfg.
     bind (lift (resolve_lifecycle_url cfg remote)) (\<lambda>url.
     bind (get_user_auth cfg url) (\<lambda>user_auth. ret (url, user_auth))))"

definition shown :: "JobTableColumn list \<Rightarrow> JobTableColumn \<Rightarrow> bool" where
  "shown columns c \<longleftrightarrow> c \<in> set columns \<or> c_all \<in> set columns"

definition table_header :: "JobTableColumn list \<Rightarrow> json list" where
  "table_header columns = map JStr ([''NAME'', ''VERSION'', ''STATUS'']
     @ map snd (filter (\<lambda>(c, _). shown columns c)
         [(c_job_type, ''JOB TYPE''), (c_infrastructure, ''INFRASTRUCTURE''), (c_deployed_by, ''DEPLOYED BY''),
          (c_updated_at, ''UPDATED AT''), (c_last_call_at, ''LAST CALL AT''), (c_pub_url, ''PUB URL'')]))"

text \<open>\<open>nullable_timestamp_pretty_ago\<close> of a value of the response.\<close>

definition pretty_cell :: "json \<Rightarrow> ('i, 'x, json) ccm" where
  "pretty_cell timestamp =
     (if \<not> json_truthy timestamp then ret (JStr ''never'')
      else case timestamp of
        JInt t \<Rightarrow> bind now (\<lambda>n. ret (JStr (timestamp_pretty_ago n t)))
      | JBool b \<Rightarrow> bind now (\<lambda>n. ret (JStr (timestamp_pretty_ago n 1)))
      | _ \<Rightarrow> bind now (\<lambda>n. raise (TypeError (json_type timestamp @ '' object cannot be interpreted as an integer''))))"

definition column_cell :: "(string, json) dict \<Rightarrow> JobTableColumn \<Rightarrow> ('i, 'x, json) ccm" where
  "column_cell job c =
     (case c of
        c_job_type \<Rightarrow> ret (none_or (map_of job ''job_type_version''))
      | c_infrastructure \<Rightarrow> ret (none_or (map_of job ''infrastructure_target''))
      | c_deployed_by \<Rightarrow> ret (none_or (map_of job ''deployed_by''))
      | c_updated_at \<Rightarrow> pretty_cell (none_or (map_of job ''update_time''))
      | c_last_call_at \<Rightarrow> pretty_cell (none_or (map_of job ''last_call_time''))
      | c_pub_url \<Rightarrow> ret (none_or (map_of job ''pub_url''))
      | c_all \<Rightarrow> ret JNull)"

definition table_columns :: "JobTableColumn list" where
  "table_columns = [c_job_type, c_infrastructure, c_deployed_by, c_updated_at, c_last_call_at, c_pub_url]"

definition status_cell :: "(string, json) dict \<Rightarrow> exn + json" where
  "status_cell job =
     (case map_of job ''status'' of None \<Rightarrow> Inr (JStr [])
      | Some (JStr s) \<Rightarrow> Inr (JStr (upper s))
      | Some j \<Rightarrow> Inl (AttributeError (json_type j @ '' object has no attribute upper'')))"

definition job_cells :: "JobTableColumn list \<Rightarrow> json \<Rightarrow> ('i, 'x, json list) ccm" where
  "job_cells columns j =
     bind (lift (as_dict j)) (\<lambda>job.
     bind (lift (status_cell job)) (\<lambda>status.
     bind (map_py (column_cell job) (filter (shown columns) table_columns)) (\<lambda>cells.
     ret ([none_or (map_of job ''name''), none_or (map_of job ''version''), status] @ cells))))"

definition list_jobs_command :: "string option \<Rightarrow> JobTableColumn list \<Rightarrow> ('i, 'x, unit) ccm" where
  "list_jobs_command remote columns =
     bind (connect remote) (\<lambda>(url, user_auth).
     bind (get_from (url @ ''/api/v1/job'') (get_auth_request_headers user_auth)) (\<lambda>r.
     bind (lift (parse_response_list r ''Lifecycle response error'')) (\<lambda>jobs.
     if jobs = [] then ret ()
     else bind (map_py (job_cells columns) jobs) (\<lambda>rows. print_table (table_header columns # rows)))))"

section \<open>Moving, deleting, completing\<close>

definition move_job_command :: "string option \<Rightarrow> string \<Rightarrow> string \<Rightarrow> string \<Rightarrow> ('i, 'x, unit) ccm" where
  "move_job_command remote name version new_infra_target =
     bind (connect remote) (\<lambda>(url, user_auth).
     bind (post_to (url @ ''/api/v1/job/'' @ name @ ''/'' @ version @ ''/move'')
             (JObj [(''infrastructure_target'', JStr new_infra_target)]) (get_auth_request_headers user_auth)) (\<lambda>r.
     seq (lift (parse_response r ''Lifecycle response error'')) (ret ())))"

text \<open>\<open>client/move.py\<close> has the same function again.\<close>

definition move_job_alone :: "string option \<Rightarrow> string \<Rightarrow> string \<Rightarrow> string \<Rightarrow> ('i, 'x, unit) ccm" where
  "move_job_alone remote name version new_infra_target = move_job_command remote name version new_infra_target"

definition delete_job_command :: "string \<Rightarrow> string \<Rightarrow> string option \<Rightarrow> ('i, 'x, unit) ccm" where
  "delete_job_command name version remote =
     bind (connect remote) (\<lambda>(url, user_auth).
     bind (delete_at (url @ ''/api/v1/job/'' @ name @ ''/'' @ version) (get_auth_request_headers user_auth)) (\<lambda>r.
     seq (lift (parse_response r ''Lifecycle response error'')) (ret ())))"

definition name_of_job :: "json \<Rightarrow> exn + json" where
  "name_of_job j = (case as_dict j of Inl e \<Rightarrow> Inl e | Inr job \<Rightarrow> Inr (none_or (map_of job ''name'')))"

definition completes :: "string \<Rightarrow> json \<Rightarrow> exn + string list" where
  "completes incomplete name =
     (case name of JStr s \<Rightarrow> Inr (if startswith s incomplete then [s] else [])
      | _ \<Rightarrow> Inl (AttributeError (json_type name @ '' object has no attribute startswith'')))"

definition complete_job_name :: "string \<Rightarrow> ('i, 'x, string list) ccm" where
  "complete_job_name incomplete =
     bind (connect None) (\<lambda>(url, user_auth).
     bind (get_from (url @ ''/api/v1/job'') (get_auth_request_headers user_auth)) (\<lambda>r.
     bind (lift (parse_response_list r ''Lifecycle response error'')) (\<lambda>jobs.
     bind (map_py (\<lambda>j. lift (name_of_job j)) jobs) (\<lambda>job_names.
     bind (map_py (\<lambda>name. lift (completes incomplete name)) job_names) (\<lambda>completion. ret (concat completion))))))"

section \<open>Calling\<close>

definition parse_payload :: "string \<Rightarrow> ('i, 'x, (string, json) dict) ccm" where
  "parse_payload payload = wrap_context ''parsing payload'' (
     bind (case loads payload of Inr j \<Rightarrow> ret j | Inl e \<Rightarrow> load_yaml payload) (\<lambda>obj.
     case obj of JObj d \<Rightarrow> ret d | _ \<Rightarrow> raise (AssertionError ''given payload is not a key-value dictionary'')))"

definition curl_command :: "string \<Rightarrow> (string, json) dict \<Rightarrow> string \<Rightarrow> string" where
  "curl_command full_url payload_dict user_auth =
     (let q = [CHR 0x27]; eol = [CHR '' '', bslash, newline]
      in strip (''curl -X '' @ q @ ''POST'' @ q @ eol
           @ ''  '' @ q @ full_url @ q @ eol
           @ ''  -H '' @ q @ ''X-Racetrack-Auth: '' @ user_auth @ q @ eol
           @ ''  -H '' @ q @ ''Accept: application/json'' @ q @ eol
           @ ''  -H '' @ q @ ''Content-Type: application/json; charset=utf-8'' @ q @ eol
           @ ''  -d '' @ q @ dumps_indent 2 0 (JObj payload_dict) @ q @ [newline]))"

definition job_pub_url :: "string \<Rightarrow> string \<Rightarrow> string \<Rightarrow> string \<Rightarrow> ('i, 'x, json) ccm" where
  "job_pub_url url name version user_auth =
     bind (get_from (url @ ''/api/v1/job/'' @ name @ ''/'' @ version) (get_auth_request_headers user_auth)) (\<lambda>r.
     bind (lift (parse_response_object r ''Lifecycle response error'')) (\<lambda>job. ret (none_or (map_of job ''pub_url''))))"

definition call_job :: "string \<Rightarrow> string \<Rightarrow> string option \<Rightarrow> string \<Rightarrow> string \<Rightarrow> bool \<Rightarrow> ('i, 'x, unit) ccm" where
  "call_job name version remote endpoint payload curl =
     bind (connect remote) (\<lambda>(url, user_auth).
     bind (job_pub_url url name version user_auth) (\<lambda>pub_url.
     let endpoint = (if startswith endpoint ''/'' then endpoint else ''/'' @ endpoint);
         full_url = json_str pub_url @ endpoint
     in bind (parse_payload payload) (\<lambda>payload_dict.
        if curl then print_line (curl_command full_url payload_dict user_auth)
        else bind (post_to full_url (JObj payload_dict) (get_auth_request_headers user_auth)) (\<lambda>r.
             bind (lift (parse_response r ''Lifecycle response error'')) (\<lambda>response_object.
             print_line (dumps_indent 4 0 response_object))))))"

section \<open>Logs\<close>

definition quote_plus :: "string \<Rightarrow> string" where
  "quote_plus s = join ''+'' (map quote (split_on CHR '' '' s))"

text \<open>A base address without a query of its own and without path parameters.\<close>

definition build_url_with_params :: "string \<Rightarrow> (string \<times> string) list \<Rightarrow> exn + string" where
  "build_url_with_params base_url args =
     (case urlsplit base_url of Inl e \<Rightarrow> Inl e
      | Inr split \<Rightarrow> Inr (urlunsplit (split\<lparr>us_query := join ''&'' (map (\<lambda>(k, v). quote_plus k @ ''='' @ quote_plus v) args)\<rparr>)))"

definition print_logs_from :: "string \<Rightarrow> int \<Rightarrow> string \<Rightarrow> ('i, 'x, unit) ccm" where
  "print_logs_from base_url tail_lines user_auth =
     bind (lift (build_url_with_params base_url [(''tail'', int_to_str tail_lines)])) (\<lambda>url.
     bind (get_from url (get_auth_request_headers user_auth)) (\<lambda>r.
     bind (lift (parse_response_object r ''Lifecycle response error'')) (\<lambda>response.
     bind (item response ''logs'') (\<lambda>logs.
     case logs of JStr s \<Rightarrow> print_line s
     | _ \<Rightarrow> raise (AttributeError (json_type logs @ '' object has no attribute splitlines''))))))"

definition show_runtime_logs_once :: "string \<Rightarrow> string \<Rightarrow> string \<Rightarrow> int \<Rightarrow> string \<Rightarrow> ('i, 'x, unit) ccm" where
  "show_runtime_logs_once url name version tail_lines user_auth =
     print_logs_from (url @ ''/api/v1/job/'' @ name @ ''/'' @ version @ ''/logs'') tail_lines user_auth"

definition show_runtime_logs_following :: "((string \<times> string) list \<Rightarrow> ('i, string list) py) \<Rightarrow> string \<Rightarrow> string \<Rightarrow> int
    \<Rightarrow> ('i, 'x, unit) ccm" where
  "show_runtime_logs_following consume_logs name version tail_lines =
     bind (on_infra (consume_logs [(''job_name'', name), (''job_version'', version), (''tail'', int_to_str tail_lines)])) (\<lambda>lines.
     for_each lines (\<lambda>line. print_line (strip line)))"

definition show_runtime_logs :: "(string \<Rightarrow> (string \<times> string) list \<Rightarrow> ('i, string list) py) \<Rightarrow> string \<Rightarrow> string \<Rightarrow> string option
    \<Rightarrow> int \<Rightarrow> bool \<Rightarrow> ('i, 'x, unit) ccm" where
  "show_runtime_logs consume_logs name version remote tail_lines follow =
     bind (connect remote) (\<lambda>(url, user_auth).
     bind (get_from (url @ ''/api/v1/job/'' @ name @ ''/'' @ version) (get_auth_request_headers user_auth)) (\<lambda>r.
     bind (lift (parse_response_object r ''Lifecycle response error'')) (\<lambda>response.
     let exact_version = json_str (none_or (map_of response ''version''))
     in if follow then show_runtime_logs_following (consume_logs url) name exact_version tail_lines
        else show_runtime_logs_once url name exact_version tail_lines user_auth)))"

definition show_build_logs :: "string \<Rightarrow> string \<Rightarrow> string option \<Rightarrow> int \<Rightarrow> ('i, 'x, unit) ccm" where
  "show_build_logs name version remote tail_lines =
     bind (connect remote) (\<lambda>(url, user_auth).
     print_logs_from (url @ ''/api/v1/job/'' @ name @ ''/'' @ version @ ''/build-logs'') tail_lines user_auth)"

section \<open>Sizes\<close>

text \<open>Two decimals, rounded to the nearest, of a division by a power of two; a tie goes to the even digit.\<close>

definition two_decimals :: "nat \<Rightarrow> nat \<Rightarrow> string" where
  "two_decimals n d =
     (let q = 100 * n div d; r = 100 * n mod d;
          h = (if 2 * r < d \<or> (2 * r = d \<and> even q) then q else q + 1)
      in nat_to_str (h div 100) @ ''.'' @ nat_to_str (h mod 100 div 10) @ nat_to_str (h mod 10))"

definition format_bytes :: "nat \<Rightarrow> string" where
  "format_bytes amount =
     (if amount = 1 then ''1 byte''
      else if amount < 1024 then nat_to_str amount @ '' bytes''
      else if amount < 1024 ^ 2 then two_decimals amount 1024 @ '' KiB''
      else if amount < 1024 ^ 3 then two_decimals amount (1024 ^ 2) @ '' MiB''
      else two_decimals amount (1024 ^ 3) @ '' GiB'')"

end
