(* ===== verification/ClientDeploy.thy ===== *)
theory ClientDeploy
  imports ClientRemotes
begin

text \<open>
  Deploying a job from the command line (\<open>racetrack_client/client/deploy.py\<close>, \<open>env.py\<close>, \<open>manifest/validate.py\<close>)
  and running one locally (\<open>client/run.py\<close>). The archive that packs the build context, the parser of files
  with variables and the order of directory entries are parameters, as is the number of attempts while a
  deployment is in progress. Warnings and phases are only logged and therefore left out.
\<close>

section \<open>Manifest and secrets\<close>

definition load_validated_manifest :: "string \<Rightarrow> (string, string) dict \<Rightarrow> ('i, 'x, Manifest) mcm" where
  "load_validated_manifest path extra_vars =
     bind (gets (\<lambda>w. (map_of (files w), dirs w))) (\<lambda>(file_text, is_dir).
     bind (lift (get_manifest_path file_text is_dir path)) (\<lambda>manifest_path.
     bind (load_merged_manifest file_text manifest_path extra_vars) (\<lambda>manifest.
     seq (wrap_context ''validating manifest'' (validate_manifest manifest)) (ret manifest))))"

definition load_manifest_dict :: "string \<Rightarrow> (string, string) dict \<Rightarrow> ('i, 'x, (string, json) dict) mcm" where
  "load_manifest_dict path extra_vars =
     bind (gets (\<lambda>w. (map_of (files w), dirs w))) (\<lambda>(file_text, is_dir).
     bind (lift (get_manifest_path file_text is_dir path)) (\<lambda>manifest_path.
     load_merged_manifest_dict file_text manifest_path extra_vars))"

definition strip_char :: "char \<Rightarrow> string \<Rightarrow> string" where
  "strip_char c s = rstrip_char c (lstrip_char c s)"

definition read_env_vars_from_file :: "string \<Rightarrow> ('i, 'x, (string, string) dict) ccm" where
  "read_env_vars_from_file path = wrap_context ''reading vars from env file'' (
     bind (read_text path) (\<lambda>content.
     bind (gets (\<lambda>w. env_items w (''[config]'' @ [newline] @ content))) (\<lambda>r.
     bind (lift r) (\<lambda>items. ret (dict_of (map (\<lambda>(k, v). (k, strip_char CHR 0x27 (strip_char dquote v))) items))))))"

definition read_secret_vars_from_file :: "string \<Rightarrow> string option \<Rightarrow> ('i, 'x, (string, string) dict) ccm" where
  "read_secret_vars_from_file workdir secret_env_file =
     (if \<not> given secret_env_file then ret []
      else
        let secret_env_path = path_div workdir (the secret_env_file)
        in bind (path_is_file secret_env_path) (\<lambda>f.
           seq (assert_py f (''secret env file doesn't exist: '' @ secret_env_path)) (read_env_vars_from_file secret_env_path)))"

definition read_secret_vars :: "string \<Rightarrow> Manifest \<Rightarrow> ('i, 'x, SecretVars) ccm" where
  "read_secret_vars workdir manifest =
     bind (read_secret_vars_from_file workdir (secret_build_env_file manifest)) (\<lambda>build.
     bind (read_secret_vars_from_file workdir (secret_runtime_env_file manifest)) (\<lambda>runtime.
     ret \<lparr>sv_build_env = build, sv_runtime_env = runtime\<rparr>))"

section \<open>Build context\<close>

datatype BuildContextMethod = local_context | git_context | default_context

definition is_url_localhost :: "string \<Rightarrow> exn + bool" where
  "is_url_localhost url =
     (case urlsplit url of Inl e \<Rightarrow> Inl e
      | Inr split \<Rightarrow> Inr (url_hostname split \<in> {Some ''localhost'', Some ''127.0.0.1'', Some ''::1''}))"

definition determine_default_build_context_method :: "string \<Rightarrow> Manifest \<Rightarrow> exn + BuildContextMethod" where
  "determine_default_build_context_method url manifest =
     (case is_url_localhost url of Inl e \<Rightarrow> Inl e
      | Inr b \<Rightarrow> Inr (if b \<and> owner_email manifest = ''sample@example.com'' then local_context else git_context))"

text \<open>The members of the archive are pairs of a name in the archive and the content of the file.\<close>

definition pack_files :: "string \<Rightarrow> string list list \<Rightarrow> ('i, 'x, (string \<times> string) list) ccm" where
  "pack_files directory paths =
     map_py (\<lambda>parts. bind (read_text (path_div directory (path_of parts))) (\<lambda>content. ret (path_of parts, content))) paths"

definition ignore_rules :: "string \<Rightarrow> ('i, 'x, string list) ccm" where
  "ignore_rules ignore_file =
     bind (path_is_file ignore_file) (\<lambda>f.
     if f then bind (read_text ignore_file) (\<lambda>content. ret (FilenameMatcher (Some (splitlines content)) True))
     else ret (FilenameMatcher None True))"

definition encode_build_context :: "string \<Rightarrow> ('i, 'x, string) ccm" where
  "encode_build_context workdir =
     bind (path_is_file (Path workdir)) (\<lambda>f.
     let workdir_path = (if f then parent workdir else Path workdir)
     in bind (ignore_rules (path_div workdir_path ''.gitignore'')) (\<lambda>inclusion_matcher.
        bind (gets (\<lambda>w. walk_dir w workdir_path (files w, dirs w))) (\<lambda>tree.
        bind (pack_files workdir_path (list_files inclusion_matcher tree)) (\<lambda>members.
        gets (\<lambda>w. b64encode (pack w ''w:gz'' members))))))"

definition get_build_context :: "string \<Rightarrow> string \<Rightarrow> Manifest \<Rightarrow> BuildContextMethod \<Rightarrow> ('i, 'x, string option) ccm" where
  "get_build_context url workdir manifest build_context_method =
     bind (if build_context_method = default_context then lift (determine_default_build_context_method url manifest)
           else ret build_context_method) (\<lambda>build_context_method.
     if build_context_method = local_context then bind (encode_build_context workdir) (\<lambda>c. ret (Some c)) else ret None)"

section \<open>Git credentials\<close>

text \<open>The credentials of the most specific address: the remote itself, without its query, its host with the
  scheme, its host alone.\<close>

definition credential_keys :: "string \<Rightarrow> exn + string list" where
  "credential_keys remote =
     (case urlsplit remote of Inl e \<Rightarrow> Inl e
      | Inr split \<Rightarrow> Inr [us_scheme split @ ''://'' @ us_netloc split @ us_path split,
                          us_scheme split @ ''://'' @ us_netloc split, us_netloc split])"

definition get_git_credentials :: "Manifest \<Rightarrow> ClientConfig \<Rightarrow> exn + Credentials option" where
  "get_git_credentials manifest cfg =
     (let remote = git_remote (git manifest)
      in case map_of (cc_git_credentials cfg) remote of
           Some c \<Rightarrow> Inr (Some c)
         | None \<Rightarrow>
             (case credential_keys remote of Inl e \<Rightarrow> Inl e
              | Inr urls \<Rightarrow> Inr (first_some (map (map_of (cc_git_credentials cfg)) urls))))"

section \<open>Requesting a deployment\<close>

definition opt_json :: "('a \<Rightarrow> json) \<Rightarrow> 'a option \<Rightarrow> json" where
  "opt_json f x = (case x of None \<Rightarrow> JNull | Some y \<Rightarrow> f y)"

definition secret_vars_dump :: "SecretVars \<Rightarrow> json" where
  "secret_vars_dump s =
     JObj [(''build_env'', json_of_strings (sv_build_env s)), (''runtime_env'', json_of_strings (sv_runtime_env s))]"

definition get_deploy_request_payload :: "(string, json) dict \<Rightarrow> Credentials option \<Rightarrow> SecretVars \<Rightarrow> string option \<Rightarrow> bool
    \<Rightarrow> string list \<Rightarrow> json" where
  "get_deploy_request_payload manifest_dict creds secret_vars build_context force build_flags =
     JObj [(''manifest'', JObj manifest_dict),
           (''git_credentials'', opt_json credentials_dump creds),
           (''secret_vars'', secret_vars_dump secret_vars),
           (''build_context'', opt_json JStr build_context),
           (''force'', JBool force),
           (''build_flags'', JList (map JStr build_flags))]"

text \<open>\<open>response['status'].lower()\<close>, and \<open>d.get(key, {})\<close> followed by another \<open>get\<close>.\<close>

definition status_of :: "(string, json) dict \<Rightarrow> exn + string" where
  "status_of response =
     (case get_item (JObj response) ''status'' of Inl e \<Rightarrow> Inl e
      | Inr (JStr s) \<Rightarrow> Inr (lower s)
      | Inr j \<Rightarrow> Inl (AttributeError (json_type j @ '' object has no attribute lower'')))"

definition pub_url_of :: "(string, json) dict \<Rightarrow> exn + json" where
  "pub_url_of response =
     (case as_dict (case map_of response ''job'' of None \<Rightarrow> JObj [] | Some j \<Rightarrow> j) of Inl e \<Rightarrow> Inl e
      | Inr job \<Rightarrow> Inr (case map_of job ''pub_url'' of None \<Rightarrow> JStr [] | Some j \<Rightarrow> j))"

text \<open>One look at a deployment: its result when it is done, the reported error when it failed.\<close>

definition deployment_outcome :: "((string, json) dict \<Rightarrow> exn + json) \<Rightarrow> string \<Rightarrow> (string, json) dict \<Rightarrow> exn + json" where
  "deployment_outcome result timeout_text response =
     (case status_of response of Inl e \<Rightarrow> Inl e
      | Inr status \<Rightarrow>
          if status = ''failed'' then
            (case get_item (JObj response) ''error'' of Inl e \<Rightarrow> Inl e | Inr err \<Rightarrow> Inl (RuntimeError (json_str err)))
          else if status = ''done'' then result response
          else Inl (TimeoutError timeout_text))"

definition check_deployment :: "((string, json) dict \<Rightarrow> exn + json) \<Rightarrow> string \<Rightarrow> string \<Rightarrow> string \<Rightarrow> string \<Rightarrow> string
    \<Rightarrow> ('i, 'x, json) ccm" where
  "check_deployment result error_context timeout_text url deploy_id user_auth =
     bind (get_from (url @ ''/api/v1/deploy/'' @ deploy_id) (get_auth_request_headers user_auth)) (\<lambda>r.
     bind (lift (parse_response_object r error_context)) (\<lambda>response. lift (deployment_outcome result timeout_text response)))"

definition wait_for_deployment_result :: "string \<Rightarrow> string \<Rightarrow> string \<Rightarrow> ('i, 'x, json) ccm" where
  "wait_for_deployment_result url deploy_id user_auth =
     bind (gets (\<lambda>w. backoff_tries w ''wait_for_deployment_result'')) (\<lambda>tries.
     retry tries is_TimeoutError
       (check_deployment pub_url_of ''Lifecycle deployment status'' ''Deployment timeout error'' url deploy_id user_auth))"

definition wait_for_building_result :: "string \<Rightarrow> string \<Rightarrow> string \<Rightarrow> ('i, 'x, json) ccm" where
  "wait_for_building_result url deployment_id user_auth =
     bind (gets (\<lambda>w. backoff_tries w ''wait_for_building_result'')) (\<lambda>tries.
     retry tries is_TimeoutError
       (check_deployment (\<lambda>response. get_item (JObj response) ''image_name'') ''Lifecycle building status'' ''Building timeout error''
          url deployment_id user_auth))"

text \<open>\<open>try: m except Exception as e: raise DeploymentError(e)\<close>.\<close>

definition as_deployment_error :: "('w, 'a) py \<Rightarrow> ('w, 'a) py" where
  "as_deployment_error m = try_except m (\<lambda>_. True) (\<lambda>e. raise (DeploymentError e))"

text \<open>Piped input is written to a new file in the working directory, which is removed in the end.\<close>

definition catch_piped_input :: "('i, 'x, string option) ccm" where
  "catch_piped_input =
     bind (gets (\<lambda>w. (is_a_tty w, piped_input w, path_div (working_dir w) (temporary_name w)))) (\<lambda>(tty, piped_data, file_path).
     if \<not> tty \<and> given piped_data then seq (write_text file_path (the piped_data)) (ret (Some file_path)) else ret None)"

definition remove_temporary :: "string option \<Rightarrow> ('i, 'x, unit) ccm" where
  "remove_temporary tmp_file =
     (case tmp_file of None \<Rightarrow> ret () | Some p \<Rightarrow> bind (path_is_file p) (\<lambda>f. if f then unlink p else ret ()))"

text \<open>The request for a deployment or a build, with the identifier the server gives it.\<close>

definition request_deployment :: "string \<Rightarrow> string \<Rightarrow> string \<Rightarrow> string \<Rightarrow> (string, json) dict \<Rightarrow> Manifest \<Rightarrow> ClientConfig
    \<Rightarrow> string \<Rightarrow> BuildContextMethod \<Rightarrow> bool \<Rightarrow> string list \<Rightarrow> ('i, 'x, string \<times> SecretVars) ccm" where
  "request_deployment url what error_context workdir manifest_dict manifest cfg user_auth build_context_method force build_flags =
     bind (get_build_context url workdir manifest build_context_method) (\<lambda>build_context.
     bind (lift (get_git_credentials manifest cfg)) (\<lambda>creds.
     bind (read_secret_vars workdir manifest) (\<lambda>secret_vars.
     bind (post_to (url @ ''/api/v1/'' @ what)
             (get_deploy_request_payload manifest_dict creds secret_vars build_context force build_flags)
             (get_auth_request_headers user_auth)) (\<lambda>r.
     bind (lift (parse_response_object r error_context)) (\<lambda>response.
     bind (item response ''id'') (\<lambda>deploy_id. ret (json_str deploy_id, secret_vars)))))))"

definition deploy_from :: "string \<Rightarrow> ClientConfig option \<Rightarrow> string option \<Rightarrow> bool \<Rightarrow> BuildContextMethod
    \<Rightarrow> (string, string) dict \<Rightarrow> string list \<Rightarrow> ('i, 'x, json) ccm" where
  "deploy_from workdir client_cfg remote force build_context_method extra_vars build_flags =
     bind (case client_cfg of Some cfg \<Rightarrow> ret cfg | None \<Rightarrow> load_client_config) (\<lambda>cfg.
     bind (load_validated_manifest workdir extra_vars) (\<lambda>manifest.
     bind (load_manifest_dict workdir extra_vars) (\<lambda>manifest_dict.
     bind (lift (resolve_lifecycle_url cfg remote)) (\<lambda>url.
     bind (get_user_auth cfg url) (\<lambda>user_auth.
     bind (request_deployment url ''deploy'' ''Lifecycle deploying error'' workdir manifest_dict manifest cfg user_auth
             build_context_method force build_flags) (\<lambda>(deploy_id, secret_vars).
     as_deployment_error (wait_for_deployment_result url deploy_id user_auth)))))))"

text \<open>The result is the address of the job, which the command shows.\<close>

definition send_deploy_request :: "string \<Rightarrow> ClientConfig option \<Rightarrow> string option \<Rightarrow> bool \<Rightarrow> BuildContextMethod
    \<Rightarrow> (string, string) dict \<Rightarrow> string list \<Rightarrow> ('i, 'x, json) ccm" where
  "send_deploy_request workdir client_cfg remote force build_context_method extra_vars build_flags =
     bind catch_piped_input (\<lambda>tmp_file.
     try_finally
       (deploy_from (if given tmp_file then the tmp_file else workdir) client_cfg remote force build_context_method
          extra_vars build_flags)
       (remove_temporary tmp_file))"

section \<open>Running a job locally\<close>

definition extract_docker_registry :: "string \<Rightarrow> string" where
  "extract_docker_registry job_image_name = hd (split_on CHR ''/'' job_image_name)"

text \<open>A command that writes to the terminal itself: its output is not captured.\<close>

definition shell_raw :: "string \<Rightarrow> ('i, 'x, unit) ccm" where
  "shell_raw cmd = try_except (shell cmd) is_CommandError (\<lambda>e. raise (CommandError cmd [] (command_returncode e)))"

definition local_env_vars :: "Manifest \<Rightarrow> SecretVars \<Rightarrow> int \<Rightarrow> (string, string) dict" where
  "local_env_vars manifest secret_vars deployment_timestamp =
     (let runtime = merge_env_vars (runtime_env manifest) (Some (sv_runtime_env secret_vars));
          build = merge_env_vars (build_env manifest) (Some (sv_build_env secret_vars));
          common = [(''JOB_NAME'', mf_name manifest), (''JOB_DEPLOYMENT_TIMESTAMP'', int_to_str deployment_timestamp)]
      in merge_env_vars (Some (hide_env_vars runtime build)) (Some common))"

definition docker_run_command :: "Manifest \<Rightarrow> (string, string) dict \<Rightarrow> int \<Rightarrow> string \<Rightarrow> string \<Rightarrow> string" where
  "docker_run_command manifest env_vars port job_image_name cmd =
     (let container_name = replace_char CHR ''.'' ''-'' (''local-job-'' @ mf_name manifest @ ''-v-'' @ mf_version manifest);
          env_vars_cmd = join '' '' (map (\<lambda>(k, v). ''--env '' @ k @ ''='' @ quoted v) env_vars)
      in ''docker run --rm -it'' @ '' --name '' @ container_name @ '' -p '' @ int_to_str port @ '':7000'' @ '' '' @ env_vars_cmd
         @ '' --label job-name='' @ mf_name manifest @ '' --label job-version='' @ mf_version manifest
         @ '' '' @ job_image_name @ '' '' @ cmd)"

definition run_image :: "Manifest \<Rightarrow> SecretVars \<Rightarrow> string \<Rightarrow> int option \<Rightarrow> string option \<Rightarrow> ('i, 'x, unit) ccm" where
  "run_image manifest secret_vars job_image_name port cmd =
     seq (try_except (shell ''docker'') is_CommandError
            (\<lambda>e. raise (RuntimeError ''Docker is not installed in the system'')))
     (seq (shell_raw (''docker login '' @ extract_docker_registry job_image_name))
     (seq (shell_raw (''docker pull '' @ job_image_name))
     (bind now (\<lambda>t.
      let port = (case port of Some p \<Rightarrow> if p = 0 then 7000 else p | None \<Rightarrow> 7000);
          env_vars = local_env_vars manifest secret_vars (datetime_to_timestamp t)
      in try_except (shell (docker_run_command manifest env_vars port job_image_name (the_default [] cmd))) is_CommandError
           (\<lambda>e. if command_returncode e = 130 then ret () else raise e)))))"

definition run_job_locally :: "string \<Rightarrow> string option \<Rightarrow> BuildContextMethod \<Rightarrow> int option \<Rightarrow> (string, string) dict
    \<Rightarrow> string list \<Rightarrow> string option \<Rightarrow> ('i, 'x, unit) ccm" where
  "run_job_locally workdir remote build_context_method port extra_vars build_flags cmd =
     bind load_client_config (\<lambda>cfg.
     bind (load_validated_manifest workdir extra_vars) (\<lambda>manifest.
     bind (load_manifest_dict workdir extra_vars) (\<lambda>manifest_dict.
     bind (lift (resolve_lifecycle_url cfg remote)) (\<lambda>url.
     bind (get_user_auth cfg url) (\<lambda>user_auth.
     bind (request_deployment url ''build'' ''Lifecycle building error'' workdir manifest_dict manifest cfg user_auth
             build_context_method False build_flags) (\<lambda>(deployment_id, secret_vars).
     bind (as_deployment_error (wait_for_building_result url deployment_id user_auth)) (\<lambda>job_image_name.
     run_image manifest secret_vars (json_str job_image_name) port cmd)))))))"

end
