(* ===== verification/ClientPlugins.thy ===== *)
theory ClientPlugins
  imports ClientJobs ClientDeploy
begin

text \<open>
  Plugins from the command line (\<open>racetrack_client/plugin/install.py\<close>, \<open>bundler/bundle.py\<close>): finding a plugin in
  a local file, at an address or among the releases of a repository, installing and uninstalling it,
  and packing a directory into an archive. The archive is a parameter; the state holds no open files, so
  that a bundle is written when it is complete.
\<close>

section \<open>Downloading\<close>

definition download_file :: "string \<Rightarrow> ('i, 'x, string \<times> string) ccm" where
  "download_file url =
     bind (lift (urlsplit url)) (\<lambda>split.
     bind (get_from url []) (\<lambda>response.
     seq (lift (raise_for_status response)) (ret (path_name (us_path split), content response))))"

record PluginRelease =
  pr_version :: string
  pr_download_url :: string

text \<open>\<open>re.fullmatch(r'github.com/(.+)/(.+)', repo_name)\<close>: the dot matches any character but a line break, and
  the first group is as long as it can be.\<close>

definition plain_name :: "string \<Rightarrow> bool" where
  "plain_name s \<longleftrightarrow> s \<noteq> [] \<and> newline \<notin> set s"

definition match_repo :: "string \<Rightarrow> (string \<times> string) option" where
  "match_repo repo_name =
     (let host = take 6 repo_name; dot = drop 6 (take 7 repo_name); com = drop 7 (take 11 repo_name);
          r = drop 11 repo_name;
          splits = map (\<lambda>i. (take i r, drop (i + 1) r)) (rev (filter (\<lambda>i. r ! i = CHR ''/'') [0..<length r]))
      in if host = ''github'' \<and> dot \<noteq> [] \<and> dot \<noteq> [newline] \<and> com = ''com/''
         then find (\<lambda>(gh_user, gh_repo). plain_name gh_user \<and> plain_name gh_repo) splits else None)"

definition github_headers :: "string option \<Rightarrow> (string \<times> string option) list" where
  "github_headers github_token =
     [(''User-Agent'', Some ''racetrack-client''), (''Accept'', Some ''application/vnd.github+json''),
      (''X-GitHub-Api-Version'', Some ''2022-11-28'')]
     @ (if given github_token then [(''Authorization'', Some (''Bearer '' @ the github_token))] else [])"

text \<open>The zip archives among the assets of a release.\<close>

definition asset_url :: "json \<Rightarrow> exn + string" where
  "asset_url asset =
     (case get_item asset ''browser_download_url'' of Inl e \<Rightarrow> Inl e
      | Inr (JStr s) \<Rightarrow> Inr s
      | Inr j \<Rightarrow> Inl (AttributeError (json_type j @ '' object has no attribute endswith'')))"

definition zip_assets :: "(string, json) dict \<Rightarrow> ('w, string list) py" where
  "zip_assets release =
     bind (item release ''assets'') (\<lambda>assets.
     case assets of
       JList xs \<Rightarrow> bind (map_py (\<lambda>a. lift (asset_url a)) xs) (\<lambda>urls. ret (filter (\<lambda>u. suffix ''.zip'' u) urls))
     | _ \<Rightarrow> raise (TypeError (json_type assets @ '' object is not iterable'')))"

definition release_of :: "json \<Rightarrow> ('w, PluginRelease option) py" where
  "release_of j =
     bind (lift (as_dict j)) (\<lambda>release.
     let name = none_or (map_of release ''name'');
         version = (if json_truthy name then name else none_or (map_of release ''tag_name''))
     in bind (zip_assets release) (\<lambda>urls.
        if json_truthy version \<and> urls \<noteq> []
        then ret (Some \<lparr>pr_version = json_str version, pr_download_url = hd urls\<rparr>) else ret None))"

text \<open>The stable sort by version.\<close>

definition sort_releases :: "PluginRelease list \<Rightarrow> exn + PluginRelease list" where
  "sort_releases releases =
     (case parse_versions pr_version releases of Inl e \<Rightarrow> Inl e | Inr vs \<Rightarrow> Inr (map snd (sort_key fst vs)))"

definition list_github_releases :: "string \<Rightarrow> ('i, 'x, PluginRelease list) ccm" where
  "list_github_releases repo_name =
     (case match_repo repo_name of
        None \<Rightarrow> raise (AssertionError (''can't match repo '' @ repo_name @ '' to a pattern''))
      | Some (gh_user, gh_repo) \<Rightarrow>
          bind (gets (\<lambda>w. environ w ''GITHUB_TOKEN'')) (\<lambda>github_token.
          bind (get_from (''https://api.github.com/repos/'' @ gh_user @ ''/'' @ gh_repo @ ''/releases'') (github_headers github_token)) (\<lambda>r.
          bind (lift (parse_response_list r ''GitHub API response'')) (\<lambda>json_releases.
          bind (map_py release_of json_releases) (\<lambda>rs. lift (sort_releases (concat (map (\<lambda>x. case x of None \<Rightarrow> [] | Some p \<Rightarrow> [p]) rs))))))))"

definition latest_stable_release :: "string \<Rightarrow> PluginRelease list \<Rightarrow> exn + PluginRelease" where
  "latest_stable_release repo_name releases =
     (case parse_versions pr_version releases of Inl e \<Rightarrow> Inl e
      | Inr vs \<Rightarrow>
          let stable_releases = map snd (filter (\<lambda>(v, _). is_stable v) vs)
          in if stable_releases = [] then Inl (AssertionError (''repository '' @ repo_name @ '' doesn't have any valid stable release''))
             else Inr (last stable_releases))"

definition get_latest_github_release :: "string \<Rightarrow> ('i, 'x, string \<times> string) ccm" where
  "get_latest_github_release repo_name =
     bind (list_github_releases repo_name) (\<lambda>releases.
     bind (lift (latest_stable_release repo_name releases)) (\<lambda>release. download_file (pr_download_url release)))"

definition get_github_release :: "string \<Rightarrow> string \<Rightarrow> ('i, 'x, string \<times> string) ccm" where
  "get_github_release repo_name version =
     bind (list_github_releases repo_name) (\<lambda>releases.
     seq (assert_py (releases \<noteq> []) (''repository '' @ repo_name @ '' doesn't have any valid release''))
     (case filter (\<lambda>r. pr_version r = version) releases of
        [] \<Rightarrow> raise (AssertionError (''repository '' @ repo_name @ '' doesn't have a release with version '' @ version))
      | release # _ \<Rightarrow> download_file (pr_download_url release)))"

section \<open>Locating a plugin\<close>

text \<open>\<open>uri.split('==')\<close> of a text that has two equal signs: the first two parts.\<close>

definition split_pinned :: "string \<Rightarrow> (string \<times> string) option" where
  "split_pinned uri =
     (case find_str ''=='' uri of None \<Rightarrow> None
      | Some i \<Rightarrow>
          let rest = drop (i + 2) uri
          in Some (take i uri, case find_str ''=='' rest of None \<Rightarrow> rest | Some j \<Rightarrow> take j rest))"

definition load_plugin_file :: "string \<Rightarrow> ('i, 'x, string \<times> string) ccm" where
  "load_plugin_file plugin_uri =
     bind (path_is_file (Path plugin_uri)) (\<lambda>f.
     if f then bind (read_text (Path plugin_uri)) (\<lambda>file_content. ret (path_name plugin_uri, file_content))
     else if startswith plugin_uri ''http'' \<and> suffix ''.zip'' plugin_uri then download_file plugin_uri
     else if startswith plugin_uri ''github.com/'' then
       (case split_pinned plugin_uri of
          Some (repo_name, version) \<Rightarrow> get_github_release repo_name version
        | None \<Rightarrow> get_latest_github_release plugin_uri)
     else raise (ValueError (''Unknown plugin location: '' @ plugin_uri)))"

section \<open>Installing\<close>

definition install_plugin :: "string \<Rightarrow> string option \<Rightarrow> ClientConfig option \<Rightarrow> bool \<Rightarrow> ('i, 'x, unit) ccm" where
  "install_plugin plugin_uri remote client_cfg replace =
     bind (case client_cfg of Some cfg \<Rightarrow> ret cfg | None \<Rightarrow> load_client_config) (\<lambda>cfg.
     bind (lift (resolve_lifecycle_url cfg remote)) (\<lambda>url.
     bind (get_user_auth cfg url) (\<lambda>user_auth.
     bind (load_plugin_file plugin_uri) (\<lambda>(plugin_filename, plugin_content).
     bind (post_data (url @ ''/api/v1/plugin/upload/'' @ plugin_filename @ ''?replace='' @ (if replace then ''1'' else ''0''))
             plugin_content (get_auth_request_headers user_auth)) (\<lambda>r.
     seq (lift (parse_response_object r ''Lifecycle response error'')) (ret ()))))))"

definition uninstall_plugin :: "string \<Rightarrow> string \<Rightarrow> string option \<Rightarrow> ('i, 'x, unit) ccm" where
  "uninstall_plugin plugin_name plugin_version remote =
     bind (connect remote) (\<lambda>(url, user_auth).
     bind (delete_at (url @ ''/api/v1/plugin/'' @ plugin_name @ ''/'' @ plugin_version) (get_auth_request_headers user_auth)) (\<lambda>r.
     seq (lift (parse_response r ''Lifecycle response error'')) (ret ())))"

text \<open>A response that is not successful is only logged.\<close>

definition save_response_to_disk :: "Response \<Rightarrow> string option \<Rightarrow> string \<Rightarrow> ('i, 'x, unit) ccm" where
  "save_response_to_disk r out_dir out_filename =
     bind (gets working_dir) (\<lambda>cwd.
     let directory = (if given out_dir then Path (the out_dir) else Path cwd)
     in bind (path_is_dir directory) (\<lambda>d.
        seq (assert_py d [])
            (if status_code r = 200 then write_text (path_div directory out_filename) (content r) else ret ())))"

definition download_plugin_version_command :: "string option \<Rightarrow> string option \<Rightarrow> string \<Rightarrow> string \<Rightarrow> ('i, 'x, unit) ccm" where
  "download_plugin_version_command remote out_dir plugin_name plugin_version =
     bind (connect remote) (\<lambda>(url, user_auth).
     bind (get_from (url @ ''/api/v1/plugin/'' @ plugin_name @ ''/'' @ plugin_version @ ''/download'')
             (get_auth_request_headers user_auth)) (\<lambda>r.
     save_response_to_disk r out_dir (plugin_name @ ''-'' @ plugin_version @ ''.zip'')))"

definition plugin_line :: "json \<Rightarrow> exn + string" where
  "plugin_line p =
     (case get_item p ''name'' of Inl e \<Rightarrow> Inl e
      | Inr name \<Rightarrow>
          (case get_item p ''version'' of Inl e \<Rightarrow> Inl e
           | Inr version \<Rightarrow> Inr (json_str name @ ''=='' @ json_str version)))"

definition list_installed_plugins :: "string option \<Rightarrow> ('i, 'x, unit) ccm" where
  "list_installed_plugins remote =
     bind (connect remote) (\<lambda>(url, user_auth).
     bind (get_from (url @ ''/api/v1/plugin'') (get_auth_request_headers user_auth)) (\<lambda>r.
     bind (lift (parse_response_list r ''Lifecycle response error'')) (\<lambda>plugin_manifests.
     bind (map_py (\<lambda>p. lift (plugin_line p)) plugin_manifests) (\<lambda>plugin_infos. for_each plugin_infos print_line))))"

definition list_available_job_types :: "string option \<Rightarrow> ('i, 'x, unit) ccm" where
  "list_available_job_types remote =
     bind (connect remote) (\<lambda>(url, user_auth).
     bind (get_from (url @ ''/api/v1/plugin/job_type/versions'') (get_auth_request_headers user_auth)) (\<lambda>r.
     bind (lift (parse_response_list r ''Lifecycle response error'')) (\<lambda>versions.
     for_each versions (\<lambda>v. print_line (json_str v)))))"

section \<open>Bundling\<close>

definition PLUGIN_FILENAME :: string where "PLUGIN_FILENAME = ''plugin.py''"
definition BUNDLE_MANIFEST_FILENAME :: string where "BUNDLE_MANIFEST_FILENAME = ''plugin-manifest.yaml''"

definition load_bundle_manifest :: "string \<Rightarrow> ('i, 'x, PluginManifest) ccm" where
  "load_bundle_manifest manifest_file = wrap_context (''parsing plugin manfiest from '' @ manifest_file) (
     bind (read_text manifest_file) (\<lambda>yaml_str.
     bind (load_yaml yaml_str) (\<lambda>data.
     bind (gets (\<lambda>w. plugin_manifest_validate w (if data = JNull then JObj [] else data))) lift)))"

definition json_of_option :: "string option \<Rightarrow> json" where
  "json_of_option s = (case s of None \<Rightarrow> JNull | Some t \<Rightarrow> JStr t)"

definition plugin_manifest_dump :: "PluginManifest \<Rightarrow> json" where
  "plugin_manifest_dump m =
     JObj [(''name'', JStr (pm_name m)), (''version'', JStr (pm_version m)), (''build_date'', json_of_option (build_date m)),
           (''url'', json_of_option (pm_url m)), (''priority'', JInt (priority m)),
           (''category'', json_of_option (category m)), (''components'', JList (map JStr (pm_components m)))]"

text \<open>The manifest goes last into the archive, with the date of the build.\<close>

definition bundled_manifest :: "PluginManifest \<Rightarrow> ('i, 'x, string) ccm" where
  "bundled_manifest manifest =
     bind now (\<lambda>t. gets (\<lambda>w. yaml_dump w (remove_none (plugin_manifest_dump (manifest\<lparr>build_date := Some (strftime_tag t @ ''Z'')\<rparr>)))))"

text \<open>Every file below the directory, tested on its own.\<close>

definition bundled_files :: "string list \<Rightarrow> (string \<times> node) list \<Rightarrow> string list list" where
  "bundled_files inclusion_matcher tree = filter (match_path inclusion_matcher) (files_under [] tree)"

definition write_bundle :: "string \<Rightarrow> string \<Rightarrow> PluginManifest \<Rightarrow> ('i, 'x, unit) ccm" where
  "write_bundle directory out_path manifest =
     bind (ignore_rules (path_div directory ''.racetrackignore'')) (\<lambda>inclusion_matcher.
     bind (gets (\<lambda>w. walk_dir w directory (files w, dirs w))) (\<lambda>tree.
     bind (pack_files directory (bundled_files inclusion_matcher tree)) (\<lambda>members.
     bind (bundled_manifest manifest) (\<lambda>manifest_output.
     bind (gets (\<lambda>w. pack w ''zip'' (members @ [(BUNDLE_MANIFEST_FILENAME, manifest_output)]))) (write_text out_path)))))"

definition bundle_plugin :: "string \<Rightarrow> string option \<Rightarrow> string option \<Rightarrow> string option \<Rightarrow> ('i, 'x, unit) ccm" where
  "bundle_plugin workdir out_dir out_filename plugin_version =
     (let directory = Path workdir;
          plugin_file = path_div directory PLUGIN_FILENAME;
          manifest_file = path_div directory BUNDLE_MANIFEST_FILENAME
      in bind (path_is_file plugin_file) (\<lambda>f.
         seq (assert_py f (plugin_file @ '' file was not found in a plugin directory''))
         (bind (path_is_file manifest_file) (\<lambda>f.
          seq (assert_py f (manifest_file @ '' file was not found in a plugin directory''))
          (bind (load_bundle_manifest manifest_file) (\<lambda>manifest.
           let manifest = (if given plugin_version then manifest\<lparr>pm_version := the plugin_version\<rparr> else manifest);
               out_dir_path = (if given out_dir then Path (the out_dir) else directory);
               filename = (if given out_filename then the out_filename else pm_name manifest @ ''-'' @ pm_version manifest @ ''.zip'')
           in bind (path_is_dir out_dir_path) (\<lambda>d.
              seq (assert_py d (''out directory '' @ out_dir_path @ '' doesn't exist''))
                  (write_bundle directory (path_div out_dir_path filename) manifest))))))))"

end
