(* ===== verification/ClientLaws.thy ===== *)
theory ClientLaws
  imports ClientPlugins Health VersionOrder
begin

text \<open>
  What the commands of the client guarantee: a token that was stored by logging in is the one that is used
  afterwards, a deployment is reported as successful only when the server says so, and the greatest
  stable release of a plugin is the one that is installed.
\<close>

section \<open>What a request changes\<close>

text \<open>Requests change nothing but the state of the network.\<close>

definition only_infra :: "('i, 'x, 'a) ccm \<Rightarrow> bool" where
  "only_infra m \<longleftrightarrow> (\<forall>w. \<exists>i. snd (m w) = w\<lparr>infra := i\<rparr>)"

lemma only_infraD: "only_infra m \<Longrightarrow> m w = (r, w') \<Longrightarrow> \<exists>i. w' = w\<lparr>infra := i\<rparr>"
  unfolding only_infra_def by (metis snd_conv)

lemma only_infra_same: "(\<And>w. snd (m w) = w) \<Longrightarrow> only_infra m"
  unfolding only_infra_def by (rule allI, rule_tac x = "infra w" in exI) simp

lemma only_infra_basic:
  "only_infra (ret x)" "only_infra (raise e)" "only_infra (lift r)" "only_infra (gets f)" "only_infra (assert_py b t)"
  by (auto intro!: only_infra_same simp: ret_def raise_def lift_def gets_def assert_py_def)

lemma only_infra_on_infra: "only_infra (on_infra m)"
  by (auto simp: only_infra_def on_infra_def split: prod.splits)

lemma only_infra_bind: "only_infra m \<Longrightarrow> (\<And>x. only_infra (f x)) \<Longrightarrow> only_infra (bind m f)"
  unfolding only_infra_def
proof
  fix w
  assume m: "\<forall>w. \<exists>i. snd (m w) = w\<lparr>infra := i\<rparr>" and f: "\<And>x. \<forall>w. \<exists>i. snd (f x w) = w\<lparr>infra := i\<rparr>"
  from m obtain i where i: "snd (m w) = w\<lparr>infra := i\<rparr>" by blast
  show "\<exists>j. snd (bind m f w) = w\<lparr>infra := j\<rparr>"
  proof (cases "m w")
    case (Pair r v)
    show ?thesis
    proof (cases r)
      case (Inr x)
      obtain j where "snd (f x v) = v\<lparr>infra := j\<rparr>" using f by blast
      with i Pair Inr show ?thesis by (auto simp: run_bind)
    qed (use i Pair in \<open>auto simp: run_bind\<close>)
  qed
qed

lemma only_infra_requests:
  "only_infra (get_from url hdrs)" "only_infra (post_to url payload hdrs)" "only_infra (item d key)"
  "only_infra (validate_user_auth_at url token)"
  unfolding get_from_def post_to_def item_def validate_user_auth_at_def
  by (auto intro!: only_infra_bind only_infra_basic only_infra_on_infra)

section \<open>Logging in\<close>

text \<open>An address with a scheme, a host and a path, which is what a remote resolves to.\<close>

definition full_url :: "string \<Rightarrow> bool" where
  "full_url url \<longleftrightarrow> (case urlsplit url of Inl e \<Rightarrow> False | Inr s \<Rightarrow> us_scheme s \<noteq> [] \<and> us_netloc s \<noteq> [] \<and> us_path s \<noteq> [])"

lemma infer_full: "full_url url \<Longrightarrow> infer_full_lifecycle_url url = Inr url"
  by (auto simp: full_url_def infer_full_lifecycle_url_def split: sum.splits)

lemma full_url_nonempty: "full_url url \<Longrightarrow> url \<noteq> []"
  by (auto simp: full_url_def urlsplit_def clean_url_def split_scheme_def cut_before_def Let_def startswith_def)

lemma resolve_full: "full_url url \<Longrightarrow> map_of (lifecycle_url_aliases cfg) url = None \<Longrightarrow> resolve_lifecycle_url cfg (Some url) = Inr url"
  by (simp add: resolve_lifecycle_url_def resolve_short_lifecycle_url_def given_def full_url_nonempty infer_full)

lemma run_load_client_config: "load_client_config w = (fst (load_client_config w), w)"
  unfolding load_client_config_def
  by (auto simp: run_bind run_gets run_try run_ret run_raise run_lift load_yaml_def split: option.splits sum.splits)

lemma load_after_save:
  assumes "save_client_config cfg w = (Inr (), w')"
    and "yaml_load w (yaml_dump w (JObj (client_config_dump cfg))) = Inr (JObj (client_config_dump cfg))"
    and "client_config_validate w (JObj (client_config_dump cfg)) = Inr cfg"
  shows "load_client_config w' = (Inr cfg, w')"
  using assms
  by (auto simp: save_client_config_def load_client_config_def load_yaml_def mkdir_parents_def path_is_file_def write_text_def
      run_bind run_seq run_gets run_modify run_lift run_try run_ret run_raise split: if_splits)

definition with_token :: "ClientConfig \<Rightarrow> string \<Rightarrow> string \<Rightarrow> ClientConfig" where
  "with_token cfg url token = cfg\<lparr>user_auths := dict_set url token (user_auths cfg)\<rparr>"

lemma resolve_with_token [simp]: "resolve_lifecycle_url (with_token cfg url token) remote = resolve_lifecycle_url cfg remote"
  by (simp add: with_token_def resolve_lifecycle_url_def resolve_short_lifecycle_url_def)

lemma user_auths_with_token [simp]: "user_auths (with_token cfg url token) = dict_set url token (user_auths cfg)"
  by (simp add: with_token_def)

text \<open>
  C22. After logging in to a remote, the token is the one that is used for that remote: it is read back
  from the configuration file without asking the server, and the tokens of other servers are unchanged.
  This holds when the address is complete and not itself an alias, and the YAML library reads back what
  it has written.
\<close>
theorem login_roundtrip:
  assumes "login_user_auth remote token w = (Inr (), w')" "token \<noteq> []"
    and "fst (load_client_config w) = Inr cfg" "resolve_lifecycle_url cfg remote = Inr url"
    and "full_url url" "map_of (lifecycle_url_aliases cfg) url = None"
    and "yaml_load w (yaml_dump w (JObj (client_config_dump (with_token cfg url token))))
           = Inr (JObj (client_config_dump (with_token cfg url token)))"
    and "client_config_validate w (JObj (client_config_dump (with_token cfg url token))) = Inr (with_token cfg url token)"
  shows "get_current_auth remote w' = (Inr token, w')
    \<and> load_client_config w' = (Inr (with_token cfg url token), w')
    \<and> (\<forall>other. other \<noteq> url \<longrightarrow> map_of (user_auths (with_token cfg url token)) other = map_of (user_auths cfg) other)"
proof -
  have cfg: "load_client_config w = (Inr cfg, w)" using run_load_client_config [of w] assms(3) by simp
  have set: "set_user_auth cfg url token = Inr (with_token cfg url token)"
    using assms(2) resolve_full [OF assms(5,6)] by (simp add: set_user_auth_def with_token_def)
  from assms(1) obtain name v where v: "validate_user_auth_at url token w = (Inr name, v)"
    and saved: "save_client_config (with_token cfg url token) v = (Inr (), w')"
    by (auto simp: login_user_auth_def run_bind run_seq run_lift cfg assms(4) set split: sum.splits prod.splits)
  obtain i where "v = w\<lparr>infra := i\<rparr>" using only_infraD [OF only_infra_requests(4) v] by blast
  with assms(7,8) have load: "load_client_config w' = (Inr (with_token cfg url token), w')"
    by (intro load_after_save [OF saved]) simp_all
  have "get_user_auth (with_token cfg url token) url w' = (Inr token, w')"
    by (simp add: get_user_auth_def run_ret)
  with load show ?thesis by (simp add: get_current_auth_def run_bind run_lift assms(4))
qed

text \<open>A client with an empty disk whose server accepts every token; pydantic reads back what was dumped.\<close>

fun strings_of_json :: "json option \<Rightarrow> (string, string) dict" where
  "strings_of_json (Some (JObj kvs)) = map (\<lambda>(k, v). (k, json_str v)) kvs"
| "strings_of_json j = []"

definition sample_validate :: "json \<Rightarrow> exn + ClientConfig" where
  "sample_validate j =
     (case j of
        JObj d \<Rightarrow> Inr \<lparr>lifecycle_url = json_str (none_or (map_of d ''lifecycle_url'')), cc_git_credentials = [],
          lifecycle_url_aliases = strings_of_json (map_of d ''lifecycle_url_aliases''),
          user_auths = strings_of_json (map_of d ''user_auths'')\<rparr>
      | _ \<Rightarrow> Inl (ValidationError []))"

definition accepting :: "(string \<times> string) list opener" where
  "accepting rq i = (Opened 200 (dumps (JObj [(''username'', JStr ''alice'')])) [(''Content-Type'', ''application/json'')], i)"

definition client_of :: "(string \<times> string) list opener \<Rightarrow> (string, string) dict \<Rightarrow> (string \<times> string) list client" where
  "client_of op disk = machine.extend (cluster.extend (sample_cluster\<lparr>yaml_load := loads, yaml_dump := dumps, urlopen := op\<rparr>)
       (machine.fields disk (\<lambda>p. p = ''/work'') (\<lambda>cmd wd (i, f, d). (([], 0), i, f, d)) ''/work'' (\<lambda>p. p)))
     (client.fields ''/root'' True [] (\<lambda>prompt. []) None ''tmp1'' sample_validate (\<lambda>j. Inl (ValidationError []))
       (\<lambda>s. Inr []) (\<lambda>p d. []) (\<lambda>m fs. []) (\<lambda>j. Inl (ValidationError [])))"

lemma client_of_sel [simp]:
  "files (client_of op disk) = disk" "yaml_load (client_of op disk) = loads" "yaml_dump (client_of op disk) = dumps"
  "urlopen (client_of op disk) = op" "home (client_of op disk) = ''/root''"
  "client_config_validate (client_of op disk) = sample_validate"
  by (simp_all add: client_of_def machine.defs client.defs cluster.defs del: dumps.simps)

lemma welcomed: "fst (validate_user_auth_at url token (client_of accepting disk)) = Inr (JStr ''alice'')"
proof -
  have g: "get_from url hdrs (client_of accepting disk)
      = (Inr \<lparr>rs_url = url, rs_method = ''GET'', status_code = 200, content = dumps (JObj [(''username'', JStr ''alice'')]),
            rs_headers = [(''Content-Type'', ''application/json'')]\<rparr>, client_of accepting disk)" for url hdrs
    by (simp add: get_from_def run_bind run_gets on_infra_def requests_get_def make_request_def accepting_def client_of_def
        machine.defs client.defs cluster.defs del: dumps.simps)
  have p: "parse_response_object \<lparr>rs_url = url, rs_method = ''GET'', status_code = 200, content = dumps (JObj [(''username'', JStr ''alice'')]),
       rs_headers = [(''Content-Type'', ''application/json'')]\<rparr> ctx = Inr [(''username'', JStr ''alice'')]" for url ctx
    by code_simp
  show ?thesis by (simp add: validate_user_auth_at_def run_bind run_lift g p item_def get_item_def del: dumps.simps)
qed

theorem login_roundtrip_witness:
  "\<exists>w'. login_user_auth (Some ''racetrack.dev'') ''secret'' (client_of accepting []) = (Inr (), w')
     \<and> get_current_auth (Some ''racetrack.dev'') w' = (Inr ''secret'', w')"
proof -
  let ?w = "client_of accepting []" and ?cfg = default_client_config and ?url = "''https://racetrack.dev/lifecycle''"
  let ?saved = "with_token ?cfg ?url ''secret''"
  have url: "resolve_lifecycle_url ?cfg (Some ''racetrack.dev'') = Inr ?url" by code_simp
  have full: "full_url ?url" by code_simp
  have cfg: "load_client_config ?w = (Inr ?cfg, ?w)" by (simp add: load_client_config_def run_bind run_gets run_ret)
  have unaliased: "map_of (lifecycle_url_aliases ?cfg) ?url = None" by code_simp
  have yaml: "loads (dumps (JObj (client_config_dump ?saved))) = Inr (JObj (client_config_dump ?saved))" by code_simp
  have valid: "sample_validate (JObj (client_config_dump ?saved)) = Inr ?saved" by code_simp
  have set: "set_user_auth ?cfg ?url ''secret'' = Inr ?saved"
    using resolve_full [OF full unaliased] by (simp add: set_user_auth_def with_token_def)
  obtain v where v: "validate_user_auth_at ?url ''secret'' ?w = (Inr (JStr ''alice''), v)"
    using welcomed [of ?url "''secret''" "[]"] by (cases "validate_user_auth_at ?url ''secret'' ?w") simp
  then obtain i where i: "v = ?w\<lparr>infra := i\<rparr>" using only_infraD [OF only_infra_requests(4)] by blast
  obtain w' where "save_client_config ?saved v = (Inr (), w')"
    by (simp add: i save_client_config_def mkdir_parents_def path_is_file_def write_text_def run_bind run_seq run_gets run_modify run_ret)
  then have login: "login_user_auth (Some ''racetrack.dev'') ''secret'' ?w = (Inr (), w')"
    by (simp add: login_user_auth_def run_bind run_seq run_lift cfg url v set)
  show ?thesis
    using login_roundtrip [OF login _ _ url full unaliased] login cfg yaml valid by simp
qed

section \<open>Deploying\<close>

lemma retry_result: "retry n p m w = (r, w') \<Longrightarrow> \<exists>v. m v = (r, w')"
proof (induction n arbitrary: w)
  case (Suc n)
  then show ?case by (cases "m w") (auto simp: run_try split: sum.splits if_splits)
qed auto

lemma get_from_error: "get_from url hdrs w = (Inl e, w') \<Longrightarrow> \<exists>m c. e = RequestError m c"
  by (auto simp: get_from_def run_bind run_gets on_infra_def requests_get_def make_request_def
      split: prod.splits url_result.splits)

lemma parse_response_object_error: "parse_response_object r ctx = Inl e \<Longrightarrow> \<exists>m code c. e = ResponseError m code c"
  unfolding parse_response_object_def in_error_context_def by (auto split: sum.splits)

text \<open>What one look at a deployment says of the answer of the server.\<close>

definition answered :: "string \<Rightarrow> string \<Rightarrow> string \<Rightarrow> string \<Rightarrow> (('i, 'x) client_scheme) \<Rightarrow> (string, json) dict \<Rightarrow> bool" where
  "answered error_context url deploy_id token w' response \<longleftrightarrow>
     (\<exists>w answer. get_from (url @ ''/api/v1/deploy/'' @ deploy_id) (get_auth_request_headers token) w = (Inr answer, w')
        \<and> parse_response_object answer error_context = Inr response)"

lemma check_deployment_answer:
  assumes "check_deployment result ctx timeout_text url deploy_id token w = (r, w')"
  shows "(\<exists>response. answered ctx url deploy_id token w' response \<and> r = deployment_outcome result timeout_text response)
    \<or> (\<exists>e. r = Inl e \<and> (\<exists>m c. e = RequestError m c) \<or> r = Inl e \<and> (\<exists>m code c. e = ResponseError m code c))"
  using assms unfolding check_deployment_def answered_def
  by (auto simp: run_bind run_lift split: sum.splits prod.splits dest!: get_from_error parse_response_object_error)

lemma outcome_done:
  "deployment_outcome result timeout_text response = Inr x \<Longrightarrow> status_of response = Inr ''done'' \<and> result response = Inr x"
  by (auto simp: deployment_outcome_def split: sum.splits if_splits)

lemma outcome_failed:
  "deployment_outcome pub_url_of timeout_text response = Inl (RuntimeError m) \<Longrightarrow>
     status_of response = Inr ''failed'' \<and> (\<exists>err. map_of response ''error'' = Some err \<and> m = json_str err)"
  by (auto simp: deployment_outcome_def pub_url_of_def as_dict_def status_of_def get_item_def
      split: sum.splits if_splits option.splits json.splits)

text \<open>The waiting ends with the result of the deployment when it is done, and with the reported error when
  it failed.\<close>

lemma wait_answer:
  assumes "wait_for_deployment_result url deploy_id token w = (r, w')"
  shows "r = Inr x \<Longrightarrow> \<exists>response. answered ''Lifecycle deployment status'' url deploy_id token w' response
      \<and> status_of response = Inr ''done'' \<and> pub_url_of response = Inr x"
    and "r = Inl (RuntimeError m) \<Longrightarrow> \<exists>response err. answered ''Lifecycle deployment status'' url deploy_id token w' response
      \<and> status_of response = Inr ''failed'' \<and> map_of response ''error'' = Some err \<and> m = json_str err"
proof -
  from assms obtain v where v: "check_deployment pub_url_of ''Lifecycle deployment status'' ''Deployment timeout error''
      url deploy_id token v = (r, w')"
    unfolding wait_for_deployment_result_def by (auto simp: run_bind run_gets dest: retry_result)
  from check_deployment_answer [OF this]
  show "r = Inr x \<Longrightarrow> \<exists>response. answered ''Lifecycle deployment status'' url deploy_id token w' response
      \<and> status_of response = Inr ''done'' \<and> pub_url_of response = Inr x"
    by (auto dest: outcome_done [OF sym])
  from check_deployment_answer [OF v]
  show "r = Inl (RuntimeError m) \<Longrightarrow> \<exists>response err. answered ''Lifecycle deployment status'' url deploy_id token w' response
      \<and> status_of response = Inr ''failed'' \<and> map_of response ''error'' = Some err \<and> m = json_str err"
    by (auto dest: outcome_failed [OF sym])
qed

lemma run_remove_temporary:
  "\<exists>w'. remove_temporary tmp w = (Inr (), w') \<and> w = w'\<lparr>files := files w\<rparr> \<and> (\<forall>p. tmp = Some p \<longrightarrow> map_of (files w') p = None)"
  by (auto simp: remove_temporary_def path_is_file_def unlink_def run_bind run_gets run_ret run_modify split: option.splits)

lemma run_catch_piped_input:
  "\<exists>w'. catch_piped_input w = (Inr (if \<not> is_a_tty w \<and> given (piped_input w)
     then Some (path_div (working_dir w) (temporary_name w)) else None), w')"
  by (simp add: catch_piped_input_def write_text_def run_bind run_seq run_gets run_ret run_modify)

text \<open>The server accepted the request under an identifier and, in its last answer before the state \<open>w\<close>, which
  is up to the files on the disk, reported the deployment of it as done.\<close>

definition reported_done :: "(('i, 'x) client_scheme) \<Rightarrow> json \<Rightarrow> bool" where
  "reported_done w result \<longleftrightarrow> (\<exists>url token payload posted deploy_id response accepted disk.
     \<exists>u :: ('i, 'x) client_scheme. \<exists>u' :: ('i, 'x) client_scheme.
     post_to (url @ ''/api/v1/deploy'') payload (get_auth_request_headers token) u = (Inr posted, u')
     \<and> parse_response_object posted ''Lifecycle deploying error'' = Inr accepted \<and> map_of accepted ''id'' = Some deploy_id
     \<and> answered ''Lifecycle deployment status'' url (json_str deploy_id) token (w\<lparr>files := disk\<rparr>) response
     \<and> status_of response = Inr ''done'' \<and> pub_url_of response = Inr result)"

lemma request_accepted:
  assumes "request_deployment url what ctx workdir manifest_dict manifest cfg token context_kind force build_flags w = (Inr (deploy_id, secrets), w')"
  shows "\<exists>payload u posted accepted i. post_to (url @ ''/api/v1/'' @ what) payload (get_auth_request_headers token) u = (Inr posted, w')
    \<and> parse_response_object posted ctx = Inr accepted \<and> map_of accepted ''id'' = Some i \<and> deploy_id = json_str i"
  using assms unfolding request_deployment_def
  by (auto simp: run_lift run_ret item_def get_item_def elim!: bind_okE split: option.splits) blast

lemma deploy_from_done:
  fixes w :: "('i, 'x) client_scheme"
  assumes "deploy_from workdir client_cfg remote force context_kind extra_vars build_flags w = (Inr job_url, w')"
  shows "\<exists>url token payload posted deploy_id response accepted. \<exists>u :: ('i, 'x) client_scheme. \<exists>u' :: ('i, 'x) client_scheme.
     post_to (url @ ''/api/v1/deploy'') payload (get_auth_request_headers token) u = (Inr posted, u')
     \<and> parse_response_object posted ''Lifecycle deploying error'' = Inr accepted \<and> map_of accepted ''id'' = Some deploy_id
     \<and> answered ''Lifecycle deployment status'' url (json_str deploy_id) token w' response
     \<and> status_of response = Inr ''done'' \<and> pub_url_of response = Inr job_url"
proof -
  from assms obtain url manifest_dict manifest cfg token deploy_id secrets u1 u2 where
    posted: "request_deployment url ''deploy'' ''Lifecycle deploying error'' workdir manifest_dict manifest cfg token context_kind force
        build_flags u1 = (Inr (deploy_id, secrets), u2)"
    and waited: "wait_for_deployment_result url deploy_id token u2 = (Inr job_url, w')"
    unfolding deploy_from_def as_deployment_error_def
    by (auto simp: run_try run_raise elim!: bind_okE split: sum.splits prod.splits)
  from request_accepted [OF posted] wait_answer(1) [OF waited refl] show ?thesis by (metis append_Cons append_Nil)
qed


section \<open>Releases of a plugin\<close>

definition release_version :: "PluginRelease \<Rightarrow> semantic_version" where
  "release_version r = (case SemanticVersion (pr_version r) of Inr v \<Rightarrow> v)"

text \<open>Without a version, the greatest stable release of a repository is installed.\<close>

lemma latest_release_greatest:
  assumes "sort_releases rs = Inr releases"
  shows "case latest_stable_release repo_name releases of
      Inl e \<Rightarrow> \<forall>r \<in> set rs. \<not> is_stable (release_version r)
    | Inr r \<Rightarrow> r \<in> set rs \<and> is_stable (release_version r)
        \<and> (\<forall>q \<in> set rs. is_stable (release_version q) \<longrightarrow> release_version q \<le> release_version r)"
proof -
  have parsed: "parse_versions pr_version xs = Inr vs \<Longrightarrow> vs = map (\<lambda>r. (release_version r, r)) xs" for xs vs
    by (auto dest: parse_versions_InrD simp: release_version_def)
  have sorted: "releases = sort_key release_version rs"
    using assms by (auto simp: sort_releases_def sort_key_map o_def dest!: parsed split: sum.splits)
  have "\<exists>vs. parse_versions pr_version rs = Inr vs" using assms by (auto simp: sort_releases_def split: sum.splits)
  then have "\<exists>vs. parse_versions pr_version releases = Inr vs" unfolding sorted parse_versions_set by simp
  then have vs: "parse_versions pr_version releases = Inr (map (\<lambda>r. (release_version r, r)) releases)" using parsed by blast
  let ?stable = "filter (is_stable \<circ> release_version) (sort_key release_version rs)"
  have latest: "latest_stable_release repo_name releases =
      (if ?stable = [] then Inl (AssertionError (''repository '' @ repo_name @ '' doesn't have any valid stable release''))
       else Inr (last ?stable))"
    using vs by (simp add: sorted latest_stable_release_def filter_map o_def Let_def)
  show ?thesis
  proof (cases "?stable = []")
    case True
    then show ?thesis by (simp add: latest filter_empty_conv)
  next
    case False
    from last_filter_sorted [OF False] False show ?thesis by (simp add: latest)
  qed
qed

end
