(* ===== verification/JsonFuel.thy ===== *)
theory JsonFuel
  imports Http
begin

text \<open>
  The reader of JSON always ends: every value consumes a part of the text, so that the fuel \<open>loads\<close> gives it
  is never used up, for well-formed and malformed texts alike, and more fuel changes no result.
\<close>

section \<open>Reading consumes text\<close>

definition shrinks :: "('a \<times> string) option \<Rightarrow> string \<Rightarrow> bool" where
  "shrinks res s \<longleftrightarrow> (\<forall>x q. res = Some (x, q) \<longrightarrow> length q < length s)"

lemma length_skip_ws: "length (skip_ws s) \<le> length s"
  by (simp add: skip_ws_def length_dropWhile_le)

lemma shrinks_str: "read_str s = Some (x, q) \<Longrightarrow> length q < length s"
  by (induction s arbitrary: x q rule: read_str.induct) (fastforce split: if_splits list.splits option.splits)+

lemma shrinks_int: "read_int s = Some (x, q) \<Longrightarrow> length q < length s"
proof -
  assume a: "read_int s = Some (x, q)"
  have *: "takeWhile is_digit r \<noteq> [] \<Longrightarrow> length (dropWhile is_digit r) < length r" for r
    by (cases r) (auto simp: le_imp_less_Suc length_dropWhile_le split: if_splits)
  from a show ?thesis
    by (auto simp: read_int_def Let_def split: if_splits dest: * intro: less_le_trans)
qed

lemma skip_ws_shorter: "skip_ws s = c # q \<Longrightarrow> length q < length s"
  using length_skip_ws [of s] by simp

lemma read_shrinks:
  "read_value n s = Some (x, q) \<Longrightarrow> length q < length s"
  "read_items n s = Some (xs, q) \<Longrightarrow> length q < length s"
  "read_members n s = Some (ms, q) \<Longrightarrow> length q < length s"
proof (induction n arbitrary: s x xs ms q)
  case (Suc n)
  {
    case 1
    obtain c r where cr: "skip_ws s = c # r" using 1 by (auto split: list.splits)
    note lr = skip_ws_shorter [OF cr]
    have d: "length (drop k (c # r)) < length s" if "0 < k" for k
      using lr that by (simp add: drop_Cons')
    have t: "length (tl (skip_ws r)) < length s" using length_skip_ws [of r] lr by simp
    from 1 cr lr d t length_skip_ws [of s] show ?case
      by (auto simp del: drop.simps split: if_splits dest!: shrinks_str shrinks_int Suc.IH(2,3))
  next
    case 2
    then show ?case
      by (auto split: option.splits list.splits if_splits dest!: Suc.IH(1,2) skip_ws_shorter)
  next
    case 3
    then show ?case
      by (auto split: option.splits list.splits if_splits dest!: Suc.IH(1,3) skip_ws_shorter shrinks_str)
  }
qed simp_all

section \<open>More fuel changes nothing\<close>

lemma fuel_enough:
  "2 * length s + 1 \<le> n \<Longrightarrow> read_value (Suc n) s = read_value n s"
  "2 * length s + 2 \<le> n \<Longrightarrow> read_items (Suc n) s = read_items n s"
  "2 * length s + 2 \<le> n \<Longrightarrow> read_members (Suc n) s = read_members n s"
proof (induction n arbitrary: s)
  case (Suc n)
  {
    case 1
    show ?case
    proof (cases "skip_ws s")
      case (Cons c r)
      then have "2 * length r + 2 \<le> n" using 1 skip_ws_shorter [OF Cons] by simp
      then show ?thesis by (simp add: Cons Suc.IH(2,3) del: read_items.simps read_members.simps)
    qed simp
  next
    case 2
    have "read_value (Suc n) s = read_value n s" using 2 by (intro Suc.IH(1)) simp
    moreover have "read_items (Suc n) q = read_items n q" if "read_value n s = Some (x, r)" "skip_ws r = c # q" for x r c q
      using 2 read_shrinks(1) [OF that(1)] skip_ws_shorter [OF that(2)] by (intro Suc.IH(2)) simp
    ultimately show ?case
      by (subst (1 2) read_items.simps) (auto split: option.splits list.splits simp del: read_items.simps read_value.simps)
  next
    case 3
    have v: "read_value (Suc n) r2 = read_value n r2"
      if "skip_ws s = c # r" "read_str r = Some (k, r1)" "skip_ws r1 = d # r2" for c r k r1 d r2
      using 3 skip_ws_shorter [OF that(1)] shrinks_str [OF that(2)] skip_ws_shorter [OF that(3)] by (intro Suc.IH(1)) simp
    have m: "read_members (Suc n) q = read_members n q"
      if "skip_ws s = c # r" "read_str r = Some (k, r1)" "skip_ws r1 = d # r2" "read_value n r2 = Some (x, r3)" "skip_ws r3 = e # q"
      for c r k r1 d r2 x r3 e q
      using 3 skip_ws_shorter [OF that(1)] shrinks_str [OF that(2)] skip_ws_shorter [OF that(3)] read_shrinks(1) [OF that(4)]
        skip_ws_shorter [OF that(5)] by (intro Suc.IH(3)) simp
    show ?case
      by (subst (1 2) read_members.simps)
        (auto simp: v m split: option.splits list.splits simp del: read_members.simps read_value.simps)
  }
qed simp_all

lemma fuel_irrelevant: "read_value (2 * length s + 2 + k) s = read_value (2 * length s + 2) s"
proof (induction k)
  case (Suc k)
  then show ?case using fuel_enough(1) [of s "2 * length s + 2 + k"] by simp
qed simp


end
