(* ===== verification/ServiceClients.thy ===== *)
theory ServiceClients
  imports ClientJobs
begin

text \<open>
  The clients with which other parts of the system call the Lifecycle server
  (\<open>racetrack_commons/entities/*_client.py\<close>). A client is the address of the server with a token; the decoding
  of answers into transfer objects by pydantic is an argument of the functions that use it.
\<close>

section \<open>The client of the server\<close>

record LifecycleClient =
  lifecycle_api_url :: string
  auth_token :: string

definition new_lifecycle_client :: "string \<Rightarrow> ('i, 'x, LifecycleClient) clm" where
  "new_lifecycle_client token =
     bind (gets (\<lambda>w. environ w ''LIFECYCLE_URL'')) (\<lambda>url.
     bind (lift (trim_url (the_default ''http://127.0.0.1:7202'' url))) (\<lambda>url.
     ret \<lparr>lifecycle_api_url = url, auth_token = token\<rparr>))"

definition get_auth_headers :: "LifecycleClient \<Rightarrow> (string \<times> string option) list" where
  "get_auth_headers c = (if auth_token c = [] then [] else [(RT_AUTH_HEADER, Some (auth_token c))])"

text \<open>\<open>Requests.request\<close> with a JSON payload and query parameters.\<close>

definition client_response :: "LifecycleClient \<Rightarrow> string \<Rightarrow> string \<Rightarrow> json option \<Rightarrow> (string \<times> string) list
    \<Rightarrow> ('i, 'x, Response) clm" where
  "client_response c verb path jsondata args =
     (let url = lifecycle_api_url c @ path
      in bind (if args = [] then ret url else lift (build_url_with_params url args)) (\<lambda>url.
         bind (gets urlopen) (\<lambda>op.
         on_infra (make_request op (upper verb) url jsondata None (get_auth_headers c) None))))"

definition client_request :: "LifecycleClient \<Rightarrow> string \<Rightarrow> string \<Rightarrow> json option \<Rightarrow> ('i, 'x, json) clm" where
  "client_request c verb path jsondata =
     bind (client_response c verb path jsondata []) (\<lambda>r. lift (parse_response r ''Lifecycle response''))"

definition client_request_dict :: "LifecycleClient \<Rightarrow> string \<Rightarrow> string \<Rightarrow> json option \<Rightarrow> (string \<times> string) list
    \<Rightarrow> ('i, 'x, (string, json) dict) clm" where
  "client_request_dict c verb path jsondata args =
     bind (client_response c verb path jsondata args) (\<lambda>r. lift (parse_response_object r ''Lifecycle response''))"

definition client_request_list :: "LifecycleClient \<Rightarrow> string \<Rightarrow> string \<Rightarrow> ('i, 'x, json list) clm" where
  "client_request_list c verb path =
     bind (client_response c verb path None []) (\<lambda>r. lift (parse_response_list r ''Lifecycle response''))"

text \<open>\<open>parse_dict_datamodels\<close>.\<close>

definition parse_dict_datamodels :: "(json \<Rightarrow> exn + 'd) \<Rightarrow> json list \<Rightarrow> ('w, 'd list) py" where
  "parse_dict_datamodels validate xs = map_py (\<lambda>x. lift (validate x)) xs"

definition client_list :: "(json \<Rightarrow> exn + 'd) \<Rightarrow> LifecycleClient \<Rightarrow> string \<Rightarrow> ('i, 'x, 'd list) clm" where
  "client_list validate c path = bind (client_request_list c ''get'' path) (parse_dict_datamodels validate)"

definition client_command :: "LifecycleClient \<Rightarrow> string \<Rightarrow> string \<Rightarrow> json option \<Rightarrow> ('i, 'x, unit) clm" where
  "client_command c verb path jsondata = seq (client_request c verb path jsondata) (ret ())"

definition path_of_job :: "string \<Rightarrow> string \<Rightarrow> string" where
  "path_of_job name version = name @ ''/'' @ version"

section \<open>Audit log\<close>

definition list_user_events :: "(json \<Rightarrow> exn + 'd) \<Rightarrow> LifecycleClient \<Rightarrow> ('i, 'x, 'd list) clm" where
  "list_user_events validate c = client_list validate c ''/api/v1/audit/user_events''"

definition list_user_job_family_events :: "(json \<Rightarrow> exn + 'd) \<Rightarrow> LifecycleClient \<Rightarrow> string \<Rightarrow> ('i, 'x, 'd list) clm" where
  "list_user_job_family_events validate c name = client_list validate c (''/api/v1/audit/user_events/job/'' @ name)"

definition list_user_job_events :: "(json \<Rightarrow> exn + 'd) \<Rightarrow> LifecycleClient \<Rightarrow> string \<Rightarrow> string \<Rightarrow> ('i, 'x, 'd list) clm" where
  "list_user_job_events validate c name version =
     client_list validate c (''/api/v1/audit/user_events/job/'' @ path_of_job name version)"

definition list_all_events :: "(json \<Rightarrow> exn + 'd) \<Rightarrow> LifecycleClient \<Rightarrow> ('i, 'x, 'd list) clm" where
  "list_all_events validate c = client_list validate c ''/api/v1/audit/events''"

definition list_job_family_events :: "(json \<Rightarrow> exn + 'd) \<Rightarrow> LifecycleClient \<Rightarrow> string \<Rightarrow> ('i, 'x, 'd list) clm" where
  "list_job_family_events validate c name = client_list validate c (''/api/v1/audit/events/job/'' @ name)"

definition list_job_events :: "(json \<Rightarrow> exn + 'd) \<Rightarrow> LifecycleClient \<Rightarrow> string \<Rightarrow> string \<Rightarrow> ('i, 'x, 'd list) clm" where
  "list_job_events validate c name version =
     client_list validate c (''/api/v1/audit/events/job/'' @ path_of_job name version)"

definition filter_events :: "(json \<Rightarrow> exn + 'd) \<Rightarrow> LifecycleClient \<Rightarrow> bool \<Rightarrow> string option \<Rightarrow> string option
    \<Rightarrow> ('i, 'x, 'd list) clm" where
  "filter_events validate c related_to_user name version =
     (if related_to_user then
        if given name \<and> given version then list_user_job_events validate c (the name) (the version)
        else if given name then list_user_job_family_events validate c (the name)
        else list_user_events validate c
      else
        if given name \<and> given version then list_job_events validate c (the name) (the version)
        else if given name then list_job_family_events validate c (the name)
        else list_all_events validate c)"

section \<open>External service consumers\<close>

definition call_job_scope :: string where
  "call_job_scope = scope_value CALL_JOB"

definition request_create_esc :: "(json \<Rightarrow> exn + 'd) \<Rightarrow> LifecycleClient \<Rightarrow> string \<Rightarrow> string option \<Rightarrow> ('i, 'x, 'd) clm" where
  "request_create_esc validate c name consumer_id =
     bind (client_request_dict c ''post'' ''/api/v1/escs''
             (Some (JObj [(''name'', JStr name), (''id'', case consumer_id of None \<Rightarrow> JNull | Some i \<Rightarrow> JStr i)])) []) (\<lambda>response.
     lift (validate (JObj response)))"

definition esc_allow_job :: "LifecycleClient \<Rightarrow> string \<Rightarrow> string \<Rightarrow> ('i, 'x, unit) clm" where
  "esc_allow_job c consumer_id name =
     client_command c ''post'' (''/api/v1/auth/allow/esc/'' @ consumer_id @ ''/job/'' @ name @ ''/scope/'' @ call_job_scope) None"

definition request_esc_auth_token :: "LifecycleClient \<Rightarrow> string \<Rightarrow> ('i, 'x, json) clm" where
  "request_esc_auth_token c consumer_id =
     bind (client_request_dict c ''get'' (''/api/v1/auth/token/esc/'' @ consumer_id) None []) (\<lambda>response. item response ''token'')"

definition request_escs :: "(json \<Rightarrow> exn + 'd) \<Rightarrow> LifecycleClient \<Rightarrow> ('i, 'x, 'd list) clm" where
  "request_escs validate c = client_list validate c ''/api/v1/escs''"

section \<open>Jobs\<close>

definition list_deployed_jobs :: "(json \<Rightarrow> exn + 'd) \<Rightarrow> LifecycleClient \<Rightarrow> ('i, 'x, 'd list) clm" where
  "list_deployed_jobs validate c = client_list validate c ''/api/v1/job''"

definition list_deployed_job_families :: "(json \<Rightarrow> exn + 'd) \<Rightarrow> LifecycleClient \<Rightarrow> ('i, 'x, 'd list) clm" where
  "list_deployed_job_families validate c = client_list validate c ''/api/v1/job_family''"

definition delete_deployed_job :: "LifecycleClient \<Rightarrow> string \<Rightarrow> string \<Rightarrow> ('i, 'x, unit) clm" where
  "delete_deployed_job c name version = client_command c ''delete'' (''/api/v1/job/'' @ path_of_job name version) None"

definition request_redeploy :: "LifecycleClient \<Rightarrow> string \<Rightarrow> string \<Rightarrow> ('i, 'x, unit) clm" where
  "request_redeploy c name version = client_command c ''post'' (''/api/v1/job/'' @ path_of_job name version @ ''/redeploy'') None"

definition request_reprovision :: "LifecycleClient \<Rightarrow> string \<Rightarrow> string \<Rightarrow> ('i, 'x, unit) clm" where
  "request_reprovision c name version =
     client_command c ''post'' (''/api/v1/job/'' @ path_of_job name version @ ''/reprovision'') None"

definition get_dependencies_graph :: "LifecycleClient \<Rightarrow> ('i, 'x, (string, json) dict) clm" where
  "get_dependencies_graph c = client_request_dict c ''get'' ''/api/v1/job_graph'' None []"

definition job_allow_job :: "LifecycleClient \<Rightarrow> string \<Rightarrow> string \<Rightarrow> ('i, 'x, unit) clm" where
  "job_allow_job c source_family_name target_family_name =
     client_command c ''post'' (''/api/v1/auth/allow/job_family/'' @ source_family_name @ ''/job/'' @ target_family_name
       @ ''/scope/'' @ call_job_scope) None"

definition tail_args :: "int \<Rightarrow> (string \<times> string) list" where
  "tail_args tail_lines = (if 0 < tail_lines then [(''tail'', int_to_str tail_lines)] else [])"

definition request_runtime_logs :: "LifecycleClient \<Rightarrow> string \<Rightarrow> string \<Rightarrow> int \<Rightarrow> ('i, 'x, json) clm" where
  "request_runtime_logs c name version tail_lines =
     bind (client_request_dict c ''get'' (''/api/v1/job/'' @ path_of_job name version @ ''/logs'') None (tail_args tail_lines)) (\<lambda>response.
     item response ''logs'')"

definition request_build_logs :: "LifecycleClient \<Rightarrow> string \<Rightarrow> string \<Rightarrow> int \<Rightarrow> ('i, 'x, json) clm" where
  "request_build_logs c name version tail_lines =
     bind (client_request_dict c ''get'' (''/api/v1/job/'' @ path_of_job name version @ ''/build-logs'') None (tail_args tail_lines)) (\<lambda>response.
     item response ''logs'')"

section \<open>Plugins\<close>

definition get_plugins_info :: "(json \<Rightarrow> exn + 'd) \<Rightarrow> LifecycleClient \<Rightarrow> ('i, 'x, 'd list) clm" where
  "get_plugins_info validate c = client_list validate c ''/api/v1/plugin''"

definition request_job_type_versions :: "LifecycleClient \<Rightarrow> ('i, 'x, json list) clm" where
  "request_job_type_versions c = client_request_list c ''get'' ''/api/v1/plugin/job_type/versions''"

definition request_infrastructure_targets :: "(json \<Rightarrow> exn + 'd) \<Rightarrow> LifecycleClient \<Rightarrow> ('i, 'x, (string, 'd) dict) clm" where
  "request_infrastructure_targets validate c =
     bind (client_request_dict c ''get'' ''/api/v1/plugin/infrastructure_targets'' None []) (\<lambda>targets.
     map_py (\<lambda>(k, v). bind (lift (validate v)) (\<lambda>m. ret (k, m))) targets)"

definition get_plugin_docs :: "LifecycleClient \<Rightarrow> string \<Rightarrow> ('i, 'x, json) clm" where
  "get_plugin_docs c name = client_request c ''get'' (''/api/v1/plugin/'' @ name @ ''/docs'') None"

definition request_delete_plugin :: "LifecycleClient \<Rightarrow> string \<Rightarrow> string \<Rightarrow> ('i, 'x, unit) clm" where
  "request_delete_plugin c name version = client_command c ''delete'' (''/api/v1/plugin/'' @ path_of_job name version) None"

definition request_upload_plugin :: "LifecycleClient \<Rightarrow> string \<Rightarrow> string \<Rightarrow> bool \<Rightarrow> ('i, 'x, unit) clm" where
  "request_upload_plugin c filename file_bytes replace =
     bind (gets urlopen) (\<lambda>op.
     bind (on_infra (requests_post op (lifecycle_api_url c @ ''/api/v1/plugin/upload/'' @ filename
             @ ''?replace='' @ (if replace then ''1'' else ''0'')) None (Some file_bytes) (get_auth_headers c) None)) (\<lambda>r.
     seq (lift (parse_response r ''Lifecycle response'')) (ret ())))"

definition request_plugin_config :: "LifecycleClient \<Rightarrow> string \<Rightarrow> string \<Rightarrow> ('i, 'x, json) clm" where
  "request_plugin_config c name version =
     client_request c ''get'' (''/api/v1/plugin/'' @ path_of_job name version @ ''/config'') None"

definition request_write_plugin_config :: "LifecycleClient \<Rightarrow> string \<Rightarrow> string \<Rightarrow> string \<Rightarrow> ('i, 'x, json) clm" where
  "request_write_plugin_config c name version config_data =
     client_request c ''put'' (''/api/v1/plugin/'' @ path_of_job name version @ ''/config'')
       (Some (JObj [(''config_data'', JStr config_data)]))"

section \<open>Users\<close>

definition user_and_password :: "string \<Rightarrow> string \<Rightarrow> json" where
  "user_and_password username password = JObj [(''username'', JStr username), (''password'', JStr password)]"

definition request_register_user :: "LifecycleClient \<Rightarrow> string \<Rightarrow> string \<Rightarrow> ('i, 'x, unit) clm" where
  "request_register_user c username password =
     client_command c ''post'' ''/api/v1/users/register'' (Some (user_and_password username password))"

definition request_login_user :: "(json \<Rightarrow> exn + 'd) \<Rightarrow> LifecycleClient \<Rightarrow> string \<Rightarrow> string \<Rightarrow> ('i, 'x, 'd) clm" where
  "request_login_user validate c username password =
     bind (client_request_dict c ''post'' ''/api/v1/users/login'' (Some (user_and_password username password)) []) (\<lambda>response.
     lift (validate (JObj response)))"

definition validate_token :: "(json \<Rightarrow> exn + 'd) \<Rightarrow> LifecycleClient \<Rightarrow> ('i, 'x, 'd) clm" where
  "validate_token validate c =
     bind (client_request_dict c ''get'' ''/api/v1/users/validate_user_auth'' None []) (\<lambda>response. lift (validate (JObj response)))"

definition request_change_password :: "LifecycleClient \<Rightarrow> string \<Rightarrow> string \<Rightarrow> ('i, 'x, unit) clm" where
  "request_change_password c old_password new_password =
     client_command c ''put'' ''/api/v1/users/change_password''
       (Some (JObj [(''old_password'', JStr old_password), (''new_password'', JStr new_password)]))"

definition regen_user_token :: "LifecycleClient \<Rightarrow> ('i, 'x, json) clm" where
  "regen_user_token c = client_request c ''post'' ''/api/v1/auth/token/user/regenerate'' None"

end
