(* ===== verification/VersionBumper.thy ===== *)
theory VersionBumper
  imports Files Bytes
begin

text \<open>
  The script that sets the version of a release (\<open>src/utils/version_bumper.py\<close>): reading the version of the
  Makefile, raising one of its parts and replacing its text in files.
\<close>

section \<open>Versions of a release\<close>

record Version =
  v_major :: nat
  v_minor :: nat
  v_patch :: nat
  v_mr :: nat
  v_dev :: nat

definition bumped_str :: "Version \<Rightarrow> string" where
  "bumped_str v =
     nat_to_str (v_major v) @ ''.'' @ nat_to_str (v_minor v) @ ''.'' @ nat_to_str (v_patch v)
     @ (if 0 < v_mr v then ''-'' @ nat_to_str (v_mr v) else []) @ (if 0 < v_dev v then ''-'' @ nat_to_str (v_dev v) else [])"

definition bump :: "string \<Rightarrow> Version \<Rightarrow> exn + Version" where
  "bump part v =
     (if part = ''major'' then Inr (v\<lparr>v_major := v_major v + 1, v_minor := 0, v_patch := 0\<rparr>)
      else if part = ''minor'' then Inr (v\<lparr>v_minor := v_minor v + 1, v_patch := 0\<rparr>)
      else if part = ''patch'' then Inr (v\<lparr>v_patch := v_patch v + 1\<rparr>)
      else if part = ''mr'' then Inr (v\<lparr>v_mr := v_mr v + 1\<rparr>)
      else if part = ''dev'' then Inr (v\<lparr>v_dev := v_dev v + 1\<rparr>)
      else Inl (KeyError (py_repr part)))"

section \<open>Parsing\<close>

text \<open>The numbers of \<open>X.Y.Z\<close> at the front of a text and the rest.\<close>

definition take_number :: "string \<Rightarrow> (nat \<times> string) option" where
  "take_number s = (case span_digits s of (d, r) \<Rightarrow> if d = [] then None else Some (str_to_nat d, r))"

definition take_dot :: "string \<Rightarrow> string option" where
  "take_dot s = (case s of [] \<Rightarrow> None | c # r \<Rightarrow> if c = CHR ''.'' then Some r else None)"

definition take_xyz :: "string \<Rightarrow> (Version \<times> string) option" where
  "take_xyz s =
     (case take_number s of None \<Rightarrow> None | Some (x, r) \<Rightarrow>
      (case take_dot r of None \<Rightarrow> None | Some r \<Rightarrow>
      (case take_number r of None \<Rightarrow> None | Some (y, r) \<Rightarrow>
      (case take_dot r of None \<Rightarrow> None | Some r \<Rightarrow>
      (case take_number r of None \<Rightarrow> None | Some (z, r) \<Rightarrow>
         Some (\<lparr>v_major = x, v_minor = y, v_patch = z, v_mr = 0, v_dev = 0\<rparr>, r))))))"

text \<open>\<open>[\-\.]?([\-\w]+)?\<close>: a separator and a word of letters, digits, underscores and hyphens. A hyphen is taken as
  the separator.\<close>

definition word_char :: "char \<Rightarrow> bool" where
  "word_char c \<longleftrightarrow> (let n = of_char c :: nat in
     (48 \<le> n \<and> n \<le> 57) \<or> (65 \<le> n \<and> n \<le> 90) \<or> (97 \<le> n \<and> n \<le> 122) \<or> n = 95 \<or> n = 45
     \<or> n \<in> {170, 178, 179, 181, 185, 186, 188, 189, 190} \<or> (192 \<le> n \<and> n \<noteq> 215 \<and> n \<noteq> 247))"

definition take_details :: "string \<Rightarrow> string \<times> string" where
  "take_details s =
     (let r = (case s of [] \<Rightarrow> [] | c # r \<Rightarrow> if c = CHR ''-'' \<or> c = CHR ''.'' then r else s)
      in (takeWhile word_char r, dropWhile word_char r))"

text \<open>The merge request and the number of the development release, when the details begin with them.\<close>

definition parse_details :: "string \<Rightarrow> Version \<Rightarrow> Version" where
  "parse_details details v =
     (case take_number details of
        Some (mr, c # r) \<Rightarrow>
          if c = CHR ''-'' then
            (case take_number r of Some (d, _) \<Rightarrow> v\<lparr>v_mr := mr, v_dev := d\<rparr> | None \<Rightarrow> v)
          else v
      | _ \<Rightarrow> v)"

text \<open>\<open>TAG\s*\?=\s*?\<close> at the front of a line.\<close>

definition after_tag :: "string \<Rightarrow> string option" where
  "after_tag line =
     (if \<not> startswith line ''TAG'' then None
      else let r = dropWhile py_space (drop 3 line)
           in if startswith r ''?='' then Some (dropWhile py_space (drop 2 r)) else None)"

definition parse_makefile_version :: "string \<Rightarrow> Version option" where
  "parse_makefile_version line =
     (case after_tag line of None \<Rightarrow> None
      | Some r \<Rightarrow> (case take_xyz r of None \<Rightarrow> None | Some (v, r) \<Rightarrow> Some (parse_details (fst (take_details r)) v)))"

definition parse_version :: "string \<Rightarrow> Version option" where
  "parse_version line =
     (case take_xyz line of None \<Rightarrow> None
      | Some (v, r) \<Rightarrow>
          (case take_details r of (details, rest) \<Rightarrow> if rest = [] then Some (parse_details details v) else None))"

section \<open>Files\<close>

definition read_current_version :: "string \<Rightarrow> ('i, 'x, Version) mcm" where
  "read_current_version filepath =
     bind (read_text filepath) (\<lambda>content.
     case concat (map (\<lambda>line. case parse_makefile_version line of None \<Rightarrow> [] | Some v \<Rightarrow> [v]) (splitlines content)) of
       v # _ \<Rightarrow> ret v
     | [] \<Rightarrow> raise (RuntimeError (''version could not be parsed from '' @ filepath)))"

text \<open>\<open>content.replace(a, b)\<close> for a text \<open>a\<close> that is not empty.\<close>

function replace_str :: "string \<Rightarrow> string \<Rightarrow> string \<Rightarrow> string" where
  "replace_str a b s =
     (if a = [] then s
      else if startswith s a then b @ replace_str a b (drop (length a) s)
      else case s of [] \<Rightarrow> [] | c # r \<Rightarrow> c # replace_str a b r)"
  by pat_completeness auto
termination
proof (relation "measure (\<lambda>(a, b, s). length s)")
  fix a s :: string
  assume "a \<noteq> []" "startswith s a"
  then show "((a, b, drop (length a) s), a, b, s) \<in> measure (\<lambda>(a, b, s). length s)" for b :: string
    by (cases s) (auto simp: startswith_def)
qed auto

declare replace_str.simps [simp del]

definition replace_in_file :: "string \<Rightarrow> Version \<Rightarrow> Version \<Rightarrow> ('i, 'x, string) mcm" where
  "replace_in_file filepath curr_ver new_ver =
     bind (read_text filepath) (\<lambda>content.
     let new_content = replace_str (bumped_str curr_ver) (bumped_str new_ver) content
     in if content \<noteq> new_content
        then seq (write_text filepath new_content)
               (ret (''Version bumped '' @ bumped_str curr_ver @ '' -> '' @ bumped_str new_ver @ '' in '' @ filepath))
        else raise (RuntimeError (''Version '' @ quoted (bumped_str curr_ver) @ '' not found in '' @ filepath)))"

definition replace_in_files :: "Version \<Rightarrow> Version \<Rightarrow> string list \<Rightarrow> ('i, 'x, string list) mcm" where
  "replace_in_files curr_ver new_ver fs = map_py (\<lambda>f. replace_in_file f curr_ver new_ver) fs"

record bump_args =
  arg_current :: bool
  arg_mr :: "string option"
  arg_exact :: "string option"
  arg_part :: string

text \<open>\<open>int(text)\<close> of a number of a merge request that is not negative.\<close>

definition merge_request :: "string option \<Rightarrow> exn + nat" where
  "merge_request mr =
     (if \<not> given mr then Inr 0 else case py_int (the mr) of Inl e \<Rightarrow> Inl e | Inr n \<Rightarrow> Inr (nat n))"

text \<open>The new version, and whether it is an official release, whose files include the further ones.\<close>

definition next_version :: "bump_args \<Rightarrow> Version \<Rightarrow> exn + (Version \<times> bool)" where
  "next_version args orig_version =
     (case merge_request (arg_mr args) of Inl e \<Rightarrow> Inl e
      | Inr mr \<Rightarrow>
          let v = (if mr \<noteq> 0 then orig_version\<lparr>v_mr := mr\<rparr> else orig_version);
              exact = (if given (arg_exact args) then parse_version (the (arg_exact args)) else Some v)
          in (case exact of
                None \<Rightarrow> Inl (AssertionError [])
              | Some v \<Rightarrow>
                  if v_mr v \<noteq> 0 then (case bump ''dev'' v of Inl e \<Rightarrow> Inl e | Inr v \<Rightarrow> Inr (v, False))
                  else if given (arg_exact args) then Inr (v, True)
                  else (case bump (arg_part args) v of Inl e \<Rightarrow> Inl e | Inr v \<Rightarrow> Inr (v, True))))"

text \<open>The result is what is printed.\<close>

definition bump_version_in_files :: "string \<Rightarrow> bump_args \<Rightarrow> string list \<Rightarrow> string list \<Rightarrow> ('i, 'x, string list) mcm" where
  "bump_version_in_files version_path args fs prod_files =
     bind (read_current_version version_path) (\<lambda>orig_version.
     if arg_current args then ret [bumped_str orig_version]
     else
       bind (lift (next_version args orig_version)) (\<lambda>(new_version, official).
       if new_version = orig_version then ret [''Version '' @ bumped_str new_version @ '' is already set'']
       else replace_in_files orig_version new_version (fs @ (if official then prod_files else []))))"

section \<open>Round trip\<close>

lemma take_number_back: "r = [] \<or> \<not> is_digit (hd r) \<Longrightarrow> take_number (nat_to_str n @ r) = Some (n, r)"
  by (simp add: take_number_def span_digits_append all_digits_to_str nat_to_str_nonempty)

lemma digit_word: "is_digit c \<Longrightarrow> word_char c"
  by (auto simp: word_char_def is_digit_def Let_def)

lemma number_word: "list_all word_char (nat_to_str n)"
  using all_digits_to_str [of n] by (auto simp: all_digits_def list_all_iff dest: digit_word)

lemma take_xyz_back:
  assumes "r = [] \<or> \<not> is_digit (hd r)"
  shows "take_xyz (nat_to_str x @ ''.'' @ nat_to_str y @ ''.'' @ nat_to_str z @ r)
    = Some (\<lparr>v_major = x, v_minor = y, v_patch = z, v_mr = 0, v_dev = 0\<rparr>, r)"
  using assms by (simp add: take_xyz_def take_number_back take_dot_def is_digit_def)

text \<open>Reading back the text of a version: a version of a merge request has a number of its development
  release.\<close>

lemma parse_version_str:
  assumes "0 < v_mr v \<and> 0 < v_dev v \<or> v_mr v = 0 \<and> v_dev v = 0"
  shows "parse_version (bumped_str (v :: Version)) = Some v"
  using assms
proof
  assume "v_mr v = 0 \<and> v_dev v = 0"
  then show ?thesis
    using take_xyz_back [of "[]"] by (simp add: bumped_str_def parse_version_def take_details_def parse_details_def take_number_def span_digits_def)
next
  let ?d = "nat_to_str (v_mr v) @ ''-'' @ nat_to_str (v_dev v)"
  assume pos: "0 < v_mr v \<and> 0 < v_dev v"
  have "list_all word_char ?d" by (simp add: number_word word_char_def)
  then have word: "takeWhile word_char ?d = ?d" "dropWhile word_char ?d = []"
    by (simp_all add: list_all_iff takeWhile_eq_all_conv dropWhile_eq_Nil_conv)
  then have details: "take_details (CHR ''-'' # ?d) = (?d, [])" by (simp add: take_details_def)
  have "parse_details ?d u = u\<lparr>v_mr := v_mr v, v_dev := v_dev v\<rparr>" for u
    using take_number_back [of "''-'' @ nat_to_str (v_dev v)" "v_mr v"] take_number_back [of "[]" "v_dev v"]
    by (simp add: parse_details_def is_digit_def)
  with details pos take_xyz_back [of "CHR ''-'' # ?d"] show ?thesis
    by (simp add: bumped_str_def parse_version_def is_digit_def)
qed

end
