(* ===== verification/RegistryCleaner.thy ===== *)
theory RegistryCleaner
  imports Http ManifestFiles VersionOrder
begin

text \<open>
  The tool that removes old images from a container registry (\<open>src/utils/registry_cleaner\<close>): it keeps the latest
  images of the system and those that run in one of the environments. The registry and the environments
  are reached through \<open>urlopen\<close>; the number of pages of an answer that are read is bounded by an argument.
\<close>

section \<open>State and settings\<close>

record cleaner_settings =
  project_id :: string
  gitlab_api_url :: string
  results_per_page :: nat
  gitlab_headers :: "(string, string) dict"
  core_rt_images :: "string list"
  last_images_spare :: nat
  registry_image_prefix :: string
  deployment_environments :: "string list"
  rt_auth_tokens :: "(string, string) dict"

record 'i cleaner =
  network :: 'i
  cleaner_urlopen :: "'i opener"
  settings :: cleaner_settings
  keyboard :: "string list"
  shown_lines :: "string list"

type_synonym ('i, 'a) ctm = "('i cleaner, 'a) py"

section \<open>Requests\<close>

text \<open>\<open>urlopen\<close> raises an error for a status of failure; the rest is the body with the headers of the answer.\<close>

definition opened :: "url_result \<Rightarrow> exn + (string \<times> headers)" where
  "opened r =
     (case r of
        Opened code body hs \<Rightarrow> Inr (body, hs)
      | HTTPError code body hs \<Rightarrow> Inl (OSError (''HTTP Error '' @ int_to_str code))
      | URLError e \<Rightarrow> Inl e
      | OpenError e \<Rightarrow> Inl e)"

definition plain_request :: "string \<Rightarrow> string \<Rightarrow> (string, string) dict \<Rightarrow> http_request" where
  "plain_request verb url hs =
     fold (\<lambda>(name, v) rq. add_header name v rq) hs
       \<lparr>rq_url = url, rq_method = verb, rq_headers = [], rq_data = None, rq_timeout = None\<rparr>"

definition open_request :: "http_request \<Rightarrow> ('i, string \<times> headers) ctm" where
  "open_request rq = (\<lambda>w. case cleaner_urlopen w rq (network w) of (r, i) \<Rightarrow> (opened r, w\<lparr>network := i\<rparr>))"

definition decode_answer :: "string \<Rightarrow> exn + json" where
  "decode_answer body =
     (case utf8_decode body of None \<Rightarrow> Inl (ValueError ''UnicodeDecodeError'')
      | Some s \<Rightarrow> if s = [] then Inr JNull else loads s)"

definition delete_request :: "string \<Rightarrow> ('i, json) ctm" where
  "delete_request url =
     bind (gets (\<lambda>w. gitlab_headers (settings w))) (\<lambda>hs.
     bind (open_request (plain_request ''DELETE'' url hs)) (\<lambda>(body, _). lift (decode_answer body)))"

definition get_request :: "string \<Rightarrow> (string, string) dict \<Rightarrow> ('i, json) ctm" where
  "get_request url hs =
     bind (gets (\<lambda>w. gitlab_headers (settings w))) (\<lambda>default_headers.
     bind (open_request (plain_request ''GET'' url (if hs = [] then default_headers else hs))) (\<lambda>(body, _). lift (decode_answer body)))"

text \<open>\<open>x in response\<close> of an answer that should be a list.\<close>

definition as_list :: "json \<Rightarrow> exn + json list" where
  "as_list j = (case j of JList xs \<Rightarrow> Inr xs | _ \<Rightarrow> Inl (TypeError (json_type j @ '' object is not iterable'')))"

definition page_url :: "string \<Rightarrow> nat \<Rightarrow> nat \<Rightarrow> string" where
  "page_url base_url page per_page =
     base_url @ (if CHR ''?'' \<in> set base_url then ''&'' else ''?'') @ ''page='' @ nat_to_str page @ ''&per_page='' @ nat_to_str per_page"

fun read_pages :: "nat \<Rightarrow> string \<Rightarrow> nat \<Rightarrow> ('i, json list) ctm" where
  "read_pages 0 base_url page = raise (RuntimeError ''more pages than are read'')"
| "read_pages (Suc n) base_url page =
     bind (gets settings) (\<lambda>cfg.
     bind (open_request (plain_request ''GET'' (page_url base_url page (results_per_page cfg)) (gitlab_headers cfg))) (\<lambda>(body, hs).
     bind (lift (case utf8_decode body of None \<Rightarrow> Inl (ValueError ''UnicodeDecodeError'') | Some s \<Rightarrow> loads s)) (\<lambda>j.
     bind (lift (as_list j)) (\<lambda>results.
     if given (header_of hs ''x-next-page'')
     then bind (read_pages n base_url (page + 1)) (\<lambda>rest. ret (results @ rest))
     else ret results))))"

definition get_request_paging :: "nat \<Rightarrow> string \<Rightarrow> ('i, json list) ctm" where
  "get_request_paging pages base_url = read_pages pages base_url 1"

section \<open>Versions of tags\<close>

text \<open>A tag that is not a version comes before all versions.\<close>

datatype tag_version = InvalidTag string | ValidTag semantic_version

definition TagVersion :: "string \<Rightarrow> tag_version" where
  "TagVersion vstring = (case SemanticVersion vstring of Inl e \<Rightarrow> InvalidTag vstring | Inr v \<Rightarrow> ValidTag v)"

fun compare_tags :: "tag_version \<Rightarrow> tag_version \<Rightarrow> int" where
  "compare_tags (InvalidTag a) (ValidTag v) = -1"
| "compare_tags (ValidTag v) (InvalidTag b) = 1"
| "compare_tags (InvalidTag a) (InvalidTag b) = compare_labels a b"
| "compare_tags (ValidTag v) (ValidTag u) = compare_ver v u"

fun tag_version_str :: "tag_version \<Rightarrow> string" where
  "tag_version_str (InvalidTag s) = s"
| "tag_version_str (ValidTag v) = version_str v"

text \<open>A stable sort by this comparison: each tag is inserted before the first one that is not smaller.\<close>

fun insert_tag :: "string \<Rightarrow> string list \<Rightarrow> string list" where
  "insert_tag x [] = [x]"
| "insert_tag x (y # ys) =
     (if compare_tags (TagVersion y) (TagVersion x) < 0 then y # insert_tag x ys else x # y # ys)"

definition sort_by_version :: "string list \<Rightarrow> string list" where
  "sort_by_version names = foldr insert_tag names []"

section \<open>Images and tags\<close>

record RegistryImage =
  ri_id :: json
  ri_location :: string
  ri_name :: string
  ri_tags :: "string list"

record ImageTag =
  it_image_id :: json
  it_path :: string
  it_name :: string
  it_tag :: string

record ImageRemovalSummary =
  rs_image_id :: json
  rs_name :: string
  intact_tags :: "ImageTag list"
  removal_tags :: "ImageTag list"

definition as_text :: "json \<Rightarrow> exn + string" where
  "as_text j = (case j of JStr s \<Rightarrow> Inr s | _ \<Rightarrow> Inl (TypeError (''expected string or bytes-like object, got '' @ json_type j)))"

definition text_item :: "json \<Rightarrow> string \<Rightarrow> ('w, string) py" where
  "text_item j key = bind (lift (get_item j key)) (\<lambda>v. lift (as_text v))"

definition registry_image :: "json \<Rightarrow> ('w, RegistryImage) py" where
  "registry_image j =
     bind (lift (get_item j ''tags'')) (\<lambda>t.
     bind (lift (as_list t)) (\<lambda>tags.
     bind (lift (get_item j ''tags_count'')) (\<lambda>n.
     seq (assert_py (json_eq n (JInt (int (length tags)))) [])
     (bind (map_py (\<lambda>t. text_item t ''name'') tags) (\<lambda>tag_names.
      bind (lift (get_item j ''id'')) (\<lambda>i.
      bind (text_item j ''location'') (\<lambda>location.
      bind (text_item j ''name'') (\<lambda>name.
      ret \<lparr>ri_id = i, ri_location = location, ri_name = name, ri_tags = sort_by_version tag_names\<rparr>))))))))"

definition list_registry_images :: "nat \<Rightarrow> ('i, RegistryImage list) ctm" where
  "list_registry_images pages =
     bind (gets settings) (\<lambda>cfg.
     bind (get_request_paging pages (gitlab_api_url cfg @ ''/projects/'' @ project_id cfg
             @ ''/registry/repositories?tags=true&tags_count=true'')) (\<lambda>response.
     map_py registry_image response))"

definition images_to_tags :: "RegistryImage list \<Rightarrow> ImageTag list" where
  "images_to_tags imgs = concat (map (\<lambda>i. map (\<lambda>tag.
     \<lparr>it_image_id = ri_id i, it_path = ri_location i @ '':'' @ tag, it_name = ri_name i, it_tag = tag\<rparr>) (ri_tags i)) imgs)"

definition delete_image_tag :: "json \<Rightarrow> string \<Rightarrow> ('i, unit) ctm" where
  "delete_image_tag repository_id tag_name =
     bind (gets settings) (\<lambda>cfg.
     seq (delete_request (gitlab_api_url cfg @ ''/projects/'' @ project_id cfg @ ''/registry/repositories/'' @ json_str repository_id
            @ ''/tags/'' @ tag_name))
         (ret ()))"

text \<open>\<open>tags[-n:]\<close>, which is the whole list when \<open>n\<close> is zero.\<close>

definition last_n :: "nat \<Rightarrow> 'a list \<Rightarrow> 'a list" where
  "last_n n xs = (if n = 0 then xs else drop (length xs - n) xs)"

definition get_latest_racetrack_tags :: "cleaner_settings \<Rightarrow> RegistryImage list \<Rightarrow> string list" where
  "get_latest_racetrack_tags cfg imgs =
     concat (map (\<lambda>i. if ri_name i \<in> set (core_rt_images cfg)
       then map (\<lambda>tag. ri_location i @ '':'' @ tag) (last_n (last_images_spare cfg) (ri_tags i)) @ [ri_location i @ '':latest'']
       else []) imgs)"

definition deployed_tags_of :: "string \<Rightarrow> ('i, string list) ctm" where
  "deployed_tags_of environment =
     bind (gets settings) (\<lambda>cfg.
     bind (get_request (environment @ ''/lifecycle/health'') []) (\<lambda>response.
     bind (lift (get_item response ''docker_tag'')) (\<lambda>docker_tag.
     ret (map (\<lambda>name. registry_image_prefix cfg @ ''/'' @ name @ '':'' @ json_str docker_tag) (core_rt_images cfg)))))"

definition get_deployed_racetrack_tags :: "('i, string list) ctm" where
  "get_deployed_racetrack_tags =
     bind (gets (\<lambda>w. deployment_environments (settings w))) (\<lambda>envs. bind (map_py deployed_tags_of envs) (\<lambda>xs. ret (concat xs)))"

definition job_tags_of :: "json \<Rightarrow> ('i, string list) ctm" where
  "job_tags_of job_response =
     bind (gets (\<lambda>w. registry_image_prefix (settings w))) (\<lambda>pre.
     bind (lift (get_item job_response ''name'')) (\<lambda>name.
     bind (lift (get_item job_response ''image_tag'')) (\<lambda>image_tag.
     ret [pre @ ''/job-entrypoint/'' @ json_str name @ '':'' @ json_str image_tag,
          pre @ ''/job-user-module/'' @ json_str name @ '':'' @ json_str image_tag])))"

definition environment_job_tags :: "string \<Rightarrow> ('i, string list) ctm" where
  "environment_job_tags environment =
     bind (gets (\<lambda>w. map_of (rt_auth_tokens (settings w)) environment)) (\<lambda>rt_token.
     case rt_token of
       None \<Rightarrow> raise (KeyError (py_repr environment))
     | Some token \<Rightarrow>
         bind (get_request (environment @ ''/lifecycle/api/v1/job'') [(''accept'', ''application/json''), (''X-Racetrack-Auth'', token)]) (\<lambda>response.
         bind (lift (as_list response)) (\<lambda>jobs.
         bind (map_py job_tags_of jobs) (\<lambda>xs. ret (concat xs)))))"

definition get_deployed_job_tags :: "('i, string list) ctm" where
  "get_deployed_job_tags =
     bind (gets (\<lambda>w. deployment_environments (settings w))) (\<lambda>envs. bind (map_py environment_job_tags envs) (\<lambda>xs. ret (concat xs)))"

definition group_removal_candidates :: "ImageTag list \<Rightarrow> ImageTag list \<Rightarrow> ImageRemovalSummary list" where
  "group_removal_candidates removal_candidates all_tags =
     map (\<lambda>name.
       let all_image_tags = filter (\<lambda>t. it_name t = name) all_tags
       in \<lparr>rs_image_id = it_image_id (hd all_image_tags), rs_name = name,
           intact_tags = filter (\<lambda>t. it_path t \<notin> it_path ` set removal_candidates) all_image_tags,
           removal_tags = filter (\<lambda>t. it_name t = name) removal_candidates\<rparr>)
       (sort (remdups (map it_name all_tags)))"

section \<open>The command\<close>

text \<open>The tags that are not kept, in the order of their paths; of tags with the same path the last one.\<close>

definition removal_candidates_of :: "ImageTag list \<Rightarrow> string list \<Rightarrow> ImageTag list" where
  "removal_candidates_of tags kept =
     map (\<lambda>path. the (map_of (rev (map (\<lambda>t. (it_path t, t)) tags)) path))
       (sort (remdups (filter (\<lambda>path. path \<notin> set kept) (map it_path tags))))"

definition esc_code :: "string \<Rightarrow> string" where
  "esc_code s = [CHR 0x1B, CHR ''[''] @ s @ ''m''"

definition summary_lines :: "ImageRemovalSummary \<Rightarrow> string list" where
  "summary_lines s =
     (let kept = length (intact_tags s); removed = length (removal_tags s); total = nat_to_str (kept + removed);
          names = (\<lambda>ts. join '', '' (map it_tag ts))
      in [newline # ''Image '' @ esc_code ''1;34'' @ rs_name s @ esc_code ''0'' @ '':'']
         @ (if removed \<noteq> 0 then [esc_code ''1;31'' @ ''Removing '' @ nat_to_str removed @ ''/'' @ total @ '' tags'' @ esc_code ''0''
              @ '': '' @ names (removal_tags s)] else [])
         @ (if kept \<noteq> 0 then [esc_code ''0;32'' @ ''keeping '' @ nat_to_str kept @ ''/'' @ total @ '' tags'' @ esc_code ''0''
              @ '': '' @ names (intact_tags s)] else []))"

text \<open>The confirmation is asked for until the answer is \<open>y\<close>; the end of the input is an error.\<close>

definition confirm :: "('i, unit) ctm" where
  "confirm = (\<lambda>w.
     case dropWhile (\<lambda>line. line \<noteq> ''y'') (keyboard w) of
       [] \<Rightarrow> (Inl (OSError ''EOF when reading a line''), w\<lparr>keyboard := []\<rparr>)
     | _ # rest \<Rightarrow> (Inr (), w\<lparr>keyboard := rest\<rparr>))"

definition find_removal_candidates :: "nat \<Rightarrow> ('i, ImageTag list \<times> ImageTag list) ctm" where
  "find_removal_candidates pages =
     bind (list_registry_images pages) (\<lambda>imgs.
     bind (gets (\<lambda>w. get_latest_racetrack_tags (settings w) imgs)) (\<lambda>latest_rt_tags.
     bind get_deployed_racetrack_tags (\<lambda>deployed_rt_tags.
     bind get_deployed_job_tags (\<lambda>deployed_job_tags.
     let tags = images_to_tags imgs
     in ret (tags, removal_candidates_of tags (latest_rt_tags @ deployed_rt_tags @ deployed_job_tags))))))"

definition list_candidates_command :: "nat \<Rightarrow> bool \<Rightarrow> ('i, ImageTag list) ctm" where
  "list_candidates_command pages delete =
     bind (gets settings) (\<lambda>cfg.
     bind (get_request (gitlab_api_url cfg @ ''/projects/'' @ project_id cfg) []) (\<lambda>response.
     bind (lift (get_item response ''path'')) (\<lambda>path.
     seq (assert_py (json_eq path (JStr ''racetrack'')) [])
     (bind (find_removal_candidates pages) (\<lambda>(tags, removal_candidates).
      seq (modify (\<lambda>w. w\<lparr>shown_lines := shown_lines w @ concat (map summary_lines (group_removal_candidates removal_candidates tags))\<rparr>))
      (seq (if delete then seq confirm (for_each removal_candidates (\<lambda>t. delete_image_tag (it_image_id t) (it_tag t))) else ret ())
           (ret removal_candidates)))))))"

section \<open>What is removed\<close>

lemma path_to_tag:
  "path \<in> it_path ` set tags \<Longrightarrow> \<exists>t \<in> set tags. map_of (rev (map (\<lambda>t. (it_path t, t)) tags)) path = Some t \<and> it_path t = path"
proof -
  assume "path \<in> it_path ` set tags"
  then have "map_of (rev (map (\<lambda>t. (it_path t, t)) tags)) path \<noteq> None" by (simp add: map_of_eq_None_iff image_image)
  then obtain t where "map_of (rev (map (\<lambda>t. (it_path t, t)) tags)) path = Some t" by auto
  moreover from map_of_SomeD [OF this] have "t \<in> set tags" "it_path t = path" by auto
  ultimately show ?thesis by blast
qed

text \<open>A tag is removed exactly when it is in the registry and not among the kept ones, and only once.\<close>

lemma removal_candidates_exact:
  "distinct (map it_path (removal_candidates_of tags kept))"
  "it_path ` set (removal_candidates_of tags kept) = it_path ` set tags - set kept"
  "set (removal_candidates_of tags kept) \<subseteq> set tags"
proof -
  let ?paths = "sort (remdups (filter (\<lambda>path. path \<notin> set kept) (map it_path tags)))"
  let ?f = "\<lambda>path. the (map_of (rev (map (\<lambda>t. (it_path t, t)) tags)) path)"
  have f: "?f path \<in> set tags \<and> it_path (?f path) = path" if "path \<in> set ?paths" for path
    using path_to_tag [of path tags] that by auto
  then have "map it_path (map ?f ?paths) = ?paths" unfolding map_map o_def by (intro map_idI) blast
  then have paths: "map it_path (removal_candidates_of tags kept) = ?paths" unfolding removal_candidates_of_def .
  then show "distinct (map it_path (removal_candidates_of tags kept))" by simp
  have "it_path ` set (removal_candidates_of tags kept) = set ?paths" using arg_cong [OF paths, of set] by simp
  then show "it_path ` set (removal_candidates_of tags kept) = it_path ` set tags - set kept" by auto
  show "set (removal_candidates_of tags kept) \<subseteq> set tags" using f by (auto simp: removal_candidates_of_def)
qed


end
