(* ===== verification/Spec2Isabelle.thy ===== *)
theory Spec2Isabelle
  imports Semver QueryBuilders MapperLaws Times Quantity Json Dto ModelsRegistry Deployments PermittedLists AuthCheckLaws
    Portfolio Registry HttpLaws DeployerLaws JobInfo Endpoints EndpointLaws Records Health
    FileMatcher ManifestFiles ImageBuilderLaws PluginFiles ClientLaws JsonFuel
    ServiceClients VersionBumper RegistryCleaner
begin

text \<open>
  Verification of the Lifecycle server of Racetrack, a platform that builds, deploys and supervises jobs
  (\<open>src/lifecycle\<close>), with the libraries it shares with the other parts (\<open>src/racetrack_client\<close>,
  \<open>src/racetrack_commons\<close>).

  \<^bold>\<open>The program.\<close> The server keeps a registry of jobs, job families, deployments, users, external service
  consumers, tokens and permissions in a relational database. Endpoints authenticate and authorize a
  request and call services; services read and write records through a record mapper; the mapper
  builds SQL statements and runs them on an engine. A deployment asks the image builder over HTTP for
  an image, hands it to the deployer of an infrastructure target, which a plugin provides, watches the
  job through the monitor of the target, and records the outcome. A supervisor synchronizes the registry
  with what the targets report. The gateway asks the server for every call of a job whether it is allowed.

  \<^bold>\<open>How programs are modelled.\<close> An operation with effects is a function in the type \<open>('w, 'a) py\<close> of
  \<open>Prelude\<close>: it takes a state and returns an exception or a value, and the new state. Exceptions are the
  constructors of \<open>exn\<close>; \<open>try\<close>, \<open>except\<close>, \<open>else\<close> and \<open>wrap_context\<close> are combinators. The state is a record that
  grows with the layers: \<open>world\<close> (tables, identifiers, clock) in \<open>Store\<close>, \<open>lifecycle\<close> (configuration,
  environment, YAML and validation libraries) in \<open>Dto\<close>, \<open>server\<close> (token and hashing libraries) in \<open>Tokens\<close>,
  and \<open>'i cluster\<close> (plugins, targets, network) in \<open>Cluster\<close>. A definition of a lower layer runs in every
  higher one, since it is polymorphic in the rest of the record.

  \<^bold>\<open>Foundations.\<close> \<open>Prelude\<close>: exceptions, the monad, loops, dictionaries as association lists, and the calculus
  of \<open>keeps\<close> (a property that an operation preserves). \<open>PyString\<close>, \<open>Bytes\<close>, \<open>Times\<close>, \<open>Json\<close>, \<open>JsonFuel\<close>: the parts of
  Python's library the code uses. \<open>Semver\<close>: \<open>utils/semver.py\<close>, versions, their order, patterns, the choice
  of the latest version; \<open>VersionOrder\<close>: sorting by version. \<open>Quantity\<close>: \<open>utils/quantity.py\<close>. \<open>Paths\<close>, \<open>Files\<close>: the paths of \<open>pathlib\<close> and a disk with
  files and directories; \<open>Urls\<close>: quoting and splitting of addresses.

  \<^bold>\<open>Database.\<close> \<open>Schema\<close>: the table classes of \<open>database/schema/tables.py\<close> and their metadata. \<open>Conditions\<close>,
  \<open>QueryBuilders\<close>: \<open>condition_builder.py\<close> and both \<open>query_builder.py\<close> files; parameters match placeholders, and
  combined conditions mean the combination of their parts. \<open>Store\<close>: statements run on tables with the
  integrity rules of PostgreSQL. \<open>Mapper\<close>, \<open>Cascade\<close>, \<open>MapperLaws\<close>, \<open>RowChanges\<close>, \<open>AutoIds\<close>, \<open>Frames\<close>:
  \<open>record_mapper.py\<close>; every write keeps types, unique keys and foreign keys, a created record is found
  again, an update replaces one row, a deletion removes exactly a record with its dependants.

  \<^bold>\<open>Services.\<close> \<open>Dto\<close>: manifests, transfer objects and the conversion of records. \<open>ModelsRegistry\<close>:
  \<open>job/models_registry.py\<close>; saving a job stores it, aliases resolve to the greatest stable version.
  \<open>Deployments\<close>: \<open>job/deployment.py\<close>, \<open>job/public_endpoints.py\<close>, \<open>job/audit.py\<close>. \<open>AsyncCalls\<close>: \<open>job/async_call.py\<close>,
  \<open>supervisor/cleanup.py\<close> and the settings of \<open>lifecycle/config\<close>. \<open>Portfolio\<close>: \<open>job/portfolio.py\<close>; the purge score is
  bounded and ranks the jobs. \<open>JobInfo\<close>: logs, consumers, the dependency graph and the audit sentences.

  \<^bold>\<open>Access.\<close> \<open>Tokens\<close>, \<open>Subject\<close>: \<open>racetrack_commons/auth\<close>, \<open>auth/hasher.py\<close>, \<open>auth/subject.py\<close>. \<open>Authorize\<close>,
  \<open>AuthorizeLaws\<close>, \<open>PermittedLists\<close>: \<open>auth/authorize.py\<close>; the permission queries with their joins are
  equivalent to conditions on rows, and what is granted is permitted. \<open>AuthCheck\<close>, \<open>AuthCheckLaws\<close>:
  \<open>auth/authenticate.py\<close>, \<open>auth/check.py\<close>, \<open>auth/users.py\<close>; an accepted request was authenticated and had a
  permission, and a revoked token is refused.

  \<^bold>\<open>Deployment.\<close> \<open>Http\<close>, \<open>HttpLaws\<close>: \<open>utils/request.py\<close>, \<open>api/server_sent_events.py\<close>; what the image builder
  streams is what the server reads. \<open>Health\<close>: \<open>monitor/health.py\<close>, \<open>api/asgi/error_handler.py\<close>; a job is
  operational only after it answered for its deployment. \<open>Cluster\<close>: plugin hooks, job types, infrastructure targets. \<open>Registry\<close>:
  \<open>job/registry.py\<close>; the synchronization refines a specification on names, versions and statuses.
  \<open>Deployer\<close>, \<open>DeployerLaws\<close>: \<open>lifecycle/deployer\<close>, \<open>job/reconcile.py\<close>, \<open>supervisor/startup.py\<close>; a deployment always
  ends, is guarded, is rolled back when the job does not come up, and the audit log only grows.

  \<^bold>\<open>Building and plugins.\<close> \<open>ManifestFiles\<close>: \<open>racetrack_client/manifest\<close> on the disk, \<open>utils/datamodel.py\<close> and
  \<open>image_builder/verify.py\<close>; a submitted manifest that differs from the one of the repository is reported
  with the keys that differ. \<open>ImageBuilder\<close>, \<open>ImageBuilderLaws\<close>: \<open>src/image_builder\<close>; a build only touches files
  and the infrastructure, leaves no secrets behind, and its images are those the server names.
  \<open>PluginFiles\<close>: \<open>racetrack_commons/plugin/engine.py\<close>, \<open>loader.py\<close> and the plugin endpoints; the plugin of a name
  is the one with the greatest priority and version. \<open>FileMatcher\<close>: \<open>plugin/bundler/filename_matcher.py\<close>; the
  listed files are those that the rules include.

  \<^bold>\<open>Client.\<close> \<open>ClientRemotes\<close>: \<open>racetrack_client/client_config\<close>, \<open>utils/auth.py\<close>; \<open>ClientDeploy\<close>: \<open>client/deploy.py\<close>,
  \<open>run.py\<close>, \<open>env.py\<close>; \<open>ClientJobs\<close>: \<open>manage.py\<close>, \<open>call.py\<close>, \<open>logs.py\<close>, \<open>utils/table.py\<close>; \<open>ClientPlugins\<close>: \<open>plugin/install.py\<close>,
  \<open>bundler/bundle.py\<close>. \<open>ClientLaws\<close>: a stored token is the one that is used, a deployment is reported as
  successful only when the server says so, the greatest stable release is installed. \<open>ServiceClients\<close>:
  \<open>racetrack_commons/entities\<close>, the requests of other parts to the server.

  \<^bold>\<open>Tools.\<close> \<open>VersionBumper\<close>: \<open>src/utils/version_bumper.py\<close>; the text of a version is read back.
  \<open>RegistryCleaner\<close>: \<open>src/utils/registry_cleaner\<close>; exactly the tags that are not kept are removed. The pages of
  the registry that are read are bounded by an argument.

  \<^bold>\<open>Endpoints.\<close> \<open>Endpoints\<close>, \<open>Records\<close>, \<open>EndpointLaws\<close>: \<open>lifecycle/endpoints\<close>; a job can be called only for a
  reason, and the maintenance mode blocks changes.

  \<^bold>\<open>Interfaces.\<close> The contract of a record store, the rows that operations leave alone and the invariants of
  the server and of a build are locales (\<open>MapperLaws\<close>, \<open>Frames\<close>, \<open>DeployerLaws\<close>, \<open>ImageBuilderLaws\<close>), interpreted
  on the model's own operations.
  \<open>Sample\<close> holds a small database on which statements are evaluated.

  \<^bold>\<open>Parameters and hypotheses.\<close> Code outside the repository is a field of the state or an argument: the
  clock, random numbers and UUIDs (assumed fresh where a statement says \<open>fresh_uuids\<close>), YAML, pydantic and
  JSON schema validation, the signing and decoding of tokens (a signed token decodes to its payload
  under the same key), key derivation, \<open>urlopen\<close> and the event streams, plugins with their deployers and
  monitors, which act on a parametric infrastructure state, shell commands, archives, templates, the import
  of plugin classes and the resolution of links, which act on the same state or the disk, the terminal of a user, the number of
  attempts of \<open>backoff\<close>, and the iteration order of sets. They may return or raise anything unless a statement restricts them.

  \<^bold>\<open>Bounds.\<close> The reader of JSON has fuel: twice the length of the text and two are never used up,
  for any text, as \<open>JsonFuel\<close> shows. Other recursions are structural or have a measure.
  Python's integers are unbounded; floating-point numbers are exact rationals; characters go up to
  U+00FF; dates are not limited to the years of \<open>datetime\<close>. A background thread is returned as a task that
  may run in any later state. Logging and metrics have no effect in the model.

  \<^bold>\<open>Not modelled.\<close> The SQLite engine and connection pooling; the threads that watch the directory of the
  plugins; the assembly of the web server, its proxies, sockets and metrics; the schedule of the
  supervisor; the pruning of the build cache; the parsing of the command line and the socket of live logs;
  the dashboard, the gateway, and the installation wizard.
  They are input and output, processes or user interface around the modelled parts.
\<close>

end
